(* ===== verification/Nak_Prelude.thy ===== *)
theory Nak_Prelude
  imports Main
begin

text \<open>
  Shared vocabulary of the Nakpanel development.

  Go strings are byte sequences, so they are HOL strings (lists of 8-bit characters). The
  first sections give the operations of Go's \<open>strings\<close> and \<open>strconv\<close> packages that the
  modelled sources call, with the names of the Go functions. \<open>int\<close> and \<open>int64\<close> values are
  HOL integers; wherever the sources compute with them, the 64-bit wrap-around is written out
  with \<open>wrap64\<close>. Fallible functions return \<open>'e + 'a\<close>, \<open>Inl\<close> being Go's non-nil error.
\<close>

named_theorems go_strings \<open>equations of the Go string operations\<close>

type_synonym ('e, 'a) result = "'e + 'a"

section \<open>Machine integers\<close>

text \<open>Two's complement wrap-around of a 64-bit signed computation.\<close>

definition wrap64 :: "int \<Rightarrow> int" where
  "wrap64 x = (x + 2 ^ 63) mod 2 ^ 64 - 2 ^ 63"

definition is_int64 :: "int \<Rightarrow> bool" where
  "is_int64 x \<longleftrightarrow> - (2 ^ 63) \<le> x \<and> x < 2 ^ 63"

lemma wrap64_range: "is_int64 (wrap64 x)"
proof -
  have "0 \<le> (x + 2 ^ 63) mod 2 ^ 64" and "(x + 2 ^ 63) mod 2 ^ 64 < (2 ^ 64 :: int)"
    by simp_all
  then show ?thesis
    unfolding is_int64_def wrap64_def by simp
qed

lemma wrap64_id: "is_int64 x \<Longrightarrow> wrap64 x = x"
  by (simp add: is_int64_def wrap64_def)

text \<open>Go's integer division truncates towards zero.\<close>

definition go_div :: "int \<Rightarrow> int \<Rightarrow> int" where
  "go_div a b = sgn a * sgn b * (\<bar>a\<bar> div \<bar>b\<bar>)"

lemma go_div_nonneg: "0 \<le> a \<Longrightarrow> 0 < b \<Longrightarrow> go_div a b = a div b"
  by (cases "a = 0") (simp_all add: go_div_def)

text \<open>
  The order in which Go ranges over a map is unspecified: it is a parameter that permutes the keys.
\<close>

definition map_order :: "(string list \<Rightarrow> string list) \<Rightarrow> bool" where
  "map_order mo \<longleftrightarrow> (\<forall>ks. set (mo ks) = set ks \<and> (distinct ks \<longrightarrow> distinct (mo ks)))"

section \<open>Bytes\<close>

definition byte :: "char \<Rightarrow> nat" where
  "byte c = of_char c"

definition is_digit :: "char \<Rightarrow> bool" where
  "is_digit c \<longleftrightarrow> 48 \<le> byte c \<and> byte c \<le> 57"

definition is_lower :: "char \<Rightarrow> bool" where
  "is_lower c \<longleftrightarrow> 97 \<le> byte c \<and> byte c \<le> 122"

definition is_upper :: "char \<Rightarrow> bool" where
  "is_upper c \<longleftrightarrow> 65 \<le> byte c \<and> byte c \<le> 90"

definition is_ascii :: "char \<Rightarrow> bool" where
  "is_ascii c \<longleftrightarrow> byte c < 128"

definition ascii_space :: "char \<Rightarrow> bool" where
  "ascii_space c \<longleftrightarrow> byte c \<in> {9, 10, 11, 12, 13, 32}"

definition lower_char :: "char \<Rightarrow> char" where
  "lower_char c = (if is_upper c then char_of (byte c + 32) else c)"

definition upper_char :: "char \<Rightarrow> char" where
  "upper_char c = (if is_lower c then char_of (byte c - 32) else c)"

lemma byte_char_of: "n < 256 \<Longrightarrow> byte (char_of n) = n"
  by (simp add: byte_def)

lemma byte_less: "byte c < 256"
  using nat_of_char_less_256 [of c] by (simp add: byte_def)

lemma byte_inject: "byte c = byte d \<longleftrightarrow> c = d"
  by (simp add: byte_def)

lemma is_upper_lower_char [simp]: "\<not> is_upper (lower_char c)"
  using byte_less [of c]
  by (auto simp: lower_char_def is_upper_def byte_char_of)

lemma is_lower_upper_char [simp]: "\<not> is_lower (upper_char c)"
  using byte_less [of c]
  by (auto simp: upper_char_def is_lower_def byte_char_of)

lemma lower_char_idem [simp]: "lower_char (lower_char c) = lower_char c"
  using is_upper_lower_char [of c] by (simp add: lower_char_def)

lemma upper_char_idem [simp]: "upper_char (upper_char c) = upper_char c"
  using is_lower_upper_char [of c] by (simp add: upper_char_def)

lemma lower_char_id: "\<not> is_upper c \<Longrightarrow> lower_char c = c"
  by (simp add: lower_char_def)

lemma is_ascii_lower_char [simp]: "is_ascii (lower_char c) = is_ascii c"
  by (auto simp: lower_char_def is_ascii_def is_upper_def byte_char_of)

section \<open>Go strings\<close>

subsection \<open>Prefixes, suffixes, substrings\<close>

definition HasPrefix :: "string \<Rightarrow> string \<Rightarrow> bool" where
  "HasPrefix s p \<longleftrightarrow> take (length p) s = p"

definition HasSuffix :: "string \<Rightarrow> string \<Rightarrow> bool" where
  "HasSuffix s p \<longleftrightarrow> length p \<le> length s \<and> drop (length s - length p) s = p"

definition TrimPrefix :: "string \<Rightarrow> string \<Rightarrow> string" where
  "TrimPrefix s p = (if HasPrefix s p then drop (length p) s else s)"

definition TrimSuffix :: "string \<Rightarrow> string \<Rightarrow> string" where
  "TrimSuffix s p = (if HasSuffix s p then take (length s - length p) s else s)"

fun Contains :: "string \<Rightarrow> string \<Rightarrow> bool" where
  "Contains [] sub = (sub = [])"
| "Contains (c # cs) sub = (HasPrefix (c # cs) sub \<or> Contains cs sub)"

definition ContainsAny :: "string \<Rightarrow> string \<Rightarrow> bool" where
  "ContainsAny s chars \<longleftrightarrow> list_ex (\<lambda>c. c \<in> set chars) s"

lemma HasPrefix_iff: "HasPrefix s p \<longleftrightarrow> (\<exists>t. s = p @ t)"
proof
  assume "HasPrefix s p"
  then have "s = p @ drop (length p) s"
    unfolding HasPrefix_def by (metis append_take_drop_id)
  then show "\<exists>t. s = p @ t" ..
qed (auto simp: HasPrefix_def)

lemma HasSuffix_iff: "HasSuffix s p \<longleftrightarrow> (\<exists>t. s = t @ p)"
proof
  assume "HasSuffix s p"
  then have "s = take (length s - length p) s @ p"
    unfolding HasSuffix_def by (metis append_take_drop_id)
  then show "\<exists>t. s = t @ p" ..
qed (auto simp: HasSuffix_def)

lemma TrimSuffix_append [simp]: "TrimSuffix (t @ p) p = t"
  by (simp add: TrimSuffix_def HasSuffix_iff)

lemma TrimPrefix_append [simp]: "TrimPrefix (p @ t) p = t"
  by (simp add: TrimPrefix_def HasPrefix_iff)

lemma Contains_iff: "Contains s sub \<longleftrightarrow> (\<exists>l r. s = l @ sub @ r)"
proof (induction s)
  case (Cons c cs)
  have "(\<exists>l r. c # cs = l @ sub @ r) \<longleftrightarrow>
      (\<exists>r. c # cs = sub @ r) \<or> (\<exists>l r. cs = l @ sub @ r)"
    by (auto simp: Cons_eq_append_conv)
  with Cons show ?case by (simp add: HasPrefix_iff)
qed auto

lemma Contains_char: "Contains s [c] \<longleftrightarrow> c \<in> set s"
  by (auto simp: Contains_iff in_set_conv_decomp)

lemma ContainsAny_iff: "ContainsAny s chars \<longleftrightarrow> set s \<inter> set chars \<noteq> {}"
  by (auto simp: ContainsAny_def list_ex_iff)

lemma set_TrimSuffix: "set (TrimSuffix s p) \<subseteq> set s"
  by (auto simp: TrimSuffix_def dest: in_set_takeD)

subsection \<open>Splitting and joining\<close>

text \<open>\<open>strings.Split\<close> with a one-byte separator.\<close>

fun Split :: "string \<Rightarrow> char \<Rightarrow> string list" where
  "Split [] sep = [[]]"
| "Split (c # cs) sep =
     (if c = sep then [] # Split cs sep
      else (case Split cs sep of [] \<Rightarrow> [[c]] | p # ps \<Rightarrow> (c # p) # ps))"

fun Join :: "string list \<Rightarrow> string \<Rightarrow> string" where
  "Join [] sep = []"
| "Join [x] sep = x"
| "Join (x # y # ys) sep = x @ sep @ Join (y # ys) sep"

lemma Split_not_Nil [simp]: "Split s sep \<noteq> []"
  by (cases s) (auto split: list.splits)

lemma Join_Split: "Join (Split s sep) [sep] = s"
proof (induction s)
  case (Cons c cs)
  obtain p ps where ps: "Split cs sep = p # ps"
    using Split_not_Nil [of cs sep] by (cases "Split cs sep") auto
  with Cons show ?case by (cases ps) auto
qed simp

lemma Split_no_sep: "p \<in> set (Split s sep) \<Longrightarrow> sep \<notin> set p"
proof (induction s arbitrary: p)
  case (Cons c cs)
  then show ?case by (auto split: if_splits list.splits)
qed simp

lemma Split_id: "sep \<notin> set s \<Longrightarrow> Split s sep = [s]"
  by (induction s) auto

lemma Split_append_sep: "sep \<notin> set p \<Longrightarrow> Split (p @ sep # s) sep = p # Split s sep"
  by (induction p) auto

lemma Split_append: "Split (s @ sep # t) sep = Split s sep @ Split t sep"
  by (induction s) (auto split: list.split)

lemma Split_Join:
  assumes "ps \<noteq> []" and "\<forall>p \<in> set ps. sep \<notin> set p"
  shows "Split (Join ps [sep]) sep = ps"
  using assms
proof (induction ps "[sep]" rule: Join.induct)
  case (3 x y ys)
  then show ?case by (simp add: Split_append_sep)
qed (auto simp: Split_id)

lemma set_Split_subset: "p \<in> set (Split s sep) \<Longrightarrow> set p \<subseteq> set s"
proof (induction s arbitrary: p)
  case (Cons c cs)
  then show ?case by (fastforce split: if_splits list.splits)
qed simp

subsection \<open>White space\<close>

text \<open>
  The UTF-8 encodings of the non-ASCII white space runes of \<open>unicode.IsSpace\<close>: U+0085, U+00A0,
  U+1680, U+2000 to U+200A, U+2028, U+2029, U+202F, U+205F and U+3000.
\<close>

definition wide_spaces :: "string list" where
  "wide_spaces =
     [[CHR 0xC2, CHR 0x85], [CHR 0xC2, CHR 0xA0], [CHR 0xE1, CHR 0x9A, CHR 0x80],
      [CHR 0xE2, CHR 0x80, CHR 0x80], [CHR 0xE2, CHR 0x80, CHR 0x81],
      [CHR 0xE2, CHR 0x80, CHR 0x82], [CHR 0xE2, CHR 0x80, CHR 0x83],
      [CHR 0xE2, CHR 0x80, CHR 0x84], [CHR 0xE2, CHR 0x80, CHR 0x85],
      [CHR 0xE2, CHR 0x80, CHR 0x86], [CHR 0xE2, CHR 0x80, CHR 0x87],
      [CHR 0xE2, CHR 0x80, CHR 0x88], [CHR 0xE2, CHR 0x80, CHR 0x89],
      [CHR 0xE2, CHR 0x80, CHR 0x8A], [CHR 0xE2, CHR 0x80, CHR 0xA8],
      [CHR 0xE2, CHR 0x80, CHR 0xA9], [CHR 0xE2, CHR 0x80, CHR 0xAF],
      [CHR 0xE2, CHR 0x81, CHR 0x9F], [CHR 0xE3, CHR 0x80, CHR 0x80]]"

text \<open>The number of leading bytes that encode one white space rune.\<close>

definition lead_space :: "string list \<Rightarrow> string \<Rightarrow> nat" where
  "lead_space wide s =
     (case s of [] \<Rightarrow> 0
      | c # _ \<Rightarrow> if ascii_space c then 1
                else if is_ascii c then 0
                else (case find (HasPrefix s) wide of None \<Rightarrow> 0 | Some w \<Rightarrow> length w))"

function trim_lead :: "string list \<Rightarrow> string \<Rightarrow> string" where
  "trim_lead wide s =
     (if lead_space wide s = 0 then s else trim_lead wide (drop (lead_space wide s) s))"
  by pat_completeness auto
termination
proof (relation "measure (\<lambda>(wide, s). length s)")
  fix wide :: "string list" and s :: string
  assume n: "lead_space wide s \<noteq> 0"
  then have "s \<noteq> []" by (auto simp: lead_space_def)
  with n show "((wide, drop (lead_space wide s) s), wide, s) \<in> measure (\<lambda>(wide, s). length s)"
    by simp
qed simp

declare trim_lead.simps [simp del]

definition TrimSpace :: "string \<Rightarrow> string" where
  "TrimSpace s = rev (trim_lead (map rev wide_spaces) (rev (trim_lead wide_spaces s)))"

lemma trim_lead_no_space: "lead_space wide s = 0 \<Longrightarrow> trim_lead wide s = s"
  by (subst trim_lead.simps) simp

lemma trim_lead_stops: "lead_space wide (trim_lead wide s) = 0"
proof (induction wide s rule: trim_lead.induct)
  case (1 wide s)
  then show ?case
    by (cases "lead_space wide s = 0") (simp_all add: trim_lead.simps [of wide s])
qed

lemma trim_lead_suffix: "\<exists>t. s = t @ trim_lead wide s"
proof (induction wide s rule: trim_lead.induct)
  case (1 wide s)
  show ?case
  proof (cases "lead_space wide s = 0")
    case True
    then show ?thesis by (simp add: trim_lead_no_space)
  next
    case False
    with "1.IH" obtain t where "drop (lead_space wide s) s = t @ trim_lead wide s"
      by (auto simp: trim_lead.simps [of wide s])
    then have "s = (take (lead_space wide s) s @ t) @ trim_lead wide s"
      by (metis append_assoc append_take_drop_id)
    then show ?thesis ..
  qed
qed

lemma TrimSpace_infix: "\<exists>l r. s = l @ TrimSpace s @ r"
proof -
  obtain l where l: "s = l @ trim_lead wide_spaces s"
    using trim_lead_suffix by blast
  obtain t where "rev (trim_lead wide_spaces s) = t @ rev (TrimSpace s)"
    unfolding TrimSpace_def
    using trim_lead_suffix [of "rev (trim_lead wide_spaces s)"] by auto
  then have "trim_lead wide_spaces s = TrimSpace s @ rev t"
    by (metis rev_append rev_rev_ident)
  with l have "s = l @ TrimSpace s @ rev t" by simp
  then show ?thesis by blast
qed

lemma set_TrimSpace: "set (TrimSpace s) \<subseteq> set s"
  using TrimSpace_infix [of s] by (metis set_append Un_upper1 Un_upper2 order_trans)

lemma length_TrimSpace: "length (TrimSpace s) \<le> length s"
  using TrimSpace_infix [of s] by (metis length_append le_add1 le_add2 order_trans)

text \<open>A string of non-space ASCII bytes at both ends is not trimmed.\<close>

definition plain_ends :: "string \<Rightarrow> bool" where
  "plain_ends s \<longleftrightarrow> s \<noteq> [] \<longrightarrow>
     is_ascii (hd s) \<and> \<not> ascii_space (hd s) \<and> is_ascii (last s) \<and> \<not> ascii_space (last s)"

lemma TrimSpace_plain: "plain_ends s \<Longrightarrow> TrimSpace s = s"
proof -
  assume p: "plain_ends s"
  have l: "lead_space wide s = 0" for wide
    using p by (cases s) (auto simp: plain_ends_def lead_space_def)
  have r: "lead_space wide (rev s) = 0" for wide
    using p by (cases s rule: rev_cases) (auto simp: plain_ends_def lead_space_def)
  show ?thesis by (simp add: TrimSpace_def trim_lead_no_space [OF l] trim_lead_no_space [OF r])
qed

lemma TrimSpace_Nil [simp]: "TrimSpace [] = []"
  by (simp add: TrimSpace_plain plain_ends_def)

lemma lead_space_prefix:
  assumes "lead_space wide (s @ t) = 0" and "[] \<notin> set wide"
  shows "lead_space wide s = 0"
proof (cases "s = [] \<or> is_ascii (hd s)")
  case False
  then have "find (HasPrefix (s @ t)) wide = None"
    using assms by (cases s) (auto simp: lead_space_def find_Some_iff split: if_splits option.splits dest: nth_mem)
  then have "find (HasPrefix s) wide = None" by (auto simp: find_None_iff HasPrefix_iff)
  then show ?thesis
    using assms False by (cases s) (auto simp: lead_space_def split: if_splits)
qed (use assms in \<open>cases s; auto simp: lead_space_def split: if_splits\<close>)

lemma TrimSpace_idem [simp]: "TrimSpace (TrimSpace s) = TrimSpace s"
proof -
  let ?u = "trim_lead wide_spaces s"
  obtain t where "rev ?u = t @ rev (TrimSpace s)"
    unfolding TrimSpace_def using trim_lead_suffix [of "rev ?u"] by auto
  then have u: "?u = TrimSpace s @ rev t" by (metis rev_append rev_rev_ident)
  have "lead_space wide_spaces (TrimSpace s) = 0"
    using trim_lead_stops [of wide_spaces s] unfolding u by (rule lead_space_prefix) (simp add: wide_spaces_def)
  moreover have "lead_space (map rev wide_spaces) (rev (TrimSpace s)) = 0"
    unfolding TrimSpace_def by (simp add: trim_lead_stops)
  ultimately show ?thesis
    by (subst TrimSpace_def) (simp add: trim_lead_no_space)
qed

subsection \<open>Letter case\<close>

text \<open>
  \<open>strings.ToLower\<close> and \<open>ToUpper\<close> map ASCII strings byte by byte. A string with a non-ASCII byte
  goes through the case tables of Go's \<open>unicode\<close> package, which are data of the model: a
  parameter with one function per direction, and one for the folding that \<open>strings.EqualFold\<close> compares under.
\<close>

record unicode_case =
  uc_lower :: "string \<Rightarrow> string"
  uc_upper :: "string \<Rightarrow> string"
  uc_fold :: "string \<Rightarrow> string \<Rightarrow> bool"

definition ToLower :: "unicode_case \<Rightarrow> string \<Rightarrow> string" where
  "ToLower uc s = (if list_all is_ascii s then map lower_char s else uc_lower uc s)"

definition ToUpper :: "unicode_case \<Rightarrow> string \<Rightarrow> string" where
  "ToUpper uc s = (if list_all is_ascii s then map upper_char s else uc_upper uc s)"

definition EqualFold :: "unicode_case \<Rightarrow> string \<Rightarrow> string \<Rightarrow> bool" where
  "EqualFold uc s t =
     (if list_all is_ascii s \<and> list_all is_ascii t then map lower_char s = map lower_char t
      else uc_fold uc s t)"

lemma ToLower_ascii: "list_all is_ascii s \<Longrightarrow> ToLower uc s = map lower_char s"
  by (simp add: ToLower_def)

lemma ToLower_id: "list_all (\<lambda>c. is_ascii c \<and> \<not> is_upper c) s \<Longrightarrow> ToLower uc s = s"
  by (auto simp: ToLower_def list_all_iff lower_char_id intro!: map_idI)

lemma ToUpper_id: "list_all (\<lambda>c. is_ascii c \<and> \<not> is_lower c) s \<Longrightarrow> ToUpper uc s = s"
  by (auto simp: ToUpper_def upper_char_def list_all_iff intro!: map_idI)

lemma EqualFold_refl_ascii: "list_all is_ascii s \<Longrightarrow> EqualFold uc s s"
  by (simp add: EqualFold_def)

subsection \<open>Decimal numbers\<close>

definition digit_char :: "nat \<Rightarrow> char" where
  "digit_char d = char_of (48 + d)"

fun nat_string :: "nat \<Rightarrow> string" where
  "nat_string n = (if n < 10 then [digit_char n] else nat_string (n div 10) @ [digit_char (n mod 10)])"

declare nat_string.simps [simp del]

text \<open>\<open>strconv.Itoa\<close> and \<open>strconv.FormatInt(_, 10)\<close>.\<close>

definition Itoa :: "int \<Rightarrow> string" where
  "Itoa i = (if i < 0 then CHR ''-'' # nat_string (nat (- i)) else nat_string (nat i))"

text \<open>The value of a string of decimal digits.\<close>

definition digit_value :: "char \<Rightarrow> nat" where
  "digit_value c = byte c - 48"

definition dec_value :: "string \<Rightarrow> nat" where
  "dec_value s = foldl (\<lambda>acc c. 10 * acc + digit_value c) 0 s"

lemma dec_value_snoc: "dec_value (s @ [c]) = 10 * dec_value s + digit_value c"
  by (simp add: dec_value_def)

lemma digit_value_char [simp]: "d < 10 \<Longrightarrow> digit_value (digit_char d) = d"
  by (simp add: digit_value_def digit_char_def byte_char_of)

lemma is_digit_char [simp]: "d < 10 \<Longrightarrow> is_digit (digit_char d)"
  by (simp add: is_digit_def digit_char_def byte_char_of)

lemma dec_value_nat_string: "dec_value (nat_string n) = n"
proof (induction n rule: nat_string.induct)
  case (1 n)
  show ?case
  proof (cases "n < 10")
    case True
    then show ?thesis by (simp add: nat_string.simps [of n] dec_value_def)
  next
    case False
    with 1 show ?thesis by (simp add: nat_string.simps [of n] dec_value_snoc)
  qed
qed

lemma nat_string_inject: "nat_string m = nat_string n \<longleftrightarrow> m = n"
  by (metis dec_value_nat_string)

lemma nat_string_digits: "list_all is_digit (nat_string n)"
proof (induction n rule: nat_string.induct)
  case (1 n)
  then show ?case by (cases "n < 10") (simp_all add: nat_string.simps [of n])
qed

lemma nat_string_not_Nil [simp]: "nat_string n \<noteq> []"
  by (subst nat_string.simps) simp

lemma Itoa_digits: "list_all (\<lambda>c. is_digit c \<or> c = CHR ''-'') (Itoa i)"
  using nat_string_digits [of "nat i"] nat_string_digits [of "nat (- i)"] by (auto simp: Itoa_def list_all_iff)

lemma nat_string_no_minus: "nat_string n \<noteq> CHR ''-'' # s"
proof
  assume "nat_string n = CHR ''-'' # s"
  then have "is_digit CHR ''-''" using nat_string_digits [of n] by simp
  then show False by (simp add: is_digit_def byte_def)
qed

lemma Itoa_inject: "Itoa i = Itoa j \<longleftrightarrow> i = j"
  using nat_string_no_minus by (auto simp: Itoa_def nat_string_inject dest: sym)

section \<open>Loops over lists\<close>

text \<open>
  A Go loop over a slice that returns an error at the first element failing a check is \<open>find\<close>
  on the negated check; these rules read its result.
\<close>

lemma find_failing_None: "find (\<lambda>x. \<not> ok x) xs = None \<longleftrightarrow> list_all ok xs"
  by (auto simp: find_None_iff list_all_iff)

text \<open>
  A function that only returns an error is an option: \<open>None\<close> is Go's nil. A body that runs its
  checks in order and returns the first error is \<open>first_error\<close> of the checks in that order.
\<close>

primrec first_error :: "'e option list \<Rightarrow> 'e option" where
  "first_error [] = None"
| "first_error (e # es) = (case e of None \<Rightarrow> first_error es | Some err \<Rightarrow> Some err)"

definition fail_if :: "bool \<Rightarrow> 'e \<Rightarrow> 'e option" where
  "fail_if b e = (if b then Some e else None)"

lemma first_error_None: "first_error es = None \<longleftrightarrow> list_all (\<lambda>e. e = None) es"
  by (induction es) (auto split: option.splits)

lemma fail_if_None [simp]: "fail_if b e = None \<longleftrightarrow> \<not> b"
  by (simp add: fail_if_def)

lemma map_option_None_find [simp]:
  "map_option f (find (\<lambda>x. \<not> ok x) xs) = None \<longleftrightarrow> list_all ok xs"
  by (simp add: find_failing_None)

text \<open>
  Go ranges over a map in an unspecified order. A check that fails for some entries of a map
  reports one of them; the model's error carries all the names it may report.
\<close>

definition violators :: "('v \<Rightarrow> bool) \<Rightarrow> (string \<times> 'v) list \<Rightarrow> string list" where
  "violators bad entries = map fst (filter (\<lambda>(n, v). bad v) entries)"

lemma violators_Nil: "violators bad entries = [] \<longleftrightarrow> list_all (\<lambda>(n, v). \<not> bad v) entries"
  by (auto simp: violators_def filter_empty_conv list_all_iff)

text \<open>
  A loop that compares two parallel slices, index by index: the first index whose pair fails.
\<close>

fun first_mismatch :: "('a \<Rightarrow> 'b \<Rightarrow> bool) \<Rightarrow> nat \<Rightarrow> 'a list \<Rightarrow> 'b list \<Rightarrow> nat option" where
  "first_mismatch ok i (x # xs) (y # ys) =
     (if ok x y then first_mismatch ok (Suc i) xs ys else Some i)"
| "first_mismatch ok i _ _ = None"

lemma first_mismatch_None:
  "length xs = length ys \<Longrightarrow> first_mismatch ok i xs ys = None \<longleftrightarrow> list_all2 ok xs ys"
  by (induction ok i xs ys rule: first_mismatch.induct) auto

lemma first_mismatch_Some:
  assumes "first_mismatch ok i xs ys = Some k"
  shows "i \<le> k \<and> k - i < length xs \<and> k - i < length ys \<and> \<not> ok (xs ! (k - i)) (ys ! (k - i)) \<and>
    (\<forall>j < k - i. ok (xs ! j) (ys ! j))"
  using assms
proof (induction ok i xs ys rule: first_mismatch.induct)
  case (1 ok i x xs y ys)
  show ?case
  proof (cases "ok x y")
    case True
    with 1 have IH: "Suc i \<le> k \<and> k - Suc i < length xs \<and> k - Suc i < length ys \<and>
        \<not> ok (xs ! (k - Suc i)) (ys ! (k - Suc i)) \<and> (\<forall>j < k - Suc i. ok (xs ! j) (ys ! j))"
      by simp
    then obtain m where m: "k - i = Suc m" and km: "k - Suc i = m"
      by (metis Suc_diff_Suc Suc_le_lessD)
    with IH True show ?thesis by (auto simp: less_Suc_eq_0_disj)
  next
    case False
    with 1 show ?thesis by simp
  qed
qed auto

end
