(* ===== verification/Hosting_Policy.thy ===== *)
theory Hosting_Policy
  imports Nak_Prelude
begin

text \<open>
  The typed desired-state contract of \<open>internal/types/hosting_policy.go\<close> and the plan types of
  \<open>internal/types/envelope.go\<close> that feed it. Every Go struct is a record with the fields in the
  order of the source; a field \<open>F\<close> of a struct carries a prefix naming the struct (\<open>Res_DiskMB\<close>
  is \<open>HostingResourcePolicy.DiskMB\<close>), and \<open>zero_S\<close> is the Go zero value of struct \<open>S\<close>. Slices
  are lists: no modelled operation distinguishes a nil slice from an empty one.
  Limits use -1 for unlimited, 0 for disabled and positive values as finite.
\<close>

section \<open>Structs of the hosting policy\<close>

record HostingResourcePolicy =
  Res_DiskMB :: int
  Res_TrafficMB :: int
  Res_CPUPercent :: int
  Res_MemoryMB :: int
  Res_IOReadMBPS :: int
  Res_IOWriteMBPS :: int
  Res_MaxTasks :: int
  Res_MaxSites :: int
  Res_MaxDatabases :: int
  Res_MaxDatabaseUsers :: int
  Res_MaxMailboxes :: int
  Res_MaxMailAliases :: int
  Res_MaxSFTPIdentities :: int
  Res_MaxScheduledTasks :: int
  Res_MaxBackups :: int
  Res_BackupStorageMB :: int
  Res_MaxApplications :: int
  Res_ContainerStorageMB :: int
  Res_MaxFTPAccounts :: int
  Res_ValkeyMemoryMB :: int
  Res_MaxPHPWorkers :: int
  Res_MaxPHPReleases :: int
  Res_MaxWordPressSites :: int

definition zero_HostingResourcePolicy :: HostingResourcePolicy where
  "zero_HostingResourcePolicy = \<lparr>Res_DiskMB = 0,
     Res_TrafficMB = 0,
     Res_CPUPercent = 0,
     Res_MemoryMB = 0,
     Res_IOReadMBPS = 0,
     Res_IOWriteMBPS = 0,
     Res_MaxTasks = 0,
     Res_MaxSites = 0,
     Res_MaxDatabases = 0,
     Res_MaxDatabaseUsers = 0,
     Res_MaxMailboxes = 0,
     Res_MaxMailAliases = 0,
     Res_MaxSFTPIdentities = 0,
     Res_MaxScheduledTasks = 0,
     Res_MaxBackups = 0,
     Res_BackupStorageMB = 0,
     Res_MaxApplications = 0,
     Res_ContainerStorageMB = 0,
     Res_MaxFTPAccounts = 0,
     Res_ValkeyMemoryMB = 0,
     Res_MaxPHPWorkers = 0,
     Res_MaxPHPReleases = 0,
     Res_MaxWordPressSites = 0\<rparr>"

record HostingPermissionPolicy =
  Perm_Hosting :: bool
  Perm_SSH :: bool
  Perm_SFTP :: bool
  Perm_ScheduledTasks :: bool
  Perm_DNS :: bool
  Perm_TLS :: bool
  Perm_Mail :: bool
  Perm_Databases :: bool
  Perm_Backups :: bool
  Perm_PHPSettings :: bool
  Perm_CGI :: bool
  Perm_Applications :: bool
  Perm_CustomOCIImages :: bool
  Perm_ApplicationEgress :: bool
  Perm_FTPS :: bool
  Perm_Logs :: bool
  Perm_Git :: bool
  Perm_Staging :: bool
  Perm_Valkey :: bool
  Perm_Composer :: bool
  Perm_ComposerCodeExecution :: bool
  Perm_ManagedPHPDeployments :: bool
  Perm_PHPWorkers :: bool
  Perm_WordPressToolkit :: bool
  Perm_WebStatistics :: bool

definition zero_HostingPermissionPolicy :: HostingPermissionPolicy where
  "zero_HostingPermissionPolicy = \<lparr>Perm_Hosting = False,
     Perm_SSH = False,
     Perm_SFTP = False,
     Perm_ScheduledTasks = False,
     Perm_DNS = False,
     Perm_TLS = False,
     Perm_Mail = False,
     Perm_Databases = False,
     Perm_Backups = False,
     Perm_PHPSettings = False,
     Perm_CGI = False,
     Perm_Applications = False,
     Perm_CustomOCIImages = False,
     Perm_ApplicationEgress = False,
     Perm_FTPS = False,
     Perm_Logs = False,
     Perm_Git = False,
     Perm_Staging = False,
     Perm_Valkey = False,
     Perm_Composer = False,
     Perm_ComposerCodeExecution = False,
     Perm_ManagedPHPDeployments = False,
     Perm_PHPWorkers = False,
     Perm_WordPressToolkit = False,
     Perm_WebStatistics = False\<rparr>"

record HostingWebPolicy =
  Web_PreferredDomain :: string
  Web_HTTPSRedirect :: bool
  Web_RequestRatePerSecond :: int
  Web_RequestBurst :: int
  Web_MaxConnections :: int
  Web_StaticCache :: bool
  Web_FastCGIMicrocache :: bool
  Web_IndexFiles :: string
  Web_RequestBodyLimitMB :: int
  Web_Compression :: bool
  Web_CacheTTLSeconds :: int
  Web_RateLimitPerSecond :: int
  Web_RateLimitBurst :: int
  Web_ConnectTimeoutSecs :: int
  Web_ReadTimeoutSecs :: int
  Web_SecurityHeaderPreset :: string
  Web_AllowedCIDRs :: "string list"
  Web_ErrorDocument404 :: string
  Web_ErrorDocument50X :: string

definition zero_HostingWebPolicy :: HostingWebPolicy where
  "zero_HostingWebPolicy = \<lparr>Web_PreferredDomain = [],
     Web_HTTPSRedirect = False,
     Web_RequestRatePerSecond = 0,
     Web_RequestBurst = 0,
     Web_MaxConnections = 0,
     Web_StaticCache = False,
     Web_FastCGIMicrocache = False,
     Web_IndexFiles = [],
     Web_RequestBodyLimitMB = 0,
     Web_Compression = False,
     Web_CacheTTLSeconds = 0,
     Web_RateLimitPerSecond = 0,
     Web_RateLimitBurst = 0,
     Web_ConnectTimeoutSecs = 0,
     Web_ReadTimeoutSecs = 0,
     Web_SecurityHeaderPreset = [],
     Web_AllowedCIDRs = [],
     Web_ErrorDocument404 = [],
     Web_ErrorDocument50X = []\<rparr>"

record HostingPHPPolicy =
  PHP_DefaultVersion :: string
  PHP_AllowedVersions :: "string list"
  PHP_FPMMaxChildren :: int
  PHP_FPMMaxRequests :: int
  PHP_MemoryLimitMB :: int
  PHP_MaxExecutionSeconds :: int
  PHP_MaxInputSeconds :: int
  PHP_PostMaxMB :: int
  PHP_UploadMaxMB :: int
  PHP_DisplayErrors :: bool
  PHP_LogErrors :: bool
  PHP_AllowURLFOpen :: bool
  PHP_ExecEnabled :: bool
  PHP_FPMMode :: string
  PHP_FPMIdleTimeoutSecs :: int
  PHP_RequestTerminateSecs :: int
  PHP_OPcacheEnabled :: bool
  PHP_OPcacheMemoryMB :: int

definition zero_HostingPHPPolicy :: HostingPHPPolicy where
  "zero_HostingPHPPolicy = \<lparr>PHP_DefaultVersion = [],
     PHP_AllowedVersions = [],
     PHP_FPMMaxChildren = 0,
     PHP_FPMMaxRequests = 0,
     PHP_MemoryLimitMB = 0,
     PHP_MaxExecutionSeconds = 0,
     PHP_MaxInputSeconds = 0,
     PHP_PostMaxMB = 0,
     PHP_UploadMaxMB = 0,
     PHP_DisplayErrors = False,
     PHP_LogErrors = False,
     PHP_AllowURLFOpen = False,
     PHP_ExecEnabled = False,
     PHP_FPMMode = [],
     PHP_FPMIdleTimeoutSecs = 0,
     PHP_RequestTerminateSecs = 0,
     PHP_OPcacheEnabled = False,
     PHP_OPcacheMemoryMB = 0\<rparr>"

record HostingMailPolicy =
  Mail_Enabled :: bool
  Mail_MailboxQuotaMB :: int
  Mail_DKIM :: bool
  Mail_DMARCPolicy :: string
  Mail_SpamFilter :: bool
  Mail_Webmail :: bool
  Mail_Autoresponders :: bool
  Mail_CatchAll :: bool

definition zero_HostingMailPolicy :: HostingMailPolicy where
  "zero_HostingMailPolicy = \<lparr>Mail_Enabled = False,
     Mail_MailboxQuotaMB = 0,
     Mail_DKIM = False,
     Mail_DMARCPolicy = [],
     Mail_SpamFilter = False,
     Mail_Webmail = False,
     Mail_Autoresponders = False,
     Mail_CatchAll = False\<rparr>"

record HostingDNSPolicy =
  DNS_Enabled :: bool
  DNS_Mode :: string
  DNS_DefaultTTL :: int
  DNS_DNSSEC :: bool

definition zero_HostingDNSPolicy :: HostingDNSPolicy where
  "zero_HostingDNSPolicy = \<lparr>DNS_Enabled = False,
     DNS_Mode = [],
     DNS_DefaultTTL = 0,
     DNS_DNSSEC = False\<rparr>"

record HostingAccessPolicy =
  Access_ShellMode :: string
  Access_NspawnImage :: string
  Access_SFTPOnly :: bool
  Access_SSHIdleTimeoutMins :: int
  Access_FTPSEnabled :: bool
  Access_FTPSPassiveStart :: int
  Access_FTPSPassiveEnd :: int

definition zero_HostingAccessPolicy :: HostingAccessPolicy where
  "zero_HostingAccessPolicy = \<lparr>Access_ShellMode = [],
     Access_NspawnImage = [],
     Access_SFTPOnly = False,
     Access_SSHIdleTimeoutMins = 0,
     Access_FTPSEnabled = False,
     Access_FTPSPassiveStart = 0,
     Access_FTPSPassiveEnd = 0\<rparr>"

record HostingBackupPolicy =
  Backup_Enabled :: bool
  Backup_RetentionDays :: int
  Backup_Schedule :: string
  Backup_RemoteTarget :: string

definition zero_HostingBackupPolicy :: HostingBackupPolicy where
  "zero_HostingBackupPolicy = \<lparr>Backup_Enabled = False,
     Backup_RetentionDays = 0,
     Backup_Schedule = [],
     Backup_RemoteTarget = []\<rparr>"

record HostingApplicationPolicy =
  App_CatalogEnabled :: bool
  App_AllowedCatalogSlugs :: "string list"
  App_AllowedRegistries :: "string list"
  App_AllowedRuntimes :: "string list"
  App_Rootless :: bool
  App_EgressEnabled :: bool

definition zero_HostingApplicationPolicy :: HostingApplicationPolicy where
  "zero_HostingApplicationPolicy = \<lparr>App_CatalogEnabled = False,
     App_AllowedCatalogSlugs = [],
     App_AllowedRegistries = [],
     App_AllowedRuntimes = [],
     App_Rootless = False,
     App_EgressEnabled = False\<rparr>"

record HostingValkeyPolicy =
  Valkey_Enabled :: bool
  Valkey_MemoryMB :: int
  Valkey_MaxClients :: int
  Valkey_IdleTimeoutSeconds :: int
  Valkey_EvictionPolicy :: string
  Valkey_CPUPercent :: int
  Valkey_ProcessLimit :: int

definition zero_HostingValkeyPolicy :: HostingValkeyPolicy where
  "zero_HostingValkeyPolicy = \<lparr>Valkey_Enabled = False,
     Valkey_MemoryMB = 0,
     Valkey_MaxClients = 0,
     Valkey_IdleTimeoutSeconds = 0,
     Valkey_EvictionPolicy = [],
     Valkey_CPUPercent = 0,
     Valkey_ProcessLimit = 0\<rparr>"

record LogsPreset =
  Logs_StatisticsEngine :: string
  Logs_RotationEnabled :: bool
  Logs_RetentionDays :: int
  Logs_StatisticsEnabled :: bool

definition zero_LogsPreset :: LogsPreset where
  "zero_LogsPreset = \<lparr>Logs_StatisticsEngine = [],
     Logs_RotationEnabled = False,
     Logs_RetentionDays = 0,
     Logs_StatisticsEnabled = False\<rparr>"

record HostingPolicy =
  HP_SchemaVersion :: int
  HP_Resources :: HostingResourcePolicy
  HP_Permissions :: HostingPermissionPolicy
  HP_Web :: HostingWebPolicy
  HP_PHP :: HostingPHPPolicy
  HP_Mail :: HostingMailPolicy
  HP_DNS :: HostingDNSPolicy
  HP_Access :: HostingAccessPolicy
  HP_Backups :: HostingBackupPolicy
  HP_Applications :: HostingApplicationPolicy
  HP_Valkey :: HostingValkeyPolicy
  HP_Logs :: LogsPreset

definition zero_HostingPolicy :: HostingPolicy where
  "zero_HostingPolicy = \<lparr>HP_SchemaVersion = 0,
     HP_Resources = zero_HostingResourcePolicy,
     HP_Permissions = zero_HostingPermissionPolicy,
     HP_Web = zero_HostingWebPolicy,
     HP_PHP = zero_HostingPHPPolicy,
     HP_Mail = zero_HostingMailPolicy,
     HP_DNS = zero_HostingDNSPolicy,
     HP_Access = zero_HostingAccessPolicy,
     HP_Backups = zero_HostingBackupPolicy,
     HP_Applications = zero_HostingApplicationPolicy,
     HP_Valkey = zero_HostingValkeyPolicy,
     HP_Logs = zero_LogsPreset\<rparr>"

record HostingPreset =
  HPre_WebServer :: string
  HPre_PreferredDomain :: string
  HPre_DefaultPHPVersion :: string
  HPre_AllowedPHPVersions :: "string list"

definition zero_HostingPreset :: HostingPreset where
  "zero_HostingPreset = \<lparr>HPre_WebServer = [],
     HPre_PreferredDomain = [],
     HPre_DefaultPHPVersion = [],
     HPre_AllowedPHPVersions = []\<rparr>"

record PHPPreset =
  PPre_MaxExecutionSeconds :: int
  PPre_MaxInputSeconds :: int
  PPre_PostMaxMB :: int
  PPre_UploadMaxMB :: int
  PPre_FPMMaxRequests :: int
  PPre_DisplayErrors :: bool
  PPre_LogErrors :: bool
  PPre_AllowURLFOpen :: bool

definition zero_PHPPreset :: PHPPreset where
  "zero_PHPPreset = \<lparr>PPre_MaxExecutionSeconds = 0,
     PPre_MaxInputSeconds = 0,
     PPre_PostMaxMB = 0,
     PPre_UploadMaxMB = 0,
     PPre_FPMMaxRequests = 0,
     PPre_DisplayErrors = False,
     PPre_LogErrors = False,
     PPre_AllowURLFOpen = False\<rparr>"

record MailPreset =
  MPre_WebmailEnabled :: bool
  MPre_SpamFilter :: bool
  MPre_DKIM :: bool
  MPre_DMARCPolicy :: string

definition zero_MailPreset :: MailPreset where
  "zero_MailPreset = \<lparr>MPre_WebmailEnabled = False,
     MPre_SpamFilter = False,
     MPre_DKIM = False,
     MPre_DMARCPolicy = []\<rparr>"

record DNSPreset =
  DPre_Mode :: string
  DPre_DefaultTTL :: int

definition zero_DNSPreset :: DNSPreset where
  "zero_DNSPreset = \<lparr>DPre_Mode = [],
     DPre_DefaultTTL = 0\<rparr>"

record PerformancePreset =
  PfPre_MaxConnections :: int
  PfPre_StaticFileCache :: bool

definition zero_PerformancePreset :: PerformancePreset where
  "zero_PerformancePreset = \<lparr>PfPre_MaxConnections = 0,
     PfPre_StaticFileCache = False\<rparr>"

record ApplicationsPreset =
  APre_CatalogEnabled :: bool
  APre_Allowed :: "string list"

definition zero_ApplicationsPreset :: ApplicationsPreset where
  "zero_ApplicationsPreset = \<lparr>APre_CatalogEnabled = False,
     APre_Allowed = []\<rparr>"

record PlanServicePresets =
  SP_SchemaVersion :: int
  SP_Hosting :: HostingPreset
  SP_PHP :: PHPPreset
  SP_Mail :: MailPreset
  SP_DNS :: DNSPreset
  SP_Performance :: PerformancePreset
  SP_Logs :: LogsPreset
  SP_Applications :: ApplicationsPreset

definition zero_PlanServicePresets :: PlanServicePresets where
  "zero_PlanServicePresets = \<lparr>SP_SchemaVersion = 0,
     SP_Hosting = zero_HostingPreset,
     SP_PHP = zero_PHPPreset,
     SP_Mail = zero_MailPreset,
     SP_DNS = zero_DNSPreset,
     SP_Performance = zero_PerformancePreset,
     SP_Logs = zero_LogsPreset,
     SP_Applications = zero_ApplicationsPreset\<rparr>"

record SubscriptionEntitlements =
  Ent_PreserveHostingPolicy :: bool
  Ent_StatisticsEdited :: bool
  Ent_SubscriptionID :: int
  Ent_PlanName :: string
  Ent_DiskMB :: int
  Ent_MaxSites :: int
  Ent_MaxDatabases :: int
  Ent_BandwidthMB :: int
  Ent_MaxMailboxes :: int
  Ent_AllowSSH :: bool
  Ent_AllowDNS :: bool
  Ent_BackupRetentionDays :: int
  Ent_PHPAllowlist :: string
  Ent_PHPFPMMaxChildren :: int
  Ent_PHPMemoryMB :: int
  Ent_SiteDiskQuotaMB :: int
  Ent_MaxBackups :: int
  Ent_BackupStorageMB :: int
  Ent_SourceRevision :: int
  Ent_OverusePolicy :: string
  Ent_DiskWarningPercent :: int
  Ent_TrafficWarningPercent :: int
  Ent_MaxSubdomains :: int
  Ent_MaxDomainAliases :: int
  Ent_MaxFTPAccounts :: int
  Ent_ValidityDays :: int
  Ent_HostingEnabled :: bool
  Ent_DefaultPHPVersion :: string
  Ent_AllowTLS :: bool
  Ent_AllowBackups :: bool
  Ent_AllowPHPSettings :: bool
  Ent_ServicePresets :: PlanServicePresets
  Ent_HostingPolicy :: HostingPolicy

definition zero_SubscriptionEntitlements :: SubscriptionEntitlements where
  "zero_SubscriptionEntitlements = \<lparr>Ent_PreserveHostingPolicy = False,
     Ent_StatisticsEdited = False,
     Ent_SubscriptionID = 0,
     Ent_PlanName = [],
     Ent_DiskMB = 0,
     Ent_MaxSites = 0,
     Ent_MaxDatabases = 0,
     Ent_BandwidthMB = 0,
     Ent_MaxMailboxes = 0,
     Ent_AllowSSH = False,
     Ent_AllowDNS = False,
     Ent_BackupRetentionDays = 0,
     Ent_PHPAllowlist = [],
     Ent_PHPFPMMaxChildren = 0,
     Ent_PHPMemoryMB = 0,
     Ent_SiteDiskQuotaMB = 0,
     Ent_MaxBackups = 0,
     Ent_BackupStorageMB = 0,
     Ent_SourceRevision = 0,
     Ent_OverusePolicy = [],
     Ent_DiskWarningPercent = 0,
     Ent_TrafficWarningPercent = 0,
     Ent_MaxSubdomains = 0,
     Ent_MaxDomainAliases = 0,
     Ent_MaxFTPAccounts = 0,
     Ent_ValidityDays = 0,
     Ent_HostingEnabled = False,
     Ent_DefaultPHPVersion = [],
     Ent_AllowTLS = False,
     Ent_AllowBackups = False,
     Ent_AllowPHPSettings = False,
     Ent_ServicePresets = zero_PlanServicePresets,
     Ent_HostingPolicy = zero_HostingPolicy\<rparr>"

record SiteResourceLimits =
  SRL_DiskQuotaMB :: int
  SRL_PHPFPMMaxChildren :: int
  SRL_PHPMemoryMB :: int
  SRL_PHPFPMMaxRequests :: int
  SRL_PHPMaxExecutionSeconds :: int
  SRL_PHPMaxInputSeconds :: int
  SRL_PHPPostMaxMB :: int
  SRL_PHPUploadMaxMB :: int
  SRL_PHPDisplayErrors :: bool
  SRL_PHPLogErrors :: bool
  SRL_PHPAllowURLFOpen :: bool
  SRL_PHPExecEnabled :: bool
  SRL_RequestRatePerSecond :: int
  SRL_RequestBurst :: int
  SRL_MaxConnections :: int
  SRL_StaticCache :: bool
  SRL_FastCGIMicrocache :: bool
  SRL_RequestBodyLimitMB :: int
  SRL_Compression :: bool
  SRL_CacheTTLSeconds :: int
  SRL_ConnectTimeoutSeconds :: int
  SRL_ReadTimeoutSeconds :: int
  SRL_SecurityHeaderPreset :: string
  SRL_IndexFiles :: string
  SRL_PreferredDomain :: string
  SRL_AllowedCIDRs :: string
  SRL_ErrorDocument404 :: string
  SRL_ErrorDocument50X :: string
  SRL_PHPFPMMode :: string
  SRL_PHPFPMIdleTimeoutSecs :: int
  SRL_PHPRequestTerminateSecs :: int
  SRL_PHPOPcacheEnabled :: bool
  SRL_PHPOPcacheMemoryMB :: int

definition zero_SiteResourceLimits :: SiteResourceLimits where
  "zero_SiteResourceLimits = \<lparr>SRL_DiskQuotaMB = 0,
     SRL_PHPFPMMaxChildren = 0,
     SRL_PHPMemoryMB = 0,
     SRL_PHPFPMMaxRequests = 0,
     SRL_PHPMaxExecutionSeconds = 0,
     SRL_PHPMaxInputSeconds = 0,
     SRL_PHPPostMaxMB = 0,
     SRL_PHPUploadMaxMB = 0,
     SRL_PHPDisplayErrors = False,
     SRL_PHPLogErrors = False,
     SRL_PHPAllowURLFOpen = False,
     SRL_PHPExecEnabled = False,
     SRL_RequestRatePerSecond = 0,
     SRL_RequestBurst = 0,
     SRL_MaxConnections = 0,
     SRL_StaticCache = False,
     SRL_FastCGIMicrocache = False,
     SRL_RequestBodyLimitMB = 0,
     SRL_Compression = False,
     SRL_CacheTTLSeconds = 0,
     SRL_ConnectTimeoutSeconds = 0,
     SRL_ReadTimeoutSeconds = 0,
     SRL_SecurityHeaderPreset = [],
     SRL_IndexFiles = [],
     SRL_PreferredDomain = [],
     SRL_AllowedCIDRs = [],
     SRL_ErrorDocument404 = [],
     SRL_ErrorDocument50X = [],
     SRL_PHPFPMMode = [],
     SRL_PHPFPMIdleTimeoutSecs = 0,
     SRL_PHPRequestTerminateSecs = 0,
     SRL_PHPOPcacheEnabled = False,
     SRL_PHPOPcacheMemoryMB = 0\<rparr>"
lemmas zero_defs =
  zero_HostingResourcePolicy_def zero_HostingPermissionPolicy_def zero_HostingWebPolicy_def
  zero_HostingPHPPolicy_def zero_HostingMailPolicy_def zero_HostingDNSPolicy_def
  zero_HostingAccessPolicy_def zero_HostingBackupPolicy_def zero_HostingApplicationPolicy_def
  zero_HostingValkeyPolicy_def zero_LogsPreset_def zero_HostingPolicy_def
  zero_HostingPreset_def zero_PHPPreset_def zero_MailPreset_def zero_DNSPreset_def
  zero_PerformancePreset_def zero_ApplicationsPreset_def zero_PlanServicePresets_def
  zero_SubscriptionEntitlements_def zero_SiteResourceLimits_def

end
