(* ===== verification/Nak_Regex.thy ===== *)
theory Nak_Regex
  imports Nak_Prelude
begin

text \<open>
  Anchored regular expressions, as Go's \<open>regexp\<close> package matches them on byte strings.
  \<open>lang\<close> is the language of an expression, \<open>MatchString\<close> an executable matcher by derivatives,
  and \<open>MatchString_iff\<close> shows that the two agree. The remaining lemmas characterise the shapes
  the validators use (a class repeated, a class repeated a bounded number of times), so that
  facts about accepted strings follow by simplification.
\<close>

section \<open>Expressions and their languages\<close>

datatype rexp =
    Empty
  | Eps
  | Cls "char \<Rightarrow> bool"
  | Seq rexp rexp
  | Alt rexp rexp
  | Star rexp
  | Rep rexp nat nat

abbreviation Plus :: "rexp \<Rightarrow> rexp" where
  "Plus r \<equiv> Seq r (Star r)"

abbreviation Opt :: "rexp \<Rightarrow> rexp" where
  "Opt r \<equiv> Alt Eps r"

abbreviation Chr :: "char \<Rightarrow> rexp" where
  "Chr c \<equiv> Cls (\<lambda>d. d = c)"

primrec Lit :: "string \<Rightarrow> rexp" where
  "Lit [] = Eps"
| "Lit (c # cs) = Seq (Chr c) (Lit cs)"

primrec pow_lang :: "string set \<Rightarrow> nat \<Rightarrow> string set" where
  "pow_lang A 0 = {[]}"
| "pow_lang A (Suc k) = {u @ v |u v. u \<in> A \<and> v \<in> pow_lang A k}"

primrec lang :: "rexp \<Rightarrow> string set" where
  "lang Empty = {}"
| "lang Eps = {[]}"
| "lang (Cls P) = {[c] |c. P c}"
| "lang (Seq r s) = {u @ v |u v. u \<in> lang r \<and> v \<in> lang s}"
| "lang (Alt r s) = lang r \<union> lang s"
| "lang (Star r) = (\<Union>k. pow_lang (lang r) k)"
| "lang (Rep r m n) = (\<Union>k \<in> {m..n}. pow_lang (lang r) k)"

section \<open>The matcher\<close>

primrec nullable :: "rexp \<Rightarrow> bool" where
  "nullable Empty = False"
| "nullable Eps = True"
| "nullable (Cls P) = False"
| "nullable (Seq r s) = (nullable r \<and> nullable s)"
| "nullable (Alt r s) = (nullable r \<or> nullable s)"
| "nullable (Star r) = True"
| "nullable (Rep r m n) = (m \<le> n \<and> (m = 0 \<or> nullable r))"

fun seq :: "rexp \<Rightarrow> rexp \<Rightarrow> rexp" where
  "seq Empty s = Empty"
| "seq Eps s = s"
| "seq r s = Seq r s"

fun alt :: "rexp \<Rightarrow> rexp \<Rightarrow> rexp" where
  "alt Empty s = s"
| "alt r Empty = r"
| "alt r s = Alt r s"

primrec deriv :: "char \<Rightarrow> rexp \<Rightarrow> rexp" where
  "deriv c Empty = Empty"
| "deriv c Eps = Empty"
| "deriv c (Cls P) = (if P c then Eps else Empty)"
| "deriv c (Seq r s) =
     (if nullable r then alt (seq (deriv c r) s) (deriv c s) else seq (deriv c r) s)"
| "deriv c (Alt r s) = alt (deriv c r) (deriv c s)"
| "deriv c (Star r) = seq (deriv c r) (Star r)"
| "deriv c (Rep r m n) =
     (if n = 0 \<or> n < m then Empty else seq (deriv c r) (Rep r (m - 1) (n - 1)))"

definition MatchString :: "rexp \<Rightarrow> string \<Rightarrow> bool" where
  "MatchString r s = nullable (foldl (\<lambda>r c. deriv c r) r s)"

subsection \<open>Correctness\<close>

lemma lang_seq [simp]: "lang (seq r s) = lang (Seq r s)"
  by (cases r) simp_all

lemma lang_alt [simp]: "lang (alt r s) = lang (Alt r s)"
  by (cases r; cases s) auto

lemma Nil_in_pow_lang: "[] \<in> pow_lang A k \<longleftrightarrow> k = 0 \<or> [] \<in> A"
  by (induction k) auto

lemma pow_lang_Suc:
  "w \<in> pow_lang A (Suc k) \<longleftrightarrow> (\<exists>u v. w = u @ v \<and> u \<in> A \<and> v \<in> pow_lang A k)"
  by auto

lemma nullable_iff: "nullable r \<longleftrightarrow> [] \<in> lang r"
proof (induction r)
  case (Star r)
  have "[] \<in> pow_lang (lang r) 0" by simp
  then show ?case by (simp del: pow_lang.simps) blast
next
  case (Rep r m n)
  then show ?case by (auto simp: Nil_in_pow_lang)
qed auto

lemma pow_lang_step:
  "c # s \<in> pow_lang A (Suc k) \<longleftrightarrow> (\<exists>u v. s = u @ v \<and> c # u \<in> A \<and> v \<in> pow_lang A k)"
proof
  show "c # s \<in> pow_lang A (Suc k) \<Longrightarrow> \<exists>u v. s = u @ v \<and> c # u \<in> A \<and> v \<in> pow_lang A k"
  proof (induction k)
    case 0
    then show ?case by auto
  next
    case (Suc k)
    from Suc.prems obtain u v where uv: "c # s = u @ v" "u \<in> A" "v \<in> pow_lang A (Suc k)"
      unfolding pow_lang_Suc [of _ A "Suc k"] by blast
    show ?case
    proof (cases u)
      case Nil
      with uv have "c # s \<in> pow_lang A (Suc k)" by simp
      from Suc.IH [OF this] obtain u' v' where
        s: "s = u' @ v'" "c # u' \<in> A" and v': "v' \<in> pow_lang A k" by blast
      from v' Nil uv(2) have "v' \<in> pow_lang A (Suc k)"
        by (auto intro: exI [of _ "[]"])
      with s show ?thesis by blast
    next
      case (Cons d u')
      with uv show ?thesis by auto
    qed
  qed
qed (auto, metis append_Cons)

lemma lang_deriv: "s \<in> lang (deriv c r) \<longleftrightarrow> c # s \<in> lang r"
proof (induction r arbitrary: s)
  case (Seq r1 r2)
  have "c # s \<in> lang (Seq r1 r2) \<longleftrightarrow>
      (\<exists>u v. s = u @ v \<and> c # u \<in> lang r1 \<and> v \<in> lang r2) \<or> ([] \<in> lang r1 \<and> c # s \<in> lang r2)"
    by (auto simp: Cons_eq_append_conv)
  with Seq show ?case by (auto simp: nullable_iff)
next
  case (Star r)
  have "c # s \<in> (\<Union>k. pow_lang (lang r) k) \<longleftrightarrow> (\<exists>k. c # s \<in> pow_lang (lang r) (Suc k))"
  proof
    assume "c # s \<in> (\<Union>k. pow_lang (lang r) k)"
    then obtain k where k: "c # s \<in> pow_lang (lang r) k" by blast
    then obtain j where "k = Suc j" by (cases k) auto
    with k show "\<exists>k. c # s \<in> pow_lang (lang r) (Suc k)" by blast
  qed blast
  also have "\<dots> \<longleftrightarrow> s \<in> lang (deriv c (Star r))"
    unfolding pow_lang_step using Star by auto
  finally show ?case by simp
next
  case (Rep r m n)
  have "c # s \<in> lang (Rep r m n) \<longleftrightarrow> (\<exists>k \<in> {m..n}. \<exists>j. k = Suc j \<and> c # s \<in> pow_lang (lang r) k)"
  proof -
    have "c # s \<in> pow_lang (lang r) k \<longleftrightarrow> (\<exists>j. k = Suc j \<and> c # s \<in> pow_lang (lang r) k)" for k
      by (cases k) auto
    then show ?thesis by simp
  qed
  also have "\<dots> \<longleftrightarrow> n \<noteq> 0 \<and> m \<le> n \<and> (\<exists>j \<in> {m - 1..n - 1}. c # s \<in> pow_lang (lang r) (Suc j))"
  proof
    assume "\<exists>k \<in> {m..n}. \<exists>j. k = Suc j \<and> c # s \<in> pow_lang (lang r) k"
    then obtain k j where "k \<in> {m..n}" "k = Suc j" "c # s \<in> pow_lang (lang r) k"
      by blast
    then have "m \<le> Suc j" "Suc j \<le> n" "c # s \<in> pow_lang (lang r) (Suc j)"
      by simp_all
    then show "n \<noteq> 0 \<and> m \<le> n \<and> (\<exists>j \<in> {m - 1..n - 1}. c # s \<in> pow_lang (lang r) (Suc j))"
      by (intro conjI bexI [of _ j]) auto
  next
    assume "n \<noteq> 0 \<and> m \<le> n \<and> (\<exists>j \<in> {m - 1..n - 1}. c # s \<in> pow_lang (lang r) (Suc j))"
    then obtain j where "n \<noteq> 0" "m - 1 \<le> j" "j \<le> n - 1" "c # s \<in> pow_lang (lang r) (Suc j)"
      by (auto simp del: pow_lang.simps)
    then show "\<exists>k \<in> {m..n}. \<exists>j. k = Suc j \<and> c # s \<in> pow_lang (lang r) k"
      by (intro bexI [of _ "Suc j"]) auto
  qed
  also have "\<dots> \<longleftrightarrow> s \<in> lang (deriv c (Rep r m n))"
    unfolding pow_lang_step using Rep by auto
  finally show ?case by simp
qed auto

theorem MatchString_iff: "MatchString r s \<longleftrightarrow> s \<in> lang r"
proof -
  have "nullable (foldl (\<lambda>r c. deriv c r) r s) \<longleftrightarrow> s \<in> lang r"
    by (induction s arbitrary: r) (simp_all add: nullable_iff lang_deriv)
  then show ?thesis by (simp add: MatchString_def)
qed

section \<open>Shapes of the validators' expressions\<close>

lemma lang_SeqI: "u \<in> lang r \<Longrightarrow> v \<in> lang s \<Longrightarrow> u @ v \<in> lang (Seq r s)"
  by auto

lemma lang_SeqE:
  assumes "w \<in> lang (Seq r s)"
  obtains u v where "w = u @ v" "u \<in> lang r" "v \<in> lang s"
  using assms by auto

lemma lang_Seq_Cls: "w \<in> lang (Seq (Cls P) r) \<longleftrightarrow> (\<exists>c t. w = c # t \<and> P c \<and> t \<in> lang r)"
proof
  assume "\<exists>c t. w = c # t \<and> P c \<and> t \<in> lang r"
  then obtain c t where "w = [c] @ t" "[c] \<in> lang (Cls P)" "t \<in> lang r" by auto
  then show "w \<in> lang (Seq (Cls P) r)" by (auto simp del: append.simps)
qed auto

lemma pow_lang_Cls: "s \<in> pow_lang (lang (Cls P)) k \<longleftrightarrow> length s = k \<and> list_all P s"
proof (induction k arbitrary: s)
  case (Suc k)
  have "s \<in> pow_lang (lang (Cls P)) (Suc k) \<longleftrightarrow>
      (\<exists>c v. s = c # v \<and> P c \<and> v \<in> pow_lang (lang (Cls P)) k)"
  proof
    assume "s \<in> pow_lang (lang (Cls P)) (Suc k)"
    then obtain u v where "s = u @ v" "u \<in> lang (Cls P)" "v \<in> pow_lang (lang (Cls P)) k"
      unfolding pow_lang_Suc by blast
    moreover from this(2) obtain c where "u = [c]" "P c" by auto
    ultimately show "\<exists>c v. s = c # v \<and> P c \<and> v \<in> pow_lang (lang (Cls P)) k" by auto
  next
    assume "\<exists>c v. s = c # v \<and> P c \<and> v \<in> pow_lang (lang (Cls P)) k"
    then obtain c v where "s = [c] @ v" "[c] \<in> lang (Cls P)" "v \<in> pow_lang (lang (Cls P)) k"
      by auto
    then show "s \<in> pow_lang (lang (Cls P)) (Suc k)" unfolding pow_lang_Suc by blast
  qed
  with Suc show ?case by (cases s) (auto simp del: pow_lang.simps lang.simps)
qed auto

lemma lang_Star_Cls: "s \<in> lang (Star (Cls P)) \<longleftrightarrow> list_all P s"
  unfolding lang.simps(6) UN_iff pow_lang_Cls by simp

lemma lang_Plus_Cls: "s \<in> lang (Plus (Cls P)) \<longleftrightarrow> s \<noteq> [] \<and> list_all P s"
proof (cases s)
  case (Cons c cs)
  have "s \<in> lang (Plus (Cls P)) \<longleftrightarrow> P c \<and> cs \<in> lang (Star (Cls P))"
  proof
    assume "s \<in> lang (Plus (Cls P))"
    then obtain u v where uv: "s = u @ v" "u \<in> lang (Cls P)" "v \<in> lang (Star (Cls P))"
      by (rule lang_SeqE)
    then obtain d where "u = [d]" "P d" by auto
    with uv Cons show "P c \<and> cs \<in> lang (Star (Cls P))" by simp
  next
    assume "P c \<and> cs \<in> lang (Star (Cls P))"
    then have "[c] @ cs \<in> lang (Plus (Cls P))" by (intro lang_SeqI) auto
    with Cons show "s \<in> lang (Plus (Cls P))" by simp
  qed
  with Cons show ?thesis by (simp only: lang_Star_Cls) simp
qed auto

lemma lang_Rep_Cls:
  "s \<in> lang (Rep (Cls P) m n) \<longleftrightarrow> m \<le> length s \<and> length s \<le> n \<and> list_all P s"
  unfolding lang.simps(7) UN_iff pow_lang_Cls by auto

lemma lang_Lit: "lang (Lit w) = {w}"
  by (induction w) auto

text \<open>Every byte of an accepted string belongs to a class of the expression.\<close>

primrec re_chars :: "rexp \<Rightarrow> char \<Rightarrow> bool" where
  "re_chars Empty c = False"
| "re_chars Eps c = False"
| "re_chars (Cls P) c = P c"
| "re_chars (Seq r s) c = (re_chars r c \<or> re_chars s c)"
| "re_chars (Alt r s) c = (re_chars r c \<or> re_chars s c)"
| "re_chars (Star r) c = re_chars r c"
| "re_chars (Rep r m n) c = re_chars r c"

lemma pow_lang_chars: "s \<in> pow_lang A k \<Longrightarrow> c \<in> set s \<Longrightarrow> \<exists>w \<in> A. c \<in> set w"
  by (induction k arbitrary: s) auto

lemma lang_chars: "s \<in> lang r \<Longrightarrow> c \<in> set s \<Longrightarrow> re_chars r c"
proof (induction r arbitrary: s)
  case (Seq r1 r2)
  then show ?case by (auto dest: Seq.IH)
next
  case (Star r)
  then obtain k where "s \<in> pow_lang (lang r) k" by auto
  with Star obtain w where "w \<in> lang r" "c \<in> set w" using pow_lang_chars by blast
  with Star show ?case by simp
next
  case (Rep r m n)
  then obtain k where "s \<in> pow_lang (lang r) k" by auto
  with Rep obtain w where "w \<in> lang r" "c \<in> set w" using pow_lang_chars by blast
  with Rep show ?case by simp
qed auto

lemma MatchString_chars: "MatchString r s \<Longrightarrow> list_all (re_chars r) s"
  by (auto simp: MatchString_iff list_all_iff intro: lang_chars)

section \<open>Character classes\<close>

definition alnum :: "char \<Rightarrow> bool" where
  "alnum c \<longleftrightarrow> is_lower c \<or> is_upper c \<or> is_digit c"

definition lower_alnum :: "char \<Rightarrow> bool" where
  "lower_alnum c \<longleftrightarrow> is_lower c \<or> is_digit c"

end
