(* ===== verification/Nak_Net.thy ===== *)
theory Nak_Net
  imports Nak_Prelude
begin

text \<open>
  The address parsers of Go's \<open>net\<close> package that the validators call: \<open>net.ParseIP\<close>, \<open>IP.To4\<close>
  and \<open>net.ParseCIDR\<close>, over \<open>netip.ParseAddr\<close>. Addresses are lists of byte values. A zone
  (\<open>%eth0\<close>) is refused by both entry points, so a string with a percent sign has no address.
  The parser of IPv6 groups runs at most eight rounds because each round stores two of the
  sixteen bytes; its counter is the number of groups still free.
\<close>

section \<open>IPv4\<close>

definition parse_octet :: "string \<Rightarrow> nat option" where
  "parse_octet s =
     (if s \<noteq> [] \<and> list_all is_digit s \<and> (length s = 1 \<or> hd s \<noteq> CHR ''0'') \<and> dec_value s \<le> 255
      then Some (dec_value s) else None)"

definition parse_ipv4 :: "string \<Rightarrow> nat list option" where
  "parse_ipv4 s =
     (let fields = map parse_octet (Split s CHR ''.'')
      in if length fields = 4 \<and> list_all (\<lambda>f. f \<noteq> None) fields
         then Some (map the fields) else None)"

section \<open>IPv6\<close>

definition is_hex :: "char \<Rightarrow> bool" where
  "is_hex c \<longleftrightarrow> is_digit c \<or> (97 \<le> byte c \<and> byte c \<le> 102) \<or> (65 \<le> byte c \<and> byte c \<le> 70)"

definition hex_digit :: "char \<Rightarrow> nat" where
  "hex_digit c = (if is_digit c then byte c - 48 else if is_lower c then byte c - 87 else byte c - 55)"

definition hex_value :: "string \<Rightarrow> nat" where
  "hex_value s = foldl (\<lambda>acc c. 16 * acc + hex_digit c) 0 s"

fun v6_groups ::
  "nat \<Rightarrow> string \<Rightarrow> nat list \<Rightarrow> nat option \<Rightarrow> (nat list \<times> nat option \<times> string) option" where
  "v6_groups 0 s ip ellipsis = Some (ip, ellipsis, s)"
| "v6_groups (Suc free) s ip ellipsis =
     (let hs = takeWhile is_hex s; rest = dropWhile is_hex s;
          ip' = ip @ [hex_value hs div 256, hex_value hs mod 256]
      in if hs = [] \<or> 4 < length hs then None
         else (case rest of
             [] \<Rightarrow> Some (ip', ellipsis, [])
           | c # t \<Rightarrow>
               if c = CHR ''.'' then
                 (if (ellipsis = None \<and> length ip \<noteq> 12) \<or> 16 < length ip + 4 then None
                  else (case parse_ipv4 s of None \<Rightarrow> None | Some b \<Rightarrow> Some (ip @ b, ellipsis, [])))
               else if c \<noteq> CHR '':'' \<or> t = [] then None
               else if hd t = CHR '':'' then
                 (if ellipsis \<noteq> None then None
                  else if tl t = [] then Some (ip', Some (length ip'), [])
                  else v6_groups free (tl t) ip' (Some (length ip')))
               else v6_groups free t ip' ellipsis))"

definition expand_ellipsis :: "nat list \<Rightarrow> nat option \<Rightarrow> nat list option" where
  "expand_ellipsis ip ellipsis =
     (case ellipsis of
        None \<Rightarrow> if length ip < 16 then None else Some ip
      | Some e \<Rightarrow> if length ip < 16
                 then Some (take e ip @ replicate (16 - length ip) 0 @ drop e ip)
                 else None)"

definition parse_ipv6 :: "string \<Rightarrow> nat list option" where
  "parse_ipv6 s =
     (if s = ''::'' then Some (replicate 16 0)
      else
        let lead = HasPrefix s ''::'' in
        (case v6_groups 8 (if lead then drop 2 s else s) [] (if lead then Some 0 else None) of
           None \<Rightarrow> None
         | Some (ip, ellipsis, rest) \<Rightarrow> if rest \<noteq> [] then None else expand_ellipsis ip ellipsis))"

section \<open>Entry points\<close>

datatype addr = V4 "nat list" | V6 "nat list"

definition ParseAddr :: "string \<Rightarrow> addr option" where
  "ParseAddr s =
     (if CHR ''%'' \<in> set s then None
      else (case find (\<lambda>c. c = CHR ''.'' \<or> c = CHR '':'') s of
          None \<Rightarrow> None
        | Some c \<Rightarrow> if c = CHR ''.'' then map_option V4 (parse_ipv4 s)
                   else map_option V6 (parse_ipv6 s)))"

fun As16 :: "addr \<Rightarrow> nat list" where
  "As16 (V4 b) = replicate 10 0 @ [255, 255] @ b"
| "As16 (V6 b) = b"

fun BitLen :: "addr \<Rightarrow> nat" where
  "BitLen (V4 b) = 32"
| "BitLen (V6 b) = 128"

definition ParseIP :: "string \<Rightarrow> nat list option" where
  "ParseIP s = map_option As16 (ParseAddr s)"

definition To4 :: "nat list \<Rightarrow> nat list option" where
  "To4 ip = (if take 12 ip = replicate 10 0 @ [255, 255] then Some (drop 12 ip) else None)"

text \<open>\<open>net.ParseCIDR\<close>: the address and the prefix length, or the parse error.\<close>

definition ParseCIDR :: "string \<Rightarrow> (addr \<times> nat) option" where
  "ParseCIDR s =
     (let a = takeWhile (\<lambda>c. c \<noteq> CHR ''/'') s; rest = dropWhile (\<lambda>c. c \<noteq> CHR ''/'') s
      in (case rest of
            [] \<Rightarrow> None
          | _ # ones \<Rightarrow>
              (case ParseAddr a of
                 None \<Rightarrow> None
               | Some ip \<Rightarrow>
                   if ones \<noteq> [] \<and> list_all is_digit ones \<and> dec_value ones \<le> BitLen ip
                   then Some (ip, dec_value ones) else None)))"

section \<open>Well-formedness of parsed addresses\<close>

lemma parse_octet_bound: "parse_octet s = Some n \<Longrightarrow> n \<le> 255"
  by (auto simp: parse_octet_def split: if_splits)

lemma parse_ipv4_bytes:
  assumes "parse_ipv4 s = Some b"
  shows "length b = 4 \<and> list_all (\<lambda>x. x < 256) b"
proof -
  let ?f = "map parse_octet (Split s CHR ''.'')"
  from assms have len: "length ?f = 4" and ok: "list_all (\<lambda>f. f \<noteq> None) ?f" and b: "b = map the ?f"
    by (auto simp: parse_ipv4_def Let_def split: if_splits)
  have "list_all (\<lambda>x. x < 256) b"
    unfolding b list_all_iff
  proof
    fix x assume "x \<in> set (map the ?f)"
    then obtain p where "p \<in> set (Split s CHR ''.'')" "x = the (parse_octet p)" by auto
    with ok obtain n where "parse_octet p = Some n" "x = n" by (auto simp: list_all_iff)
    then show "x < 256" using parse_octet_bound by fastforce
  qed
  with len b show ?thesis by simp
qed

lemma hex_digit_bound: "is_hex c \<Longrightarrow> hex_digit c < 16"
  by (auto simp: is_hex_def hex_digit_def is_digit_def is_lower_def)

lemma hex_value_bound: "list_all is_hex s \<Longrightarrow> hex_value s < 16 ^ length s"
proof (induction s rule: rev_induct)
  case Nil
  then show ?case by (simp add: hex_value_def)
next
  case (snoc c s)
  then have "hex_value s + 1 \<le> 16 ^ length s" and "hex_digit c \<le> 15"
    using hex_digit_bound [of c] by auto
  moreover have "hex_value (s @ [c]) = 16 * hex_value s + hex_digit c"
    by (simp add: hex_value_def)
  ultimately show ?case by simp
qed

lemma hex_group_bytes:
  assumes "length (takeWhile is_hex s) \<le> 4"
  shows "hex_value (takeWhile is_hex s) div 256 < 256"
proof -
  have "list_all is_hex (takeWhile is_hex s)"
    by (auto simp: list_all_iff dest: set_takeWhileD)
  then have "hex_value (takeWhile is_hex s) < 16 ^ length (takeWhile is_hex s)"
    by (rule hex_value_bound)
  also have "\<dots> \<le> 16 ^ 4"
    using assms by (intro power_increasing) auto
  finally show ?thesis by simp
qed

definition v6_state_ok :: "nat \<Rightarrow> nat list \<Rightarrow> nat option \<Rightarrow> bool" where
  "v6_state_ok n ip ellipsis \<longleftrightarrow>
     length ip \<le> n \<and> list_all (\<lambda>x. x < 256) ip \<and> (\<forall>e. ellipsis = Some e \<longrightarrow> e \<le> length ip)"

lemma v6_groups_ok:
  assumes "v6_groups free s ip ellipsis = Some (ip', ellipsis', rest)"
    and "v6_state_ok (16 - 2 * free) ip ellipsis" and "free \<le> 8"
  shows "v6_state_ok 16 ip' ellipsis'"
  using assms
proof (induction free s ip ellipsis rule: v6_groups.induct)
  case (1 s ip ellipsis)
  then show ?case by (simp add: v6_state_ok_def)
next
  case (2 free s ip ellipsis)
  note [simp del] = dropWhile_eq_Nil_conv takeWhile_eq_Nil_iff
  let ?hs = "takeWhile is_hex s" and ?rest = "dropWhile is_hex s"
  let ?ip = "ip @ [hex_value ?hs div 256, hex_value ?hs mod 256]"
  have hs: "?hs \<noteq> []" "\<not> 4 < length ?hs"
    using "2.prems"(1) by (auto split: if_splits)
  have next_ok: "v6_state_ok (16 - 2 * free) ?ip ellipsis"
    "v6_state_ok (16 - 2 * free) ?ip (Some (length ?ip))"
    using "2.prems" hex_group_bytes [of s] hs by (auto simp: v6_state_ok_def)
  have le16: "v6_state_ok (16 - 2 * free) jp e \<Longrightarrow> v6_state_ok 16 jp e" for jp e
    by (auto simp: v6_state_ok_def)
  show ?case
  proof (cases ?rest)
    case Nil
    then have "ip' = ?ip" "ellipsis' = ellipsis"
      using "2.prems"(1) hs by (auto simp: Let_def split: if_splits)
    with next_ok(1) le16 show ?thesis by blast
  next
    case (Cons c t)
    show ?thesis
    proof (cases "c = CHR ''.''")
      case True
      then obtain b where "parse_ipv4 s = Some b" "ip' = ip @ b" "ellipsis' = ellipsis"
        "length ip + 4 \<le> 16"
        using "2.prems"(1) hs Cons by (auto simp: Let_def split: if_splits option.splits)
      then show ?thesis
        using parse_ipv4_bytes [of s b] "2.prems"(2) by (auto simp: v6_state_ok_def)
    next
      case False
      with "2.prems"(1) hs Cons have t: "c = CHR '':''" "t \<noteq> []"
        by (auto simp: Let_def split: if_splits)
      show ?thesis
      proof (cases "hd t = CHR '':''")
        case True
        with "2.prems"(1) hs Cons t False
        consider "ellipsis = None" "tl t = []" "ip' = ?ip" "ellipsis' = Some (length ?ip)"
          | "ellipsis = None" "tl t \<noteq> []"
            "v6_groups free (tl t) ?ip (Some (length ?ip)) = Some (ip', ellipsis', rest)"
          by (auto simp: Let_def split: if_splits)
        then show ?thesis
        proof cases
          case 1
          with next_ok(2) le16 show ?thesis by blast
        next
          case 2
          show ?thesis
            using "2.prems"(3) next_ok(2) hs
            by (intro "2.IH"(1) [OF refl refl refl _ Cons False _ True _ 2(2,3)]) (use 2 t in auto)
        qed
      next
        case hd_t: False
        with "2.prems"(1) hs Cons t False
        have "v6_groups free t ?ip ellipsis = Some (ip', ellipsis', rest)"
          by (auto simp: Let_def split: if_splits)
        then show ?thesis
          using "2.prems"(3) next_ok(1) hs
          by (intro "2.IH"(2) [OF refl refl refl _ Cons False _ hd_t]) (use t in auto)
      qed
    qed
  qed
qed

lemma parse_ipv6_bytes:
  assumes "parse_ipv6 s = Some b"
  shows "length b = 16 \<and> list_all (\<lambda>x. x < 256) b"
proof (cases "s = ''::''")
  case True
  with assms have "b = replicate 16 0" by (simp add: parse_ipv6_def)
  then show ?thesis by (simp add: list_all_iff)
next
  case False
  let ?lead = "HasPrefix s ''::''"
  from False assms obtain ip e where
    loop: "v6_groups 8 (if ?lead then drop 2 s else s) [] (if ?lead then Some 0 else None) = Some (ip, e, [])"
    and b: "expand_ellipsis ip e = Some b"
    by (auto simp: parse_ipv6_def Let_def split: option.splits if_splits)
  have "v6_state_ok 16 ip e"
    by (rule v6_groups_ok [OF loop]) (simp_all add: v6_state_ok_def)
  with b show ?thesis
    by (auto simp: expand_ellipsis_def v6_state_ok_def list_all_iff
        split: option.splits if_splits dest!: in_set_takeD in_set_dropD)
qed

lemma ParseIP_bytes: "ParseIP s = Some ip \<Longrightarrow> length ip = 16 \<and> list_all (\<lambda>x. x < 256) ip"
  using parse_ipv4_bytes parse_ipv6_bytes
  by (auto simp: ParseIP_def ParseAddr_def list_all_iff split: option.splits if_splits)

text \<open>The dotted form of four bytes parses back to them.\<close>

lemma parse_octet_nat_string: "n \<le> 255 \<Longrightarrow> parse_octet (nat_string n) = Some n"
proof -
  assume n: "n \<le> 255"
  have ne: "nat_string n \<noteq> []" by (subst nat_string.simps) simp
  have "length (nat_string n) = 1 \<or> hd (nat_string n) \<noteq> CHR ''0''"
  proof (induction n rule: nat_string.induct)
    case (1 n)
    show ?case
    proof (cases "n < 10")
      case True
      then show ?thesis by (subst (1) nat_string.simps) simp
    next
      case False
      have eq: "nat_string n = nat_string (n div 10) @ [digit_char (n mod 10)]"
        using False by (simp add: nat_string.simps [of n])
      have nz: "nat_string (n div 10) \<noteq> []" by (subst nat_string.simps) simp
      show ?thesis
      proof (cases "n div 10 < 10")
        case True
        then have "nat_string (n div 10) = [digit_char (n div 10)]"
          by (simp add: nat_string.simps [of "n div 10"])
        moreover have "digit_char (n div 10) \<noteq> CHR ''0''"
        proof
          assume "digit_char (n div 10) = CHR ''0''"
          then have "digit_value (digit_char (n div 10)) = digit_value CHR ''0''" by simp
          also have "digit_value CHR ''0'' = 0" by (simp add: digit_value_def byte_def)
          finally have "n div 10 = 0" using True by simp
          with False show False by simp
        qed
        ultimately show ?thesis using eq by simp
      next
        case ge: False
        with 1 False have "length (nat_string (n div 10)) = 1 \<or> hd (nat_string (n div 10)) \<noteq> CHR ''0''"
          by simp
        moreover have "length (nat_string (n div 10)) \<noteq> 1"
          using ge nat_string.simps [of "n div 10"] nat_string.simps [of "n div 10 div 10"] by auto
        ultimately show ?thesis using eq nz by simp
      qed
    qed
  qed
  with n ne show ?thesis
    by (simp add: parse_octet_def nat_string_digits dec_value_nat_string)
qed

lemma nat_string_no_dot: "CHR ''.'' \<notin> set (nat_string n)"
proof
  assume "CHR ''.'' \<in> set (nat_string n)"
  then have "is_digit CHR ''.''" using nat_string_digits [of n] by (auto simp: list_all_iff)
  then show False by (simp add: is_digit_def byte_def)
qed

lemma parse_ipv4_print:
  assumes "length b = 4" and "list_all (\<lambda>x. x \<le> 255) b"
  shows "parse_ipv4 (Join (map nat_string b) ''.'') = Some b"
proof -
  have "Split (Join (map nat_string b) ''.'') CHR ''.'' = map nat_string b"
    using assms(1) by (intro Split_Join) (auto simp: nat_string_no_dot)
  moreover have "map parse_octet (map nat_string b) = map Some b"
    using assms(2) by (induction b) (auto simp: parse_octet_nat_string)
  ultimately show ?thesis
    using assms(1) by (simp only: parse_ipv4_def Let_def) (simp add: list_all_iff comp_def)
qed

end
