(* ===== verification/Policy.thy ===== *)
theory Policy
  imports Hosting_Policy Nak_Regex Nak_Net
begin

text \<open>
  \<open>internal/control/policy/policy.go\<close>, first half: validation of a hosting policy, the schema
  upgrade of stored snapshots and the default policy of legacy entitlements.
  The lemmas characterise the accepted policies, show that the upgrade is idempotent, keeps
  stored values and keeps validity, and that a default policy is valid exactly when its inputs are.
\<close>

section \<open>Statistics engine\<close>

definition StatisticsEngine :: "LogsPreset \<Rightarrow> string" where
  "StatisticsEngine logs =
     (if Logs_StatisticsEngine logs \<noteq> [] then Logs_StatisticsEngine logs
      else if Logs_StatisticsEnabled logs then ''goaccess''
      else ''disabled'')"

definition NormalizeLogs :: "LogsPreset \<Rightarrow> LogsPreset" where
  "NormalizeLogs logs =
     (let engine = StatisticsEngine logs
      in logs\<lparr>Logs_StatisticsEngine := engine, Logs_StatisticsEnabled := (engine = ''goaccess'')\<rparr>)"

lemma StatisticsEngine_nonempty [simp]: "StatisticsEngine logs \<noteq> []"
  by (simp add: StatisticsEngine_def)

lemma StatisticsEngine_NormalizeLogs [simp]:
  "StatisticsEngine (NormalizeLogs logs) = StatisticsEngine logs"
  by (simp add: NormalizeLogs_def StatisticsEngine_def)

lemma NormalizeLogs_idem [simp]: "NormalizeLogs (NormalizeLogs logs) = NormalizeLogs logs"
  by (simp add: NormalizeLogs_def StatisticsEngine_def)

section \<open>Validation\<close>

definition phpVersionRE :: rexp where
  "phpVersionRE = Seq (Plus (Cls is_digit)) (Seq (Chr CHR ''.'') (Plus (Cls is_digit)))"

definition file_char :: "char \<Rightarrow> bool" where
  "file_char c \<longleftrightarrow> alnum c \<or> c \<in> set ''._-''"

definition nginxFileListRE :: rexp where
  "nginxFileListRE =
     Seq (Plus (Cls file_char)) (Star (Seq (Chr CHR '' '') (Plus (Cls file_char))))"

definition relativeWebPathRE :: rexp where
  "relativeWebPathRE =
     Seq (Opt (Chr CHR ''/'')) (Star (Cls (\<lambda>c. alnum c \<or> c \<in> set ''._/-'')))"

datatype policy_error =
    UnsupportedSchemaVersion int
  | UnsupportedStatisticsEngine string
  | LimitBelowMinusOne "string list"
  | NegativeSetting "string list"
  | DefaultPHPNotAllowed
  | UnsupportedPHPVersion string
  | UnsupportedFPMMode string
  | UnsupportedHeaderPreset string
  | InvalidAccessCIDR string
  | InvalidIndexFiles
  | InvalidErrorDocument string
  | UnsupportedEvictionPolicy string
  | UnsupportedDMARCPolicy string
  | UnsupportedDNSMode string
  | UnsupportedShellMode string
  | UnsupportedRuntime string
  | InvalidRegistry string

text \<open>The two maps that \<open>Validate\<close> ranges over, as their entries.\<close>

definition limit_entries :: "HostingPolicy \<Rightarrow> (string \<times> int) list" where
  "limit_entries p =
     (let r = HP_Resources p; php = HP_PHP p in
     [(''disk_mb'', Res_DiskMB r), (''traffic_mb'', Res_TrafficMB r),
      (''cpu_percent'', Res_CPUPercent r), (''memory_mb'', Res_MemoryMB r),
      (''io_read_mbps'', Res_IOReadMBPS r), (''io_write_mbps'', Res_IOWriteMBPS r),
      (''max_tasks'', Res_MaxTasks r), (''max_sites'', Res_MaxSites r),
      (''max_databases'', Res_MaxDatabases r), (''max_database_users'', Res_MaxDatabaseUsers r),
      (''max_mailboxes'', Res_MaxMailboxes r), (''max_mail_aliases'', Res_MaxMailAliases r),
      (''max_sftp_identities'', Res_MaxSFTPIdentities r),
      (''max_scheduled_tasks'', Res_MaxScheduledTasks r),
      (''max_backups'', Res_MaxBackups r), (''backup_storage_mb'', Res_BackupStorageMB r),
      (''max_applications'', Res_MaxApplications r),
      (''container_storage_mb'', Res_ContainerStorageMB r),
      (''max_ftp_accounts'', Res_MaxFTPAccounts r), (''valkey_memory_mb'', Res_ValkeyMemoryMB r),
      (''max_php_workers'', Res_MaxPHPWorkers r), (''max_php_releases'', Res_MaxPHPReleases r),
      (''max_wordpress_sites'', Res_MaxWordPressSites r),
      (''fpm_max_children'', PHP_FPMMaxChildren php), (''fpm_max_requests'', PHP_FPMMaxRequests php),
      (''php_memory_limit_mb'', PHP_MemoryLimitMB php),
      (''mailbox_quota_mb'', Mail_MailboxQuotaMB (HP_Mail p)),
      (''backup_retention_days'', Backup_RetentionDays (HP_Backups p)),
      (''opcache_memory_mb'', PHP_OPcacheMemoryMB php),
      (''valkey_policy_memory_mb'', Valkey_MemoryMB (HP_Valkey p))])"

definition setting_entries :: "HostingPolicy \<Rightarrow> (string \<times> int) list" where
  "setting_entries p =
     (let w = HP_Web p; php = HP_PHP p; v = HP_Valkey p in
     [(''request_rate_per_second'', Web_RequestRatePerSecond w),
      (''request_burst'', Web_RequestBurst w), (''max_connections'', Web_MaxConnections w),
      (''max_execution_seconds'', PHP_MaxExecutionSeconds php),
      (''max_input_seconds'', PHP_MaxInputSeconds php), (''post_max_mb'', PHP_PostMaxMB php),
      (''upload_max_mb'', PHP_UploadMaxMB php), (''dns_default_ttl'', DNS_DefaultTTL (HP_DNS p)),
      (''ssh_idle_timeout_minutes'', Access_SSHIdleTimeoutMins (HP_Access p)),
      (''request_body_limit_mb'', Web_RequestBodyLimitMB w),
      (''cache_ttl_seconds'', Web_CacheTTLSeconds w),
      (''rate_limit_per_second'', Web_RateLimitPerSecond w),
      (''rate_limit_burst'', Web_RateLimitBurst w),
      (''connect_timeout_seconds'', Web_ConnectTimeoutSecs w),
      (''read_timeout_seconds'', Web_ReadTimeoutSecs w),
      (''fpm_idle_timeout_seconds'', PHP_FPMIdleTimeoutSecs php),
      (''request_terminate_timeout_seconds'', PHP_RequestTerminateSecs php),
      (''valkey_max_clients'', Valkey_MaxClients v),
      (''valkey_idle_timeout_seconds'', Valkey_IdleTimeoutSeconds v),
      (''valkey_cpu_percent'', Valkey_CPUPercent v),
      (''valkey_process_limit'', Valkey_ProcessLimit v)])"

definition Validate :: "HostingPolicy \<Rightarrow> policy_error option" where
  "Validate p =
     (let php = HP_PHP p; w = HP_Web p; apps = HP_Applications p;
          below = violators (\<lambda>v. v < -1) (limit_entries p);
          negative = violators (\<lambda>v. v < 0) (setting_entries p) in
      first_error
       [fail_if (HP_SchemaVersion p < 1 \<or> HP_SchemaVersion p > 5)
          (UnsupportedSchemaVersion (HP_SchemaVersion p)),
        fail_if (StatisticsEngine (HP_Logs p) \<notin> {''disabled'', ''goaccess''})
          (UnsupportedStatisticsEngine (StatisticsEngine (HP_Logs p))),
        fail_if (below \<noteq> []) (LimitBelowMinusOne below),
        fail_if (negative \<noteq> []) (NegativeSetting negative),
        fail_if (PHP_DefaultVersion php \<noteq> [] \<and>
            PHP_DefaultVersion php \<notin> set (PHP_AllowedVersions php)) DefaultPHPNotAllowed,
        map_option UnsupportedPHPVersion
          (find (\<lambda>v. \<not> MatchString phpVersionRE v) (PHP_AllowedVersions php)),
        fail_if (PHP_FPMMode php \<notin> {[], ''ondemand'', ''dynamic'', ''static''})
          (UnsupportedFPMMode (PHP_FPMMode php)),
        fail_if (Web_SecurityHeaderPreset w \<notin> {[], ''off'', ''balanced'', ''strict''})
          (UnsupportedHeaderPreset (Web_SecurityHeaderPreset w)),
        map_option InvalidAccessCIDR (find (\<lambda>c. \<not> ParseCIDR c \<noteq> None) (Web_AllowedCIDRs w)),
        fail_if (Web_IndexFiles w \<noteq> [] \<and> \<not> MatchString nginxFileListRE (Web_IndexFiles w))
          InvalidIndexFiles,
        map_option InvalidErrorDocument
          (find (\<lambda>d. \<not> (d = [] \<or> MatchString relativeWebPathRE d \<and> \<not> Contains d ''..''))
            [Web_ErrorDocument404 w, Web_ErrorDocument50X w]),
        fail_if (Valkey_EvictionPolicy (HP_Valkey p) \<notin>
            {[], ''allkeys-lru'', ''allkeys-lfu'', ''volatile-lru''})
          (UnsupportedEvictionPolicy (Valkey_EvictionPolicy (HP_Valkey p))),
        fail_if (Mail_DMARCPolicy (HP_Mail p) \<notin> {[], ''none'', ''quarantine'', ''reject''})
          (UnsupportedDMARCPolicy (Mail_DMARCPolicy (HP_Mail p))),
        fail_if (DNS_Mode (HP_DNS p) \<notin> {[], ''authoritative'', ''external''})
          (UnsupportedDNSMode (DNS_Mode (HP_DNS p))),
        fail_if (Access_ShellMode (HP_Access p) \<notin> {[], ''disabled'', ''sftp'', ''nspawn''})
          (UnsupportedShellMode (Access_ShellMode (HP_Access p))),
        map_option UnsupportedRuntime
          (find (\<lambda>r. \<not> r \<in> {''php'', ''python'', ''node'', ''oci''}) (App_AllowedRuntimes apps)),
        map_option InvalidRegistry
          (find (\<lambda>r. \<not> (TrimSpace r \<noteq> [] \<and> \<not> ContainsAny r (''/ '' @ [CHR 0x5C])))
            (App_AllowedRegistries apps))])"

subsection \<open>The accepted policies\<close>

lemma Validate_None_iff:
  "Validate p = None \<longleftrightarrow>
     1 \<le> HP_SchemaVersion p \<and> HP_SchemaVersion p \<le> 5 \<and>
     StatisticsEngine (HP_Logs p) \<in> {''disabled'', ''goaccess''} \<and>
     list_all (\<lambda>(n, v). -1 \<le> v) (limit_entries p) \<and>
     list_all (\<lambda>(n, v). 0 \<le> v) (setting_entries p) \<and>
     (PHP_DefaultVersion (HP_PHP p) = [] \<or>
        PHP_DefaultVersion (HP_PHP p) \<in> set (PHP_AllowedVersions (HP_PHP p))) \<and>
     list_all (MatchString phpVersionRE) (PHP_AllowedVersions (HP_PHP p)) \<and>
     PHP_FPMMode (HP_PHP p) \<in> {[], ''ondemand'', ''dynamic'', ''static''} \<and>
     Web_SecurityHeaderPreset (HP_Web p) \<in> {[], ''off'', ''balanced'', ''strict''} \<and>
     list_all (\<lambda>c. ParseCIDR c \<noteq> None) (Web_AllowedCIDRs (HP_Web p)) \<and>
     (Web_IndexFiles (HP_Web p) = [] \<or> MatchString nginxFileListRE (Web_IndexFiles (HP_Web p))) \<and>
     list_all (\<lambda>d. d = [] \<or> MatchString relativeWebPathRE d \<and> \<not> Contains d ''..'')
       [Web_ErrorDocument404 (HP_Web p), Web_ErrorDocument50X (HP_Web p)] \<and>
     Valkey_EvictionPolicy (HP_Valkey p) \<in> {[], ''allkeys-lru'', ''allkeys-lfu'', ''volatile-lru''} \<and>
     Mail_DMARCPolicy (HP_Mail p) \<in> {[], ''none'', ''quarantine'', ''reject''} \<and>
     DNS_Mode (HP_DNS p) \<in> {[], ''authoritative'', ''external''} \<and>
     Access_ShellMode (HP_Access p) \<in> {[], ''disabled'', ''sftp'', ''nspawn''} \<and>
     list_all (\<lambda>r. r \<in> {''php'', ''python'', ''node'', ''oci''})
       (App_AllowedRuntimes (HP_Applications p)) \<and>
     list_all (\<lambda>r. TrimSpace r \<noteq> [] \<and> \<not> ContainsAny r (''/ '' @ [CHR 0x5C]))
       (App_AllowedRegistries (HP_Applications p))"
  unfolding Validate_def Let_def first_error_None list.pred_inject fail_if_None
    map_option_None_find violators_Nil
  unfolding not_not de_Morgan_disj not_less de_Morgan_conj
  by (simp only: simp_thms conj_assoc list.pred_inject(1))

section \<open>Schema upgrade of stored snapshots\<close>

definition upgrade_v1 :: "HostingPolicy \<Rightarrow> HostingPolicy" where
  "upgrade_v1 p =
     (let php = HP_PHP p; w = HP_Web p; a = HP_Access p; v = HP_Valkey p;
          php1 = (if PHP_FPMMode php = [] then php\<lparr>PHP_FPMMode := ''ondemand''\<rparr> else php);
          php2 = (if PHP_FPMIdleTimeoutSecs php1 = 0 then php1\<lparr>PHP_FPMIdleTimeoutSecs := 10\<rparr> else php1);
          php3 = (if PHP_RequestTerminateSecs php2 = 0
                  then php2\<lparr>PHP_RequestTerminateSecs := wrap64 (PHP_MaxExecutionSeconds php2 + 5)\<rparr>
                  else php2);
          w1 = (if Web_IndexFiles w = [] then w\<lparr>Web_IndexFiles := ''index.php index.html''\<rparr> else w);
          w2 = (if Web_RequestBodyLimitMB w1 = 0
                then w1\<lparr>Web_RequestBodyLimitMB := PHP_PostMaxMB php3\<rparr> else w1);
          w3 = (if Web_SecurityHeaderPreset w2 = []
                then w2\<lparr>Web_SecurityHeaderPreset := ''balanced''\<rparr> else w2);
          a1 = (if Access_FTPSPassiveStart a = 0 then a\<lparr>Access_FTPSPassiveStart := 49152\<rparr> else a);
          a2 = (if Access_FTPSPassiveEnd a1 = 0 then a1\<lparr>Access_FTPSPassiveEnd := 49252\<rparr> else a1);
          v1 = (if Valkey_EvictionPolicy v = []
                then v\<lparr>Valkey_EvictionPolicy := ''allkeys-lru''\<rparr> else v)
      in p\<lparr>HP_PHP := php3, HP_Web := w3, HP_Access := a2, HP_Valkey := v1\<rparr>)"

definition Upgrade :: "HostingPolicy \<Rightarrow> HostingPolicy" where
  "Upgrade p =
     (if HP_SchemaVersion p < 1 \<or> HP_SchemaVersion p > 5 then p
      else
        let p1 = p\<lparr>HP_Logs := NormalizeLogs (HP_Logs p)\<rparr>;
            p2 = (if HP_SchemaVersion p1 = 1 then upgrade_v1 p1 else p1)
        in p2\<lparr>HP_SchemaVersion := 5\<rparr>)"

subsection \<open>Effect of the upgrade\<close>

lemma Upgrade_idem: "Upgrade (Upgrade p) = Upgrade p"
  by (simp add: Upgrade_def upgrade_v1_def Let_def)

lemma Upgrade_unsupported:
  "HP_SchemaVersion p < 1 \<or> HP_SchemaVersion p > 5 \<Longrightarrow> Upgrade p = p"
  by (auto simp: Upgrade_def)

lemma Upgrade_schema:
  "1 \<le> HP_SchemaVersion p \<Longrightarrow> HP_SchemaVersion p \<le> 5 \<Longrightarrow> HP_SchemaVersion (Upgrade p) = 5"
  by (simp add: Upgrade_def Let_def)

lemma upgrade_v1_sections [simp]:
  "HP_SchemaVersion (upgrade_v1 p) = HP_SchemaVersion p"
  "HP_Resources (upgrade_v1 p) = HP_Resources p"
  "HP_Permissions (upgrade_v1 p) = HP_Permissions p"
  "HP_Mail (upgrade_v1 p) = HP_Mail p"
  "HP_DNS (upgrade_v1 p) = HP_DNS p"
  "HP_Backups (upgrade_v1 p) = HP_Backups p"
  "HP_Applications (upgrade_v1 p) = HP_Applications p"
  "HP_Logs (upgrade_v1 p) = HP_Logs p"
  by (simp_all add: upgrade_v1_def Let_def)

lemma upgrade_v1_php:
  "HP_PHP (upgrade_v1 p) = (HP_PHP p)
     \<lparr>PHP_FPMMode := (if PHP_FPMMode (HP_PHP p) = [] then ''ondemand'' else PHP_FPMMode (HP_PHP p)),
      PHP_FPMIdleTimeoutSecs :=
        (if PHP_FPMIdleTimeoutSecs (HP_PHP p) = 0 then 10 else PHP_FPMIdleTimeoutSecs (HP_PHP p)),
      PHP_RequestTerminateSecs :=
        (if PHP_RequestTerminateSecs (HP_PHP p) = 0
         then wrap64 (PHP_MaxExecutionSeconds (HP_PHP p) + 5)
         else PHP_RequestTerminateSecs (HP_PHP p))\<rparr>"
  by (simp add: upgrade_v1_def Let_def)

lemma upgrade_v1_web:
  "HP_Web (upgrade_v1 p) = (HP_Web p)
     \<lparr>Web_IndexFiles :=
        (if Web_IndexFiles (HP_Web p) = [] then ''index.php index.html'' else Web_IndexFiles (HP_Web p)),
      Web_RequestBodyLimitMB :=
        (if Web_RequestBodyLimitMB (HP_Web p) = 0 then PHP_PostMaxMB (HP_PHP p)
         else Web_RequestBodyLimitMB (HP_Web p)),
      Web_SecurityHeaderPreset :=
        (if Web_SecurityHeaderPreset (HP_Web p) = [] then ''balanced''
         else Web_SecurityHeaderPreset (HP_Web p))\<rparr>"
  by (simp add: upgrade_v1_def Let_def)

lemma upgrade_v1_other [simp]:
  "Valkey_EvictionPolicy (HP_Valkey (upgrade_v1 p)) =
     (if Valkey_EvictionPolicy (HP_Valkey p) = [] then ''allkeys-lru''
      else Valkey_EvictionPolicy (HP_Valkey p))"
  "Valkey_MemoryMB (HP_Valkey (upgrade_v1 p)) = Valkey_MemoryMB (HP_Valkey p)"
  "Valkey_MaxClients (HP_Valkey (upgrade_v1 p)) = Valkey_MaxClients (HP_Valkey p)"
  "Valkey_IdleTimeoutSeconds (HP_Valkey (upgrade_v1 p)) = Valkey_IdleTimeoutSeconds (HP_Valkey p)"
  "Valkey_CPUPercent (HP_Valkey (upgrade_v1 p)) = Valkey_CPUPercent (HP_Valkey p)"
  "Valkey_ProcessLimit (HP_Valkey (upgrade_v1 p)) = Valkey_ProcessLimit (HP_Valkey p)"
  "Access_ShellMode (HP_Access (upgrade_v1 p)) = Access_ShellMode (HP_Access p)"
  "Access_SSHIdleTimeoutMins (HP_Access (upgrade_v1 p)) = Access_SSHIdleTimeoutMins (HP_Access p)"
  by (simp_all add: upgrade_v1_def Let_def)

lemma Upgrade_sections [simp]:
  "HP_Resources (Upgrade p) = HP_Resources p"
  "HP_Permissions (Upgrade p) = HP_Permissions p"
  "HP_Mail (Upgrade p) = HP_Mail p"
  "HP_DNS (Upgrade p) = HP_DNS p"
  "HP_Backups (Upgrade p) = HP_Backups p"
  "HP_Applications (Upgrade p) = HP_Applications p"
  by (simp_all add: Upgrade_def Let_def)

lemma default_index_files_ok: "MatchString nginxFileListRE ''index.php index.html''"
  by code_simp

lemma Validate_normalized_logs:
  "Validate (p\<lparr>HP_Logs := NormalizeLogs (HP_Logs p)\<rparr>) = None \<longleftrightarrow> Validate p = None"
  by (simp add: Validate_None_iff limit_entries_def setting_entries_def del: insert_iff)

lemma keep_or_default: "x \<in> insert [] S \<Longrightarrow> d \<in> S \<Longrightarrow> (if x = [] then d else x) \<in> insert [] S"
  by auto

lemma Validate_upgrade_v1:
  assumes "Validate p = None" and "PHP_MaxExecutionSeconds (HP_PHP p) + 5 < 2 ^ 63"
  shows "Validate (upgrade_v1 p) = None"
proof -
  have nonneg: "0 \<le> PHP_MaxExecutionSeconds (HP_PHP p)" "0 \<le> PHP_PostMaxMB (HP_PHP p)"
    using assms(1) by (simp_all add: Validate_None_iff setting_entries_def Let_def)
  then have wrap: "wrap64 (PHP_MaxExecutionSeconds (HP_PHP p) + 5) = PHP_MaxExecutionSeconds (HP_PHP p) + 5"
    using assms(2) by (intro wrap64_id) (simp add: is_int64_def)
  have "list_all (\<lambda>(n, v). 0 \<le> v) (setting_entries (upgrade_v1 p))"
    using assms(1) nonneg
    by (simp add: Validate_None_iff setting_entries_def Let_def upgrade_v1_php upgrade_v1_web wrap)
  moreover have "list_all (\<lambda>(n, v). -1 \<le> v) (limit_entries (upgrade_v1 p))"
    using assms(1) by (simp add: Validate_None_iff limit_entries_def Let_def upgrade_v1_php)
  moreover have "Web_IndexFiles (HP_Web (upgrade_v1 p)) = [] \<or>
      MatchString nginxFileListRE (Web_IndexFiles (HP_Web (upgrade_v1 p)))"
  proof -
    have "Web_IndexFiles (HP_Web p) = [] \<or> MatchString nginxFileListRE (Web_IndexFiles (HP_Web p))"
      using assms(1) unfolding Validate_None_iff by (elim conjE)
    then show ?thesis using default_index_files_ok by (auto simp: upgrade_v1_web)
  qed
  moreover have "PHP_FPMMode (HP_PHP (upgrade_v1 p)) \<in> {[], ''ondemand'', ''dynamic'', ''static''}"
    using keep_or_default [of "PHP_FPMMode (HP_PHP p)" "{''ondemand'', ''dynamic'', ''static''}"]
      assms(1) by (simp add: Validate_None_iff upgrade_v1_php)
  moreover have "Web_SecurityHeaderPreset (HP_Web (upgrade_v1 p)) \<in>
      {[], ''off'', ''balanced'', ''strict''}"
    using keep_or_default [of "Web_SecurityHeaderPreset (HP_Web p)" "{''off'', ''balanced'', ''strict''}"]
      assms(1) by (simp add: Validate_None_iff upgrade_v1_web)
  moreover have "Valkey_EvictionPolicy (HP_Valkey (upgrade_v1 p)) \<in>
      {[], ''allkeys-lru'', ''allkeys-lfu'', ''volatile-lru''}"
    using keep_or_default [of "Valkey_EvictionPolicy (HP_Valkey p)"
        "{''allkeys-lru'', ''allkeys-lfu'', ''volatile-lru''}"]
      assms(1) by (simp add: Validate_None_iff)
  ultimately show ?thesis
    using assms(1) unfolding Validate_None_iff
    by (elim conjE, intro conjI, (assumption | simp add: upgrade_v1_php upgrade_v1_web)+)
qed

lemma Validate_Upgrade:
  assumes "Validate p = None" and "PHP_MaxExecutionSeconds (HP_PHP p) + 5 < 2 ^ 63"
  shows "Validate (Upgrade p) = None"
proof -
  let ?p1 = "p\<lparr>HP_Logs := NormalizeLogs (HP_Logs p)\<rparr>"
  have v1: "Validate ?p1 = None"
    using assms(1) by (simp add: Validate_normalized_logs)
  have v2: "Validate (upgrade_v1 ?p1) = None"
    by (rule Validate_upgrade_v1 [OF v1]) (use assms(2) in simp)
  have schema: "Validate q = None \<Longrightarrow> Validate (q\<lparr>HP_SchemaVersion := 5\<rparr>) = None" for q
    by (simp add: Validate_None_iff limit_entries_def setting_entries_def Let_def del: insert_iff)
  have "1 \<le> HP_SchemaVersion p" "HP_SchemaVersion p \<le> 5"
    using assms(1) by (simp_all add: Validate_None_iff)
  then show ?thesis
    using schema [OF v1] schema [OF v2] by (simp add: Upgrade_def Let_def)
qed

text \<open>
  Reading a stored snapshot: the upgrade of a valid policy is valid, has the current schema
  version, is a fixed point of the upgrade, and leaves every resource limit and permission as
  stored. The bound keeps the derived PHP termination timeout inside a 64-bit integer.
\<close>

theorem Upgrade_migrates:
  assumes "Validate p = None" and "PHP_MaxExecutionSeconds (HP_PHP p) + 5 < 2 ^ 63"
  shows "Validate (Upgrade p) = None \<and> HP_SchemaVersion (Upgrade p) = 5 \<and>
    Upgrade (Upgrade p) = Upgrade p \<and> HP_Resources (Upgrade p) = HP_Resources p \<and>
    HP_Permissions (Upgrade p) = HP_Permissions p"
proof -
  have "1 \<le> HP_SchemaVersion p" "HP_SchemaVersion p \<le> 5"
    using assms(1) by (simp_all add: Validate_None_iff)
  then show ?thesis
    using Validate_Upgrade [OF assms] by (simp add: Upgrade_schema Upgrade_idem)
qed

theorem Upgrade_migrates_witness:
  "let p = zero_HostingPolicy\<lparr>HP_SchemaVersion := 1\<rparr> in
     HP_SchemaVersion (Upgrade p) = 5 \<and> PHP_FPMMode (HP_PHP (Upgrade p)) = ''ondemand''"
proof -
  let ?p = "zero_HostingPolicy\<lparr>HP_SchemaVersion := 1\<rparr>"
  have "Validate ?p = None" "PHP_FPMMode (HP_PHP (Upgrade ?p)) = ''ondemand''" by code_simp+
  then show ?thesis
    using Upgrade_migrates [of ?p] by (simp add: Let_def zero_defs)
qed

section \<open>Default policy of legacy entitlements\<close>

definition default_dns_mode :: "string \<Rightarrow> string" where
  "default_dns_mode m =
     (if m = [] \<or> m = ''primary'' \<or> m = ''authoritative'' then ''authoritative''
      else if m = ''secondary'' \<or> m = ''external'' then ''external'' else m)"

definition DefaultFromEntitlements :: "SubscriptionEntitlements \<Rightarrow> HostingPolicy" where
  "DefaultFromEntitlements e =
     (let versions = filter (\<lambda>v. v \<noteq> []) (map TrimSpace (Split (Ent_PHPAllowlist e) CHR '',''));
          sp = Ent_ServicePresets e in
      \<lparr>HP_SchemaVersion = 5,
       HP_Resources = zero_HostingResourcePolicy
         \<lparr>Res_DiskMB := Ent_DiskMB e, Res_TrafficMB := Ent_BandwidthMB e,
          Res_MaxSites := Ent_MaxSites e, Res_MaxDatabases := Ent_MaxDatabases e,
          Res_MaxMailboxes := Ent_MaxMailboxes e, Res_MaxSFTPIdentities := Ent_MaxFTPAccounts e,
          Res_MaxBackups := Ent_MaxBackups e, Res_BackupStorageMB := Ent_BackupStorageMB e\<rparr>,
       HP_Permissions = zero_HostingPermissionPolicy
         \<lparr>Perm_Hosting := Ent_HostingEnabled e, Perm_SSH := Ent_AllowSSH e,
          Perm_SFTP := (Ent_MaxFTPAccounts e \<noteq> 0), Perm_DNS := Ent_AllowDNS e,
          Perm_TLS := Ent_AllowTLS e, Perm_Mail := (Ent_MaxMailboxes e \<noteq> 0),
          Perm_Databases := (Ent_MaxDatabases e \<noteq> 0), Perm_Backups := Ent_AllowBackups e,
          Perm_PHPSettings := Ent_AllowPHPSettings e\<rparr>,
       HP_Web = zero_HostingWebPolicy
         \<lparr>Web_PreferredDomain := HPre_PreferredDomain (SP_Hosting sp),
          Web_MaxConnections := PfPre_MaxConnections (SP_Performance sp),
          Web_StaticCache := PfPre_StaticFileCache (SP_Performance sp)\<rparr>,
       HP_PHP = zero_HostingPHPPolicy
         \<lparr>PHP_DefaultVersion := Ent_DefaultPHPVersion e, PHP_AllowedVersions := versions,
          PHP_FPMMaxChildren := Ent_PHPFPMMaxChildren e,
          PHP_FPMMaxRequests := PPre_FPMMaxRequests (SP_PHP sp),
          PHP_MemoryLimitMB := Ent_PHPMemoryMB e,
          PHP_MaxExecutionSeconds := PPre_MaxExecutionSeconds (SP_PHP sp),
          PHP_MaxInputSeconds := PPre_MaxInputSeconds (SP_PHP sp),
          PHP_PostMaxMB := PPre_PostMaxMB (SP_PHP sp), PHP_UploadMaxMB := PPre_UploadMaxMB (SP_PHP sp),
          PHP_DisplayErrors := PPre_DisplayErrors (SP_PHP sp), PHP_LogErrors := PPre_LogErrors (SP_PHP sp),
          PHP_AllowURLFOpen := PPre_AllowURLFOpen (SP_PHP sp)\<rparr>,
       HP_Mail = zero_HostingMailPolicy
         \<lparr>Mail_Enabled := (Ent_MaxMailboxes e \<noteq> 0), Mail_DKIM := MPre_DKIM (SP_Mail sp),
          Mail_DMARCPolicy := MPre_DMARCPolicy (SP_Mail sp),
          Mail_SpamFilter := MPre_SpamFilter (SP_Mail sp),
          Mail_Webmail := MPre_WebmailEnabled (SP_Mail sp)\<rparr>,
       HP_DNS = zero_HostingDNSPolicy
         \<lparr>DNS_Enabled := Ent_AllowDNS e, DNS_Mode := default_dns_mode (DPre_Mode (SP_DNS sp)),
          DNS_DefaultTTL := DPre_DefaultTTL (SP_DNS sp)\<rparr>,
       HP_Access = zero_HostingAccessPolicy\<lparr>Access_ShellMode := ''disabled'', Access_SFTPOnly := True\<rparr>,
       HP_Backups = zero_HostingBackupPolicy
         \<lparr>Backup_Enabled := Ent_AllowBackups e, Backup_RetentionDays := Ent_BackupRetentionDays e\<rparr>,
       HP_Applications = zero_HostingApplicationPolicy
         \<lparr>App_CatalogEnabled := APre_CatalogEnabled (SP_Applications sp),
          App_AllowedCatalogSlugs := APre_Allowed (SP_Applications sp), App_Rootless := True\<rparr>,
       HP_Valkey = zero_HostingValkeyPolicy\<lparr>Valkey_EvictionPolicy := ''allkeys-lru''\<rparr>,
       HP_Logs = NormalizeLogs (SP_Logs sp)\<rparr>)"

text \<open>The checks left for the caller: every other field of a default policy is acceptable.\<close>

definition entitlements_ok :: "SubscriptionEntitlements \<Rightarrow> bool" where
  "entitlements_ok e \<longleftrightarrow>
     (let versions = filter (\<lambda>v. v \<noteq> []) (map TrimSpace (Split (Ent_PHPAllowlist e) CHR '',''));
          sp = Ent_ServicePresets e; php = SP_PHP sp in
      StatisticsEngine (SP_Logs sp) \<in> {''disabled'', ''goaccess''} \<and>
      list_all (\<lambda>v. -1 \<le> v)
        [Ent_DiskMB e, Ent_BandwidthMB e, Ent_MaxSites e, Ent_MaxDatabases e, Ent_MaxMailboxes e,
         Ent_MaxFTPAccounts e, Ent_MaxBackups e, Ent_BackupStorageMB e, Ent_PHPFPMMaxChildren e,
         PPre_FPMMaxRequests php, Ent_PHPMemoryMB e, Ent_BackupRetentionDays e] \<and>
      list_all (\<lambda>v. 0 \<le> v)
        [PfPre_MaxConnections (SP_Performance sp), PPre_MaxExecutionSeconds php,
         PPre_MaxInputSeconds php, PPre_PostMaxMB php, PPre_UploadMaxMB php,
         DPre_DefaultTTL (SP_DNS sp)] \<and>
      (Ent_DefaultPHPVersion e = [] \<or> Ent_DefaultPHPVersion e \<in> set versions) \<and>
      list_all (MatchString phpVersionRE) versions \<and>
      MPre_DMARCPolicy (SP_Mail sp) \<in> {[], ''none'', ''quarantine'', ''reject''} \<and>
      DPre_Mode (SP_DNS sp) \<in> {[], ''primary'', ''secondary'', ''authoritative'', ''external''})"

lemma default_dns_mode_ok:
  "default_dns_mode m \<in> {[], ''authoritative'', ''external''} \<longleftrightarrow>
     m \<in> {[], ''primary'', ''secondary'', ''authoritative'', ''external''}"
  by (simp add: default_dns_mode_def)

text \<open>
  The policy derived from legacy plan entitlements is valid exactly when the entitlements pass
  the listed checks: every other field of the derived policy is acceptable by construction.
\<close>

theorem Validate_DefaultFromEntitlements:
  "Validate (DefaultFromEntitlements e) = None \<longleftrightarrow> entitlements_ok e"
  unfolding Validate_None_iff entitlements_ok_def DefaultFromEntitlements_def limit_entries_def
    setting_entries_def Let_def
  by (simp add: zero_defs default_dns_mode_ok [simplified])

end
