(* ===== verification/Policy_Within.thy ===== *)
theory Policy_Within
  imports Policy "HOL-Library.Extended_Nat"
begin

text \<open>
  \<open>internal/control/policy/policy.go\<close>, second half: the delegation checks \<open>ValidateWithin\<close> (a
  plan under its provider, a subscription under its plan) and \<open>ValidateSiteWithin\<close> (a site
  under its subscription). The locale \<open>ceiling_order\<close> is the contract of a delegation check; it is
  interpreted on each of the four comparisons of the code and on \<open>ValidateWithin\<close> itself. The
  abstract specification reads limits as extended naturals.
\<close>

section \<open>Comparisons\<close>

definition limitWithin :: "int \<Rightarrow> int \<Rightarrow> bool" where
  "limitWithin child cap =
     (if child = 0 then True
      else if cap = -1 then True
      else if child = -1 then False
      else cap > 0 \<and> child \<le> cap)"

definition boundedSettingWithin :: "int \<Rightarrow> int \<Rightarrow> bool" where
  "boundedSettingWithin child cap =
     (if child = cap then True
      else if cap = 0 then True
      else if cap < 0 \<or> child \<le> 0 then False
      else child \<le> cap)"

definition securityHeaderStrength :: "string \<Rightarrow> int" where
  "securityHeaderStrength v = (if v = ''strict'' then 2 else if v = ''balanced'' then 1 else 0)"

definition stringSubset :: "string list \<Rightarrow> string list \<Rightarrow> bool" where
  "stringSubset child cap \<longleftrightarrow> list_all (\<lambda>item. item \<in> set cap) child"

section \<open>The compared slices\<close>

definition resource_limits :: "HostingPolicy \<Rightarrow> int list" where
  "resource_limits p =
     (let r = HP_Resources p in
     [Res_DiskMB r, Res_TrafficMB r, Res_CPUPercent r, Res_MemoryMB r, Res_IOReadMBPS r,
      Res_IOWriteMBPS r, Res_MaxTasks r, Res_MaxSites r, Res_MaxDatabases r,
      Res_MaxDatabaseUsers r, Res_MaxMailboxes r, Res_MaxMailAliases r, Res_MaxSFTPIdentities r,
      Res_MaxScheduledTasks r, Res_MaxBackups r, Res_BackupStorageMB r, Res_MaxApplications r,
      Res_ContainerStorageMB r, Res_MaxFTPAccounts r, Res_ValkeyMemoryMB r, Res_MaxPHPWorkers r,
      Res_MaxPHPReleases r, Res_MaxWordPressSites r])"

definition permission_flags :: "HostingPolicy \<Rightarrow> bool list" where
  "permission_flags p =
     (let q = HP_Permissions p in
     [Perm_Hosting q, Perm_SSH q, Perm_SFTP q, Perm_ScheduledTasks q, Perm_DNS q, Perm_TLS q,
      Perm_Mail q, Perm_Databases q, Perm_Backups q, Perm_PHPSettings q, Perm_CGI q,
      Perm_Applications q, Perm_CustomOCIImages q, Perm_ApplicationEgress q, Perm_FTPS q,
      Perm_Logs q, Perm_Git q, Perm_Staging q, Perm_Valkey q, Perm_Composer q,
      Perm_ComposerCodeExecution q, Perm_ManagedPHPDeployments q, Perm_PHPWorkers q,
      Perm_WordPressToolkit q, Perm_WebStatistics q])"

definition bounded_settings :: "HostingPolicy \<Rightarrow> (string \<times> int) list" where
  "bounded_settings p =
     (let w = HP_Web p; php = HP_PHP p; v = HP_Valkey p in
     [(''request_rate_per_second'', Web_RequestRatePerSecond w),
      (''request_burst'', Web_RequestBurst w), (''max_connections'', Web_MaxConnections w),
      (''request_body_limit_mb'', Web_RequestBodyLimitMB w),
      (''cache_ttl_seconds'', Web_CacheTTLSeconds w),
      (''rate_limit_per_second'', Web_RateLimitPerSecond w),
      (''rate_limit_burst'', Web_RateLimitBurst w),
      (''connect_timeout_seconds'', Web_ConnectTimeoutSecs w),
      (''read_timeout_seconds'', Web_ReadTimeoutSecs w),
      (''fpm_max_children'', PHP_FPMMaxChildren php), (''fpm_max_requests'', PHP_FPMMaxRequests php),
      (''php_memory_limit_mb'', PHP_MemoryLimitMB php),
      (''max_execution_seconds'', PHP_MaxExecutionSeconds php),
      (''max_input_seconds'', PHP_MaxInputSeconds php), (''post_max_mb'', PHP_PostMaxMB php),
      (''upload_max_mb'', PHP_UploadMaxMB php),
      (''fpm_idle_timeout_seconds'', PHP_FPMIdleTimeoutSecs php),
      (''request_terminate_timeout_seconds'', PHP_RequestTerminateSecs php),
      (''opcache_memory_mb'', PHP_OPcacheMemoryMB php),
      (''mailbox_quota_mb'', Mail_MailboxQuotaMB (HP_Mail p)),
      (''valkey_memory_mb'', Valkey_MemoryMB v), (''valkey_max_clients'', Valkey_MaxClients v),
      (''valkey_idle_timeout_seconds'', Valkey_IdleTimeoutSeconds v),
      (''valkey_cpu_percent'', Valkey_CPUPercent v),
      (''valkey_process_limit'', Valkey_ProcessLimit v)])"

definition service_flags :: "HostingPolicy \<Rightarrow> (string \<times> bool) list" where
  "service_flags p =
     (let w = HP_Web p; php = HP_PHP p; m = HP_Mail p; d = HP_DNS p; a = HP_Applications p in
     [(''static cache'', Web_StaticCache w), (''FastCGI microcache'', Web_FastCGIMicrocache w),
      (''compression'', Web_Compression w), (''PHP error display'', PHP_DisplayErrors php),
      (''PHP error logging'', PHP_LogErrors php), (''PHP URL fopen'', PHP_AllowURLFOpen php),
      (''PHP process execution'', PHP_ExecEnabled php), (''OPcache'', PHP_OPcacheEnabled php),
      (''mail service'', Mail_Enabled m), (''mail DKIM'', Mail_DKIM m),
      (''mail webmail'', Mail_Webmail m), (''DNS service'', DNS_Enabled d),
      (''DNSSEC'', DNS_DNSSEC d), (''FTPS service'', Access_FTPSEnabled (HP_Access p)),
      (''application catalog'', App_CatalogEnabled a), (''application egress'', App_EgressEnabled a),
      (''Valkey service'', Valkey_Enabled (HP_Valkey p))])"

definition allow_lists :: "HostingPolicy \<Rightarrow> (string \<times> string list) list" where
  "allow_lists p =
     (let a = HP_Applications p in
     [(''PHP versions'', PHP_AllowedVersions (HP_PHP p)),
      (''application catalog'', App_AllowedCatalogSlugs a),
      (''application registries'', App_AllowedRegistries a),
      (''application runtimes'', App_AllowedRuntimes a)])"

text \<open>
  A table of \<open>{name, child, cap}\<close> rows, and the name of the first row whose pair fails.
\<close>

definition first_row :: "('v \<Rightarrow> 'v \<Rightarrow> bool) \<Rightarrow> (string \<times> 'v) list \<Rightarrow> (string \<times> 'v) list \<Rightarrow> string option" where
  "first_row ok child cap =
     map_option (\<lambda>((n, _), _). n) (find (\<lambda>((_, c), (_, t)). \<not> ok c t) (zip child cap))"

lemma first_row_None:
  assumes "map fst child = map fst cap"
  shows "first_row ok child cap = None \<longleftrightarrow> list_all2 ok (map snd child) (map snd cap)"
proof -
  have "length child = length cap" using assms by (metis length_map)
  then have "find (\<lambda>((_, c), (_, t)). \<not> ok c t) (zip child cap) = None \<longleftrightarrow>
      list_all2 ok (map snd child) (map snd cap)"
    by (induction child cap rule: list_induct2) auto
  then show ?thesis by (simp add: first_row_def)
qed

section \<open>Delegation\<close>

datatype within_error =
    StatisticsNotDelegated
  | ResourceLimitExceeds nat
  | PermissionNotDelegated nat
  | SettingExceeds string
  | FlagNotDelegated string
  | ListNotDelegated string
  | WeakerSecurityHeaders

definition ValidateWithin :: "HostingPolicy \<Rightarrow> HostingPolicy \<Rightarrow> within_error option" where
  "ValidateWithin child cap =
     first_error
      [fail_if (StatisticsEngine (HP_Logs child) = ''goaccess'' \<and>
          StatisticsEngine (HP_Logs cap) \<noteq> ''goaccess'') StatisticsNotDelegated,
       map_option ResourceLimitExceeds
         (first_mismatch limitWithin 0 (resource_limits child) (resource_limits cap)),
       map_option PermissionNotDelegated
         (first_mismatch (\<longrightarrow>) 0 (permission_flags child) (permission_flags cap)),
       map_option SettingExceeds
         (first_row boundedSettingWithin (bounded_settings child) (bounded_settings cap)),
       map_option FlagNotDelegated
         (first_row (\<longrightarrow>) (service_flags child) (service_flags cap)),
       map_option ListNotDelegated
         (first_row stringSubset (allow_lists child) (allow_lists cap)),
       fail_if (securityHeaderStrength (Web_SecurityHeaderPreset (HP_Web child)) <
           securityHeaderStrength (Web_SecurityHeaderPreset (HP_Web cap)))
         WeakerSecurityHeaders]"

text \<open>
  \<open>ValidateSiteWithin\<close> repeats the delegation check with \<open>provider\<close> read as \<open>subscription\<close> in the
  message (constructor \<open>SiteDelegation\<close>) and adds checks of its own.
\<close>

datatype site_within_error =
    SiteDelegation within_error
  | SiteLimitExceeds string
  | SiteExecNotEnabled
  | SiteSettingExceeds string
  | SiteURLFOpenNotEnabled
  | SiteDisplayErrorsNotEnabled
  | SiteWeakerSecurityHeaders
  | SiteReplacesCIDRs

definition site_limits :: "HostingPolicy \<Rightarrow> (string \<times> int) list" where
  "site_limits p =
     (let w = HP_Web p; php = HP_PHP p in
     [(''request_rate_per_second'', Web_RequestRatePerSecond w),
      (''request_burst'', Web_RequestBurst w), (''max_connections'', Web_MaxConnections w),
      (''fpm_max_children'', PHP_FPMMaxChildren php), (''fpm_max_requests'', PHP_FPMMaxRequests php),
      (''php_memory_limit_mb'', PHP_MemoryLimitMB php),
      (''opcache_memory_mb'', PHP_OPcacheMemoryMB php)])"

definition site_settings :: "HostingPolicy \<Rightarrow> (string \<times> int) list" where
  "site_settings p =
     (let w = HP_Web p; php = HP_PHP p in
     [(''request_body_limit_mb'', Web_RequestBodyLimitMB w),
      (''cache_ttl_seconds'', Web_CacheTTLSeconds w),
      (''connect_timeout_seconds'', Web_ConnectTimeoutSecs w),
      (''read_timeout_seconds'', Web_ReadTimeoutSecs w),
      (''fpm_idle_timeout_seconds'', PHP_FPMIdleTimeoutSecs php),
      (''request_terminate_timeout_seconds'', PHP_RequestTerminateSecs php),
      (''max_execution_seconds'', PHP_MaxExecutionSeconds php),
      (''max_input_seconds'', PHP_MaxInputSeconds php), (''post_max_mb'', PHP_PostMaxMB php),
      (''upload_max_mb'', PHP_UploadMaxMB php)])"

definition ValidateSiteWithin :: "HostingPolicy \<Rightarrow> HostingPolicy \<Rightarrow> site_within_error option" where
  "ValidateSiteWithin site sub =
     first_error
      [map_option SiteDelegation (ValidateWithin site sub),
       map_option SiteLimitExceeds (first_row limitWithin (site_limits site) (site_limits sub)),
       fail_if (PHP_ExecEnabled (HP_PHP site) \<and> \<not> PHP_ExecEnabled (HP_PHP sub)) SiteExecNotEnabled,
       map_option SiteSettingExceeds
         (first_row boundedSettingWithin (site_settings site) (site_settings sub)),
       fail_if (PHP_AllowURLFOpen (HP_PHP site) \<and> \<not> PHP_AllowURLFOpen (HP_PHP sub))
         SiteURLFOpenNotEnabled,
       fail_if (PHP_DisplayErrors (HP_PHP site) \<and> \<not> PHP_DisplayErrors (HP_PHP sub))
         SiteDisplayErrorsNotEnabled,
       fail_if (securityHeaderStrength (Web_SecurityHeaderPreset (HP_Web site)) <
           securityHeaderStrength (Web_SecurityHeaderPreset (HP_Web sub))) SiteWeakerSecurityHeaders,
       fail_if (Web_AllowedCIDRs (HP_Web sub) \<noteq> [] \<and>
           Web_AllowedCIDRs (HP_Web site) \<noteq> Web_AllowedCIDRs (HP_Web sub)) SiteReplacesCIDRs]"

section \<open>Acceptance\<close>

lemma within_lengths [simp]:
  "length (resource_limits p) = length (resource_limits q)"
  "length (permission_flags p) = length (permission_flags q)"
  "map fst (bounded_settings p) = map fst (bounded_settings q)"
  "map fst (service_flags p) = map fst (service_flags q)"
  "map fst (allow_lists p) = map fst (allow_lists q)"
  "map fst (site_limits p) = map fst (site_limits q)"
  "map fst (site_settings p) = map fst (site_settings q)"
  by (simp_all add: resource_limits_def permission_flags_def bounded_settings_def service_flags_def
      allow_lists_def site_limits_def site_settings_def Let_def)

lemma ValidateWithin_None_iff:
  "ValidateWithin child cap = None \<longleftrightarrow>
     (StatisticsEngine (HP_Logs child) = ''goaccess'' \<longrightarrow>
        StatisticsEngine (HP_Logs cap) = ''goaccess'') \<and>
     list_all2 limitWithin (resource_limits child) (resource_limits cap) \<and>
     list_all2 (\<longrightarrow>) (permission_flags child) (permission_flags cap) \<and>
     list_all2 boundedSettingWithin (map snd (bounded_settings child)) (map snd (bounded_settings cap)) \<and>
     list_all2 (\<longrightarrow>) (map snd (service_flags child)) (map snd (service_flags cap)) \<and>
     list_all2 stringSubset (map snd (allow_lists child)) (map snd (allow_lists cap)) \<and>
     securityHeaderStrength (Web_SecurityHeaderPreset (HP_Web cap)) \<le>
       securityHeaderStrength (Web_SecurityHeaderPreset (HP_Web child))"
  unfolding ValidateWithin_def first_error_None list.pred_inject fail_if_None option.map_disc_iff
    first_mismatch_None [OF within_lengths(1)] first_mismatch_None [OF within_lengths(2)]
    first_row_None [OF within_lengths(3)] first_row_None [OF within_lengths(4)]
    first_row_None [OF within_lengths(5)]
  by auto

lemma ValidateSiteWithin_None_iff:
  "ValidateSiteWithin site sub = None \<longleftrightarrow>
     ValidateWithin site sub = None \<and>
     list_all2 limitWithin (map snd (site_limits site)) (map snd (site_limits sub)) \<and>
     (Web_AllowedCIDRs (HP_Web sub) \<noteq> [] \<longrightarrow>
        Web_AllowedCIDRs (HP_Web site) = Web_AllowedCIDRs (HP_Web sub))"
proof -
  have "ValidateWithin site sub = None \<Longrightarrow>
      first_row boundedSettingWithin (site_settings site) (site_settings sub) = None \<and>
      (PHP_ExecEnabled (HP_PHP site) \<longrightarrow> PHP_ExecEnabled (HP_PHP sub)) \<and>
      (PHP_AllowURLFOpen (HP_PHP site) \<longrightarrow> PHP_AllowURLFOpen (HP_PHP sub)) \<and>
      (PHP_DisplayErrors (HP_PHP site) \<longrightarrow> PHP_DisplayErrors (HP_PHP sub)) \<and>
      \<not> securityHeaderStrength (Web_SecurityHeaderPreset (HP_Web site)) <
        securityHeaderStrength (Web_SecurityHeaderPreset (HP_Web sub))"
    unfolding ValidateWithin_None_iff first_row_None [OF within_lengths(7)]
    by (simp add: bounded_settings_def site_settings_def service_flags_def Let_def)
  then show ?thesis
    unfolding ValidateSiteWithin_def first_error_None list.pred_inject fail_if_None
      option.map_disc_iff first_row_None [OF within_lengths(6)]
    by auto
qed

section \<open>Ceilings as an order\<close>

locale ceiling_order =
  fixes below :: "'a \<Rightarrow> 'a \<Rightarrow> bool" and ok :: "'a \<Rightarrow> bool"
  assumes below_refl: "ok x \<Longrightarrow> below x x"
    and below_trans: "below x y \<Longrightarrow> below y z \<Longrightarrow> below x z"
begin

text \<open>A chain of delegations, the most delegated value first.\<close>

lemma chain_within:
  assumes "successively below (x # xs)" and "ok x"
  shows "below x (last (x # xs))"
  using assms
proof (induction xs rule: rev_induct)
  case Nil
  then show ?case by (simp add: below_refl)
next
  case (snoc z zs)
  then have "below x (last (x # zs))"
    by (cases zs) (auto simp: successively_append_iff successively_Cons below_refl)
  moreover have "below (last (x # zs)) z"
    using snoc.prems by (cases zs rule: rev_cases) (auto simp: successively_append_iff successively_Cons)
  ultimately show ?case by (auto intro: below_trans)
qed

lemma pointwise_trans:
  "list_all2 below xs ys \<Longrightarrow> list_all2 below ys zs \<Longrightarrow> list_all2 below xs zs"
  by (rule list_all2_trans [OF below_trans])

lemma pointwise_refl: "list_all ok xs \<Longrightarrow> list_all2 below xs xs"
  by (induction xs) (auto intro: below_refl)

end

interpretation limit_ceiling: ceiling_order limitWithin "\<lambda>l. -1 \<le> l"
  by unfold_locales (auto simp: limitWithin_def split: if_splits)

interpretation setting_ceiling: ceiling_order boundedSettingWithin "\<lambda>_. True"
  by unfold_locales (auto simp: boundedSettingWithin_def split: if_splits)

interpretation flag_ceiling: ceiling_order "(\<longrightarrow>)" "\<lambda>_. True"
  by unfold_locales auto

interpretation list_ceiling: ceiling_order stringSubset "\<lambda>_. True"
  by unfold_locales (auto simp: stringSubset_def list_all_iff)

abbreviation policy_within :: "HostingPolicy \<Rightarrow> HostingPolicy \<Rightarrow> bool" where
  "policy_within child cap \<equiv> ValidateWithin child cap = None"

lemma resource_limits_ok: "Validate p = None \<Longrightarrow> list_all (\<lambda>l. -1 \<le> l) (resource_limits p)"
  unfolding Validate_None_iff by (simp add: limit_entries_def resource_limits_def Let_def)

interpretation policy_ceiling: ceiling_order policy_within "\<lambda>p. Validate p = None"
proof unfold_locales
  fix p assume "Validate p = None"
  then show "policy_within p p"
    unfolding ValidateWithin_None_iff
    using limit_ceiling.pointwise_refl [OF resource_limits_ok]
    by (auto intro!: flag_ceiling.pointwise_refl setting_ceiling.pointwise_refl
        list_ceiling.pointwise_refl simp: list_all_iff)
next
  fix p q r assume "policy_within p q" and "policy_within q r"
  then show "policy_within p r"
    unfolding ValidateWithin_None_iff
    by (auto intro: limit_ceiling.pointwise_trans flag_ceiling.pointwise_trans
        setting_ceiling.pointwise_trans list_ceiling.pointwise_trans)
qed

section \<open>Policies as sets of grants\<close>

text \<open>
  The abstract reading of a policy: what it allows a tenant to do. A limit of \<open>-1\<close> is unlimited, an
  operational setting of \<open>0\<close> leaves the setting to the provider default, and a header preset allows
  every response at least as strict. Delegation is inclusion of grants.
\<close>

datatype grant =
    Amount nat nat
  | Setting nat nat
  | Permission nat
  | Service nat
  | Listed nat string
  | HeadersAt nat
  | Statistics

definition limit_value :: "int \<Rightarrow> enat" where
  "limit_value l = (if l = -1 then \<infinity> else enat (nat l))"

definition setting_value :: "int \<Rightarrow> enat" where
  "setting_value s = (if s = 0 then \<infinity> else enat (nat s))"

fun granted :: "HostingPolicy \<Rightarrow> grant \<Rightarrow> bool" where
  "granted p (Amount i n) \<longleftrightarrow>
     i < length (resource_limits p) \<and> enat n \<le> limit_value (resource_limits p ! i)"
| "granted p (Setting i n) \<longleftrightarrow>
     i < length (bounded_settings p) \<and> enat n \<le> setting_value (map snd (bounded_settings p) ! i)"
| "granted p (Permission i) \<longleftrightarrow> i < length (permission_flags p) \<and> permission_flags p ! i"
| "granted p (Service i) \<longleftrightarrow> i < length (service_flags p) \<and> map snd (service_flags p) ! i"
| "granted p (Listed i v) \<longleftrightarrow> i < length (allow_lists p) \<and> v \<in> set (map snd (allow_lists p) ! i)"
| "granted p (HeadersAt k) \<longleftrightarrow>
     securityHeaderStrength (Web_SecurityHeaderPreset (HP_Web p)) \<le> int k"
| "granted p Statistics \<longleftrightarrow> StatisticsEngine (HP_Logs p) = ''goaccess''"

lemma enat_le_by_members: "(a :: enat) \<le> b \<longleftrightarrow> (\<forall>n. enat n \<le> a \<longrightarrow> enat n \<le> b)"
proof
  assume *: "\<forall>n. enat n \<le> a \<longrightarrow> enat n \<le> b"
  show "a \<le> b"
  proof (cases a)
    case infinity
    then have "enat n \<le> b" for n using * by simp
    then have "b \<noteq> enat m" for m by (metis Suc_n_not_le_n enat_ord_simps(1))
    then have "b = \<infinity>" by (cases b) auto
    then show ?thesis by simp
  qed (use * in simp)
qed auto

lemma limitWithin_value:
  "-1 \<le> c \<Longrightarrow> -1 \<le> t \<Longrightarrow> limitWithin c t \<longleftrightarrow> limit_value c \<le> limit_value t"
  by (auto simp: limitWithin_def limit_value_def)

lemma boundedSettingWithin_value:
  "0 \<le> c \<Longrightarrow> 0 \<le> t \<Longrightarrow> boundedSettingWithin c t \<longleftrightarrow> setting_value c \<le> setting_value t"
  by (auto simp: boundedSettingWithin_def setting_value_def)

lemma list_all2_members:
  assumes "length xs = length ys"
    and "\<And>i. i < length xs \<Longrightarrow> ok (xs ! i) (ys ! i) \<longleftrightarrow> (\<forall>n. P (xs ! i) n \<longrightarrow> P (ys ! i) n)"
  shows "list_all2 ok xs ys \<longleftrightarrow>
    (\<forall>i n. i < length xs \<and> P (xs ! i) n \<longrightarrow> i < length ys \<and> P (ys ! i) n)"
  using assms by (auto simp: list_all2_conv_all_nth)

definition settings_bounded :: "HostingPolicy \<Rightarrow> bool" where
  "settings_bounded p \<longleftrightarrow> list_all (\<lambda>s. 0 \<le> s) (map snd (bounded_settings p))"

lemma securityHeaderStrength_nonneg [simp]: "0 \<le> securityHeaderStrength v"
  by (simp add: securityHeaderStrength_def)

lemma all_grant:
  "(\<forall>g. P g) \<longleftrightarrow> (\<forall>i n. P (Amount i n)) \<and> (\<forall>i n. P (Setting i n)) \<and> (\<forall>i. P (Permission i)) \<and>
     (\<forall>i. P (Service i)) \<and> (\<forall>i v. P (Listed i v)) \<and> (\<forall>k. P (HeadersAt k)) \<and> P Statistics"
  by (metis grant.exhaust)

lemma header_members:
  "securityHeaderStrength t \<le> securityHeaderStrength c \<longleftrightarrow>
     (\<forall>k. securityHeaderStrength c \<le> int k \<longrightarrow> securityHeaderStrength t \<le> int k)"
  by (metis int_nat_eq order.trans order_refl securityHeaderStrength_nonneg)

lemma grants_pointwise:
  assumes "Validate child = None" "Validate cap = None" "settings_bounded child" "settings_bounded cap"
  shows "list_all2 limitWithin (resource_limits child) (resource_limits cap) \<longleftrightarrow>
      (\<forall>i n. granted child (Amount i n) \<longrightarrow> granted cap (Amount i n))"
    and "list_all2 boundedSettingWithin (map snd (bounded_settings child)) (map snd (bounded_settings cap)) \<longleftrightarrow>
      (\<forall>i n. granted child (Setting i n) \<longrightarrow> granted cap (Setting i n))"
proof -
  have limits: "list_all (\<lambda>l. -1 \<le> l) (resource_limits child)" "list_all (\<lambda>l. -1 \<le> l) (resource_limits cap)"
    using assms resource_limits_ok by blast+
  show "list_all2 limitWithin (resource_limits child) (resource_limits cap) \<longleftrightarrow>
      (\<forall>i n. granted child (Amount i n) \<longrightarrow> granted cap (Amount i n))"
    unfolding granted.simps
    by (rule list_all2_members [OF within_lengths(1), where P = "\<lambda>l n. enat n \<le> limit_value l"])
      (use limits in \<open>simp add: list_all_length limitWithin_value enat_le_by_members [symmetric]
          within_lengths(1) [of child cap]\<close>)
  have len: "length (map snd (bounded_settings child)) = length (map snd (bounded_settings cap))"
    by (simp add: bounded_settings_def Let_def)
  show "list_all2 boundedSettingWithin (map snd (bounded_settings child)) (map snd (bounded_settings cap)) \<longleftrightarrow>
      (\<forall>i n. granted child (Setting i n) \<longrightarrow> granted cap (Setting i n))"
    unfolding granted.simps
    using list_all2_members [OF len, of boundedSettingWithin "\<lambda>l n. enat n \<le> setting_value l"]
      assms(3,4) len
    unfolding settings_bounded_def list_all_length
    by (simp add: boundedSettingWithin_value enat_le_by_members [symmetric])
qed

lemma grants_flags:
  "list_all2 (\<longrightarrow>) (permission_flags child) (permission_flags cap) \<longleftrightarrow>
     (\<forall>i. granted child (Permission i) \<longrightarrow> granted cap (Permission i))"
  "list_all2 (\<longrightarrow>) (map snd (service_flags child)) (map snd (service_flags cap)) \<longleftrightarrow>
     (\<forall>i. granted child (Service i) \<longrightarrow> granted cap (Service i))"
  "list_all2 stringSubset (map snd (allow_lists child)) (map snd (allow_lists cap)) \<longleftrightarrow>
     (\<forall>i v. granted child (Listed i v) \<longrightarrow> granted cap (Listed i v))"
proof -
  have len: "length (service_flags child) = length (service_flags cap)"
    "length (allow_lists child) = length (allow_lists cap)"
    by (simp_all add: service_flags_def allow_lists_def Let_def)
  show "list_all2 (\<longrightarrow>) (permission_flags child) (permission_flags cap) \<longleftrightarrow>
     (\<forall>i. granted child (Permission i) \<longrightarrow> granted cap (Permission i))"
    using within_lengths(2) [of child cap] by (auto simp: list_all2_conv_all_nth simp del: within_lengths)
  show "list_all2 (\<longrightarrow>) (map snd (service_flags child)) (map snd (service_flags cap)) \<longleftrightarrow>
     (\<forall>i. granted child (Service i) \<longrightarrow> granted cap (Service i))"
    using len(1) by (auto simp: list_all2_conv_all_nth)
  show "list_all2 stringSubset (map snd (allow_lists child)) (map snd (allow_lists cap)) \<longleftrightarrow>
     (\<forall>i v. granted child (Listed i v) \<longrightarrow> granted cap (Listed i v))"
    using len(2) by (auto simp: list_all2_conv_all_nth stringSubset_def list_all_iff)
qed

lemma grants_headers:
  "securityHeaderStrength (Web_SecurityHeaderPreset (HP_Web cap)) \<le>
     securityHeaderStrength (Web_SecurityHeaderPreset (HP_Web child)) \<longleftrightarrow>
   (\<forall>k. granted child (HeadersAt k) \<longrightarrow> granted cap (HeadersAt k))"
  unfolding granted.simps by (rule header_members)


text \<open>Two policies that the witnesses below compare.\<close>

definition starter_policy :: HostingPolicy where
  "starter_policy = zero_HostingPolicy
     \<lparr>HP_SchemaVersion := 5,
      HP_Resources := zero_HostingResourcePolicy\<lparr>Res_DiskMB := 1024, Res_MaxSites := 1\<rparr>,
      HP_Permissions := zero_HostingPermissionPolicy\<lparr>Perm_Hosting := True\<rparr>,
      HP_Web := zero_HostingWebPolicy\<lparr>Web_SecurityHeaderPreset := ''strict'', Web_MaxConnections := 20\<rparr>,
      HP_PHP := zero_HostingPHPPolicy\<lparr>PHP_AllowedVersions := [''8.3''], PHP_FPMMaxChildren := 4\<rparr>\<rparr>"

definition provider_policy :: HostingPolicy where
  "provider_policy = zero_HostingPolicy
     \<lparr>HP_SchemaVersion := 5,
      HP_Resources := zero_HostingResourcePolicy\<lparr>Res_DiskMB := -1, Res_MaxSites := 50\<rparr>,
      HP_Permissions := zero_HostingPermissionPolicy\<lparr>Perm_Hosting := True, Perm_SSH := True\<rparr>,
      HP_Web := zero_HostingWebPolicy\<lparr>Web_SecurityHeaderPreset := ''balanced'', Web_MaxConnections := 200\<rparr>,
      HP_PHP := zero_HostingPHPPolicy\<lparr>PHP_AllowedVersions := [''8.2'', ''8.3''], PHP_FPMMaxChildren := 40\<rparr>\<rparr>"

lemma sample_policies_ok:
  "Validate starter_policy = None" "Validate provider_policy = None"
  "settings_bounded starter_policy" "settings_bounded provider_policy"
  "ValidateWithin starter_policy provider_policy = None"
  by code_simp+


text \<open>
  Delegation composes: along any chain of valid policies in which each is accepted under the
  next (site, subscription, plan, provider), the first is accepted under the last. No level can
  regain through a longer chain what a level above it withheld.
\<close>

theorem ValidateWithin_chain:
  assumes "successively (\<lambda>child cap. ValidateWithin child cap = None) (p # ps)"
    and "Validate p = None"
  shows "ValidateWithin p (last (p # ps)) = None"
  using assms by (rule policy_ceiling.chain_within)

theorem ValidateWithin_chain_witness:
  "ValidateWithin starter_policy (last [starter_policy, provider_policy, provider_policy]) = None"
  by (rule ValidateWithin_chain)
    (simp_all add: sample_policies_ok policy_ceiling.below_refl)

text \<open>
  A site override: the checks that \<open>ValidateSiteWithin\<close> repeats after \<open>ValidateWithin\<close> never
  reject anything more; what it adds is that each of the seven runtime limits is either inherited
  unchanged or a positive value up to the subscription's, and that a subscription's access CIDR
  list is kept as it is.
\<close>

theorem ValidateSiteWithin_accepts:
  assumes "list_all (\<lambda>(_, v). -1 \<le> v) (site_limits site)"
  shows "ValidateSiteWithin site sub = None \<longleftrightarrow>
     ValidateWithin site sub = None \<and>
     list_all2 (\<lambda>c t. c = t \<or> 0 < c \<and> c \<le> t) (map snd (site_limits site)) (map snd (site_limits sub)) \<and>
     (Web_AllowedCIDRs (HP_Web sub) = [] \<or>
        Web_AllowedCIDRs (HP_Web site) = Web_AllowedCIDRs (HP_Web sub))"
proof -
  have step: "boundedSettingWithin c t \<Longrightarrow> -1 \<le> c \<Longrightarrow> limitWithin c t \<longleftrightarrow> c = t \<or> 0 < c \<and> c \<le> t" for c t
    by (auto simp: boundedSettingWithin_def limitWithin_def split: if_splits)
  have "ValidateWithin site sub = None \<Longrightarrow>
      list_all2 boundedSettingWithin (map snd (site_limits site)) (map snd (site_limits sub))"
    unfolding ValidateWithin_None_iff by (simp add: bounded_settings_def site_limits_def Let_def)
  then have "ValidateWithin site sub = None \<Longrightarrow>
      list_all2 limitWithin (map snd (site_limits site)) (map snd (site_limits sub)) \<longleftrightarrow>
      list_all2 (\<lambda>c t. c = t \<or> 0 < c \<and> c \<le> t) (map snd (site_limits site)) (map snd (site_limits sub))"
    using assms by (auto simp: list_all2_conv_all_nth list_all_length split_def step)
  then show ?thesis unfolding ValidateSiteWithin_None_iff by auto
qed

theorem ValidateSiteWithin_accepts_witness:
  "ValidateSiteWithin starter_policy provider_policy = None"
proof -
  have "list_all (\<lambda>(_, v). -1 \<le> v) (site_limits starter_policy)"
    "list_all2 (\<lambda>c t. c = t \<or> 0 < c \<and> c \<le> t)
       (map snd (site_limits starter_policy)) (map snd (site_limits provider_policy))"
    "Web_AllowedCIDRs (HP_Web provider_policy) = []"
    by code_simp+
  then show ?thesis
    using ValidateSiteWithin_accepts [of starter_policy provider_policy]
    by (simp add: sample_policies_ok)
qed

text \<open>
  An unlimited ceiling rejects finite values of an operational setting: where the ceiling sets
  the FPM child count to \<open>-1\<close>, which \<open>Validate\<close> reads as unlimited, every policy with another count
  is refused, although the ceiling is documented to accept every finite value.
\<close>

theorem ValidateWithin_unlimited_setting_rejects:
  assumes "PHP_FPMMaxChildren (HP_PHP cap) = -1" and "PHP_FPMMaxChildren (HP_PHP child) \<noteq> -1"
  shows "ValidateWithin child cap \<noteq> None"
proof
  assume "ValidateWithin child cap = None"
  then have "boundedSettingWithin (PHP_FPMMaxChildren (HP_PHP child)) (PHP_FPMMaxChildren (HP_PHP cap))"
    unfolding ValidateWithin_None_iff by (simp add: bounded_settings_def Let_def)
  then show False using assms by (simp add: boundedSettingWithin_def)
qed

theorem ValidateWithin_unlimited_setting_rejects_witness:
  "let cap = provider_policy\<lparr>HP_PHP := (HP_PHP provider_policy)\<lparr>PHP_FPMMaxChildren := -1\<rparr>\<rparr>
   in Validate cap = None \<and> ValidateWithin starter_policy cap \<noteq> None"
proof -
  let ?cap = "provider_policy\<lparr>HP_PHP := (HP_PHP provider_policy)\<lparr>PHP_FPMMaxChildren := -1\<rparr>\<rparr>"
  have "Validate ?cap = None" by code_simp
  moreover have "ValidateWithin starter_policy ?cap \<noteq> None"
    by (rule ValidateWithin_unlimited_setting_rejects) (simp_all add: starter_policy_def)
  ultimately show ?thesis by (simp add: Let_def)
qed

end
