(* ===== verification/Plan_Contract.thy ===== *)
theory Plan_Contract
  imports Policy "HOL-Library.Char_ord" "HOL-Library.List_Lexorder" "HOL-Library.Multiset"
begin

text \<open>
  \<open>internal/control/policy/plan_contract.go\<close>: the classification of every value of a hosting policy
  by how it is enforced, and the readiness check of a plan against the runtime inventory that the
  agent reports. The struct walk of \<open>collectPolicyPaths\<close> reads a description of the Go type.
\<close>

section \<open>Enforcement classes\<close>

datatype PlanEnforcementKind =
    HardLimit
  | MeasuredLimit
  | ServicePermission
  | ManagementPermission
  | CreationDefault
  | StoredOnly

record PlanContractField =
  PCF_Path :: string
  PCF_Label :: string
  PCF_Enforcement :: PlanEnforcementKind
  PCF_Description :: string

text \<open>A struct type as its fields' JSON names and types, everything but a struct being a leaf.\<close>

datatype go_shape = Leaf | Struct "(string \<times> go_shape) list"

fun collectPolicyPaths :: "go_shape \<Rightarrow> string \<Rightarrow> string list" where
  "collectPolicyPaths Leaf prefix = []"
| "collectPolicyPaths (Struct []) prefix = []"
| "collectPolicyPaths (Struct ((name, t) # fs)) prefix =
     (let path = (if prefix \<noteq> [] then prefix @ ''.'' @ name else name);
          rest = collectPolicyPaths (Struct fs) prefix in
      if name = [] \<or> name = ''-'' then rest
      else if t = Leaf then path # rest
      else collectPolicyPaths t path @ rest)"

definition HostingPolicy_shape :: go_shape where
  "HostingPolicy_shape =
     Struct
     [(''schema_version'', Leaf),
      (''resources'', Struct
       [(''disk_mb'', Leaf), (''traffic_mb'', Leaf), (''cpu_percent'', Leaf),
        (''memory_mb'', Leaf), (''io_read_mbps'', Leaf), (''io_write_mbps'', Leaf),
        (''max_tasks'', Leaf), (''max_sites'', Leaf), (''max_databases'', Leaf),
        (''max_database_users'', Leaf), (''max_mailboxes'', Leaf), (''max_mail_aliases'', Leaf),
        (''max_sftp_identities'', Leaf), (''max_scheduled_tasks'', Leaf), (''max_backups'', Leaf),
        (''backup_storage_mb'', Leaf), (''max_applications'', Leaf),
        (''container_storage_mb'', Leaf), (''max_ftp_accounts'', Leaf),
        (''valkey_memory_mb'', Leaf), (''max_php_workers'', Leaf), (''max_php_releases'', Leaf),
        (''max_wordpress_sites'', Leaf)]),
      (''permissions'', Struct
       [(''hosting'', Leaf), (''ssh'', Leaf), (''sftp'', Leaf), (''scheduled_tasks'', Leaf),
        (''dns'', Leaf), (''tls'', Leaf), (''mail'', Leaf), (''databases'', Leaf),
        (''backups'', Leaf), (''php_settings'', Leaf), (''cgi'', Leaf), (''applications'', Leaf),
        (''custom_oci_images'', Leaf), (''application_egress'', Leaf), (''ftps'', Leaf),
        (''logs'', Leaf), (''git'', Leaf), (''staging'', Leaf), (''valkey'', Leaf),
        (''composer'', Leaf), (''composer_code_execution'', Leaf),
        (''managed_php_deployments'', Leaf), (''php_workers'', Leaf),
        (''wordpress_toolkit'', Leaf), (''web_statistics'', Leaf)]),
      (''web'', Struct
       [(''preferred_domain'', Leaf), (''https_redirect'', Leaf),
        (''request_rate_per_second'', Leaf), (''request_burst'', Leaf),
        (''max_connections'', Leaf), (''static_cache'', Leaf), (''fastcgi_microcache'', Leaf),
        (''index_files'', Leaf), (''request_body_limit_mb'', Leaf), (''compression'', Leaf),
        (''cache_ttl_seconds'', Leaf), (''rate_limit_per_second'', Leaf),
        (''rate_limit_burst'', Leaf), (''connect_timeout_seconds'', Leaf),
        (''read_timeout_seconds'', Leaf), (''security_header_preset'', Leaf),
        (''allowed_cidrs'', Leaf), (''error_document_404'', Leaf), (''error_document_50x'', Leaf)]),
      (''php'', Struct
       [(''default_version'', Leaf), (''allowed_versions'', Leaf), (''fpm_max_children'', Leaf),
        (''fpm_max_requests'', Leaf), (''memory_limit_mb'', Leaf),
        (''max_execution_seconds'', Leaf), (''max_input_seconds'', Leaf), (''post_max_mb'', Leaf),
        (''upload_max_mb'', Leaf), (''display_errors'', Leaf), (''log_errors'', Leaf),
        (''allow_url_fopen'', Leaf), (''exec_enabled'', Leaf), (''fpm_mode'', Leaf),
        (''fpm_idle_timeout_seconds'', Leaf), (''request_terminate_timeout_seconds'', Leaf),
        (''opcache_enabled'', Leaf), (''opcache_memory_mb'', Leaf)]),
      (''mail'', Struct
       [(''enabled'', Leaf), (''mailbox_quota_mb'', Leaf), (''dkim'', Leaf),
        (''dmarc_policy'', Leaf), (''spam_filter'', Leaf), (''webmail'', Leaf),
        (''autoresponders'', Leaf), (''catch_all'', Leaf)]),
      (''dns'', Struct
       [(''enabled'', Leaf), (''mode'', Leaf), (''default_ttl'', Leaf), (''dnssec'', Leaf)]),
      (''access'', Struct
       [(''shell_mode'', Leaf), (''nspawn_image'', Leaf), (''sftp_only'', Leaf),
        (''ssh_idle_timeout_minutes'', Leaf), (''ftps_enabled'', Leaf),
        (''ftps_passive_start'', Leaf), (''ftps_passive_end'', Leaf)]),
      (''backups'', Struct
       [(''enabled'', Leaf), (''retention_days'', Leaf), (''schedule'', Leaf),
        (''remote_target'', Leaf)]),
      (''applications'', Struct
       [(''catalog_enabled'', Leaf), (''allowed_catalog_slugs'', Leaf),
        (''allowed_registries'', Leaf), (''allowed_runtimes'', Leaf), (''rootless'', Leaf),
        (''egress_enabled'', Leaf)]),
      (''valkey'', Struct
       [(''enabled'', Leaf), (''memory_mb'', Leaf), (''max_clients'', Leaf),
        (''idle_timeout_seconds'', Leaf), (''eviction_policy'', Leaf), (''cpu_percent'', Leaf),
        (''process_limit'', Leaf)]),
      (''logs'', Struct
       [(''statistics_engine'', Leaf), (''rotation_enabled'', Leaf), (''retention_days'', Leaf),
        (''statistics_enabled'', Leaf)])]"

definition classifyPlanField :: "string \<Rightarrow> PlanEnforcementKind" where
  "classifyPlanField path =
     (if path = ''resources.disk_mb'' \<or> path = ''resources.traffic_mb'' then MeasuredLimit
      else if HasPrefix path ''resources.'' then HardLimit
      else if HasPrefix path ''permissions.'' then
        (if TrimPrefix path ''permissions.'' \<in>
           {''ssh'', ''php_settings'', ''custom_oci_images'', ''composer_code_execution'',
            ''web_statistics''}
         then ManagementPermission else ServicePermission)
      else if path \<in>
        {''php.allowed_versions'', ''mail.enabled'', ''mail.dkim'', ''mail.webmail'',
         ''dns.enabled'', ''access.ftps_enabled'', ''backups.enabled'',
         ''applications.catalog_enabled'', ''applications.allowed_catalog_slugs'',
         ''applications.allowed_registries'', ''applications.allowed_runtimes'',
         ''applications.egress_enabled'', ''valkey.enabled''}
      then ServicePermission
      else if path \<in>
        {''schema_version'', ''mail.autoresponders'', ''mail.catch_all'', ''dns.dnssec'',
         ''access.nspawn_image'', ''backups.remote_target''}
      then StoredOnly
      else CreationDefault)"

text \<open>
  \<open>planFieldLabel\<close>: the words of the last path component with their first rune in upper case.
  The upper case of a word that starts outside ASCII comes from the Unicode tables (\<open>upper_rune\<close>).
  \<open>strings.Fields\<close> splits at white space; after \<open>ReplaceAll\<close> the separators of a JSON name are
  spaces.
\<close>

definition Fields :: "string \<Rightarrow> string list" where
  "Fields s = filter (\<lambda>w. w \<noteq> []) (Split (map (\<lambda>c. if ascii_space c then CHR '' '' else c) s) CHR '' '')"

definition capitalize_word :: "(string \<Rightarrow> string) \<Rightarrow> string \<Rightarrow> string" where
  "capitalize_word upper_rune w =
     (case w of [] \<Rightarrow> []
      | c # cs \<Rightarrow> if is_ascii c then upper_char c # cs else upper_rune w)"

definition planFieldLabel :: "(string \<Rightarrow> string) \<Rightarrow> string \<Rightarrow> string" where
  "planFieldLabel upper_rune path =
     (let part = last (Split path CHR ''.'');
          words = Fields (map (\<lambda>c. if c = CHR ''_'' then CHR '' '' else c) part)
      in Join (map (capitalize_word upper_rune) words) '' '')"

definition planFieldDescription :: "string \<Rightarrow> string" where
  "planFieldDescription path =
     (case classifyPlanField path of
        HardLimit \<Rightarrow> ''Provisioning is blocked when current usage reaches this limit.''
      | MeasuredLimit \<Rightarrow> ''Enforced only from a fresh and complete usage measurement.''
      | ServicePermission \<Rightarrow> ''Controls whether this service may be provisioned.''
      | ManagementPermission \<Rightarrow> ''Controls whether the customer may change this setting.''
      | CreationDefault \<Rightarrow> ''Copied into desired configuration and subject to inheritance.''
      | StoredOnly \<Rightarrow> ''Stored for compatibility; not currently enforced as a sellable entitlement.'')"

definition PlanContractFields :: "(string \<Rightarrow> string) \<Rightarrow> PlanContractField list" where
  "PlanContractFields upper_rune =
     sort_key PCF_Path
       (map (\<lambda>path. \<lparr>PCF_Path = path, PCF_Label = planFieldLabel upper_rune path,
                     PCF_Enforcement = classifyPlanField path,
                     PCF_Description = planFieldDescription path\<rparr>)
         (collectPolicyPaths HostingPolicy_shape []))"

section \<open>Readiness of a plan\<close>

text \<open>The reported inventory, restricted to the fields that the readiness check reads.\<close>

record RuntimeCapabilities =
  Cap_GoAccessAvailable :: bool
  Cap_PHPVersions :: "string list"
  Cap_ComposerAvailable :: bool
  Cap_WPCLIAvailable :: bool
  Cap_DiskQuota :: bool
  Cap_PodmanVersion :: string
  Cap_RootlessPodman :: bool
  Cap_SubordinateIDSupport :: bool

record PlanCapabilityIssue =
  PCI_Code :: string
  PCI_Field :: string
  PCI_Message :: string
  PCI_Blocking :: bool

definition capabilityIssue :: "string \<Rightarrow> string \<Rightarrow> string \<Rightarrow> PlanCapabilityIssue" where
  "capabilityIssue code field message =
     \<lparr>PCI_Code = code, PCI_Field = field, PCI_Message = message, PCI_Blocking = True\<rparr>"

definition issue_key :: "PlanCapabilityIssue \<Rightarrow> string" where
  "issue_key i = PCI_Code i @ [CHR 0x00] @ PCI_Field i @ [CHR 0x00] @ PCI_Message i"

fun dedupe_loop :: "string list \<Rightarrow> PlanCapabilityIssue list \<Rightarrow> PlanCapabilityIssue list" where
  "dedupe_loop seen [] = []"
| "dedupe_loop seen (i # issues) =
     (if issue_key i \<in> set seen then dedupe_loop seen issues
      else i # dedupe_loop (issue_key i # seen) issues)"

definition dedupeCapabilityIssues :: "PlanCapabilityIssue list \<Rightarrow> PlanCapabilityIssue list" where
  "dedupeCapabilityIssues issues = dedupe_loop [] issues"

text \<open>An issue appended under a condition.\<close>

definition issue_if :: "bool \<Rightarrow> string \<Rightarrow> string \<Rightarrow> string \<Rightarrow> PlanCapabilityIssue list" where
  "issue_if b code field message = (if b then [capabilityIssue code field message] else [])"

definition php_issues :: "HostingPolicy \<Rightarrow> string list \<Rightarrow> PlanCapabilityIssue list" where
  "php_issues policy ready =
     (let d = TrimSpace (PHP_DefaultVersion (HP_PHP policy)) in
      issue_if (ready = []) ''php_inventory_unavailable'' ''php.allowed_versions''
        ''No validated PHP-FPM runtime is available.'' @
      issue_if (d \<noteq> [] \<and> d \<notin> set ready) ''php_default_unavailable'' ''php.default_version''
        (''Default PHP '' @ d @ '' is not ready on this server.'') @
      concat (map (\<lambda>version. let v = TrimSpace version in
        issue_if (v \<noteq> [] \<and> v \<notin> set ready) ''php_version_unavailable'' ''php.allowed_versions''
          (''Allowed PHP '' @ v @ '' is not ready on this server.''))
        (PHP_AllowedVersions (HP_PHP policy))))"

definition ValidatePlanCapabilities ::
  "HostingPolicy \<Rightarrow> RuntimeCapabilities \<Rightarrow> PlanCapabilityIssue list" where
  "ValidatePlanCapabilities policy caps =
     (let readyPHP = map TrimSpace (Cap_PHPVersions caps);
          perms = HP_Permissions policy;
          applications = (Perm_Applications perms \<or> Perm_CustomOCIImages perms \<or>
            App_CatalogEnabled (HP_Applications policy));
          noPodman = (TrimSpace (Cap_PodmanVersion caps) = []) in
      dedupeCapabilityIssues
       (issue_if (StatisticsEngine (HP_Logs policy) = ''goaccess'' \<and> \<not> Cap_GoAccessAvailable caps)
          ''goaccess_unavailable'' ''logs.statistics_engine'' ''GoAccess is not available on this server.'' @
        (if Perm_Hosting perms then php_issues policy readyPHP else []) @
        issue_if (Res_DiskMB (HP_Resources policy) > 0 \<and> \<not> Cap_DiskQuota caps)
          ''disk_quota_unavailable'' ''resources.disk_mb''
          ''Linux disk quotas are unavailable; the finite disk limit cannot be enforced.'' @
        issue_if ((Perm_Composer perms \<or> Perm_ManagedPHPDeployments perms) \<and> \<not> Cap_ComposerAvailable caps)
          ''composer_unavailable'' ''permissions.composer''
          ''Composer is unavailable; managed PHP deployment cannot be delivered.'' @
        issue_if (applications \<and> noPodman) ''podman_unavailable'' ''permissions.applications''
          ''Podman is unavailable for application containers.'' @
        issue_if (applications \<and> \<not> Cap_RootlessPodman caps) ''rootless_podman_unavailable''
          ''permissions.applications'' ''Rootless Podman is not ready for subscription isolation.'' @
        issue_if (applications \<and> \<not> Cap_SubordinateIDSupport caps) ''subordinate_ids_unavailable''
          ''permissions.applications''
          ''Subordinate UID/GID mappings are unavailable for subscription containers.'' @
        issue_if ((Perm_Valkey perms \<or> Valkey_Enabled (HP_Valkey policy)) \<and> noPodman)
          ''valkey_runtime_unavailable'' ''permissions.valkey''
          ''The Podman runtime required by the managed Valkey service is unavailable.'' @
        (if Perm_WordPressToolkit perms then
           issue_if (Res_MaxWordPressSites (HP_Resources policy) = 0) ''wordpress_capacity_zero''
             ''resources.max_wordpress_sites''
             (''WordPress Toolkit is enabled but allows zero installations. '' @
              ''Set a positive installation limit or Unlimited.'') @
           issue_if (\<not> Cap_WPCLIAvailable caps) ''wp_cli_unavailable'' ''permissions.wordpress_toolkit''
             ''WP-CLI is unavailable; WordPress Toolkit cannot be delivered.'' @
           issue_if (readyPHP = []) ''wordpress_php_unavailable'' ''permissions.wordpress_toolkit''
             ''No validated PHP-FPM runtime is available for WordPress.''
         else [])))"

section \<open>Classification covers the policy\<close>

lemma policy_paths_sorted:
  "map PCF_Path (PlanContractFields u) = sort (collectPolicyPaths HostingPolicy_shape [])"
  unfolding PlanContractFields_def
  by (rule properties_for_sort [symmetric]) (simp_all add: multiset.map_comp comp_def)

text \<open>Field names that are distinct, non-empty and free of dots give distinct paths.\<close>

fun plain_names :: "go_shape \<Rightarrow> bool" where
  "plain_names Leaf \<longleftrightarrow> True"
| "plain_names (Struct []) \<longleftrightarrow> True"
| "plain_names (Struct ((n, t) # fs)) \<longleftrightarrow>
     n \<noteq> [] \<and> n \<noteq> ''-'' \<and> CHR ''.'' \<notin> set n \<and> n \<notin> set (map fst fs) \<and> plain_names t \<and> plain_names (Struct fs)"

lemma collectPolicyPaths_prefix:
  "plain_names t \<Longrightarrow> p \<noteq> [] \<Longrightarrow>
     collectPolicyPaths t p = map (\<lambda>r. p @ ''.'' @ r) (collectPolicyPaths t [])"
proof (induction t arbitrary: p rule: plain_names.induct)
  case (3 n t fs)
  then have sub: "collectPolicyPaths t q = map (\<lambda>r. q @ ''.'' @ r) (collectPolicyPaths t [])" if "q \<noteq> []" for q
    using that by auto
  from 3 show ?case by (auto simp: Let_def sub [of "p @ CHR ''.'' # n"] sub [of n])
qed auto

lemma collectPolicyPaths_heads:
  "plain_names (Struct fs) \<Longrightarrow> r \<in> set (collectPolicyPaths (Struct fs) []) \<Longrightarrow>
     takeWhile (\<lambda>c. c \<noteq> CHR ''.'') r \<in> set (map fst fs)"
proof (induction fs)
  case (Cons f fs)
  obtain n t where f: "f = (n, t)" by force
  have head: "takeWhile (\<lambda>c. c \<noteq> CHR ''.'') n = n"
    "takeWhile (\<lambda>c. c \<noteq> CHR ''.'') (n @ CHR ''.'' # x) = n" for x
    using Cons.prems(1) f by (simp_all add: takeWhile_append takeWhile_eq_all_conv) (auto simp: f)
  have ok: "plain_names t" "plain_names (Struct fs)" "n \<noteq> []" "n \<noteq> ''-''" using Cons.prems(1) f by simp_all
  consider "r = n" | x where "r = n @ CHR ''.'' # x" | "r \<in> set (collectPolicyPaths (Struct fs) [])"
    using Cons.prems(2) ok
    by (auto simp: f Let_def collectPolicyPaths_prefix [OF ok(1,3)] split: if_split_asm)
  then show ?case
    using head Cons.IH ok(2) by cases (simp_all add: f)
qed simp

lemma collectPolicyPaths_distinct: "plain_names t \<Longrightarrow> distinct (collectPolicyPaths t [])"
proof (induction t rule: plain_names.induct)
  case (3 n t fs)
  have head: "takeWhile (\<lambda>c. c \<noteq> CHR ''.'') (n @ x) = n" if "x = [] \<or> hd x = CHR ''.''" for x
    using 3 that by (cases x) (auto simp: takeWhile_append takeWhile_eq_all_conv)
  have out: "takeWhile (\<lambda>c. c \<noteq> CHR ''.'') r \<noteq> n" if "r \<in> set (collectPolicyPaths (Struct fs) [])" for r
    using collectPolicyPaths_heads [of fs r] 3 that by auto
  have "n @ x \<notin> set (collectPolicyPaths (Struct fs) [])" if "x = [] \<or> hd x = CHR ''.''" for x
    using head [OF that] out by blast
  from this [of "[]"] this [of "CHR ''.'' # _"]
  show ?case using 3 by (auto simp: Let_def collectPolicyPaths_prefix distinct_map inj_on_def)
qed auto

lemma policy_paths_distinct: "distinct (collectPolicyPaths HostingPolicy_shape [])"
  by (rule collectPolicyPaths_distinct) code_simp

text \<open>The paths that \<open>classifyPlanField\<close> singles out by name.\<close>

definition named_paths :: "string list" where
  "named_paths =
     [''resources.disk_mb'', ''resources.traffic_mb'', ''permissions.ssh'', ''permissions.php_settings'',
      ''permissions.custom_oci_images'', ''permissions.composer_code_execution'',
      ''permissions.web_statistics'', ''php.allowed_versions'', ''mail.enabled'', ''mail.dkim'',
      ''mail.webmail'', ''dns.enabled'', ''access.ftps_enabled'', ''backups.enabled'',
      ''applications.catalog_enabled'', ''applications.allowed_catalog_slugs'',
      ''applications.allowed_registries'', ''applications.allowed_runtimes'',
      ''applications.egress_enabled'', ''valkey.enabled'', ''schema_version'', ''mail.autoresponders'',
      ''mail.catch_all'', ''dns.dnssec'', ''access.nspawn_image'', ''backups.remote_target'']"

lemma named_paths_exist: "set named_paths \<subseteq> set (collectPolicyPaths HostingPolicy_shape [])"
  by code_simp

text \<open>
  The plan contract lists every leaf of the hosting policy exactly once, in byte order of its
  path; every path that the classifier names is such a leaf (no classification is stale); and any
  other leaf is a hard limit, a service permission or a creation default, by its section.
\<close>

theorem PlanContractFields_complete:
  "set (map PCF_Path (PlanContractFields u)) = set (collectPolicyPaths HostingPolicy_shape []) \<and>
   distinct (map PCF_Path (PlanContractFields u)) \<and> sorted (map PCF_Path (PlanContractFields u)) \<and>
   set named_paths \<subseteq> set (map PCF_Path (PlanContractFields u)) \<and>
   (\<forall>path. path \<in> set named_paths \<or>
      classifyPlanField path =
        (if HasPrefix path ''resources.'' then HardLimit
         else if HasPrefix path ''permissions.'' then ServicePermission else CreationDefault))"
proof -
  have perm: "path \<in> set named_paths \<or>
      classifyPlanField path =
        (if HasPrefix path ''resources.'' then HardLimit
         else if HasPrefix path ''permissions.'' then ServicePermission else CreationDefault)" for path
  proof (cases "HasPrefix path ''permissions.''")
    case True
    then obtain t where "path = ''permissions.'' @ t" by (auto simp: HasPrefix_iff)
    then show ?thesis
      by (auto simp: classifyPlanField_def named_paths_def HasPrefix_def TrimPrefix_def)
  qed (auto simp: classifyPlanField_def named_paths_def)
  show ?thesis
    using perm policy_paths_distinct named_paths_exist by (simp add: policy_paths_sorted)
qed

section \<open>Readiness\<close>

lemma dedupe_loop_set:
  "set (map issue_key (dedupe_loop seen xs)) = set (map issue_key xs) - set seen"
  by (induction xs arbitrary: seen) auto

lemma dedupe_loop_distinct: "distinct (map issue_key (dedupe_loop seen xs))"
proof (induction xs arbitrary: seen)
  case (Cons i xs)
  then show ?case using dedupe_loop_set [of "issue_key i # seen" xs] by (auto simp: image_iff)
qed simp

lemma dedupe_Nil [simp]: "dedupeCapabilityIssues xs = [] \<longleftrightarrow> xs = []"
  by (cases xs) (simp_all add: dedupeCapabilityIssues_def)

lemma issue_if_Nil [simp]: "issue_if b c f m = [] \<longleftrightarrow> \<not> b"
  by (simp add: issue_if_def)

text \<open>What the server must offer for a plan to be sold: one clause per enabled service.\<close>

definition deliverable :: "HostingPolicy \<Rightarrow> RuntimeCapabilities \<Rightarrow> bool" where
  "deliverable policy caps \<longleftrightarrow>
     (let perms = HP_Permissions policy; ready = TrimSpace ` set (Cap_PHPVersions caps) in
      (StatisticsEngine (HP_Logs policy) = ''goaccess'' \<longrightarrow> Cap_GoAccessAvailable caps) \<and>
      (Perm_Hosting perms \<longrightarrow> ready \<noteq> {} \<and>
         TrimSpace ` set (PHP_DefaultVersion (HP_PHP policy) # PHP_AllowedVersions (HP_PHP policy)) - {[]}
           \<subseteq> ready) \<and>
      (Res_DiskMB (HP_Resources policy) > 0 \<longrightarrow> Cap_DiskQuota caps) \<and>
      (Perm_Composer perms \<or> Perm_ManagedPHPDeployments perms \<longrightarrow> Cap_ComposerAvailable caps) \<and>
      (Perm_Applications perms \<or> Perm_CustomOCIImages perms \<or> App_CatalogEnabled (HP_Applications policy)
         \<longrightarrow> TrimSpace (Cap_PodmanVersion caps) \<noteq> [] \<and> Cap_RootlessPodman caps \<and>
             Cap_SubordinateIDSupport caps) \<and>
      (Perm_Valkey perms \<or> Valkey_Enabled (HP_Valkey policy) \<longrightarrow> TrimSpace (Cap_PodmanVersion caps) \<noteq> []) \<and>
      (Perm_WordPressToolkit perms \<longrightarrow>
         Res_MaxWordPressSites (HP_Resources policy) \<noteq> 0 \<and> Cap_WPCLIAvailable caps \<and> ready \<noteq> {}))"

lemma php_issues_Nil:
  "php_issues policy ready = [] \<longleftrightarrow>
     ready \<noteq> [] \<and>
     TrimSpace ` set (PHP_DefaultVersion (HP_PHP policy) # PHP_AllowedVersions (HP_PHP policy)) - {[]}
       \<subseteq> set ready"
  unfolding php_issues_def Let_def by auto

text \<open>
  Activation fails closed: a plan has no readiness issue exactly when every service it enables
  can be delivered by the reported inventory. Every issue blocks, and no issue is listed twice.
\<close>

theorem ValidatePlanCapabilities_complete:
  "(ValidatePlanCapabilities policy caps = [] \<longleftrightarrow> deliverable policy caps) \<and>
   distinct (map issue_key (ValidatePlanCapabilities policy caps))"
proof
  show "ValidatePlanCapabilities policy caps = [] \<longleftrightarrow> deliverable policy caps"
    unfolding ValidatePlanCapabilities_def deliverable_def Let_def dedupe_Nil append_is_Nil_conv
      issue_if_Nil if_split [of "\<lambda>x. x = []"] php_issues_Nil
    by auto
  show "distinct (map issue_key (ValidatePlanCapabilities policy caps))"
    by (simp add: ValidatePlanCapabilities_def Let_def dedupeCapabilityIssues_def dedupe_loop_distinct)
qed

end
