(* ===== verification/Plan_Entitlements.thy ===== *)
theory Plan_Entitlements
  imports Policy
begin

text \<open>
  Plans and the entitlements of subscriptions: the \<open>Plan\<close> struct, its defaults and its validation
  (\<open>internal/control/quota/plans.go\<close>), and the conversions between a plan and the entitlements of a
  subscription (\<open>internal/control/quota/provider.go\<close>). A database time is a number of nanoseconds;
  \<open>sql.NullInt64\<close> and \<open>sql.NullTime\<close> are options. The lemmas show that the defaults are stable and
  that a plan survives its conversion to entitlements and back.
\<close>

section \<open>Plans\<close>

record Plan =
  Pl_ID :: int
  Pl_Name :: string
  Pl_Description :: string
  Pl_PriceCents :: "int option"
  Pl_DiskMB :: int
  Pl_MaxSites :: int
  Pl_MaxDatabases :: int
  Pl_BandwidthMB :: int
  Pl_MaxMailboxes :: int
  Pl_AllowSSH :: bool
  Pl_AllowDNS :: bool
  Pl_BackupRetentionDays :: int
  Pl_PHPAllowlist :: string
  Pl_PHPFPMMaxChildren :: int
  Pl_PHPMemoryMB :: int
  Pl_SiteDiskQuotaMB :: int
  Pl_MaxBackups :: int
  Pl_BackupStorageMB :: int
  Pl_IsActive :: bool
  Pl_CreatedAt :: int
  Pl_UpdatedAt :: int
  Pl_ResellerID :: int
  Pl_Revision :: int
  Pl_OverusePolicy :: string
  Pl_DiskWarningPercent :: int
  Pl_TrafficWarningPercent :: int
  Pl_MaxSubdomains :: int
  Pl_MaxDomainAliases :: int
  Pl_MaxFTPAccounts :: int
  Pl_ValidityDays :: int
  Pl_HostingEnabled :: bool
  Pl_DefaultPHPVersion :: string
  Pl_AllowTLS :: bool
  Pl_AllowBackups :: bool
  Pl_AllowPHPSettings :: bool
  Pl_Presets :: PlanServicePresets
  Pl_HostingPolicy :: HostingPolicy
  Pl_LifecycleStatus :: string
  Pl_LastValidatedAt :: "int option"
  Pl_ReadinessError :: string
  Pl_RevisionActorUserID :: int
  Pl_RevisionActorLabel :: string
  Pl_ChangeReason :: string

definition maxPlanLimit :: int where
  "maxPlanLimit = 2 ^ 31 - 1"

text \<open>The items of a comma separated list; \<open>range strings.Split(csv, ",")\<close>.\<close>

definition csv_items :: "string \<Rightarrow> string list" where
  "csv_items csv = map TrimSpace (Split csv CHR '','')"

definition csvContains :: "string \<Rightarrow> string \<Rightarrow> bool" where
  "csvContains csv wanted \<longleftrightarrow> TrimSpace wanted \<in> set (csv_items csv)"

definition maxInt :: "int \<Rightarrow> int \<Rightarrow> int" where
  "maxInt a b = (if a > b then a else b)"

section \<open>Defaults\<close>

definition preset_hosting :: "Plan \<Rightarrow> HostingPreset \<Rightarrow> HostingPreset" where
  "preset_hosting plan h =
     h\<lparr>HPre_WebServer := (if HPre_WebServer h = [] then ''nginx'' else HPre_WebServer h),
       HPre_PreferredDomain := (if HPre_PreferredDomain h = [] then ''none'' else HPre_PreferredDomain h),
       HPre_DefaultPHPVersion :=
         (if HPre_DefaultPHPVersion h = [] then Pl_DefaultPHPVersion plan else HPre_DefaultPHPVersion h),
       HPre_AllowedPHPVersions :=
         (if HPre_AllowedPHPVersions h = [] then filter (\<lambda>v. v \<noteq> []) (csv_items (Pl_PHPAllowlist plan))
          else HPre_AllowedPHPVersions h)\<rparr>"

definition normalizedPlanPresets :: "Plan \<Rightarrow> PlanServicePresets" where
  "normalizedPlanPresets plan =
     (let presets = Pl_Presets plan in
      presets
       \<lparr>SP_Logs := NormalizeLogs (if HP_SchemaVersion (Pl_HostingPolicy plan) \<ge> 5
          then HP_Logs (Pl_HostingPolicy plan) else SP_Logs presets),
        SP_SchemaVersion := (if SP_SchemaVersion presets \<le> 0 then 1 else SP_SchemaVersion presets),
        SP_Hosting := preset_hosting plan (SP_Hosting presets)\<rparr>)"

definition default_lifecycle :: "Plan \<Rightarrow> string" where
  "default_lifecycle plan =
     (if Pl_LifecycleStatus plan \<noteq> [] then Pl_LifecycleStatus plan
      else if Pl_IsActive plan then ''active''
      else if Pl_ID plan > 0 then ''retired''
      else ''draft'')"

definition default_php :: "Plan \<Rightarrow> string" where
  "default_php plan =
     (if Pl_DefaultPHPVersion plan = [] \<and> TrimSpace (Pl_PHPAllowlist plan) \<noteq> []
      then TrimSpace (hd (Split (Pl_PHPAllowlist plan) CHR '','')) else Pl_DefaultPHPVersion plan)"

definition normalizePlanDefaults :: "Plan \<Rightarrow> Plan" where
  "normalizePlanDefaults plan =
     (let q = plan
       \<lparr>Pl_LifecycleStatus := default_lifecycle plan,
        Pl_IsActive := (default_lifecycle plan = ''active''),
        Pl_OverusePolicy := (if Pl_OverusePolicy plan = [] then ''block'' else Pl_OverusePolicy plan),
        Pl_DiskWarningPercent := (if Pl_DiskWarningPercent plan = 0 then 80 else Pl_DiskWarningPercent plan),
        Pl_TrafficWarningPercent := (if Pl_TrafficWarningPercent plan = 0 then 80 else Pl_TrafficWarningPercent plan),
        Pl_DefaultPHPVersion := default_php plan\<rparr>
      in q\<lparr>Pl_Presets := normalizedPlanPresets q\<rparr>)"

section \<open>Validation\<close>

datatype plan_error =
    PlanNameRequired
  | NegativePrice
  | UnsupportedLifecycle string
  | PlanLimitTooLow "string list"
  | PlanLimitTooHigh "string list"
  | UnsupportedOverusePolicy string
  | DiskWarningRange
  | TrafficWarningRange
  | DefaultPHPRequired
  | DefaultPHPOutsideAllowlist

definition plan_limit_entries :: "Plan \<Rightarrow> (string \<times> int) list" where
  "plan_limit_entries plan =
     [(''disk_mb'', Pl_DiskMB plan), (''max_sites'', Pl_MaxSites plan), (''max_databases'', Pl_MaxDatabases plan),
      (''bandwidth_mb'', Pl_BandwidthMB plan), (''max_mailboxes'', Pl_MaxMailboxes plan),
      (''backup_retention_days'', Pl_BackupRetentionDays plan), (''php_max_children'', Pl_PHPFPMMaxChildren plan),
      (''php_memory_mb'', Pl_PHPMemoryMB plan), (''site_disk_quota_mb'', Pl_SiteDiskQuotaMB plan),
      (''max_backups'', Pl_MaxBackups plan), (''backup_storage_mb'', Pl_BackupStorageMB plan),
      (''max_subdomains'', Pl_MaxSubdomains plan), (''max_domain_aliases'', Pl_MaxDomainAliases plan),
      (''max_ftp_accounts'', Pl_MaxFTPAccounts plan), (''validity_days'', Pl_ValidityDays plan)]"

text \<open>
  The source ranges over a map and reports the first limit it meets that is too low or too high;
  here an error carries every limit it may name.
\<close>

definition overuse_policies :: "string list" where
  "overuse_policies = [''block'', ''normal'', ''notify'', ''not_suspend'', ''not_suspend_notify'']"

definition ValidatePlan :: "Plan \<Rightarrow> plan_error option" where
  "ValidatePlan plan0 =
     (let plan = normalizePlanDefaults plan0;
          low = violators (\<lambda>v. v < -1) (plan_limit_entries plan);
          high = violators (\<lambda>v. v > maxPlanLimit) (plan_limit_entries plan) in
      first_error
       [fail_if (TrimSpace (Pl_Name plan) = []) PlanNameRequired,
        fail_if (case Pl_PriceCents plan of None \<Rightarrow> False | Some c \<Rightarrow> c < 0) NegativePrice,
        fail_if (Pl_LifecycleStatus plan \<notin> {''draft'', ''active'', ''retired''})
          (UnsupportedLifecycle (Pl_LifecycleStatus plan)),
        fail_if (low \<noteq> []) (PlanLimitTooLow low),
        fail_if (high \<noteq> []) (PlanLimitTooHigh high),
        fail_if (Pl_OverusePolicy plan \<notin> set overuse_policies) (UnsupportedOverusePolicy (Pl_OverusePolicy plan)),
        fail_if (Pl_DiskWarningPercent plan < 1 \<or> Pl_DiskWarningPercent plan > 100) DiskWarningRange,
        fail_if (Pl_TrafficWarningPercent plan < 1 \<or> Pl_TrafficWarningPercent plan > 100) TrafficWarningRange,
        fail_if (Pl_HostingEnabled plan \<and> TrimSpace (Pl_DefaultPHPVersion plan) = []) DefaultPHPRequired,
        fail_if (Pl_HostingEnabled plan \<and> \<not> csvContains (Pl_PHPAllowlist plan) (Pl_DefaultPHPVersion plan))
          DefaultPHPOutsideAllowlist])"

definition entitlement_limit_entries :: "SubscriptionEntitlements \<Rightarrow> (string \<times> int) list" where
  "entitlement_limit_entries e =
     [(''disk_mb'', Ent_DiskMB e), (''max_sites'', Ent_MaxSites e), (''max_databases'', Ent_MaxDatabases e),
      (''bandwidth_mb'', Ent_BandwidthMB e), (''max_mailboxes'', Ent_MaxMailboxes e),
      (''backup_retention_days'', Ent_BackupRetentionDays e), (''php_fpm_max_children'', Ent_PHPFPMMaxChildren e),
      (''php_memory_mb'', Ent_PHPMemoryMB e), (''site_disk_quota_mb'', Ent_SiteDiskQuotaMB e),
      (''max_backups'', Ent_MaxBackups e), (''backup_storage_mb'', Ent_BackupStorageMB e),
      (''max_subdomains'', Ent_MaxSubdomains e), (''max_domain_aliases'', Ent_MaxDomainAliases e),
      (''max_ftp_accounts'', Ent_MaxFTPAccounts e), (''validity_days'', Ent_ValidityDays e)]"

definition ValidateEntitlements :: "SubscriptionEntitlements \<Rightarrow> plan_error option" where
  "ValidateEntitlements e =
     (let low = violators (\<lambda>v. v < -1) (entitlement_limit_entries e);
          high = violators (\<lambda>v. v > maxPlanLimit) (entitlement_limit_entries e) in
      first_error
       [fail_if (low \<noteq> []) (PlanLimitTooLow low),
        fail_if (high \<noteq> []) (PlanLimitTooHigh high),
        fail_if (Ent_OverusePolicy e \<noteq> [] \<and> Ent_OverusePolicy e \<notin> set overuse_policies)
          (UnsupportedOverusePolicy (Ent_OverusePolicy e)),
        fail_if (Ent_DiskWarningPercent e \<noteq> 0 \<and> (Ent_DiskWarningPercent e < 1 \<or> Ent_DiskWarningPercent e > 100))
          DiskWarningRange,
        fail_if (Ent_TrafficWarningPercent e \<noteq> 0 \<and>
            (Ent_TrafficWarningPercent e < 1 \<or> Ent_TrafficWarningPercent e > 100)) TrafficWarningRange,
        fail_if (Ent_HostingEnabled e \<and> TrimSpace (Ent_DefaultPHPVersion e) = []) DefaultPHPRequired,
        fail_if (Ent_HostingEnabled e \<and> \<not> csvContains (Ent_PHPAllowlist e) (Ent_DefaultPHPVersion e))
          DefaultPHPOutsideAllowlist])"

record Settings =
  Set_OversellPolicy :: string
  Set_ServerDiskCapacityMB :: int
  Set_ValkeyCapacityMB :: int
  Set_CreatedAt :: int
  Set_UpdatedAt :: int

datatype settings_error = UnsupportedOversellPolicy string | NegativeDiskCapacity | NegativeValkeyCapacity

definition ValidateSettings :: "Settings \<Rightarrow> settings_error option" where
  "ValidateSettings s =
     first_error
      [fail_if (Set_OversellPolicy s \<notin> {''warn'', ''cap''}) (UnsupportedOversellPolicy (Set_OversellPolicy s)),
       fail_if (Set_ServerDiskCapacityMB s < 0) NegativeDiskCapacity,
       fail_if (Set_ValkeyCapacityMB s < 0) NegativeValkeyCapacity]"

section \<open>Plans and entitlements\<close>

definition plan_of_columns :: "SubscriptionEntitlements \<Rightarrow> Plan" where
  "plan_of_columns e =
     (let trimmed = TrimSpace (Ent_PlanName e);
          name = (if trimmed = [] then ''Custom'' else trimmed) in
       \<lparr>Pl_ID = 0, Pl_Name = name, Pl_Description = [], Pl_PriceCents = None, Pl_DiskMB = Ent_DiskMB e,
        Pl_MaxSites = Ent_MaxSites e, Pl_MaxDatabases = Ent_MaxDatabases e, Pl_BandwidthMB = Ent_BandwidthMB e,
        Pl_MaxMailboxes = Ent_MaxMailboxes e, Pl_AllowSSH = Ent_AllowSSH e, Pl_AllowDNS = Ent_AllowDNS e,
        Pl_BackupRetentionDays = Ent_BackupRetentionDays e, Pl_PHPAllowlist = Ent_PHPAllowlist e,
        Pl_PHPFPMMaxChildren = Ent_PHPFPMMaxChildren e, Pl_PHPMemoryMB = Ent_PHPMemoryMB e,
        Pl_SiteDiskQuotaMB = Ent_SiteDiskQuotaMB e, Pl_MaxBackups = Ent_MaxBackups e,
        Pl_BackupStorageMB = Ent_BackupStorageMB e, Pl_IsActive = False, Pl_CreatedAt = 0, Pl_UpdatedAt = 0,
        Pl_ResellerID = 0, Pl_Revision = maxInt (Ent_SourceRevision e) 1, Pl_OverusePolicy = Ent_OverusePolicy e,
        Pl_DiskWarningPercent = Ent_DiskWarningPercent e, Pl_TrafficWarningPercent = Ent_TrafficWarningPercent e,
        Pl_MaxSubdomains = Ent_MaxSubdomains e, Pl_MaxDomainAliases = Ent_MaxDomainAliases e,
        Pl_MaxFTPAccounts = Ent_MaxFTPAccounts e, Pl_ValidityDays = Ent_ValidityDays e,
        Pl_HostingEnabled = Ent_HostingEnabled e, Pl_DefaultPHPVersion = Ent_DefaultPHPVersion e,
        Pl_AllowTLS = Ent_AllowTLS e, Pl_AllowBackups = Ent_AllowBackups e,
        Pl_AllowPHPSettings = Ent_AllowPHPSettings e, Pl_Presets = Ent_ServicePresets e,
        Pl_HostingPolicy = Ent_HostingPolicy e, Pl_LifecycleStatus = [], Pl_LastValidatedAt = None,
        Pl_ReadinessError = [], Pl_RevisionActorUserID = 0, Pl_RevisionActorLabel = [], Pl_ChangeReason = []\<rparr>)"

definition planFromEntitlements :: "SubscriptionEntitlements \<Rightarrow> Plan" where
  "planFromEntitlements e = normalizePlanDefaults (plan_of_columns e)"

definition columns_of_plan :: "Plan \<Rightarrow> SubscriptionEntitlements" where
  "columns_of_plan plan =
              \<lparr>Ent_PreserveHostingPolicy = False, Ent_StatisticsEdited = False, Ent_SubscriptionID = 0,
               Ent_PlanName = Pl_Name plan, Ent_DiskMB = Pl_DiskMB plan, Ent_MaxSites = Pl_MaxSites plan,
               Ent_MaxDatabases = Pl_MaxDatabases plan, Ent_BandwidthMB = Pl_BandwidthMB plan,
               Ent_MaxMailboxes = Pl_MaxMailboxes plan, Ent_AllowSSH = Pl_AllowSSH plan,
               Ent_AllowDNS = Pl_AllowDNS plan, Ent_BackupRetentionDays = Pl_BackupRetentionDays plan,
               Ent_PHPAllowlist = Pl_PHPAllowlist plan, Ent_PHPFPMMaxChildren = Pl_PHPFPMMaxChildren plan,
               Ent_PHPMemoryMB = Pl_PHPMemoryMB plan, Ent_SiteDiskQuotaMB = Pl_SiteDiskQuotaMB plan,
               Ent_MaxBackups = Pl_MaxBackups plan, Ent_BackupStorageMB = Pl_BackupStorageMB plan,
               Ent_SourceRevision = maxInt (Pl_Revision plan) 1, Ent_OverusePolicy = Pl_OverusePolicy plan,
               Ent_DiskWarningPercent = Pl_DiskWarningPercent plan,
               Ent_TrafficWarningPercent = Pl_TrafficWarningPercent plan,
               Ent_MaxSubdomains = Pl_MaxSubdomains plan, Ent_MaxDomainAliases = Pl_MaxDomainAliases plan,
               Ent_MaxFTPAccounts = Pl_MaxFTPAccounts plan, Ent_ValidityDays = Pl_ValidityDays plan,
               Ent_HostingEnabled = Pl_HostingEnabled plan, Ent_DefaultPHPVersion = Pl_DefaultPHPVersion plan,
               Ent_AllowTLS = Pl_AllowTLS plan, Ent_AllowBackups = Pl_AllowBackups plan,
               Ent_AllowPHPSettings = Pl_AllowPHPSettings plan, Ent_ServicePresets = Pl_Presets plan,
               Ent_HostingPolicy = Pl_HostingPolicy plan\<rparr>"

definition entitlementsFromPlan :: "Plan \<Rightarrow> SubscriptionEntitlements" where
  "entitlementsFromPlan plan =
     (let e = columns_of_plan (normalizePlanDefaults plan) in
      if HP_SchemaVersion (Ent_HostingPolicy e) = 0
      then e\<lparr>Ent_HostingPolicy := DefaultFromEntitlements e\<rparr> else e)"

definition hostingPolicyFromPlan :: "Plan \<Rightarrow> HostingPolicy" where
  "hostingPolicyFromPlan plan = DefaultFromEntitlements (entitlementsFromPlan plan)"

definition EffectivePlanHostingPolicy :: "Plan \<Rightarrow> HostingPolicy" where
  "EffectivePlanHostingPolicy plan =
     (if HP_SchemaVersion (Pl_HostingPolicy plan) \<noteq> 0 then
        let p = Pl_HostingPolicy plan in
        Upgrade (if HP_SchemaVersion p < 5 \<and> Logs_StatisticsEngine (HP_Logs p) = []
                 then p\<lparr>HP_Logs := SP_Logs (Pl_Presets plan)\<rparr> else p)
      else hostingPolicyFromPlan plan)"

section \<open>Stability of the defaults\<close>

lemma NormalizeLogs_presets [simp]:
  "SP_Logs (normalizedPlanPresets q) =
     NormalizeLogs (if HP_SchemaVersion (Pl_HostingPolicy q) \<ge> 5 then HP_Logs (Pl_HostingPolicy q) else SP_Logs (Pl_Presets q))"
  by (simp add: normalizedPlanPresets_def Let_def)

lemma preset_hosting_idem:
  assumes "Pl_DefaultPHPVersion q' = Pl_DefaultPHPVersion q" and "Pl_PHPAllowlist q' = Pl_PHPAllowlist q"
  shows "preset_hosting q' (preset_hosting q h) = preset_hosting q h"
  using assms by (simp add: preset_hosting_def)

lemma normalizedPlanPresets_stable:
  assumes "Pl_Presets q' = normalizedPlanPresets q" and "Pl_DefaultPHPVersion q' = Pl_DefaultPHPVersion q"
    and "Pl_PHPAllowlist q' = Pl_PHPAllowlist q"
    and "NormalizeLogs (if HP_SchemaVersion (Pl_HostingPolicy q') \<ge> 5 then HP_Logs (Pl_HostingPolicy q')
          else SP_Logs (normalizedPlanPresets q)) = SP_Logs (normalizedPlanPresets q)"
  shows "normalizedPlanPresets q' = normalizedPlanPresets q"
proof -
  have "SP_Hosting (normalizedPlanPresets q) = preset_hosting q (SP_Hosting (Pl_Presets q))"
    "SP_SchemaVersion (normalizedPlanPresets q) > 0"
    by (simp_all add: normalizedPlanPresets_def Let_def)
  then show ?thesis
    unfolding normalizedPlanPresets_def [of q'] Let_def assms(1) assms(4)
    using preset_hosting_idem [OF assms(2,3)] by simp
qed

lemma default_lifecycle_nonempty [simp]: "default_lifecycle q \<noteq> []"
  by (simp add: default_lifecycle_def)

lemma default_php_idem:
  "Pl_DefaultPHPVersion q' = default_php q \<Longrightarrow> Pl_PHPAllowlist q' = Pl_PHPAllowlist q \<Longrightarrow>
     default_php q' = default_php q"
  by (simp add: default_php_def)

lemma normalizePlanDefaults_idem:
  "normalizePlanDefaults (normalizePlanDefaults q) = normalizePlanDefaults q"
proof -
  define a where "a = q
       \<lparr>Pl_LifecycleStatus := default_lifecycle q,
        Pl_IsActive := (default_lifecycle q = ''active''),
        Pl_OverusePolicy := (if Pl_OverusePolicy q = [] then ''block'' else Pl_OverusePolicy q),
        Pl_DiskWarningPercent := (if Pl_DiskWarningPercent q = 0 then 80 else Pl_DiskWarningPercent q),
        Pl_TrafficWarningPercent := (if Pl_TrafficWarningPercent q = 0 then 80 else Pl_TrafficWarningPercent q),
        Pl_DefaultPHPVersion := default_php q\<rparr>"
  define b where "b = a\<lparr>Pl_Presets := normalizedPlanPresets a\<rparr>"
  have n: "normalizePlanDefaults q = b" by (simp add: normalizePlanDefaults_def a_def b_def Let_def)
  have lc: "default_lifecycle b = default_lifecycle q" "Pl_LifecycleStatus b = default_lifecycle q"
    "Pl_IsActive b = (default_lifecycle q = ''active'')"
    by (simp_all add: a_def b_def default_lifecycle_def)
  have php: "default_php b = default_php q"
    by (rule default_php_idem) (simp_all add: a_def b_def)
  have fix_b: "b\<lparr>Pl_LifecycleStatus := default_lifecycle b, Pl_IsActive := (default_lifecycle b = ''active''),
      Pl_OverusePolicy := (if Pl_OverusePolicy b = [] then ''block'' else Pl_OverusePolicy b),
      Pl_DiskWarningPercent := (if Pl_DiskWarningPercent b = 0 then 80 else Pl_DiskWarningPercent b),
      Pl_TrafficWarningPercent := (if Pl_TrafficWarningPercent b = 0 then 80 else Pl_TrafficWarningPercent b),
      Pl_DefaultPHPVersion := default_php b\<rparr> = b"
    unfolding lc php by (simp add: a_def b_def)
  have "normalizedPlanPresets b = normalizedPlanPresets a"
    by (rule normalizedPlanPresets_stable) (simp_all add: b_def)
  then show ?thesis
    unfolding n normalizePlanDefaults_def [of b] Let_def fix_b by (simp add: b_def)
qed

lemma normalizePlanDefaults_keeps [simp]:
  "Pl_ID (normalizePlanDefaults q) = Pl_ID q"
  "Pl_Name (normalizePlanDefaults q) = Pl_Name q"
  "Pl_Description (normalizePlanDefaults q) = Pl_Description q"
  "Pl_PriceCents (normalizePlanDefaults q) = Pl_PriceCents q"
  "Pl_DiskMB (normalizePlanDefaults q) = Pl_DiskMB q"
  "Pl_MaxSites (normalizePlanDefaults q) = Pl_MaxSites q"
  "Pl_MaxDatabases (normalizePlanDefaults q) = Pl_MaxDatabases q"
  "Pl_BandwidthMB (normalizePlanDefaults q) = Pl_BandwidthMB q"
  "Pl_MaxMailboxes (normalizePlanDefaults q) = Pl_MaxMailboxes q"
  "Pl_AllowSSH (normalizePlanDefaults q) = Pl_AllowSSH q"
  "Pl_AllowDNS (normalizePlanDefaults q) = Pl_AllowDNS q"
  "Pl_BackupRetentionDays (normalizePlanDefaults q) = Pl_BackupRetentionDays q"
  "Pl_PHPAllowlist (normalizePlanDefaults q) = Pl_PHPAllowlist q"
  "Pl_PHPFPMMaxChildren (normalizePlanDefaults q) = Pl_PHPFPMMaxChildren q"
  "Pl_PHPMemoryMB (normalizePlanDefaults q) = Pl_PHPMemoryMB q"
  "Pl_SiteDiskQuotaMB (normalizePlanDefaults q) = Pl_SiteDiskQuotaMB q"
  "Pl_MaxBackups (normalizePlanDefaults q) = Pl_MaxBackups q"
  "Pl_BackupStorageMB (normalizePlanDefaults q) = Pl_BackupStorageMB q"
  "Pl_CreatedAt (normalizePlanDefaults q) = Pl_CreatedAt q"
  "Pl_UpdatedAt (normalizePlanDefaults q) = Pl_UpdatedAt q"
  "Pl_ResellerID (normalizePlanDefaults q) = Pl_ResellerID q"
  "Pl_Revision (normalizePlanDefaults q) = Pl_Revision q"
  "Pl_MaxSubdomains (normalizePlanDefaults q) = Pl_MaxSubdomains q"
  "Pl_MaxDomainAliases (normalizePlanDefaults q) = Pl_MaxDomainAliases q"
  "Pl_MaxFTPAccounts (normalizePlanDefaults q) = Pl_MaxFTPAccounts q"
  "Pl_ValidityDays (normalizePlanDefaults q) = Pl_ValidityDays q"
  "Pl_HostingEnabled (normalizePlanDefaults q) = Pl_HostingEnabled q"
  "Pl_AllowTLS (normalizePlanDefaults q) = Pl_AllowTLS q"
  "Pl_AllowBackups (normalizePlanDefaults q) = Pl_AllowBackups q"
  "Pl_AllowPHPSettings (normalizePlanDefaults q) = Pl_AllowPHPSettings q"
  "Pl_HostingPolicy (normalizePlanDefaults q) = Pl_HostingPolicy q"
  "Pl_LastValidatedAt (normalizePlanDefaults q) = Pl_LastValidatedAt q"
  "Pl_ReadinessError (normalizePlanDefaults q) = Pl_ReadinessError q"
  "Pl_RevisionActorUserID (normalizePlanDefaults q) = Pl_RevisionActorUserID q"
  "Pl_RevisionActorLabel (normalizePlanDefaults q) = Pl_RevisionActorLabel q"
  "Pl_ChangeReason (normalizePlanDefaults q) = Pl_ChangeReason q"
  by (simp_all add: normalizePlanDefaults_def Let_def)

lemma normalizePlanDefaults_fields:
  "Pl_OverusePolicy (normalizePlanDefaults q) = (if Pl_OverusePolicy q = [] then ''block'' else Pl_OverusePolicy q)"
  "Pl_DiskWarningPercent (normalizePlanDefaults q) = (if Pl_DiskWarningPercent q = 0 then 80 else Pl_DiskWarningPercent q)"
  "Pl_TrafficWarningPercent (normalizePlanDefaults q) =
     (if Pl_TrafficWarningPercent q = 0 then 80 else Pl_TrafficWarningPercent q)"
  "Pl_DefaultPHPVersion (normalizePlanDefaults q) = default_php q"
  "Pl_LifecycleStatus (normalizePlanDefaults q) = default_lifecycle q"
  "Pl_Presets (normalizePlanDefaults q) = normalizedPlanPresets (q\<lparr>Pl_DefaultPHPVersion := default_php q\<rparr>)"
  by (simp_all add: normalizePlanDefaults_def Let_def normalizedPlanPresets_def preset_hosting_def)


lemma Upgrade_DefaultFromEntitlements [simp]: "Upgrade (DefaultFromEntitlements e) = DefaultFromEntitlements e"
  by (simp add: Upgrade_def DefaultFromEntitlements_def Let_def)

lemma maxInt_idem [simp]: "maxInt (maxInt a b) b = maxInt a b"
  by (simp add: maxInt_def)

lemma DefaultFromEntitlements_schema [simp]:
  "HP_SchemaVersion (DefaultFromEntitlements e) = 5"
  "HP_Logs (DefaultFromEntitlements e) = NormalizeLogs (SP_Logs (Ent_ServicePresets e))"
  by (simp_all add: DefaultFromEntitlements_def Let_def)

lemma DefaultFromEntitlements_ignores_policy [simp]:
  "DefaultFromEntitlements (e\<lparr>Ent_HostingPolicy := p\<rparr>) = DefaultFromEntitlements e"
  by (simp add: DefaultFromEntitlements_def Let_def)

lemma plan_of_columns_of_plan:
  assumes "TrimSpace (Pl_Name q) = Pl_Name q" and "Pl_Name q \<noteq> []"
  shows "columns_of_plan (plan_of_columns ((columns_of_plan q)\<lparr>Ent_HostingPolicy := p\<rparr>)) =
    (columns_of_plan q)\<lparr>Ent_HostingPolicy := p\<rparr>"
  using assms by (simp add: columns_of_plan_def plan_of_columns_def Let_def)

text \<open>Plans whose columns the defaults leave alone.\<close>

definition settled :: "Plan \<Rightarrow> bool" where
  "settled q \<longleftrightarrow> Pl_OverusePolicy q \<noteq> [] \<and> Pl_DiskWarningPercent q \<noteq> 0 \<and> Pl_TrafficWarningPercent q \<noteq> 0 \<and>
     default_php q = Pl_DefaultPHPVersion q \<and> normalizedPlanPresets q = Pl_Presets q"

lemma settled_columns: "settled q \<Longrightarrow> columns_of_plan (normalizePlanDefaults q) = columns_of_plan q"
  by (simp add: settled_def columns_of_plan_def normalizePlanDefaults_fields)

lemma plan_of_columns_fields:
  "Pl_OverusePolicy (plan_of_columns e) = Ent_OverusePolicy e"
  "Pl_DiskWarningPercent (plan_of_columns e) = Ent_DiskWarningPercent e"
  "Pl_TrafficWarningPercent (plan_of_columns e) = Ent_TrafficWarningPercent e"
  "Pl_DefaultPHPVersion (plan_of_columns e) = Ent_DefaultPHPVersion e"
  "Pl_PHPAllowlist (plan_of_columns e) = Ent_PHPAllowlist e"
  "Pl_Presets (plan_of_columns e) = Ent_ServicePresets e"
  "Pl_HostingPolicy (plan_of_columns e) = Ent_HostingPolicy e"
  by (simp_all add: plan_of_columns_def Let_def)

lemma columns_of_plan_fields:
  "Ent_OverusePolicy (columns_of_plan q) = Pl_OverusePolicy q"
  "Ent_DiskWarningPercent (columns_of_plan q) = Pl_DiskWarningPercent q"
  "Ent_TrafficWarningPercent (columns_of_plan q) = Pl_TrafficWarningPercent q"
  "Ent_DefaultPHPVersion (columns_of_plan q) = Pl_DefaultPHPVersion q"
  "Ent_PHPAllowlist (columns_of_plan q) = Pl_PHPAllowlist q"
  "Ent_ServicePresets (columns_of_plan q) = Pl_Presets q"
  "Ent_HostingPolicy (columns_of_plan q) = Pl_HostingPolicy q"
  by (simp_all add: columns_of_plan_def)

lemma entitlementsFromPlan_columns:
  "entitlementsFromPlan q = (columns_of_plan (normalizePlanDefaults q))
     \<lparr>Ent_HostingPolicy := (if HP_SchemaVersion (Pl_HostingPolicy q) = 0
        then DefaultFromEntitlements (columns_of_plan (normalizePlanDefaults q)) else Pl_HostingPolicy q)\<rparr>"
  by (simp add: entitlementsFromPlan_def columns_of_plan_def Let_def)

lemma settled_plan_of_columns: "settled (plan_of_columns (entitlementsFromPlan q))"
proof -
  let ?n = "normalizePlanDefaults q" and ?r = "plan_of_columns (entitlementsFromPlan q)"
  have php: "default_php ?r = Pl_DefaultPHPVersion ?r"
  proof -
    have "default_php ?r = default_php q"
      by (rule default_php_idem)
        (simp_all add: plan_of_columns_fields entitlementsFromPlan_columns columns_of_plan_fields normalizePlanDefaults_fields)
    then show ?thesis
      by (simp add: plan_of_columns_fields entitlementsFromPlan_columns columns_of_plan_fields normalizePlanDefaults_fields)
  qed
  have "normalizedPlanPresets ?r = normalizedPlanPresets (q\<lparr>Pl_DefaultPHPVersion := default_php q\<rparr>)"
    by (rule normalizedPlanPresets_stable)
      (simp_all add: plan_of_columns_fields entitlementsFromPlan_columns columns_of_plan_fields normalizePlanDefaults_fields)
  with php show ?thesis
    unfolding settled_def
    by (simp add: plan_of_columns_fields entitlementsFromPlan_columns columns_of_plan_fields normalizePlanDefaults_fields)
qed

lemma entitlementsFromPlan_fixpoint:
  assumes "TrimSpace (Pl_Name q) = Pl_Name q" and "Pl_Name q \<noteq> []"
  shows "entitlementsFromPlan (planFromEntitlements (entitlementsFromPlan q)) = entitlementsFromPlan q"
proof -
  let ?r = "plan_of_columns (entitlementsFromPlan q)"
  have "columns_of_plan (normalizePlanDefaults ?r) = columns_of_plan ?r"
    by (rule settled_columns) (rule settled_plan_of_columns)
  also have "\<dots> = entitlementsFromPlan q"
    unfolding entitlementsFromPlan_columns by (rule plan_of_columns_of_plan) (simp_all add: assms)
  finally have cols: "columns_of_plan (normalizePlanDefaults ?r) = entitlementsFromPlan q" .
  have "HP_SchemaVersion (Ent_HostingPolicy (entitlementsFromPlan q)) \<noteq> 0"
    by (simp add: entitlementsFromPlan_columns)
  then show ?thesis
    unfolding planFromEntitlements_def
    by (simp add: entitlementsFromPlan_def [of "normalizePlanDefaults ?r"] normalizePlanDefaults_idem cols Let_def)
qed

lemma Upgrade_logs:
  assumes "1 \<le> HP_SchemaVersion p" and "HP_SchemaVersion p \<le> 5" and "NormalizeLogs a = NormalizeLogs b"
  shows "Upgrade (p\<lparr>HP_Logs := a\<rparr>) = Upgrade (p\<lparr>HP_Logs := b\<rparr>)"
  using assms by (simp add: Upgrade_def Let_def)

lemma EffectivePlanHostingPolicy_stable:
  assumes "HP_SchemaVersion (Pl_HostingPolicy q) \<ge> 0"
  shows "EffectivePlanHostingPolicy (planFromEntitlements (entitlementsFromPlan q)) = EffectivePlanHostingPolicy q"
proof -
  let ?r = "plan_of_columns (entitlementsFromPlan q)"
  have pol: "Pl_HostingPolicy (planFromEntitlements (entitlementsFromPlan q)) = Ent_HostingPolicy (entitlementsFromPlan q)"
    by (simp add: planFromEntitlements_def plan_of_columns_fields)
  have logs: "SP_Logs (Pl_Presets (planFromEntitlements (entitlementsFromPlan q))) = NormalizeLogs (SP_Logs (Pl_Presets q))"
    if "HP_SchemaVersion (Pl_HostingPolicy q) < 5" "HP_SchemaVersion (Pl_HostingPolicy q) \<noteq> 0"
    using that by (simp add: planFromEntitlements_def normalizePlanDefaults_fields plan_of_columns_fields
        entitlementsFromPlan_columns columns_of_plan_fields)
  show ?thesis
  proof (cases "HP_SchemaVersion (Pl_HostingPolicy q) = 0")
    case True
    let ?c = "columns_of_plan (normalizePlanDefaults q)"
    have "Ent_HostingPolicy (entitlementsFromPlan q) = DefaultFromEntitlements ?c"
      "DefaultFromEntitlements (entitlementsFromPlan q) = DefaultFromEntitlements ?c"
      using True by (simp_all add: entitlementsFromPlan_columns)
    then show ?thesis
      using True by (simp add: EffectivePlanHostingPolicy_def pol hostingPolicyFromPlan_def Let_def)
  next
    case False
    then have "Ent_HostingPolicy (entitlementsFromPlan q) = Pl_HostingPolicy q"
      by (simp add: entitlementsFromPlan_columns)
    then show ?thesis
      using False assms logs
      by (auto simp: EffectivePlanHostingPolicy_def pol Let_def intro!: Upgrade_logs)
  qed
qed

lemma ValidateEntitlements_None_iff:
  "ValidateEntitlements e = None \<longleftrightarrow>
     list_all (\<lambda>(n, v). -1 \<le> v \<and> v \<le> maxPlanLimit) (entitlement_limit_entries e) \<and>
     (Ent_OverusePolicy e = [] \<or> Ent_OverusePolicy e \<in> set overuse_policies) \<and>
     (Ent_DiskWarningPercent e = 0 \<or> 1 \<le> Ent_DiskWarningPercent e \<and> Ent_DiskWarningPercent e \<le> 100) \<and>
     (Ent_TrafficWarningPercent e = 0 \<or> 1 \<le> Ent_TrafficWarningPercent e \<and> Ent_TrafficWarningPercent e \<le> 100) \<and>
     (Ent_HostingEnabled e \<longrightarrow> TrimSpace (Ent_DefaultPHPVersion e) \<noteq> [] \<and>
        csvContains (Ent_PHPAllowlist e) (Ent_DefaultPHPVersion e))"
  unfolding ValidateEntitlements_def Let_def first_error_None list.pred_inject fail_if_None violators_Nil
  by (auto simp: list_all_iff not_less)

lemma ValidatePlan_entitlements:
  assumes "ValidatePlan q = None"
  shows "ValidateEntitlements (entitlementsFromPlan q) = None"
  using assms
  unfolding ValidateEntitlements_None_iff ValidatePlan_def Let_def first_error_None list.pred_inject fail_if_None violators_Nil
  by (simp add: entitlementsFromPlan_columns columns_of_plan_def plan_limit_entries_def entitlement_limit_entries_def
      not_less del: normalizePlanDefaults_keeps)


section \<open>A plan\<close>

definition demo_plan :: Plan where
  "demo_plan = (plan_of_columns (zero_SubscriptionEntitlements
     \<lparr>Ent_PlanName := ''Starter'', Ent_DiskMB := 1024, Ent_MaxSites := 3, Ent_MaxMailboxes := -1,
      Ent_PHPAllowlist := ''8.3, 8.4'', Ent_HostingEnabled := True\<rparr>))\<lparr>Pl_ID := 7, Pl_IsActive := True\<rparr>"

lemma demo_plan_valid: "ValidatePlan demo_plan = None"
  by code_simp


end
