(* ===== verification/Plan_Compose.thy ===== *)
theory Plan_Compose
  imports Plan_Entitlements Policy_Within "HOL-Library.List_Lexorder" "HOL-Library.Char_ord"
begin

text \<open>
  Add-on plans of \<open>internal/control/quota/provider.go\<close>: how the entitlements of a subscription grow
  with its add-ons (\<open>ComposeEntitlements\<close>) and how the hosting policy follows. A Go map that is used
  as a set is a set; its keys are sorted before they are read. The tables list the fields that the source
  combines, each with its name, its reader and its writer.
\<close>

section \<open>Limits\<close>

text \<open>Difference and sum of the guarded branches stay in the 64-bit range (\<open>additiveLimit_in_range\<close>).\<close>

definition additiveLimit :: "int \<Rightarrow> int \<Rightarrow> unit + int" where
  "additiveLimit current delta =
     (if current < 0 \<or> delta < 0 then Inr (-1)
      else if current > maxPlanLimit - delta then Inl ()
      else Inr (current + delta))"

lemma additiveLimit_in_range:
  assumes "is_int64 current" and "is_int64 delta" and "0 \<le> current" and "0 \<le> delta"
  shows "is_int64 (maxPlanLimit - delta)" and "current \<le> maxPlanLimit - delta \<Longrightarrow> is_int64 (current + delta)"
  using assms by (auto simp: is_int64_def maxPlanLimit_def)

definition highestLimit :: "int \<Rightarrow> int \<Rightarrow> int" where
  "highestLimit current candidate =
     (if current < 0 \<or> candidate < 0 then -1 else if candidate > current then candidate else current)"

section \<open>Lists and sets of names\<close>

definition csvSet :: "string \<Rightarrow> string set" where
  "csvSet v = set (filter (\<lambda>item. item \<noteq> []) (csv_items v))"

definition joinSet :: "string set \<Rightarrow> string" where
  "joinSet vs = Join (sorted_list_of_set vs) '',''"

fun union_loop :: "string list \<Rightarrow> string list \<Rightarrow> string list" where
  "union_loop result [] = result"
| "union_loop result (v # vs) =
     (let t = TrimSpace v in
      if t = [] then union_loop result vs
      else if t \<in> set result then union_loop result vs
      else union_loop (result @ [t]) vs)"

definition unionStrings :: "string list \<Rightarrow> string list \<Rightarrow> string list" where
  "unionStrings base add = sort (union_loop [] (base @ add))"

definition dmarc_rank :: "string \<Rightarrow> int" where
  "dmarc_rank v = (if v = ''none'' then 1 else if v = ''quarantine'' then 2 else if v = ''reject'' then 3 else 0)"

definition strongerDMARCPolicy :: "string \<Rightarrow> string \<Rightarrow> string" where
  "strongerDMARCPolicy base addon = (if dmarc_rank addon > dmarc_rank base then addon else base)"

section \<open>Presets\<close>

definition compose_php_preset :: "PHPPreset \<Rightarrow> PHPPreset \<Rightarrow> PHPPreset" where
  "compose_php_preset b a =
     b\<lparr>PPre_MaxExecutionSeconds := maxInt (PPre_MaxExecutionSeconds b) (PPre_MaxExecutionSeconds a),
       PPre_MaxInputSeconds := maxInt (PPre_MaxInputSeconds b) (PPre_MaxInputSeconds a),
       PPre_PostMaxMB := maxInt (PPre_PostMaxMB b) (PPre_PostMaxMB a),
       PPre_UploadMaxMB := maxInt (PPre_UploadMaxMB b) (PPre_UploadMaxMB a),
       PPre_FPMMaxRequests := maxInt (PPre_FPMMaxRequests b) (PPre_FPMMaxRequests a),
       PPre_DisplayErrors := (PPre_DisplayErrors b \<or> PPre_DisplayErrors a),
       PPre_LogErrors := (PPre_LogErrors b \<or> PPre_LogErrors a),
       PPre_AllowURLFOpen := (PPre_AllowURLFOpen b \<or> PPre_AllowURLFOpen a)\<rparr>"

definition compose_mail_preset :: "MailPreset \<Rightarrow> MailPreset \<Rightarrow> MailPreset" where
  "compose_mail_preset b a =
     (let policy = TrimSpace (MPre_DMARCPolicy a) in
      b\<lparr>MPre_WebmailEnabled := (MPre_WebmailEnabled b \<or> MPre_WebmailEnabled a),
        MPre_SpamFilter := (MPre_SpamFilter b \<or> MPre_SpamFilter a),
        MPre_DKIM := (MPre_DKIM b \<or> MPre_DKIM a),
        MPre_DMARCPolicy := (if policy \<noteq> [] \<and> policy \<noteq> ''none'' then policy else MPre_DMARCPolicy b)\<rparr>)"

definition compose_logs_preset :: "LogsPreset \<Rightarrow> LogsPreset \<Rightarrow> LogsPreset" where
  "compose_logs_preset b a =
     (let l = NormalizeLogs (b\<lparr>Logs_RotationEnabled := (Logs_RotationEnabled b \<or> Logs_RotationEnabled a),
            Logs_RetentionDays := maxInt (Logs_RetentionDays b) (Logs_RetentionDays a)\<rparr>) in
      if StatisticsEngine a = ''goaccess''
      then l\<lparr>Logs_StatisticsEngine := ''goaccess'', Logs_StatisticsEnabled := True\<rparr> else l)"

definition compose_applications_preset :: "ApplicationsPreset \<Rightarrow> ApplicationsPreset \<Rightarrow> ApplicationsPreset" where
  "compose_applications_preset b a =
     b\<lparr>APre_CatalogEnabled := (APre_CatalogEnabled b \<or> APre_CatalogEnabled a),
       APre_Allowed := sorted_list_of_set
         (set (filter (\<lambda>n. n \<noteq> []) (map TrimSpace (APre_Allowed b @ APre_Allowed a))))\<rparr>"

definition composePresetIncrements :: "PlanServicePresets \<Rightarrow> PlanServicePresets \<Rightarrow> PlanServicePresets" where
  "composePresetIncrements base add =
     base\<lparr>SP_SchemaVersion := maxInt (maxInt (SP_SchemaVersion base) (SP_SchemaVersion add)) 1,
       SP_PHP := compose_php_preset (SP_PHP base) (SP_PHP add),
       SP_Mail := compose_mail_preset (SP_Mail base) (SP_Mail add),
       SP_DNS := (SP_DNS base)\<lparr>DPre_DefaultTTL := maxInt (DPre_DefaultTTL (SP_DNS base)) (DPre_DefaultTTL (SP_DNS add))\<rparr>,
       SP_Performance := (SP_Performance base)
         \<lparr>PfPre_MaxConnections := maxInt (PfPre_MaxConnections (SP_Performance base)) (PfPre_MaxConnections (SP_Performance add)),
          PfPre_StaticFileCache := (PfPre_StaticFileCache (SP_Performance base) \<or> PfPre_StaticFileCache (SP_Performance add))\<rparr>,
       SP_Logs := compose_logs_preset (SP_Logs base) (SP_Logs add),
       SP_Applications := compose_applications_preset (SP_Applications base) (SP_Applications add)\<rparr>"

section \<open>The policy of an add-on\<close>

text \<open>A table of fields that are combined one after the other; the first combination that fails is named.\<close>

type_synonym 's limit_field = "string \<times> ('s \<Rightarrow> int) \<times> (int \<Rightarrow> 's \<Rightarrow> 's)"

fun add_limits :: "'s limit_field list \<Rightarrow> 's \<Rightarrow> 's \<Rightarrow> string + 's" where
  "add_limits [] add base = Inr base"
| "add_limits ((name, get, put) # rest) add base =
     (case additiveLimit (get base) (get add) of
        Inl _ \<Rightarrow> Inl name
      | Inr v \<Rightarrow> add_limits rest add (put v base))"

definition policy_limit_fields :: "HostingResourcePolicy limit_field list" where
  "policy_limit_fields =
     [(''max_database_users'', Res_MaxDatabaseUsers, \<lambda>v. Res_MaxDatabaseUsers_update (\<lambda>_. v)),
      (''max_mail_aliases'', Res_MaxMailAliases, \<lambda>v. Res_MaxMailAliases_update (\<lambda>_. v)),
      (''max_sftp_identities'', Res_MaxSFTPIdentities, \<lambda>v. Res_MaxSFTPIdentities_update (\<lambda>_. v)),
      (''max_scheduled_tasks'', Res_MaxScheduledTasks, \<lambda>v. Res_MaxScheduledTasks_update (\<lambda>_. v)),
      (''max_applications'', Res_MaxApplications, \<lambda>v. Res_MaxApplications_update (\<lambda>_. v)),
      (''container_storage_mb'', Res_ContainerStorageMB, \<lambda>v. Res_ContainerStorageMB_update (\<lambda>_. v)),
      (''max_ftp_accounts'', Res_MaxFTPAccounts, \<lambda>v. Res_MaxFTPAccounts_update (\<lambda>_. v)),
      (''valkey_memory_mb'', Res_ValkeyMemoryMB, \<lambda>v. Res_ValkeyMemoryMB_update (\<lambda>_. v)),
      (''max_php_workers'', Res_MaxPHPWorkers, \<lambda>v. Res_MaxPHPWorkers_update (\<lambda>_. v)),
      (''max_php_releases'', Res_MaxPHPReleases, \<lambda>v. Res_MaxPHPReleases_update (\<lambda>_. v)),
      (''max_wordpress_sites'', Res_MaxWordPressSites, \<lambda>v. Res_MaxWordPressSites_update (\<lambda>_. v))]"

definition compose_resource_peaks :: "HostingResourcePolicy \<Rightarrow> HostingResourcePolicy \<Rightarrow> HostingResourcePolicy" where
  "compose_resource_peaks b a =
     b\<lparr>Res_CPUPercent := highestLimit (Res_CPUPercent b) (Res_CPUPercent a),
       Res_MemoryMB := highestLimit (Res_MemoryMB b) (Res_MemoryMB a),
       Res_IOReadMBPS := highestLimit (Res_IOReadMBPS b) (Res_IOReadMBPS a),
       Res_IOWriteMBPS := highestLimit (Res_IOWriteMBPS b) (Res_IOWriteMBPS a),
       Res_MaxTasks := highestLimit (Res_MaxTasks b) (Res_MaxTasks a)\<rparr>"

definition compose_permissions :: "HostingPermissionPolicy \<Rightarrow> HostingPermissionPolicy \<Rightarrow> HostingPermissionPolicy" where
  "compose_permissions b a =
     b\<lparr>Perm_Hosting := (Perm_Hosting b \<or> Perm_Hosting a), Perm_SSH := (Perm_SSH b \<or> Perm_SSH a),
       Perm_SFTP := (Perm_SFTP b \<or> Perm_SFTP a), Perm_FTPS := (Perm_FTPS b \<or> Perm_FTPS a),
       Perm_Logs := (Perm_Logs b \<or> Perm_Logs a), Perm_WebStatistics := (Perm_WebStatistics b \<or> Perm_WebStatistics a),
       Perm_Git := (Perm_Git b \<or> Perm_Git a), Perm_Staging := (Perm_Staging b \<or> Perm_Staging a),
       Perm_Valkey := (Perm_Valkey b \<or> Perm_Valkey a),
       Perm_ScheduledTasks := (Perm_ScheduledTasks b \<or> Perm_ScheduledTasks a),
       Perm_DNS := (Perm_DNS b \<or> Perm_DNS a), Perm_TLS := (Perm_TLS b \<or> Perm_TLS a),
       Perm_Mail := (Perm_Mail b \<or> Perm_Mail a), Perm_Databases := (Perm_Databases b \<or> Perm_Databases a),
       Perm_Backups := (Perm_Backups b \<or> Perm_Backups a), Perm_PHPSettings := (Perm_PHPSettings b \<or> Perm_PHPSettings a),
       Perm_CGI := (Perm_CGI b \<or> Perm_CGI a), Perm_Applications := (Perm_Applications b \<or> Perm_Applications a),
       Perm_CustomOCIImages := (Perm_CustomOCIImages b \<or> Perm_CustomOCIImages a),
       Perm_ApplicationEgress := (Perm_ApplicationEgress b \<or> Perm_ApplicationEgress a),
       Perm_Composer := (Perm_Composer b \<or> Perm_Composer a),
       Perm_ComposerCodeExecution := (Perm_ComposerCodeExecution b \<or> Perm_ComposerCodeExecution a),
       Perm_ManagedPHPDeployments := (Perm_ManagedPHPDeployments b \<or> Perm_ManagedPHPDeployments a),
       Perm_PHPWorkers := (Perm_PHPWorkers b \<or> Perm_PHPWorkers a),
       Perm_WordPressToolkit := (Perm_WordPressToolkit b \<or> Perm_WordPressToolkit a)\<rparr>"

definition compose_logs :: "LogsPreset \<Rightarrow> LogsPreset \<Rightarrow> LogsPreset" where
  "compose_logs b a =
     (if StatisticsEngine a = ''goaccess''
      then b\<lparr>Logs_StatisticsEngine := ''goaccess'', Logs_StatisticsEnabled := True\<rparr> else b)"

definition compose_web :: "HostingWebPolicy \<Rightarrow> HostingWebPolicy \<Rightarrow> HostingWebPolicy" where
  "compose_web b a =
     b\<lparr>Web_RequestRatePerSecond := highestLimit (Web_RequestRatePerSecond b) (Web_RequestRatePerSecond a),
       Web_RequestBurst := highestLimit (Web_RequestBurst b) (Web_RequestBurst a),
       Web_RequestBodyLimitMB := highestLimit (Web_RequestBodyLimitMB b) (Web_RequestBodyLimitMB a),
       Web_RateLimitPerSecond := highestLimit (Web_RateLimitPerSecond b) (Web_RateLimitPerSecond a),
       Web_RateLimitBurst := highestLimit (Web_RateLimitBurst b) (Web_RateLimitBurst a),
       Web_MaxConnections := highestLimit (Web_MaxConnections b) (Web_MaxConnections a),
       Web_CacheTTLSeconds := highestLimit (Web_CacheTTLSeconds b) (Web_CacheTTLSeconds a),
       Web_ConnectTimeoutSecs := highestLimit (Web_ConnectTimeoutSecs b) (Web_ConnectTimeoutSecs a),
       Web_ReadTimeoutSecs := highestLimit (Web_ReadTimeoutSecs b) (Web_ReadTimeoutSecs a),
       Web_HTTPSRedirect := (Web_HTTPSRedirect b \<or> Web_HTTPSRedirect a),
       Web_StaticCache := (Web_StaticCache b \<or> Web_StaticCache a),
       Web_FastCGIMicrocache := (Web_FastCGIMicrocache b \<or> Web_FastCGIMicrocache a),
       Web_Compression := (Web_Compression b \<or> Web_Compression a),
       Web_AllowedCIDRs := unionStrings (Web_AllowedCIDRs b) (Web_AllowedCIDRs a)\<rparr>"

definition compose_php :: "HostingPHPPolicy \<Rightarrow> HostingPHPPolicy \<Rightarrow> HostingPHPPolicy" where
  "compose_php b a =
     b\<lparr>PHP_AllowedVersions := unionStrings (PHP_AllowedVersions b) (PHP_AllowedVersions a),
       PHP_FPMMaxChildren := highestLimit (PHP_FPMMaxChildren b) (PHP_FPMMaxChildren a),
       PHP_FPMMaxRequests := highestLimit (PHP_FPMMaxRequests b) (PHP_FPMMaxRequests a),
       PHP_MemoryLimitMB := highestLimit (PHP_MemoryLimitMB b) (PHP_MemoryLimitMB a),
       PHP_MaxExecutionSeconds := highestLimit (PHP_MaxExecutionSeconds b) (PHP_MaxExecutionSeconds a),
       PHP_MaxInputSeconds := highestLimit (PHP_MaxInputSeconds b) (PHP_MaxInputSeconds a),
       PHP_PostMaxMB := highestLimit (PHP_PostMaxMB b) (PHP_PostMaxMB a),
       PHP_UploadMaxMB := highestLimit (PHP_UploadMaxMB b) (PHP_UploadMaxMB a),
       PHP_FPMIdleTimeoutSecs := highestLimit (PHP_FPMIdleTimeoutSecs b) (PHP_FPMIdleTimeoutSecs a),
       PHP_RequestTerminateSecs := highestLimit (PHP_RequestTerminateSecs b) (PHP_RequestTerminateSecs a),
       PHP_OPcacheMemoryMB := highestLimit (PHP_OPcacheMemoryMB b) (PHP_OPcacheMemoryMB a),
       PHP_OPcacheEnabled := (PHP_OPcacheEnabled b \<or> PHP_OPcacheEnabled a),
       PHP_ExecEnabled := (PHP_ExecEnabled b \<or> PHP_ExecEnabled a),
       PHP_DisplayErrors := (PHP_DisplayErrors b \<or> PHP_DisplayErrors a),
       PHP_LogErrors := (PHP_LogErrors b \<or> PHP_LogErrors a),
       PHP_AllowURLFOpen := (PHP_AllowURLFOpen b \<or> PHP_AllowURLFOpen a),
       PHP_DefaultVersion := (if PHP_DefaultVersion b = [] \<and> PHP_DefaultVersion a \<noteq> []
         then PHP_DefaultVersion a else PHP_DefaultVersion b),
       PHP_FPMMode := (if PHP_FPMMode b = [] \<and> PHP_FPMMode a \<noteq> [] then PHP_FPMMode a else PHP_FPMMode b)\<rparr>"

definition compose_mail :: "HostingMailPolicy \<Rightarrow> HostingMailPolicy \<Rightarrow> HostingMailPolicy" where
  "compose_mail b a =
     b\<lparr>Mail_MailboxQuotaMB := highestLimit (Mail_MailboxQuotaMB b) (Mail_MailboxQuotaMB a),
       Mail_Enabled := (Mail_Enabled b \<or> Mail_Enabled a), Mail_DKIM := (Mail_DKIM b \<or> Mail_DKIM a),
       Mail_SpamFilter := (Mail_SpamFilter b \<or> Mail_SpamFilter a), Mail_Webmail := (Mail_Webmail b \<or> Mail_Webmail a),
       Mail_Autoresponders := (Mail_Autoresponders b \<or> Mail_Autoresponders a),
       Mail_CatchAll := (Mail_CatchAll b \<or> Mail_CatchAll a),
       Mail_DMARCPolicy := strongerDMARCPolicy (Mail_DMARCPolicy b) (Mail_DMARCPolicy a)\<rparr>"

definition compose_access :: "HostingAccessPolicy \<Rightarrow> HostingAccessPolicy \<Rightarrow> HostingAccessPolicy" where
  "compose_access b a =
     b\<lparr>Access_FTPSEnabled := (Access_FTPSEnabled b \<or> Access_FTPSEnabled a),
       Access_SFTPOnly := (Access_SFTPOnly b \<or> Access_SFTPOnly a),
       Access_SSHIdleTimeoutMins := highestLimit (Access_SSHIdleTimeoutMins b) (Access_SSHIdleTimeoutMins a)\<rparr>"

definition compose_applications :: "HostingApplicationPolicy \<Rightarrow> HostingApplicationPolicy \<Rightarrow> HostingApplicationPolicy" where
  "compose_applications b a =
     b\<lparr>App_CatalogEnabled := (App_CatalogEnabled b \<or> App_CatalogEnabled a),
       App_AllowedCatalogSlugs := unionStrings (App_AllowedCatalogSlugs b) (App_AllowedCatalogSlugs a),
       App_AllowedRegistries := unionStrings (App_AllowedRegistries b) (App_AllowedRegistries a),
       App_AllowedRuntimes := unionStrings (App_AllowedRuntimes b) (App_AllowedRuntimes a),
       App_Rootless := (App_Rootless b \<or> App_Rootless a), App_EgressEnabled := (App_EgressEnabled b \<or> App_EgressEnabled a)\<rparr>"

definition compose_valkey :: "HostingValkeyPolicy \<Rightarrow> HostingValkeyPolicy \<Rightarrow> HostingValkeyPolicy" where
  "compose_valkey b a =
     b\<lparr>Valkey_Enabled := (Valkey_Enabled b \<or> Valkey_Enabled a),
       Valkey_MemoryMB := highestLimit (Valkey_MemoryMB b) (Valkey_MemoryMB a),
       Valkey_MaxClients := highestLimit (Valkey_MaxClients b) (Valkey_MaxClients a),
       Valkey_IdleTimeoutSeconds := highestLimit (Valkey_IdleTimeoutSeconds b) (Valkey_IdleTimeoutSeconds a),
       Valkey_CPUPercent := highestLimit (Valkey_CPUPercent b) (Valkey_CPUPercent a),
       Valkey_ProcessLimit := highestLimit (Valkey_ProcessLimit b) (Valkey_ProcessLimit a),
       Valkey_EvictionPolicy := (if Valkey_EvictionPolicy b = [] \<and> Valkey_EvictionPolicy a \<noteq> []
         then Valkey_EvictionPolicy a else Valkey_EvictionPolicy b)\<rparr>"

datatype compose_policy_error = CombinedLimitTooHigh | ComposedPolicyInvalid policy_error

definition compose_sections :: "HostingResourcePolicy \<Rightarrow> HostingPolicy \<Rightarrow> HostingPolicy \<Rightarrow> HostingPolicy" where
  "compose_sections res b a =
     b\<lparr>HP_Resources := compose_resource_peaks res (HP_Resources a),
       HP_Permissions := compose_permissions (HP_Permissions b) (HP_Permissions a),
       HP_Logs := compose_logs (HP_Logs b) (HP_Logs a),
       HP_Web := compose_web (HP_Web b) (HP_Web a),
       HP_PHP := compose_php (HP_PHP b) (HP_PHP a),
       HP_Mail := compose_mail (HP_Mail b) (HP_Mail a),
       HP_DNS := (HP_DNS b)\<lparr>DNS_Enabled := (DNS_Enabled (HP_DNS b) \<or> DNS_Enabled (HP_DNS a)),
         DNS_DNSSEC := (DNS_DNSSEC (HP_DNS b) \<or> DNS_DNSSEC (HP_DNS a)),
         DNS_DefaultTTL := highestLimit (DNS_DefaultTTL (HP_DNS b)) (DNS_DefaultTTL (HP_DNS a))\<rparr>,
       HP_Access := compose_access (HP_Access b) (HP_Access a),
       HP_Backups := (HP_Backups b)
         \<lparr>Backup_Enabled := (Backup_Enabled (HP_Backups b) \<or> Backup_Enabled (HP_Backups a)),
          Backup_RetentionDays := highestLimit (Backup_RetentionDays (HP_Backups b)) (Backup_RetentionDays (HP_Backups a))\<rparr>,
       HP_Applications := compose_applications (HP_Applications b) (HP_Applications a),
       HP_Valkey := compose_valkey (HP_Valkey b) (HP_Valkey a)\<rparr>"

definition composeHostingPolicyAddon :: "HostingPolicy \<Rightarrow> HostingPolicy \<Rightarrow> compose_policy_error + HostingPolicy" where
  "composeHostingPolicyAddon base addon =
     (let b = Upgrade (if HP_SchemaVersion base = 0 then DefaultFromEntitlements zero_SubscriptionEntitlements else base);
          a = Upgrade addon in
      case add_limits policy_limit_fields (HP_Resources a) (HP_Resources b) of
        Inl _ \<Rightarrow> Inl CombinedLimitTooHigh
      | Inr res \<Rightarrow>
          let r = compose_sections res b a in
          case Validate r of None \<Rightarrow> Inr r | Some e \<Rightarrow> Inl (ComposedPolicyInvalid e))"

section \<open>Merging with the legacy columns\<close>

definition merge_resources :: "HostingResourcePolicy \<Rightarrow> HostingResourcePolicy \<Rightarrow> HostingResourcePolicy" where
  "merge_resources p r =
     p\<lparr>Res_DiskMB := Res_DiskMB r, Res_TrafficMB := Res_TrafficMB r, Res_MaxSites := Res_MaxSites r,
       Res_MaxDatabases := Res_MaxDatabases r, Res_MaxMailboxes := Res_MaxMailboxes r,
       Res_MaxSFTPIdentities := highestLimit (Res_MaxSFTPIdentities p) (Res_MaxSFTPIdentities r),
       Res_MaxBackups := Res_MaxBackups r, Res_BackupStorageMB := Res_BackupStorageMB r\<rparr>"

definition merge_permissions :: "HostingPermissionPolicy \<Rightarrow> HostingPermissionPolicy \<Rightarrow> HostingPermissionPolicy" where
  "merge_permissions p r =
     p\<lparr>Perm_Hosting := Perm_Hosting r, Perm_SSH := Perm_SSH r, Perm_SFTP := (Perm_SFTP p \<or> Perm_SFTP r),
       Perm_DNS := Perm_DNS r, Perm_TLS := Perm_TLS r, Perm_Mail := Perm_Mail r, Perm_Databases := Perm_Databases r,
       Perm_Backups := Perm_Backups r, Perm_PHPSettings := Perm_PHPSettings r\<rparr>"

definition merge_php :: "HostingPHPPolicy \<Rightarrow> HostingPHPPolicy \<Rightarrow> HostingPHPPolicy" where
  "merge_php p r =
     p\<lparr>PHP_DefaultVersion := PHP_DefaultVersion r, PHP_AllowedVersions := PHP_AllowedVersions r,
       PHP_FPMMaxChildren := PHP_FPMMaxChildren r, PHP_FPMMaxRequests := PHP_FPMMaxRequests r,
       PHP_MemoryLimitMB := PHP_MemoryLimitMB r, PHP_MaxExecutionSeconds := PHP_MaxExecutionSeconds r,
       PHP_MaxInputSeconds := PHP_MaxInputSeconds r, PHP_PostMaxMB := PHP_PostMaxMB r,
       PHP_UploadMaxMB := PHP_UploadMaxMB r, PHP_DisplayErrors := PHP_DisplayErrors r,
       PHP_LogErrors := PHP_LogErrors r, PHP_AllowURLFOpen := PHP_AllowURLFOpen r\<rparr>"

definition merge_sections :: "bool \<Rightarrow> HostingPolicy \<Rightarrow> HostingPolicy \<Rightarrow> HostingPolicy" where
  "merge_sections catalog p r =
     p\<lparr>HP_Resources := merge_resources (HP_Resources p) (HP_Resources r),
       HP_Permissions := merge_permissions (HP_Permissions p) (HP_Permissions r),
       HP_PHP := merge_php (HP_PHP p) (HP_PHP r),
       HP_Mail := (HP_Mail p)\<lparr>Mail_Enabled := Mail_Enabled (HP_Mail r), Mail_DKIM := Mail_DKIM (HP_Mail r),
         Mail_DMARCPolicy := Mail_DMARCPolicy (HP_Mail r), Mail_SpamFilter := Mail_SpamFilter (HP_Mail r),
         Mail_Webmail := Mail_Webmail (HP_Mail r)\<rparr>,
       HP_DNS := (HP_DNS p)\<lparr>DNS_Enabled := DNS_Enabled (HP_DNS r), DNS_Mode := DNS_Mode (HP_DNS r),
         DNS_DefaultTTL := DNS_DefaultTTL (HP_DNS r)\<rparr>,
       HP_Backups := (HP_Backups p)\<lparr>Backup_Enabled := Backup_Enabled (HP_Backups r),
         Backup_RetentionDays := Backup_RetentionDays (HP_Backups r)\<rparr>,
       HP_Web := (HP_Web p)\<lparr>Web_PreferredDomain := Web_PreferredDomain (HP_Web r),
         Web_MaxConnections := Web_MaxConnections (HP_Web r), Web_StaticCache := Web_StaticCache (HP_Web r)\<rparr>,
       HP_Applications := (HP_Applications p)
         \<lparr>App_CatalogEnabled := (App_CatalogEnabled (HP_Applications p) \<or> catalog)\<rparr>\<rparr>"

definition mergeLegacyEntitlementsPolicy :: "SubscriptionEntitlements \<Rightarrow> HostingPolicy \<Rightarrow> HostingPolicy" where
  "mergeLegacyEntitlementsPolicy e previous =
     (let resolved = DefaultFromEntitlements e in
      if HP_SchemaVersion previous = 0 then resolved
      else
        let upgraded = Upgrade previous;
            preserved = (if HP_SchemaVersion previous < 5 \<and> Logs_StatisticsEngine (HP_Logs previous) = []
              then upgraded\<lparr>HP_Logs := HP_Logs resolved\<rparr> else upgraded) in
        merge_sections (APre_CatalogEnabled (SP_Applications (Ent_ServicePresets e))) preserved resolved)"

definition preserveCustomHostingPolicy :: "SubscriptionEntitlements \<Rightarrow> SubscriptionEntitlements \<Rightarrow> SubscriptionEntitlements" where
  "preserveCustomHostingPolicy custom current =
     (let currentPolicy = mergeLegacyEntitlementsPolicy current (Ent_HostingPolicy current);
          merged = mergeLegacyEntitlementsPolicy custom currentPolicy;
          logs = (if Ent_StatisticsEdited custom then NormalizeLogs (SP_Logs (Ent_ServicePresets custom))
                  else HP_Logs currentPolicy) in
      custom\<lparr>Ent_HostingPolicy := merged\<lparr>HP_Logs := logs\<rparr>,
        Ent_ServicePresets := (Ent_ServicePresets custom)\<lparr>SP_Logs := logs\<rparr>\<rparr>)"

section \<open>Composition\<close>

record AddonPlan =
  Ad_ID :: int
  Ad_ResellerID :: int
  Ad_Name :: string
  Ad_Description :: string
  Ad_Entitlements :: SubscriptionEntitlements
  Ad_IsActive :: bool
  Ad_Revision :: int

datatype compose_error =
    BaseInvalid plan_error
  | AddonInvalid string plan_error
  | AddonLimitTooHigh string string
  | AddonPolicyError string compose_policy_error

definition entitlement_limit_fields :: "SubscriptionEntitlements limit_field list" where
  "entitlement_limit_fields =
     [(''disk'', Ent_DiskMB, \<lambda>v. Ent_DiskMB_update (\<lambda>_. v)),
      (''sites'', Ent_MaxSites, \<lambda>v. Ent_MaxSites_update (\<lambda>_. v)),
      (''databases'', Ent_MaxDatabases, \<lambda>v. Ent_MaxDatabases_update (\<lambda>_. v)),
      (''traffic'', Ent_BandwidthMB, \<lambda>v. Ent_BandwidthMB_update (\<lambda>_. v)),
      (''mailboxes'', Ent_MaxMailboxes, \<lambda>v. Ent_MaxMailboxes_update (\<lambda>_. v)),
      (''backups'', Ent_MaxBackups, \<lambda>v. Ent_MaxBackups_update (\<lambda>_. v)),
      (''backup storage'', Ent_BackupStorageMB, \<lambda>v. Ent_BackupStorageMB_update (\<lambda>_. v)),
      (''subdomains'', Ent_MaxSubdomains, \<lambda>v. Ent_MaxSubdomains_update (\<lambda>_. v)),
      (''domain aliases'', Ent_MaxDomainAliases, \<lambda>v. Ent_MaxDomainAliases_update (\<lambda>_. v)),
      (''FTP accounts'', Ent_MaxFTPAccounts, \<lambda>v. Ent_MaxFTPAccounts_update (\<lambda>_. v))]"

text \<open>The statistics engine of the presets follows the policy in force, as the source sets it for base and add-ons.\<close>

definition engine_from :: "HostingPolicy \<Rightarrow> SubscriptionEntitlements \<Rightarrow> SubscriptionEntitlements" where
  "engine_from p e =
     (let sp = Ent_ServicePresets e in
      e\<lparr>Ent_ServicePresets := sp\<lparr>SP_Logs := NormalizeLogs
          ((SP_Logs sp)\<lparr>Logs_StatisticsEngine := Logs_StatisticsEngine (HP_Logs p)\<rparr>)\<rparr>\<rparr>)"

definition raise_entitlements :: "SubscriptionEntitlements \<Rightarrow> SubscriptionEntitlements \<Rightarrow> SubscriptionEntitlements" where
  "raise_entitlements r a =
     r\<lparr>Ent_BackupRetentionDays := highestLimit (Ent_BackupRetentionDays r) (Ent_BackupRetentionDays a),
       Ent_PHPFPMMaxChildren := highestLimit (Ent_PHPFPMMaxChildren r) (Ent_PHPFPMMaxChildren a),
       Ent_PHPMemoryMB := highestLimit (Ent_PHPMemoryMB r) (Ent_PHPMemoryMB a),
       Ent_SiteDiskQuotaMB := highestLimit (Ent_SiteDiskQuotaMB r) (Ent_SiteDiskQuotaMB a),
       Ent_AllowSSH := (Ent_AllowSSH r \<or> Ent_AllowSSH a), Ent_AllowDNS := (Ent_AllowDNS r \<or> Ent_AllowDNS a),
       Ent_AllowTLS := (Ent_AllowTLS r \<or> Ent_AllowTLS a), Ent_AllowBackups := (Ent_AllowBackups r \<or> Ent_AllowBackups a),
       Ent_AllowPHPSettings := (Ent_AllowPHPSettings r \<or> Ent_AllowPHPSettings a),
       Ent_ServicePresets := composePresetIncrements (Ent_ServicePresets r) (Ent_ServicePresets a)\<rparr>"

type_synonym compose_state = "SubscriptionEntitlements \<times> HostingPolicy \<times> string set"

definition compose_addon :: "AddonPlan \<Rightarrow> compose_state \<Rightarrow> compose_error + compose_state" where
  "compose_addon addon st =
     (case st of (result, composed, php) \<Rightarrow>
      case ValidateEntitlements (Ad_Entitlements addon) of
        Some e \<Rightarrow> Inl (AddonInvalid (Ad_Name addon) e)
      | None \<Rightarrow>
          let addonPolicy = EffectivePlanHostingPolicy (planFromEntitlements (Ad_Entitlements addon));
              add = engine_from addonPolicy (Ad_Entitlements addon) in
          case add_limits entitlement_limit_fields add result of
            Inl name \<Rightarrow> Inl (AddonLimitTooHigh (Ad_Name addon) name)
          | Inr summed \<Rightarrow>
              let raised = raise_entitlements summed add;
                  done = raised\<lparr>Ent_SourceRevision := (if Ad_Revision addon > Ent_SourceRevision raised
                    then Ad_Revision addon else Ent_SourceRevision raised)\<rparr>;
                  php' = php \<union> csvSet (Ent_PHPAllowlist add) in
              if HP_SchemaVersion (Ent_HostingPolicy add) > 0 \<or> StatisticsEngine (HP_Logs addonPolicy) = ''goaccess'' then
                (case composeHostingPolicyAddon composed addonPolicy of
                   Inl e \<Rightarrow> Inl (AddonPolicyError (Ad_Name addon) e)
                 | Inr composed' \<Rightarrow> Inr (done, composed', php'))
              else Inr (done, composed, php'))"

fun compose_addons :: "AddonPlan list \<Rightarrow> compose_state \<Rightarrow> compose_error + compose_state" where
  "compose_addons [] st = Inr st"
| "compose_addons (a # as) st = (case compose_addon a st of Inl e \<Rightarrow> Inl e | Inr st' \<Rightarrow> compose_addons as st')"

definition finish_composition :: "compose_state \<Rightarrow> SubscriptionEntitlements" where
  "finish_composition st =
     (case st of (result, composed, php) \<Rightarrow>
      let allow = joinSet php;
          sp = Ent_ServicePresets result;
          r = result\<lparr>Ent_PHPAllowlist := allow,
            Ent_ServicePresets := sp\<lparr>SP_Hosting := (SP_Hosting sp)
              \<lparr>HPre_AllowedPHPVersions := (if allow \<noteq> [] then Split allow CHR '','' else [])\<rparr>\<rparr>\<rparr> in
      r\<lparr>Ent_HostingPolicy := mergeLegacyEntitlementsPolicy r composed\<rparr>)"

definition ComposeEntitlements :: "SubscriptionEntitlements \<Rightarrow> AddonPlan list \<Rightarrow> compose_error + SubscriptionEntitlements" where
  "ComposeEntitlements base addons =
     (case ValidateEntitlements base of
        Some e \<Rightarrow> Inl (BaseInvalid e)
      | None \<Rightarrow>
          let composed = EffectivePlanHostingPolicy (planFromEntitlements base) in
          case compose_addons addons (engine_from composed base, composed, csvSet (Ent_PHPAllowlist base)) of
            Inl e \<Rightarrow> Inl e
          | Inr st \<Rightarrow> Inr (finish_composition st))"

end
