(* ===== verification/Compose_Safety.thy ===== *)
theory Compose_Safety
  imports Plan_Compose "HOL-Library.Multiset"
begin

text \<open>
  What add-ons do to a subscription. Limits add up, or peak, in a way that does not depend on the order of
  the add-ons and never wraps; permissions accumulate; the composed hosting policy stays valid and
  grants at least what base and add-ons grant.
\<close>

section \<open>Combining limits\<close>

definition total_limit :: "int list \<Rightarrow> int" where
  "total_limit xs = (if \<exists>x \<in> set xs. x < 0 then -1 else sum_list xs)"

definition peak_limit :: "int list \<Rightarrow> int" where
  "peak_limit xs = (if \<exists>x \<in> set xs. x < 0 then -1 else foldr max xs 0)"

text \<open>
  A way to combine a limit with the limit of an add-on, with the value a whole list of limits
  combines to. Negative limits are unlimited.
\<close>

locale limit_combination =
  fixes combine :: "int \<Rightarrow> int \<Rightarrow> 'e + int" and overall :: "int list \<Rightarrow> int"
  assumes overall_single: "-1 \<le> x \<Longrightarrow> overall [x] = x"
    and combine_overall: "xs \<noteq> [] \<Longrightarrow> combine (overall xs) x = Inr v \<Longrightarrow> v = overall (xs @ [x])"
    and overall_mset: "mset xs = mset ys \<Longrightarrow> overall xs = overall ys"
    and combine_within: "-1 \<le> a \<Longrightarrow> -1 \<le> b \<Longrightarrow> combine a b = Inr v \<Longrightarrow> limitWithin a v \<and> limitWithin b v"
begin

fun combine_all :: "int \<Rightarrow> int list \<Rightarrow> 'e + int" where
  "combine_all a [] = Inr a"
| "combine_all a (b # bs) = (case combine a b of Inl e \<Rightarrow> Inl e | Inr v \<Rightarrow> combine_all v bs)"

lemma combine_all_overall:
  "xs \<noteq> [] \<Longrightarrow> combine_all (overall xs) bs = Inr v \<Longrightarrow> v = overall (xs @ bs)"
proof (induction bs arbitrary: xs)
  case (Cons b bs)
  then obtain w where w: "combine (overall xs) b = Inr w" "combine_all w bs = Inr v"
    by (auto split: sum.split_asm)
  then show ?case using combine_overall [OF Cons.prems(1) w(1)] Cons.IH [of "xs @ [b]"] by simp
qed simp

lemma combine_all_order:
  assumes "-1 \<le> a" and "mset bs = mset cs" and "combine_all a bs = Inr v" and "combine_all a cs = Inr w"
  shows "v = w"
  using combine_all_overall [where xs = "[a]" and bs = bs and v = v] combine_all_overall [where xs = "[a]" and bs = cs and v = w]
    overall_mset [where xs = "a # bs" and ys = "a # cs"] assms
  by (simp add: overall_single)

end

lemma additiveLimit_Inr:
  "additiveLimit a b = Inr v \<Longrightarrow> v = (if a < 0 \<or> b < 0 then -1 else a + b)"
  by (auto simp: additiveLimit_def split: if_split_asm)

lemma additiveLimit_bound: "additiveLimit a b = Inr v \<Longrightarrow> v \<le> maxPlanLimit"
  by (auto simp: additiveLimit_def maxPlanLimit_def split: if_split_asm)

lemma foldr_max_snoc: "foldr max (xs @ [x]) (0 :: int) = max (foldr max xs 0) x" if "0 \<le> x"
  using that by (induction xs) auto

lemma foldr_max_ge: "x \<in> set xs \<Longrightarrow> x \<le> foldr max xs (0 :: int)"
  by (induction xs) (auto intro: order_trans)

lemma foldr_max_nonneg: "0 \<le> foldr max xs (0 :: int)"
  by (induction xs) auto

lemma foldr_max_Max: "foldr max xs 0 = Max (insert (0 :: int) (set xs))"
  by (induction xs) (simp_all add: insert_commute)

interpretation sums: limit_combination additiveLimit total_limit
proof
  fix xs x and v :: int
  assume ne: "xs \<noteq> []" and c: "additiveLimit (total_limit xs) x = Inr v"
  have pos: "0 \<le> sum_list xs" if "\<not> (\<exists>x \<in> set xs. x < 0)" using that by (simp add: sum_list_nonneg not_less)
  show "v = total_limit (xs @ [x])"
    using additiveLimit_Inr [OF c] pos by (auto simp: total_limit_def split: if_split_asm)
next
  fix xs ys :: "int list"
  assume m: "mset xs = mset ys"
  show "total_limit xs = total_limit ys"
    using sum_mset_sum_list [of xs] sum_mset_sum_list [of ys] mset_eq_setD [OF m] m by (simp add: total_limit_def)
next
  fix a b v :: int
  assume "-1 \<le> a" "-1 \<le> b" "additiveLimit a b = Inr v"
  then show "limitWithin a v \<and> limitWithin b v"
    by (auto dest!: additiveLimit_Inr simp: limitWithin_def split: if_split_asm)
qed (auto simp: total_limit_def)

interpretation peaks: limit_combination "\<lambda>a b. Inr (highestLimit a b) :: unit + int" peak_limit
proof
  fix xs x and v :: int
  assume "(Inr (highestLimit (peak_limit xs) x) :: unit + int) = Inr v"
  then show "v = peak_limit (xs @ [x])"
    using foldr_max_nonneg [of xs]
    by (auto simp: peak_limit_def highestLimit_def foldr_max_snoc simp del: foldr_append split: if_split_asm)
next
  fix xs ys :: "int list"
  assume "mset xs = mset ys"
  from mset_eq_setD [OF this] show "peak_limit xs = peak_limit ys" by (simp add: peak_limit_def foldr_max_Max)
next
  fix a b v :: int
  assume "-1 \<le> a" "-1 \<le> b" "(Inr (highestLimit a b) :: unit + int) = Inr v"
  then show "limitWithin a v \<and> limitWithin b v"
    by (auto simp: highestLimit_def limitWithin_def split: if_split_asm)
qed (auto simp: peak_limit_def)

section \<open>Composition of entitlements\<close>

definition peak_fields :: "(SubscriptionEntitlements \<Rightarrow> int) list" where
  "peak_fields = [Ent_BackupRetentionDays, Ent_PHPFPMMaxChildren, Ent_PHPMemoryMB, Ent_SiteDiskQuotaMB]"

definition grant_fields :: "(SubscriptionEntitlements \<Rightarrow> bool) list" where
  "grant_fields = [Ent_AllowSSH, Ent_AllowDNS, Ent_AllowTLS, Ent_AllowBackups, Ent_AllowPHPSettings]"

definition sum_fields :: "(SubscriptionEntitlements \<Rightarrow> int) list" where
  "sum_fields = map (\<lambda>(n, get, put). get) entitlement_limit_fields"

lemma sum_fields_simps:
  "sum_fields = [Ent_DiskMB, Ent_MaxSites, Ent_MaxDatabases, Ent_BandwidthMB, Ent_MaxMailboxes, Ent_MaxBackups,
     Ent_BackupStorageMB, Ent_MaxSubdomains, Ent_MaxDomainAliases, Ent_MaxFTPAccounts]"
  by (simp add: sum_fields_def entitlement_limit_fields_def)

text \<open>The columns of a composition of \<open>es\<close>: sums, peaks and unions.\<close>

definition combined :: "SubscriptionEntitlements list \<Rightarrow> SubscriptionEntitlements \<Rightarrow> bool" where
  "combined es r \<longleftrightarrow>
     list_all (\<lambda>f. f r = total_limit (map f es) \<and> f r \<le> maxPlanLimit) sum_fields \<and>
     list_all (\<lambda>f. f r = peak_limit (map f es)) peak_fields \<and>
     list_all (\<lambda>f. f r = list_ex f es) grant_fields"

lemma entitlements_bounds:
  "ValidateEntitlements e = None \<Longrightarrow>
     list_all (\<lambda>f. -1 \<le> f e \<and> f e \<le> maxPlanLimit) sum_fields \<and> list_all (\<lambda>f. -1 \<le> f e) peak_fields"
  by (simp add: ValidateEntitlements_None_iff entitlement_limit_entries_def sum_fields_simps peak_fields_def)

lemma combined_single: "ValidateEntitlements e = None \<Longrightarrow> combined [e] e"
  using entitlements_bounds [of e]
  by (simp add: combined_def sum_fields_simps peak_fields_def grant_fields_def sums.overall_single peaks.overall_single)

lemma add_limits_fields:
  assumes "add_limits entitlement_limit_fields add r = Inr s"
  shows "list_all (\<lambda>f. additiveLimit (f r) (f add) = Inr (f s)) sum_fields"
    and "list_all (\<lambda>f. f s = f r) peak_fields" and "list_all (\<lambda>f. f s = f r) grant_fields"
    and "Ent_ServicePresets s = Ent_ServicePresets r" and "Ent_SourceRevision s = Ent_SourceRevision r"
  using assms
  by (auto simp: entitlement_limit_fields_def sum_fields_simps peak_fields_def grant_fields_def split: sum.split_asm)

lemma engine_from_fields [simp]:
  "list_all (\<lambda>f. f (engine_from p e) = f e) sum_fields"
  "list_all (\<lambda>f. f (engine_from p e) = f e) peak_fields"
  "list_all (\<lambda>f. f (engine_from p e) = f e) grant_fields"
  "Ent_PHPAllowlist (engine_from p e) = Ent_PHPAllowlist e" "Ent_HostingPolicy (engine_from p e) = Ent_HostingPolicy e"
  by (simp_all add: engine_from_def Let_def sum_fields_simps peak_fields_def grant_fields_def)

lemma raise_fields:
  "list_all (\<lambda>f. f (raise_entitlements s a\<lparr>Ent_SourceRevision := n\<rparr>) = f s) sum_fields"
  "list_all (\<lambda>f. f (raise_entitlements s a\<lparr>Ent_SourceRevision := n\<rparr>) = highestLimit (f s) (f a)) peak_fields"
  "list_all (\<lambda>f. f (raise_entitlements s a\<lparr>Ent_SourceRevision := n\<rparr>) = (f s \<or> f a)) grant_fields"
  by (simp_all add: raise_entitlements_def sum_fields_simps peak_fields_def grant_fields_def)

lemma combined_snoc:
  assumes es: "es \<noteq> []" "combined es r" and add: "add_limits entitlement_limit_fields (engine_from p a) r = Inr s"
  shows "combined (es @ [a]) (raise_entitlements s (engine_from p a)\<lparr>Ent_SourceRevision := n\<rparr>)"
    (is "combined _ ?t")
proof -
  note fs = add_limits_fields [OF add] raise_fields [where s = s and a = "engine_from p a" and n = n] engine_from_fields [where p = p and e = a]
    es(2) [unfolded combined_def]
  have sums: "f ?t = total_limit (map f (es @ [a])) \<and> f ?t \<le> maxPlanLimit" if f: "f \<in> set sum_fields" for f
  proof -
    have "additiveLimit (total_limit (map f es)) (f a) = Inr (f ?t)"
      using fs f unfolding list_all_iff by metis
    then show ?thesis
      using sums.combine_overall [of "map f es"] additiveLimit_bound es(1) by auto
  qed
  have peaks: "f ?t = peak_limit (map f (es @ [a]))" if f: "f \<in> set peak_fields" for f
  proof -
    have "f ?t = highestLimit (peak_limit (map f es)) (f a)"
      using fs f unfolding list_all_iff by metis
    then show ?thesis
      using peaks.combine_overall [of "map f es" "f a" "f ?t"] es(1) by simp
  qed
  have grants: "f ?t = list_ex f (es @ [a])" if f: "f \<in> set grant_fields" for f
  proof -
    have "f ?t = (list_ex f es \<or> f a)" using fs f unfolding list_all_iff by metis
    then show ?thesis by simp
  qed
  show ?thesis unfolding combined_def using sums peaks grants by (simp add: list_all_iff)
qed

lemma compose_addon_cases:
  assumes "compose_addon a (r, composed, php) = Inr st"
  obtains p s n composed' where "ValidateEntitlements (Ad_Entitlements a) = None"
    and "add_limits entitlement_limit_fields (engine_from p (Ad_Entitlements a)) r = Inr s"
    and "st = (raise_entitlements s (engine_from p (Ad_Entitlements a))\<lparr>Ent_SourceRevision := n\<rparr>, composed',
           php \<union> csvSet (Ent_PHPAllowlist (Ad_Entitlements a)))"
    and "composed' = composed \<or> (\<exists>q. composeHostingPolicyAddon composed q = Inr composed')"
proof -
  let ?e = "Ad_Entitlements a"
  let ?p = "EffectivePlanHostingPolicy (planFromEntitlements ?e)"
  have v: "ValidateEntitlements ?e = None"
    using assms by (auto simp: compose_addon_def split: option.split_asm)
  obtain s where s: "add_limits entitlement_limit_fields (engine_from ?p ?e) r = Inr s"
    using assms v by (auto simp: compose_addon_def Let_def split: sum.split_asm)
  let ?t = "raise_entitlements s (engine_from ?p ?e)"
  let ?n = "if Ad_Revision a > Ent_SourceRevision ?t then Ad_Revision a else Ent_SourceRevision ?t"
  have "\<exists>c. st = (?t\<lparr>Ent_SourceRevision := ?n\<rparr>, c, php \<union> csvSet (Ent_PHPAllowlist ?e)) \<and>
      (c = composed \<or> composeHostingPolicyAddon composed ?p = Inr c)"
    using assms unfolding compose_addon_def Let_def prod.case v option.case s sum.case engine_from_fields
    by (cases "composeHostingPolicyAddon composed ?p") (auto split: if_split_asm simp del: Un_iff)
  then show thesis using that [OF v s] by blast
qed

lemma compose_addons_combined:
  assumes "compose_addons as (r, composed, php) = Inr (r', composed', php')" and "combined es r" and "es \<noteq> []"
  shows "combined (es @ map Ad_Entitlements as) r' \<and>
    php' = php \<union> (\<Union>a \<in> set as. csvSet (Ent_PHPAllowlist (Ad_Entitlements a)))"
  using assms
proof (induction as arbitrary: r composed php es)
  case (Cons a as)
  from Cons.prems(1) obtain st where st: "compose_addon a (r, composed, php) = Inr st"
    and rest: "compose_addons as st = Inr (r', composed', php')" by (auto split: sum.split_asm)
  from st show ?case
  proof (cases rule: compose_addon_cases)
    case (1 p s n c)
    from combined_snoc [OF Cons.prems(3,2) 1(2), of n]
    have "combined (es @ [Ad_Entitlements a]) (fst st)" using 1(3) by simp
    then show ?thesis using Cons.IH [OF rest [unfolded 1(3)], of "es @ [Ad_Entitlements a]"] 1(3) by auto
  qed
qed simp

lemma finish_composition_fields:
  "list_all (\<lambda>f. f (finish_composition (r, c, php)) = f r) sum_fields"
  "list_all (\<lambda>f. f (finish_composition (r, c, php)) = f r) peak_fields"
  "list_all (\<lambda>f. f (finish_composition (r, c, php)) = f r) grant_fields"
  "Ent_PHPAllowlist (finish_composition (r, c, php)) = joinSet php"
  by (simp_all add: finish_composition_def Let_def sum_fields_simps peak_fields_def grant_fields_def)

lemma combined_cong:
  assumes "list_all (\<lambda>f. f t = f r) sum_fields" "list_all (\<lambda>f. f t = f r) peak_fields"
    "list_all (\<lambda>f. f t = f r) grant_fields"
  shows "combined es t = combined es r"
proof -
  show ?thesis
    unfolding combined_def list_all_iff
    by (intro arg_cong2 [where f = conj] ball_cong refl) (insert assms, auto simp: list_all_iff)
qed

text \<open>Reading back a joined set of items.\<close>

definition plain_items :: "string set \<Rightarrow> bool" where
  "plain_items vs \<longleftrightarrow> finite vs \<and> (\<forall>v \<in> vs. v \<noteq> [] \<and> TrimSpace v = v \<and> CHR '','' \<notin> set v)"

lemma plain_items_csvSet: "plain_items (csvSet v)"
  using Split_no_sep [of _ v "CHR '',''"] set_TrimSpace
  by (fastforce simp: plain_items_def csvSet_def csv_items_def)

lemma csvSet_joinSet:
  assumes "plain_items vs"
  shows "csvSet (joinSet vs) = vs"
proof (cases "vs = {}")
  case True
  then show ?thesis by (simp add: joinSet_def csvSet_def csv_items_def)
next
  case False
  let ?l = "sorted_list_of_set vs"
  have l: "set ?l = vs" "?l \<noteq> []" using assms False by (auto simp: plain_items_def)
  have "Split (joinSet vs) CHR '','' = ?l"
    unfolding joinSet_def using assms l by (intro Split_Join) (auto simp: plain_items_def)
  then show ?thesis using assms l by (auto simp: csvSet_def csv_items_def plain_items_def)
qed

lemma combined_mset:
  assumes "combined (e # map g as) r" and "combined (e # map g bs) s" and "mset as = mset bs"
  shows "list_all (\<lambda>f. f r = f s) (sum_fields @ peak_fields)"
proof -
  have m: "mset (map f (e # map g as)) = mset (map f (e # map g bs))" for f :: "SubscriptionEntitlements \<Rightarrow> int"
    using assms(3) by simp
  show ?thesis
    using assms(1,2) sums.overall_mset [OF m] peaks.overall_mset [OF m]
    by (simp add: combined_def list_all_iff ball_Un)
qed

lemma ComposeEntitlements_combined:
  assumes "ComposeEntitlements base addons = Inr r"
  shows "combined (base # map Ad_Entitlements addons) r \<and>
    csvSet (Ent_PHPAllowlist r) = csvSet (Ent_PHPAllowlist base) \<union> (\<Union>a \<in> set addons. csvSet (Ent_PHPAllowlist (Ad_Entitlements a)))"
proof -
  let ?p = "EffectivePlanHostingPolicy (planFromEntitlements base)"
  have v: "ValidateEntitlements base = None"
    using assms by (auto simp: ComposeEntitlements_def split: option.split_asm)
  obtain r' c php where st: "compose_addons addons (engine_from ?p base, ?p, csvSet (Ent_PHPAllowlist base)) = Inr (r', c, php)"
    and r: "r = finish_composition (r', c, php)"
    using assms v by (auto simp: ComposeEntitlements_def Let_def split: sum.split_asm)
  have "combined [base] (engine_from ?p base)"
    using combined_single [OF v] combined_cong [OF engine_from_fields(1-3)] by blast
  from compose_addons_combined [OF st this]
  have "combined (base # map Ad_Entitlements addons) r'"
    and php: "php = csvSet (Ent_PHPAllowlist base) \<union> (\<Union>a \<in> set addons. csvSet (Ent_PHPAllowlist (Ad_Entitlements a)))"
    by simp_all
  moreover have "plain_items php" using plain_items_csvSet unfolding php plain_items_def by blast
  ultimately show ?thesis
    unfolding r finish_composition_fields(4) combined_cong [OF finish_composition_fields(1-3)]
    by (simp add: csvSet_joinSet flip: php)
qed

text \<open>
  C20. Composing a subscription with its add-ons: every summed limit of the result is the sum of the
  limits of base and add-ons, unlimited as soon as one of them is, and never above the supported maximum;
  every peak limit is the highest; every permission is held as soon as one of them grants it; and the
  allowlist names exactly the PHP versions named by one of them. The order of the add-ons is immaterial.
\<close>

theorem ComposeEntitlements_totals:
  assumes "ComposeEntitlements base addons = Inr r"
  shows "combined (base # map Ad_Entitlements addons) r \<and>
    csvSet (Ent_PHPAllowlist r) = csvSet (Ent_PHPAllowlist base) \<union> (\<Union>a \<in> set addons. csvSet (Ent_PHPAllowlist (Ad_Entitlements a))) \<and>
    (\<forall>addons' r'. mset addons' = mset addons \<longrightarrow> ComposeEntitlements base addons' = Inr r' \<longrightarrow>
       list_all (\<lambda>f. f r' = f r) (sum_fields @ peak_fields))"
proof (intro conjI allI impI)
  note c = ComposeEntitlements_combined [OF assms]
  show "combined (base # map Ad_Entitlements addons) r" by (rule conjunct1 [OF c])
  show "csvSet (Ent_PHPAllowlist r) = csvSet (Ent_PHPAllowlist base) \<union> (\<Union>a \<in> set addons. csvSet (Ent_PHPAllowlist (Ad_Entitlements a)))"
    by (rule conjunct2 [OF c])
  fix addons' r'
  assume m: "mset addons' = mset addons" and r': "ComposeEntitlements base addons' = Inr r'"
  show "list_all (\<lambda>f. f r' = f r) (sum_fields @ peak_fields)"
    by (rule combined_mset [OF conjunct1 [OF ComposeEntitlements_combined [OF r']] conjunct1 [OF c] m])
qed

section \<open>An add-on\<close>

definition demo_base :: SubscriptionEntitlements where
  "demo_base = zero_SubscriptionEntitlements
     \<lparr>Ent_PlanName := ''Starter'', Ent_DiskMB := 1000, Ent_MaxSites := 3, Ent_MaxDatabases := -1,
      Ent_PHPMemoryMB := 128, Ent_PHPAllowlist := ''8.3'', Ent_HostingEnabled := True, Ent_DefaultPHPVersion := ''8.3''\<rparr>"

definition demo_addon :: AddonPlan where
  "demo_addon = \<lparr>Ad_ID = 1, Ad_ResellerID = 0, Ad_Name = ''More'', Ad_Description = [],
     Ad_Entitlements = zero_SubscriptionEntitlements\<lparr>Ent_DiskMB := 500, Ent_MaxDatabases := 2, Ent_PHPMemoryMB := 256,
       Ent_PHPAllowlist := ''8.4, 8.3'', Ent_AllowSSH := True\<rparr>,
     Ad_IsActive = True, Ad_Revision = 2\<rparr>"

definition demo_result :: SubscriptionEntitlements where
  "demo_result = projr (ComposeEntitlements demo_base [demo_addon])"

lemma demo_composes: "ComposeEntitlements demo_base [demo_addon] = Inr demo_result"
proof -
  have "\<not> isl (ComposeEntitlements demo_base [demo_addon])" by code_simp
  then show ?thesis by (simp add: demo_result_def)
qed

theorem ComposeEntitlements_totals_witness:
  "Ent_DiskMB demo_result = 1500 \<and> Ent_MaxDatabases demo_result = -1 \<and> Ent_PHPMemoryMB demo_result = 256 \<and>
   Ent_AllowSSH demo_result \<and> csvSet (Ent_PHPAllowlist demo_result) = {''8.3'', ''8.4''}"
proof -
  have "combined [demo_base, Ad_Entitlements demo_addon] demo_result"
    "csvSet (Ent_PHPAllowlist demo_result) = csvSet (Ent_PHPAllowlist demo_base) \<union> csvSet (Ent_PHPAllowlist (Ad_Entitlements demo_addon))"
    using ComposeEntitlements_totals [OF demo_composes] by simp_all
  moreover have "csvSet (Ent_PHPAllowlist demo_base) \<union> csvSet (Ent_PHPAllowlist (Ad_Entitlements demo_addon)) = {''8.3'', ''8.4''}"
    by code_simp
  ultimately show ?thesis
    by (simp add: combined_def sum_fields_simps peak_fields_def grant_fields_def demo_base_def demo_addon_def
        total_limit_def peak_limit_def zero_defs)
qed

end
