(* ===== verification/Addon_Policy.thy ===== *)
theory Addon_Policy
  imports Compose_Safety
begin

text \<open>
  The hosting policy of a subscription with add-ons: it grants what the base policy and every add-on
  grant, and it is valid whenever its legacy columns are.
\<close>

section \<open>Union of lists\<close>

lemma set_union_loop: "set (union_loop res vs) = set res \<union> {t. t \<noteq> [] \<and> t \<in> TrimSpace ` set vs}"
  by (induction res vs rule: union_loop.induct) (auto simp: Let_def)

lemma set_unionStrings:
  "set (unionStrings base add) = {t. t \<noteq> [] \<and> t \<in> TrimSpace ` (set base \<union> set add)}"
  by (auto simp: unionStrings_def set_union_loop)

lemma distinct_union_loop: "distinct res \<Longrightarrow> distinct (union_loop res vs)"
  by (induction res vs rule: union_loop.induct) (simp_all add: Let_def)

lemma highestLimit_bounds:
  "-1 \<le> highestLimit a b" "0 \<le> a \<Longrightarrow> 0 \<le> b \<Longrightarrow> 0 \<le> highestLimit a b"
  by (auto simp: highestLimit_def)

section \<open>Merging keeps validity\<close>

lemma Validate_logs:
  assumes "Validate p = None" and "StatisticsEngine l \<in> {''disabled'', ''goaccess''}"
  shows "Validate (p\<lparr>HP_Logs := l\<rparr>) = None"
  using assms unfolding Validate_None_iff by (simp add: limit_entries_def setting_entries_def Let_def)

lemma Validate_merge_sections:
  assumes "Validate p = None" and "Validate r = None"
  shows "Validate (merge_sections c p r) = None"
  using assms unfolding Validate_None_iff
  by (simp add: limit_entries_def setting_entries_def merge_sections_def merge_resources_def merge_php_def Let_def
      highestLimit_bounds)

lemma Validate_Upgrade_current:
  "Validate p = None \<Longrightarrow> HP_SchemaVersion p = 5 \<Longrightarrow> Validate (Upgrade p) = None"
proof -
  assume "Validate p = None" and s: "HP_SchemaVersion p = 5"
  then have "Validate (p\<lparr>HP_Logs := NormalizeLogs (HP_Logs p)\<rparr>) = None" by (simp add: Validate_normalized_logs)
  moreover have "Upgrade p = p\<lparr>HP_Logs := NormalizeLogs (HP_Logs p)\<rparr>" using s by (simp add: Upgrade_def Let_def)
  ultimately show ?thesis by simp
qed

lemma Validate_mergeLegacyEntitlementsPolicy:
  assumes "entitlements_ok e" and "Validate previous = None" and "HP_SchemaVersion previous = 5"
  shows "Validate (mergeLegacyEntitlementsPolicy e previous) = None"
proof -
  have "Validate (DefaultFromEntitlements e) = None"
    using assms(1) unfolding Validate_None_iff entitlements_ok_def DefaultFromEntitlements_def limit_entries_def
      setting_entries_def Let_def
    by (simp add: zero_defs default_dns_mode_ok [simplified])
  then show ?thesis
    using Validate_merge_sections [OF Validate_Upgrade_current [OF assms(2,3)]] assms(3)
    by (simp add: mergeLegacyEntitlementsPolicy_def Let_def)
qed

lemma composeHostingPolicyAddon_cases:
  assumes "composeHostingPolicyAddon base addon = Inr r"
  obtains b res where "b = Upgrade (if HP_SchemaVersion base = 0 then DefaultFromEntitlements zero_SubscriptionEntitlements else base)"
    and "add_limits policy_limit_fields (HP_Resources (Upgrade addon)) (HP_Resources b) = Inr res"
    and "r = compose_sections res b (Upgrade addon)" and "Validate r = None"
  using assms unfolding composeHostingPolicyAddon_def Let_def
  by (auto split: sum.split_asm option.split_asm)

lemma compose_sections_schema [simp]: "HP_SchemaVersion (compose_sections res b a) = HP_SchemaVersion b"
  by (simp add: compose_sections_def)

lemma Upgrade_valid_schema: "Validate (Upgrade p) = None \<Longrightarrow> HP_SchemaVersion (Upgrade p) = 5"
  by (cases "HP_SchemaVersion p < 1 \<or> HP_SchemaVersion p > 5")
    (auto simp: Validate_None_iff Upgrade_unsupported Upgrade_schema)

lemma composeHostingPolicyAddon_valid:
  assumes "composeHostingPolicyAddon base addon = Inr r"
  shows "Validate r = None \<and> HP_SchemaVersion r = 5"
  using assms
proof (cases rule: composeHostingPolicyAddon_cases)
  case (1 b res)
  have "1 \<le> HP_SchemaVersion r" "HP_SchemaVersion r \<le> 5" using 1(4) by (simp_all add: Validate_None_iff)
  then have "HP_SchemaVersion b = 5"
    unfolding 1(3) compose_sections_schema 1(1)
    by (metis Upgrade_schema Upgrade_unsupported not_le)
  then show ?thesis using 1(3,4) by simp
qed

lemma compose_addons_policy:
  assumes "compose_addons as (r, composed, php) = Inr (r', composed', php')"
    and "Validate composed = None" and "HP_SchemaVersion composed = 5"
  shows "Validate composed' = None \<and> HP_SchemaVersion composed' = 5"
  using assms
proof (induction as arbitrary: r composed php)
  case (Cons a as)
  from Cons.prems(1) obtain st where st: "compose_addon a (r, composed, php) = Inr st"
    and rest: "compose_addons as st = Inr (r', composed', php')" by (auto split: sum.split_asm)
  from st show ?case
  proof (cases rule: compose_addon_cases)
    case (1 p s n c)
    have "Validate c = None \<and> HP_SchemaVersion c = 5"
      using 1(4) composeHostingPolicyAddon_valid Cons.prems(2,3) by blast
    then show ?thesis using Cons.IH [OF rest [unfolded 1(3)]] by blast
  qed
qed simp

text \<open>The legacy columns of a subscription, as the policy repeats them.\<close>

definition mirrored :: "SubscriptionEntitlements \<Rightarrow> bool" where
  "mirrored e \<longleftrightarrow>
     (let p = Ent_HostingPolicy e; r = HP_Resources p; q = HP_Permissions p in
      Res_DiskMB r = Ent_DiskMB e \<and> Res_TrafficMB r = Ent_BandwidthMB e \<and> Res_MaxSites r = Ent_MaxSites e \<and>
      Res_MaxDatabases r = Ent_MaxDatabases e \<and> Res_MaxMailboxes r = Ent_MaxMailboxes e \<and>
      Res_MaxBackups r = Ent_MaxBackups e \<and> Res_BackupStorageMB r = Ent_BackupStorageMB e \<and>
      limitWithin (Ent_MaxFTPAccounts e) (Res_MaxSFTPIdentities r) \<and>
      Perm_Hosting q = Ent_HostingEnabled e \<and> Perm_SSH q = Ent_AllowSSH e \<and> Perm_DNS q = Ent_AllowDNS e \<and>
      Perm_TLS q = Ent_AllowTLS e \<and> Perm_Backups q = Ent_AllowBackups e \<and> Perm_PHPSettings q = Ent_AllowPHPSettings e \<and>
      PHP_FPMMaxChildren (HP_PHP p) = Ent_PHPFPMMaxChildren e \<and> PHP_MemoryLimitMB (HP_PHP p) = Ent_PHPMemoryMB e \<and>
      set (PHP_AllowedVersions (HP_PHP p)) = csvSet (Ent_PHPAllowlist e))"

lemma mirrored_merge:
  assumes "-1 \<le> Ent_MaxFTPAccounts e" and "HP_SchemaVersion previous = 5" and "Validate previous = None"
  shows "mirrored (e\<lparr>Ent_HostingPolicy := mergeLegacyEntitlementsPolicy e previous\<rparr>)"
proof -
  have "-1 \<le> Res_MaxSFTPIdentities (HP_Resources previous)"
    using assms(3) by (simp add: Validate_None_iff limit_entries_def Let_def)
  then have "limitWithin (Ent_MaxFTPAccounts e) (highestLimit (Res_MaxSFTPIdentities (HP_Resources previous)) (Ent_MaxFTPAccounts e))"
    using peaks.combine_within [of "Res_MaxSFTPIdentities (HP_Resources previous)" "Ent_MaxFTPAccounts e"] assms(1) by simp
  then show ?thesis
    using assms(2)
    by (simp add: mirrored_def mergeLegacyEntitlementsPolicy_def merge_sections_def merge_resources_def
        merge_permissions_def merge_php_def Let_def Upgrade_def DefaultFromEntitlements_def csvSet_def csv_items_def)
qed

lemma entitlements_ok_ignores_policy [simp]: "entitlements_ok (e\<lparr>Ent_HostingPolicy := p\<rparr>) = entitlements_ok e"
  by (simp add: entitlements_ok_def)

text \<open>
  The stored policy of a subscription follows its add-ons safely: if the policy in force for the
  base is valid and the composed columns are acceptable, the composed policy is valid, has the
  current schema and repeats the composed columns.
\<close>

theorem ComposeEntitlements_policy:
  assumes "ComposeEntitlements base addons = Inr r"
    and "Validate (EffectivePlanHostingPolicy (planFromEntitlements base)) = None" and "entitlements_ok r"
  shows "Validate (Ent_HostingPolicy r) = None \<and> mirrored r"
proof -
  let ?p = "EffectivePlanHostingPolicy (planFromEntitlements base)"
  have schema: "HP_SchemaVersion ?p = 5"
    using assms(2) Upgrade_valid_schema
    by (auto simp: EffectivePlanHostingPolicy_def hostingPolicyFromPlan_def Let_def split: if_split_asm)
  obtain r' c php where st: "compose_addons addons (engine_from ?p base, ?p, csvSet (Ent_PHPAllowlist base)) = Inr (r', c, php)"
    and r: "r = finish_composition (r', c, php)"
    using assms(1) by (auto simp: ComposeEntitlements_def Let_def split: option.split_asm sum.split_asm)
  note c = compose_addons_policy [OF st assms(2) schema]
  obtain e where e: "r = e\<lparr>Ent_HostingPolicy := mergeLegacyEntitlementsPolicy e c\<rparr>"
    unfolding r finish_composition_def Let_def by simp
  then have ok: "entitlements_ok e" using assms(3) by simp
  then have "-1 \<le> Ent_MaxFTPAccounts e" by (simp add: entitlements_ok_def Let_def)
  then show ?thesis
    using Validate_mergeLegacyEntitlementsPolicy [OF ok] mirrored_merge c unfolding e by simp
qed

section \<open>What a composed policy grants\<close>

lemma add_policy_limits:
  assumes "add_limits policy_limit_fields a b = Inr res"
  shows "list_all (\<lambda>(n, get, put). additiveLimit (get b) (get a) = Inr (get res)) policy_limit_fields"
    and "Res_DiskMB res = Res_DiskMB b" "Res_TrafficMB res = Res_TrafficMB b" "Res_CPUPercent res = Res_CPUPercent b"
    "Res_MemoryMB res = Res_MemoryMB b" "Res_IOReadMBPS res = Res_IOReadMBPS b" "Res_IOWriteMBPS res = Res_IOWriteMBPS b"
    "Res_MaxTasks res = Res_MaxTasks b" "Res_MaxSites res = Res_MaxSites b" "Res_MaxDatabases res = Res_MaxDatabases b"
    "Res_MaxMailboxes res = Res_MaxMailboxes b" "Res_MaxBackups res = Res_MaxBackups b"
    "Res_BackupStorageMB res = Res_BackupStorageMB b"
  using assms by (auto simp: policy_limit_fields_def split: sum.split_asm)

text \<open>The limits an add-on policy brings along: those that are added and those that peak.\<close>

definition addon_limits :: "HostingPolicy \<Rightarrow> int list" where
  "addon_limits p =
     (let r = HP_Resources p in
      [Res_CPUPercent r, Res_MemoryMB r, Res_IOReadMBPS r, Res_IOWriteMBPS r, Res_MaxTasks r,
       Res_MaxDatabaseUsers r, Res_MaxMailAliases r, Res_MaxSFTPIdentities r, Res_MaxScheduledTasks r,
       Res_MaxApplications r, Res_ContainerStorageMB r, Res_MaxFTPAccounts r, Res_ValkeyMemoryMB r,
       Res_MaxPHPWorkers r, Res_MaxPHPReleases r, Res_MaxWordPressSites r])"

lemma valid_limits: "Validate p = None \<Longrightarrow> list_all (\<lambda>v. -1 \<le> v) (resource_limits p) \<and> list_all (\<lambda>v. -1 \<le> v) (addon_limits p)"
  by (simp add: Validate_None_iff limit_entries_def resource_limits_def addon_limits_def Let_def)

lemma sum_within: "additiveLimit a b = Inr v \<Longrightarrow> -1 \<le> a \<Longrightarrow> -1 \<le> b \<Longrightarrow> limitWithin a v \<and> limitWithin b v"
  using sums.combine_within by blast

lemma peak_within: "-1 \<le> a \<Longrightarrow> -1 \<le> b \<Longrightarrow> limitWithin a (highestLimit a b) \<and> limitWithin b (highestLimit a b)"
  using peaks.combine_within by blast

lemma composed_limits:
  assumes "add_limits policy_limit_fields (HP_Resources a) (HP_Resources b) = Inr res"
    and "list_all (\<lambda>v. -1 \<le> v) (resource_limits b)" and "list_all (\<lambda>v. -1 \<le> v) (addon_limits a)"
  shows "list_all2 limitWithin (resource_limits b) (resource_limits (compose_sections res b a)) \<and>
    list_all2 limitWithin (addon_limits a) (addon_limits (compose_sections res b a))"
proof -
  have "list_all (\<lambda>(n, get, put). -1 \<le> get (HP_Resources b) \<and> -1 \<le> get (HP_Resources a)) policy_limit_fields"
    using assms(2,3) by (simp add: resource_limits_def addon_limits_def policy_limit_fields_def Let_def)
  then have "list_all (\<lambda>(n, get, put). limitWithin (get (HP_Resources b)) (get res) \<and>
      limitWithin (get (HP_Resources a)) (get res)) policy_limit_fields"
    using add_policy_limits(1) [OF assms(1)] sum_within unfolding list_all_iff by fastforce
  then show ?thesis
    using assms(2,3) add_policy_limits(2-) [OF assms(1)]
    by (simp add: resource_limits_def addon_limits_def Let_def compose_sections_def compose_resource_peaks_def
        policy_limit_fields_def peak_within limit_ceiling.below_refl)
qed

lemma composed_flags:
  "list_all2 (\<longrightarrow>) (permission_flags b) (permission_flags (compose_sections res b a))"
  "list_all2 (\<longrightarrow>) (permission_flags a) (permission_flags (compose_sections res b a))"
  "list_all2 (\<longrightarrow>) (map snd (service_flags b)) (map snd (service_flags (compose_sections res b a)))"
  "list_all2 (\<longrightarrow>) (map snd (service_flags a)) (map snd (service_flags (compose_sections res b a)))"
  by (simp_all add: permission_flags_def service_flags_def Let_def compose_sections_def compose_permissions_def
      compose_web_def compose_php_def compose_mail_def compose_access_def compose_applications_def compose_valkey_def)

definition kept_items :: "string list \<Rightarrow> string list \<Rightarrow> bool" where
  "kept_items xs ys \<longleftrightarrow> {t. t \<noteq> [] \<and> t \<in> TrimSpace ` set xs} \<subseteq> set ys"

lemma kept_items_union: "kept_items xs (unionStrings xs ys)" "kept_items ys (unionStrings xs ys)"
  by (auto simp: kept_items_def set_unionStrings)

definition not_lowered :: "int \<Rightarrow> int \<Rightarrow> bool" where
  "not_lowered c v \<longleftrightarrow> v = -1 \<or> c \<le> v"

lemma not_lowered_highest: "not_lowered a (highestLimit a b)" "not_lowered b (highestLimit a b)"
  by (auto simp: not_lowered_def highestLimit_def)

lemma composed_lists:
  "list_all2 kept_items (map snd (allow_lists b)) (map snd (allow_lists (compose_sections res b a)))"
  "list_all2 kept_items (map snd (allow_lists a)) (map snd (allow_lists (compose_sections res b a)))"
  by (simp_all add: allow_lists_def Let_def compose_sections_def compose_php_def compose_applications_def kept_items_union)

lemma composed_settings:
  "list_all2 not_lowered (map snd (bounded_settings b)) (map snd (bounded_settings (compose_sections res b a)))"
  "list_all2 not_lowered (map snd (bounded_settings a)) (map snd (bounded_settings (compose_sections res b a)))"
  by (simp_all add: bounded_settings_def Let_def compose_sections_def compose_web_def compose_php_def compose_mail_def
      compose_valkey_def not_lowered_highest)

text \<open>What a policy grants, as far as an add-on can bring it along.\<close>

definition grants_of :: "HostingPolicy \<Rightarrow> HostingPolicy \<Rightarrow> bool" where
  "grants_of p r \<longleftrightarrow>
     list_all2 limitWithin (addon_limits p) (addon_limits r) \<and>
     list_all2 (\<longrightarrow>) (permission_flags p) (permission_flags r) \<and>
     list_all2 (\<longrightarrow>) (map snd (service_flags p)) (map snd (service_flags r)) \<and>
     list_all2 kept_items (map snd (allow_lists p)) (map snd (allow_lists r)) \<and>
     list_all2 not_lowered (map snd (bounded_settings p)) (map snd (bounded_settings r)) \<and>
     (StatisticsEngine (HP_Logs p) = ''goaccess'' \<longrightarrow> StatisticsEngine (HP_Logs r) = ''goaccess'')"

lemma addon_limits_of_resources:
  "list_all2 limitWithin (resource_limits p) (resource_limits r) \<Longrightarrow> list_all2 limitWithin (addon_limits p) (addon_limits r)"
  by (simp add: resource_limits_def addon_limits_def Let_def)

lemma compose_logs_engine:
  "StatisticsEngine b = ''goaccess'' \<or> StatisticsEngine a = ''goaccess'' \<Longrightarrow> StatisticsEngine (compose_logs b a) = ''goaccess''"
  by (auto simp: compose_logs_def StatisticsEngine_def)


text \<open>
  A setting of 0 means no further ceiling for \<open>ValidateWithin\<close>, but \<open>highestLimit\<close> reads it as the lowest value:
  an add-on with a finite setting caps a base that had none, and the base no longer lies within the result.
\<close>

lemma addon_caps_open_setting:
  assumes "composeHostingPolicyAddon base addon = Inr r" and "HP_SchemaVersion base \<noteq> 0"
    and "Web_RequestRatePerSecond (HP_Web (Upgrade base)) = 0" and "Web_RequestRatePerSecond (HP_Web (Upgrade addon)) = k" and "0 < k"
  shows "Web_RequestRatePerSecond (HP_Web r) = k \<and> ValidateWithin (Upgrade base) r \<noteq> None"
  using assms(1)
proof (cases rule: composeHostingPolicyAddon_cases)
  case (1 b res)
  then have "Web_RequestRatePerSecond (HP_Web r) = k"
    using assms(2-5) by (simp add: compose_sections_def compose_web_def highestLimit_def)
  then show ?thesis
    using assms(3,5) unfolding ValidateWithin_None_iff
    by (simp add: bounded_settings_def boundedSettingWithin_def Let_def)
qed

section \<open>A composed policy\<close>

definition demo_policy :: HostingPolicy where
  "demo_policy = DefaultFromEntitlements demo_base"

definition demo_addon_policy :: HostingPolicy where
  "demo_addon_policy = zero_HostingPolicy\<lparr>HP_SchemaVersion := 5,
     HP_Resources := zero_HostingResourcePolicy\<lparr>Res_MaxScheduledTasks := 4, Res_MaxPHPWorkers := -1\<rparr>,
     HP_Permissions := zero_HostingPermissionPolicy\<lparr>Perm_ScheduledTasks := True\<rparr>\<rparr>"

definition demo_composed :: HostingPolicy where
  "demo_composed = projr (composeHostingPolicyAddon demo_policy demo_addon_policy)"

lemma demo_composed_eq: "composeHostingPolicyAddon demo_policy demo_addon_policy = Inr demo_composed"
proof -
  have "\<not> isl (composeHostingPolicyAddon demo_policy demo_addon_policy)" by code_simp
  then show ?thesis by (simp add: demo_composed_def)
qed

lemma demo_policy_facts:
  "HP_SchemaVersion demo_policy \<noteq> 0" "Validate (Upgrade demo_policy) = None" "Validate (Upgrade demo_addon_policy) = None"
  by code_simp+


theorem ComposeEntitlements_policy_witness:
  "Validate (Ent_HostingPolicy demo_result) = None \<and> mirrored demo_result"
proof (rule ComposeEntitlements_policy [OF demo_composes])
  show "Validate (EffectivePlanHostingPolicy (planFromEntitlements demo_base)) = None" by code_simp
  show "entitlements_ok demo_result" by code_simp
qed

end
