(* ===== verification/Quota_Store.thy ===== *)
theory Quota_Store
  imports Plan_Compose
begin

text \<open>
  The tables behind quotas and provisioning, and the reads of \<open>internal/control/quota/quota.go\<close>: the limits of
  a subscription and what it uses. A table is a list of rows with the columns the modelled statements read or
  write (labels, paths and error messages are left out); nullable columns are options. A join takes the
  first matching row, as \<open>QueryRow\<close> does. A count or sum that does not fit the integer type it is cast to is
  an error of the database. The connection itself does not fail here: the checks of \<open>Quota_Check\<close> are stated
  over the interface of the store, whose reads may fail.
\<close>

section \<open>Rows\<close>

record CustomerRow =
  Cu_ID :: int
  Cu_ResellerID :: "int option"
  Cu_Status :: string

record SubscriptionRow =
  Su_ID :: int
  Su_CustomerID :: "int option"
  Su_CustomerUserID :: "int option"
  Su_PlanID :: "int option"
  Su_Status :: string
  Su_SyncMode :: string

record EntitlementRow =
  Er_Entitlements :: SubscriptionEntitlements
  Er_UpdatedAt :: int

record SiteRow =
  Sr_ID :: int
  Sr_OwnerUserID :: int
  Sr_SubscriptionID :: int
  Sr_Domain :: string
  Sr_ParentSiteID :: "int option"
  Sr_PHPVersion :: string
  Sr_Status :: string
  Sr_DesiredStatus :: string
  Sr_RemovalState :: string
  Sr_TLSStatus :: string

record DatabaseRow =
  Dbr_ID :: int
  Dbr_OwnerUserID :: int
  Dbr_SubscriptionID :: int
  Dbr_SiteID :: "int option"
  Dbr_Engine :: string
  Dbr_Name :: string
  Dbr_User :: string
  Dbr_Status :: string

record BackupRow =
  Bk_ID :: int
  Bk_OwnerUserID :: int
  Bk_SubscriptionID :: int
  Bk_SiteID :: "int option"
  Bk_Status :: string
  Bk_SizeBytes :: int

text \<open>A stored policy of a reseller plan is \<open>None\<close> when its JSON object is not configured.\<close>

record ResellerPlan =
  Rp_ID :: int
  Rp_Name :: string
  Rp_Description :: string
  Rp_MaxCustomers :: int
  Rp_MaxSubscriptions :: int
  Rp_DiskMB :: int
  Rp_MaxSites :: int
  Rp_MaxSubdomains :: int
  Rp_MaxDomainAliases :: int
  Rp_MaxDatabases :: int
  Rp_BandwidthMB :: int
  Rp_MaxMailboxes :: int
  Rp_MaxFTPAccounts :: int
  Rp_MaxBackups :: int
  Rp_BackupStorageMB :: int
  Rp_AllowCustomPlans :: bool
  Rp_AllowSSH :: bool
  Rp_AllowDNS :: bool
  Rp_AllowTLS :: bool
  Rp_AllowBackups :: bool
  Rp_AllowPHPSettings :: bool
  Rp_HostingPolicy :: "HostingPolicy option"
  Rp_IsActive :: bool
  Rp_CreatedAt :: int
  Rp_UpdatedAt :: int

record ResellerRow =
  Re_ID :: int
  Re_Status :: string

record ResellerSubscriptionRow =
  Rs_ResellerID :: int
  Rs_PlanID :: int
  Rs_SubStatus :: string

record AccountRow =
  Ac_SubID :: int
  Ac_SystemUser :: string
  Ac_DesiredRevision :: int

record DatabaseRequestRow =
  Dq_Scope :: string
  Dq_Key :: string
  Dq_Fingerprint :: string
  Dq_DatabaseID :: int

datatype queued_job =
    CreateSiteJob int int
  | IssueCertJob int
  | CreateDatabaseJob int string
  | CreateBackupJob int int int "string list"
  | ConvergeJob int int

record quota_db =
  Q_Customers :: "CustomerRow list"
  Q_Subscriptions :: "SubscriptionRow list"
  Q_Entitlements :: "EntitlementRow list"
  Q_Resellers :: "ResellerRow list"
  Q_ResellerSubscriptions :: "ResellerSubscriptionRow list"
  Q_ResellerPlans :: "ResellerPlan list"
  Q_Billing :: "(int \<times> string) list"
  Q_Accounts :: "AccountRow list"
  Q_Sites :: "SiteRow list"
  Q_Databases :: "DatabaseRow list"
  Q_Backups :: "BackupRow list"
  Q_DatabaseRequests :: "DatabaseRequestRow list"
  Q_Credentials :: "(string \<times> string) list"
  Q_Jobs :: "queued_job list"
  Q_Settings :: Settings
  Q_DNSTemplateActive :: bool
  Q_NextSite :: int
  Q_NextDatabase :: int
  Q_NextBackup :: int

section \<open>Limits and usage\<close>

record Limits =
  Lm_UserID :: int
  Lm_CustomerID :: int
  Lm_SubscriptionID :: int
  Lm_PlanID :: int
  Lm_PlanName :: string
  Lm_MaxSites :: int
  Lm_MaxSubdomains :: int
  Lm_MaxDatabases :: int
  Lm_StorageMB :: int
  Lm_MaxBackups :: int
  Lm_BackupStorageMB :: int
  Lm_SiteDiskQuotaMB :: int
  Lm_PHPFPMMaxChildren :: int
  Lm_PHPMemoryMB :: int
  Lm_BandwidthMB :: int
  Lm_OverusePolicy :: string
  Lm_PHPAllowlist :: string
  Lm_DefaultPHPVersion :: string
  Lm_HostingEnabled :: bool
  Lm_AllowBackups :: bool
  Lm_CreatedAt :: int
  Lm_UpdatedAt :: int

record Usage =
  Us_UserID :: int
  Us_CustomerID :: int
  Us_SubscriptionID :: int
  Us_Sites :: int
  Us_Domains :: int
  Us_Subdomains :: int
  Us_Databases :: int
  Us_Backups :: int
  Us_BackupStorageBytes :: int

datatype quota_error =
    ErrExceeded string
  | ErrNoActiveSubscription
  | NoDefaultPHP
  | PHPNotAllowed string
  | PHPNotReady string
  | NoReadyPHP
  | QuotaUserRequired
  | QuotaLimitTooLow "string list"
  | ErrQuotaSQL

section \<open>The reads\<close>

definition coalesce :: "'a \<Rightarrow> 'a option \<Rightarrow> 'a" where
  "coalesce d v = (case v of None \<Rightarrow> d | Some x \<Rightarrow> x)"

definition entitlement_of :: "quota_db \<Rightarrow> int \<Rightarrow> EntitlementRow option" where
  "entitlement_of db sub = find (\<lambda>e. Ent_SubscriptionID (Er_Entitlements e) = sub) (Q_Entitlements db)"

definition customer_of :: "quota_db \<Rightarrow> SubscriptionRow \<Rightarrow> CustomerRow option" where
  "customer_of db s = (case Su_CustomerID s of None \<Rightarrow> None | Some c \<Rightarrow> find (\<lambda>x. Cu_ID x = c) (Q_Customers db))"

text \<open>\<open>c.reseller_id IS NULL OR (r.status='active' AND rs.id IS NOT NULL)\<close>\<close>

definition provider_open :: "quota_db \<Rightarrow> CustomerRow option \<Rightarrow> bool" where
  "provider_open db c =
     (case c of None \<Rightarrow> True | Some x \<Rightarrow>
        (case Cu_ResellerID x of None \<Rightarrow> True | Some r \<Rightarrow>
           list_ex (\<lambda>a. Re_ID a = r \<and> Re_Status a = ''active'') (Q_Resellers db) \<and>
           list_ex (\<lambda>a. Rs_ResellerID a = r \<and> Rs_SubStatus a = ''active'') (Q_ResellerSubscriptions db)))"

definition limits_row :: "SubscriptionRow \<Rightarrow> EntitlementRow \<Rightarrow> Limits" where
  "limits_row s row =
     (let e = Er_Entitlements row in
      \<lparr>Lm_UserID = 0, Lm_CustomerID = 0, Lm_SubscriptionID = Su_ID s, Lm_PlanID = coalesce 0 (Su_PlanID s),
       Lm_PlanName = Ent_PlanName e, Lm_MaxSites = Ent_MaxSites e, Lm_MaxSubdomains = Ent_MaxSubdomains e,
       Lm_MaxDatabases = Ent_MaxDatabases e, Lm_StorageMB = Ent_DiskMB e, Lm_MaxBackups = Ent_MaxBackups e,
       Lm_BackupStorageMB = Ent_BackupStorageMB e, Lm_SiteDiskQuotaMB = Ent_SiteDiskQuotaMB e,
       Lm_PHPFPMMaxChildren = Ent_PHPFPMMaxChildren e, Lm_PHPMemoryMB = Ent_PHPMemoryMB e,
       Lm_BandwidthMB = Ent_BandwidthMB e, Lm_OverusePolicy = Ent_OverusePolicy e,
       Lm_PHPAllowlist = Ent_PHPAllowlist e, Lm_DefaultPHPVersion = Ent_DefaultPHPVersion e,
       Lm_HostingEnabled = Ent_HostingEnabled e, Lm_AllowBackups = Ent_AllowBackups e,
       Lm_CreatedAt = Er_UpdatedAt row, Lm_UpdatedAt = Er_UpdatedAt row\<rparr>)"

definition user_subscription :: "quota_db \<Rightarrow> int \<Rightarrow> SubscriptionRow \<Rightarrow> bool" where
  "user_subscription db user s \<longleftrightarrow>
     Su_CustomerUserID s = Some user \<and> Su_Status s = ''active'' \<and> entitlement_of db (Su_ID s) \<noteq> None \<and>
     (case customer_of db s of None \<Rightarrow> True | Some c \<Rightarrow> Cu_Status c = ''active'') \<and> provider_open db (customer_of db s)"

definition GetLimits :: "quota_db \<Rightarrow> int \<Rightarrow> quota_error + Limits option" where
  "GetLimits db user =
     (case sort_key Su_ID (filter (user_subscription db user) (Q_Subscriptions db)) of
        [] \<Rightarrow> Inr None
      | s # _ \<Rightarrow> Inr (map_option (\<lambda>e. (limits_row s e)\<lparr>Lm_UserID := user\<rparr>) (entitlement_of db (Su_ID s))))"

definition open_subscription :: "quota_db \<Rightarrow> int \<Rightarrow> SubscriptionRow \<Rightarrow> bool" where
  "open_subscription db sub s \<longleftrightarrow>
     Su_ID s = sub \<and> Su_Status s = ''active'' \<and> entitlement_of db sub \<noteq> None \<and>
     (case customer_of db s of None \<Rightarrow> False | Some c \<Rightarrow> Cu_Status c = ''active'') \<and> provider_open db (customer_of db s)"

definition GetLimitsForSubscription :: "quota_db \<Rightarrow> int \<Rightarrow> quota_error + Limits option" where
  "GetLimitsForSubscription db sub =
     (case find (open_subscription db sub) (Q_Subscriptions db) of
        None \<Rightarrow> Inr None
      | Some s \<Rightarrow> Inr (map_option (\<lambda>e. (limits_row s e)\<lparr>Lm_CustomerID := coalesce 0 (Su_CustomerID s)\<rparr>) (entitlement_of db sub)))"

text \<open>\<open>COUNT(*)::int\<close> and \<open>SUM(size_bytes)::bigint\<close>.\<close>

definition live_site :: "SiteRow \<Rightarrow> bool" where
  "live_site x \<longleftrightarrow> Sr_Status x \<noteq> ''failed'' \<or> Sr_RemovalState x \<noteq> ''none''"

definition count_rows :: "('a \<Rightarrow> bool) \<Rightarrow> 'a list \<Rightarrow> int" where
  "count_rows P xs = int (length (filter P xs))"

definition sized :: "Usage \<Rightarrow> quota_error + Usage" where
  "sized u =
     (if list_all (\<lambda>n. n \<le> 2 ^ 31 - 1) [Us_Sites u, Us_Domains u, Us_Subdomains u, Us_Databases u, Us_Backups u] \<and>
         is_int64 (Us_BackupStorageBytes u) then Inr u else Inl ErrQuotaSQL)"

definition GetUsage :: "quota_db \<Rightarrow> int \<Rightarrow> quota_error + Usage" where
  "GetUsage db user =
     (let site = (\<lambda>x. Sr_OwnerUserID x = user \<and> live_site x) in
      sized
       \<lparr>Us_UserID = user, Us_CustomerID = 0, Us_SubscriptionID = 0,
        Us_Sites = count_rows site (Q_Sites db),
        Us_Domains = count_rows (\<lambda>x. site x \<and> Sr_ParentSiteID x = None) (Q_Sites db),
        Us_Subdomains = count_rows (\<lambda>x. site x \<and> Sr_ParentSiteID x \<noteq> None) (Q_Sites db),
        Us_Databases = count_rows (\<lambda>x. Dbr_OwnerUserID x = user \<and> Dbr_Status x \<noteq> ''failed'') (Q_Databases db),
        Us_Backups = count_rows (\<lambda>x. Bk_OwnerUserID x = user \<and> Bk_Status x \<noteq> ''failed'') (Q_Backups db),
        Us_BackupStorageBytes = sum_list (map Bk_SizeBytes (filter (\<lambda>x. Bk_OwnerUserID x = user) (Q_Backups db)))\<rparr>)"

definition domain_row :: "int \<Rightarrow> SiteRow \<Rightarrow> bool" where
  "domain_row sub x \<longleftrightarrow> Sr_SubscriptionID x = sub \<and> Sr_ParentSiteID x = None \<and> live_site x"

definition subdomain_row :: "int \<Rightarrow> SiteRow \<Rightarrow> bool" where
  "subdomain_row sub x \<longleftrightarrow> Sr_SubscriptionID x = sub \<and> Sr_ParentSiteID x \<noteq> None \<and> live_site x"

definition database_row :: "int \<Rightarrow> DatabaseRow \<Rightarrow> bool" where
  "database_row sub x \<longleftrightarrow> Dbr_SubscriptionID x = sub \<and> Dbr_Status x \<noteq> ''failed''"

definition backup_row :: "int \<Rightarrow> BackupRow \<Rightarrow> bool" where
  "backup_row sub x \<longleftrightarrow> Bk_SubscriptionID x = sub \<and> Bk_Status x \<noteq> ''failed''"

definition backup_bytes :: "quota_db \<Rightarrow> int \<Rightarrow> int" where
  "backup_bytes db sub = sum_list (map Bk_SizeBytes (filter (\<lambda>x. Bk_SubscriptionID x = sub) (Q_Backups db)))"

definition GetUsageForSubscription :: "quota_db \<Rightarrow> int \<Rightarrow> quota_error + Usage" where
  "GetUsageForSubscription db sub =
      sized
       \<lparr>Us_UserID = 0, Us_CustomerID = 0, Us_SubscriptionID = sub,
        Us_Sites = count_rows (\<lambda>x. Sr_SubscriptionID x = sub \<and> live_site x) (Q_Sites db),
        Us_Domains = count_rows (domain_row sub) (Q_Sites db),
        Us_Subdomains = count_rows (subdomain_row sub) (Q_Sites db),
        Us_Databases = count_rows (database_row sub) (Q_Databases db),
        Us_Backups = count_rows (backup_row sub) (Q_Backups db),
        Us_BackupStorageBytes = backup_bytes db sub\<rparr>"

lemma sized_Inr: "sized u = Inr v \<Longrightarrow> v = u \<and> is_int64 (Us_BackupStorageBytes u)"
  by (simp add: sized_def split: if_split_asm)

end
