(* ===== verification/Entitlement_Guard.thy ===== *)
theory Entitlement_Guard
  imports Quota_Check "HOL-Library.Product_Lexorder" "HOL-Library.AList"
begin

text \<open>
  The transactions that create sites, databases and backups: the locked entitlement guards of
  \<open>internal/control/provision/entitlement_guard.go\<close> and the statements of \<open>repository.go\<close>,
  \<open>phase6_repository.go\<close> and the generated queries of \<open>internal/control/store\<close>. A transaction is one step:
  the advisory lock of the subscription is held from the guard to the commit, and a failed transaction
  changes nothing. \<open>LIKE '%.' || domain\<close> is a suffix test, host names having no wildcard characters.
  A job inserted in the transaction is an entry of the job list.
\<close>

datatype prov_error =
    SubscriptionIDRequired
  | ErrSubscriptionTerminating
  | ProvNoActiveSubscription
  | ProvExceeded string
  | ErrForbidden
  | ErrSubdomainRequired
  | RootDomainRequired
  | ParentNotActive
  | UnsupportedResource
  | ErrDatabaseExists
  | ErrDatabaseIdempotencyConflict
  | ErrSiteAlreadyExists
  | ActiveSiteNotFound string
  | DatabaseIDNotPositive
  | ProvSQL

section \<open>Locked limits\<close>

record lockedSubscriptionLimits =
  Lk_MaxSites :: int
  Lk_MaxSubdomains :: int
  Lk_MaxDatabases :: int
  Lk_MaxBackups :: int
  Lk_BackupStorageMB :: int
  Lk_OverusePolicy :: string
  Lk_HostingEnabled :: bool
  Lk_AllowBackups :: bool

definition LockSubscriptionMutationTx :: "quota_db \<Rightarrow> int \<Rightarrow> prov_error option" where
  "LockSubscriptionMutationTx db sub =
     (if sub \<le> 0 then Some SubscriptionIDRequired
      else case map_of (Q_Billing db) sub of
        None \<Rightarrow> None
      | Some st \<Rightarrow> if st = ''terminating'' \<or> st = ''terminated'' then Some ErrSubscriptionTerminating else None)"

definition lockActiveSubscriptionLimits :: "quota_db \<Rightarrow> int \<Rightarrow> prov_error + lockedSubscriptionLimits" where
  "lockActiveSubscriptionLimits db sub =
     (case LockSubscriptionMutationTx db sub of
        Some e \<Rightarrow> Inl e
      | None \<Rightarrow>
          (case find (open_subscription db sub) (Q_Subscriptions db) of
             None \<Rightarrow> Inl ProvNoActiveSubscription
           | Some s \<Rightarrow>
               (case entitlement_of db sub of
                  None \<Rightarrow> Inl ProvNoActiveSubscription
                | Some row \<Rightarrow>
                    let e = Er_Entitlements row in
                    Inr \<lparr>Lk_MaxSites = Ent_MaxSites e, Lk_MaxSubdomains = Ent_MaxSubdomains e,
                         Lk_MaxDatabases = Ent_MaxDatabases e, Lk_MaxBackups = Ent_MaxBackups e,
                         Lk_BackupStorageMB = Ent_BackupStorageMB e, Lk_OverusePolicy = Ent_OverusePolicy e,
                         Lk_HostingEnabled = Ent_HostingEnabled e, Lk_AllowBackups = Ent_AllowBackups e\<rparr>)))"

definition resource_count :: "quota_db \<Rightarrow> string \<Rightarrow> int \<Rightarrow> int option" where
  "resource_count db table sub =
     (if table = ''sites'' then Some (count_rows (\<lambda>x. Sr_SubscriptionID x = sub \<and> live_site x) (Q_Sites db))
      else if table = ''domains'' then Some (count_rows (domain_row sub) (Q_Sites db))
      else if table = ''subdomains'' then Some (count_rows (subdomain_row sub) (Q_Sites db))
      else if table = ''databases'' then Some (count_rows (database_row sub) (Q_Databases db))
      else if table = ''backups'' then Some (count_rows (backup_row sub) (Q_Backups db))
      else None)"

definition enforceCountLimitTx :: "quota_db \<Rightarrow> string \<Rightarrow> int \<Rightarrow> int \<Rightarrow> string \<Rightarrow> prov_error option" where
  "enforceCountLimitTx db table sub allowed policy =
     (if policy = ''normal'' \<or> policy = ''notify'' then None
      else if allowed < 0 then None
      else case resource_count db table sub of
        None \<Rightarrow> Some UnsupportedResource
      | Some used \<Rightarrow>
          if used > 2 ^ 31 - 1 then Some ProvSQL
          else if used \<ge> allowed then Some (ProvExceeded table)
          else None)"

section \<open>Guards\<close>

text \<open>\<open>ORDER BY length(domain) DESC, id LIMIT 1\<close>\<close>

definition longest_domain :: "SiteRow list \<Rightarrow> SiteRow option" where
  "longest_domain xs =
     (case sort_key (\<lambda>x. (- int (length (Sr_Domain x)), Sr_ID x)) xs of [] \<Rightarrow> None | x # _ \<Rightarrow> Some x)"

definition below_domain :: "string \<Rightarrow> string \<Rightarrow> bool" where
  "below_domain child parent \<longleftrightarrow> HasSuffix child (CHR ''.'' # parent)"

definition guardSiteIntentTx :: "quota_db \<Rightarrow> int \<Rightarrow> string \<Rightarrow> int \<Rightarrow> prov_error option" where
  "guardSiteIntentTx db sub domain parentSiteID =
     (case lockActiveSubscriptionLimits db sub of
        Inl e \<Rightarrow> Some e
      | Inr l \<Rightarrow>
          if \<not> Lk_HostingEnabled l then Some (ProvExceeded ''hosting is disabled'')
          else
            (case find (\<lambda>x. Sr_Domain x = domain) (Q_Sites db) of
               Some x \<Rightarrow> if Sr_SubscriptionID x \<noteq> sub then Some ErrForbidden else None
             | None \<Rightarrow>
                 (case longest_domain (filter (\<lambda>x. below_domain domain (Sr_Domain x)) (Q_Sites db)) of
                    None \<Rightarrow>
                      if parentSiteID > 0 then Some ErrForbidden
                      else enforceCountLimitTx db ''domains'' sub (Lk_MaxSites l) (Lk_OverusePolicy l)
                  | Some parent \<Rightarrow>
                      if Sr_SubscriptionID parent \<noteq> sub then Some ErrForbidden
                      else if parentSiteID = 0 then Some ErrSubdomainRequired
                      else if Sr_ID parent \<noteq> parentSiteID then Some ErrForbidden
                      else if coalesce 0 (Sr_ParentSiteID parent) > 0 then Some RootDomainRequired
                      else if Sr_Status parent \<noteq> ''active'' \<or> Sr_DesiredStatus parent \<noteq> ''active'' then Some ParentNotActive
                      else enforceCountLimitTx db ''subdomains'' sub (Lk_MaxSubdomains l) (Lk_OverusePolicy l))))"

definition guardDatabaseIntentTx :: "quota_db \<Rightarrow> int \<Rightarrow> string \<Rightarrow> prov_error option" where
  "guardDatabaseIntentTx db sub name =
     (case lockActiveSubscriptionLimits db sub of
        Inl e \<Rightarrow> Some e
      | Inr l \<Rightarrow>
          (case find (\<lambda>x. Dbr_Name x = name) (Q_Databases db) of
             Some x \<Rightarrow> if Dbr_SubscriptionID x \<noteq> sub then Some ErrForbidden else None
           | None \<Rightarrow> enforceCountLimitTx db ''databases'' sub (Lk_MaxDatabases l) (Lk_OverusePolicy l)))"

definition guardBackupIntentTx :: "quota_db \<Rightarrow> int \<Rightarrow> prov_error option" where
  "guardBackupIntentTx db sub =
     (case lockActiveSubscriptionLimits db sub of
        Inl e \<Rightarrow> Some e
      | Inr l \<Rightarrow>
          let used = count_rows (backup_row sub) (Q_Backups db);
              bytes = backup_bytes db sub in
          first_error
           [fail_if (\<not> Lk_AllowBackups l) (ProvExceeded ''backups are disabled''),
            (if Lk_OverusePolicy l \<noteq> ''normal'' \<and> Lk_OverusePolicy l \<noteq> ''notify'' \<and> Lk_MaxBackups l \<ge> 0 then
               if Lk_MaxBackups l = 0 then Some (ProvExceeded ''backups'')
               else if used > 2 ^ 31 - 1 then Some ProvSQL
               else fail_if (used \<ge> Lk_MaxBackups l) (ProvExceeded ''backups'')
             else None),
            (if Lk_BackupStorageMB l \<ge> 0 then
               if \<not> is_int64 bytes then Some ProvSQL
               else fail_if (bytes \<ge> wrap64 (wrap64 (Lk_BackupStorageMB l * 1024) * 1024)) (ProvExceeded ''backup storage'')
             else None)])"

definition guardCreationSSLTx :: "quota_db \<Rightarrow> int \<Rightarrow> string \<Rightarrow> prov_error option" where
  "guardCreationSSLTx db sub domain =
     (if \<exists>x \<in> set (Q_Sites db). Sr_Domain x = domain then Some ErrSiteAlreadyExists
      else case entitlement_of db sub of
        None \<Rightarrow> Some ProvSQL
      | Some row \<Rightarrow> if \<not> Ent_AllowTLS (Er_Entitlements row) then Some (ProvExceeded ''SSL is disabled'') else None)"

section \<open>Creating a site\<close>

record CreateSiteIntent =
  Cs_SecureWithSSL :: bool
  Cs_ParentSiteID :: int
  Cs_SubscriptionID :: int
  Cs_Domain :: string
  Cs_PHPVersion :: string

definition parent_in :: "SiteRow list \<Rightarrow> int \<Rightarrow> string \<Rightarrow> int option" where
  "parent_in sites sub domain =
     map_option Sr_ID (longest_domain (filter (\<lambda>x. Sr_SubscriptionID x = sub \<and> Sr_Domain x \<noteq> domain \<and>
        below_domain domain (Sr_Domain x)) sites))"

definition active_subscription :: "quota_db \<Rightarrow> int \<Rightarrow> bool" where
  "active_subscription db sub \<longleftrightarrow> (\<exists>s \<in> set (Q_Subscriptions db). Su_ID s = sub \<and> Su_Status s = ''active'')"

definition UpsertSiteIntent :: "int \<Rightarrow> CreateSiteIntent \<Rightarrow> quota_db \<Rightarrow> prov_error + (SiteRow \<times> quota_db)" where
  "UpsertSiteIntent owner req db =
     (let sub = Cs_SubscriptionID req in
      if \<not> active_subscription db sub \<or> \<not> list_ex (\<lambda>a. Ac_SubID a = sub) (Q_Accounts db) \<or> \<not> Q_DNSTemplateActive db
      then Inl ProvSQL
      else
        let fresh = \<lparr>Sr_ID = Q_NextSite db, Sr_OwnerUserID = owner, Sr_SubscriptionID = sub, Sr_Domain = Cs_Domain req,
                     Sr_ParentSiteID = parent_in (Q_Sites db) sub (Cs_Domain req), Sr_PHPVersion = Cs_PHPVersion req,
                     Sr_Status = ''pending'', Sr_DesiredStatus = ''active'', Sr_RemovalState = ''none'', Sr_TLSStatus = ''none''\<rparr> in
        case find (\<lambda>x. Sr_Domain x = Cs_Domain req) (Q_Sites db) of
          None \<Rightarrow> Inr (fresh, db\<lparr>Q_Sites := Q_Sites db @ [fresh], Q_NextSite := Q_NextSite db + 1\<rparr>)
        | Some x \<Rightarrow>
            if Sr_SubscriptionID x \<noteq> sub then Inl ProvSQL
            else
              let y = x\<lparr>Sr_OwnerUserID := owner, Sr_ParentSiteID := Sr_ParentSiteID fresh, Sr_PHPVersion := Cs_PHPVersion req,
                        Sr_Status := ''pending''\<rparr> in
              Inr (y, db\<lparr>Q_Sites := map (\<lambda>z. if Sr_Domain z = Cs_Domain req then y else z) (Q_Sites db),
                         Q_NextSite := Q_NextSite db + 1\<rparr>))"

text \<open>Sites below the new domain whose closest ancestor it now is become its children.\<close>

definition adopt_child :: "SiteRow list \<Rightarrow> SiteRow \<Rightarrow> SiteRow \<Rightarrow> SiteRow" where
  "adopt_child sites s child =
     (if Sr_SubscriptionID child = Sr_SubscriptionID s \<and> Sr_ID child \<noteq> Sr_ID s \<and> below_domain (Sr_Domain child) (Sr_Domain s) \<and>
         map_option Sr_ID (longest_domain (filter (\<lambda>x. Sr_SubscriptionID x = Sr_SubscriptionID child \<and> Sr_ID x \<noteq> Sr_ID child \<and>
            below_domain (Sr_Domain child) (Sr_Domain x)) sites)) = Some (Sr_ID s)
      then child\<lparr>Sr_ParentSiteID := Some (Sr_ID s)\<rparr> else child)"

definition EnqueueSubscriptionConvergenceTx :: "int \<Rightarrow> quota_db \<Rightarrow> prov_error + quota_db" where
  "EnqueueSubscriptionConvergenceTx sub db =
     (case find (\<lambda>a. Ac_SubID a = sub) (Q_Accounts db) of
        None \<Rightarrow> Inl ProvSQL
      | Some a \<Rightarrow>
          let rev = Ac_DesiredRevision a + 1 in
          Inr (db\<lparr>Q_Accounts := map (\<lambda>x. if Ac_SubID x = sub then x\<lparr>Ac_DesiredRevision := Ac_DesiredRevision x + 1\<rparr> else x) (Q_Accounts db),
                  Q_Jobs := Q_Jobs db @ [ConvergeJob sub rev]\<rparr>))"

definition request_tls :: "int \<Rightarrow> quota_db \<Rightarrow> quota_db" where
  "request_tls i db =
     db\<lparr>Q_Sites := map (\<lambda>x. if Sr_ID x = i then x\<lparr>Sr_TLSStatus := ''pending''\<rparr> else x) (Q_Sites db),
        Q_Jobs := Q_Jobs db @ [IssueCertJob i]\<rparr>"

definition CreateSite :: "int \<Rightarrow> CreateSiteIntent \<Rightarrow> quota_db \<Rightarrow> prov_error + (int \<times> quota_db)" where
  "CreateSite owner req db =
     (case guardSiteIntentTx db (Cs_SubscriptionID req) (Cs_Domain req) (Cs_ParentSiteID req) of
        Some e \<Rightarrow> Inl e
      | None \<Rightarrow>
          (case (if Cs_SecureWithSSL req then guardCreationSSLTx db (Cs_SubscriptionID req) (Cs_Domain req) else None) of
             Some e \<Rightarrow> Inl e
           | None \<Rightarrow>
               (case UpsertSiteIntent owner req db of
                  Inl e \<Rightarrow> Inl e
                | Inr (s, db1) \<Rightarrow>
                    let db2 = db1\<lparr>Q_Sites := map (adopt_child (Q_Sites db1) s) (Q_Sites db1),
                                  Q_Jobs := Q_Jobs db1 @ [CreateSiteJob (Cs_SubscriptionID req) (Sr_ID s)]\<rparr>;
                        db3 = (if Cs_SecureWithSSL req then request_tls (Sr_ID s) db2 else db2) in
                    (case EnqueueSubscriptionConvergenceTx (Cs_SubscriptionID req) db3 of
                       Inl e \<Rightarrow> Inl e
                     | Inr db4 \<Rightarrow> Inr (Sr_ID s, db4)))))"

section \<open>Creating a database\<close>

record CreateDatabaseReq =
  Cd_IdempotencyScope :: string
  Cd_IdempotencyKey :: string
  Cd_IdempotencyFingerprint :: string
  Cd_SubscriptionID :: int
  Cd_SiteID :: int
  Cd_Engine :: string
  Cd_DBName :: string
  Cd_DBUser :: string
  Cd_Password :: string

definition lookupDatabaseCreateTx :: "quota_db \<Rightarrow> CreateDatabaseReq \<Rightarrow> prov_error + int" where
  "lookupDatabaseCreateTx db req =
     (if Cd_IdempotencyKey req = [] then Inr 0
      else case find (\<lambda>x. Dq_Scope x = Cd_IdempotencyScope req \<and> Dq_Key x = Cd_IdempotencyKey req) (Q_DatabaseRequests db) of
        None \<Rightarrow> Inr 0
      | Some x \<Rightarrow>
          if Dq_Fingerprint x \<noteq> Cd_IdempotencyFingerprint req then Inl ErrDatabaseIdempotencyConflict
          else Inr (Dq_DatabaseID x))"

definition UpsertDatabaseIntent :: "int \<Rightarrow> CreateDatabaseReq \<Rightarrow> quota_db \<Rightarrow> prov_error + (DatabaseRow \<times> quota_db)" where
  "UpsertDatabaseIntent owner req db =
     (let sub = Cd_SubscriptionID req in
      if \<not> active_subscription db sub \<or>
         (Cd_SiteID req \<noteq> 0 \<and> \<not> (\<exists>x \<in> set (Q_Sites db). Sr_ID x = Cd_SiteID req \<and> Sr_SubscriptionID x = sub))
      then Inl ProvSQL
      else
        let fresh = \<lparr>Dbr_ID = Q_NextDatabase db, Dbr_OwnerUserID = owner, Dbr_SubscriptionID = sub,
                     Dbr_SiteID = (if Cd_SiteID req = 0 then None else Some (Cd_SiteID req)), Dbr_Engine = Cd_Engine req,
                     Dbr_Name = Cd_DBName req, Dbr_User = Cd_DBUser req, Dbr_Status = ''pending''\<rparr> in
        if \<exists>x \<in> set (Q_Databases db). Dbr_User x = Cd_DBUser req \<and> Dbr_Name x \<noteq> Cd_DBName req then Inl ProvSQL
        else case find (\<lambda>x. Dbr_Name x = Cd_DBName req) (Q_Databases db) of
          None \<Rightarrow> Inr (fresh, db\<lparr>Q_Databases := Q_Databases db @ [fresh], Q_NextDatabase := Q_NextDatabase db + 1\<rparr>)
        | Some x \<Rightarrow>
            if Dbr_SubscriptionID x \<noteq> sub then Inl ProvSQL
            else
              let y = fresh\<lparr>Dbr_ID := Dbr_ID x\<rparr> in
              Inr (y, db\<lparr>Q_Databases := map (\<lambda>z. if Dbr_Name z = Cd_DBName req then y else z) (Q_Databases db),
                         Q_NextDatabase := Q_NextDatabase db + 1\<rparr>))"

definition databaseCredentialName :: "int \<Rightarrow> prov_error + string" where
  "databaseCredentialName i = (if i \<le> 0 then Inl DatabaseIDNotPositive else Inr (''provision-'' @ Itoa i))"

definition store_database :: "CreateDatabaseReq \<Rightarrow> DatabaseRow \<Rightarrow> quota_db \<Rightarrow> prov_error + (int \<times> quota_db)" where
  "store_database req d db =
     (case databaseCredentialName (Dbr_ID d) of
        Inl e \<Rightarrow> Inl e
      | Inr cred \<Rightarrow>
          let row = \<lparr>Dq_Scope = Cd_IdempotencyScope req, Dq_Key = Cd_IdempotencyKey req,
                     Dq_Fingerprint = Cd_IdempotencyFingerprint req, Dq_DatabaseID = Dbr_ID d\<rparr>;
              db1 = (if Cd_IdempotencyKey req \<noteq> [] then db\<lparr>Q_DatabaseRequests := Q_DatabaseRequests db @ [row]\<rparr> else db) in
          Inr (Dbr_ID d, db1\<lparr>Q_Credentials := AList.update cred (Cd_Password req) (Q_Credentials db1),
             Q_Jobs := Q_Jobs db1 @ [CreateDatabaseJob (Dbr_ID d) cred]\<rparr>))"

definition create_database :: "int \<Rightarrow> CreateDatabaseReq \<Rightarrow> quota_db \<Rightarrow> prov_error + (int \<times> quota_db)" where
  "create_database owner req db =
     (case guardDatabaseIntentTx db (Cd_SubscriptionID req) (Cd_DBName req) of
        Some e \<Rightarrow> Inl e
      | None \<Rightarrow>
          if \<exists>x \<in> set (Q_Databases db). Dbr_Name x = Cd_DBName req then Inl ErrDatabaseExists
          else if Cd_SiteID req > 0 \<and>
            \<not> (\<exists>x \<in> set (Q_Sites db). Sr_ID x = Cd_SiteID req \<and> Sr_SubscriptionID x = Cd_SubscriptionID req) then Inl ErrForbidden
          else case UpsertDatabaseIntent owner req db of
            Inl e \<Rightarrow> Inl e
          | Inr (d, db1) \<Rightarrow> store_database req d db1)"

definition CreateDatabase :: "int \<Rightarrow> CreateDatabaseReq \<Rightarrow> quota_db \<Rightarrow> prov_error + (int \<times> quota_db)" where
  "CreateDatabase owner req db =
     (if Cd_IdempotencyKey req = [] then create_database owner req db
      else case lockActiveSubscriptionLimits db (Cd_SubscriptionID req) of
        Inl e \<Rightarrow> Inl e
      | Inr _ \<Rightarrow>
          (case lookupDatabaseCreateTx db req of
             Inl e \<Rightarrow> Inl e
           | Inr i \<Rightarrow> if i > 0 then Inr (i, db) else create_database owner req db))"

section \<open>Creating a backup\<close>

text \<open>\<open>CreateBackup\<close> for a request that names a subscription.\<close>

definition selectActiveSubscriptionSite :: "quota_db \<Rightarrow> int \<Rightarrow> string \<Rightarrow> prov_error + SiteRow" where
  "selectActiveSubscriptionSite db sub domain =
     (case find (\<lambda>x. Sr_SubscriptionID x = sub \<and> Sr_Domain x = domain \<and> Sr_Status x = ''active'') (Q_Sites db) of
        None \<Rightarrow> Inl (ActiveSiteNotFound domain) | Some x \<Rightarrow> Inr x)"

definition selectActiveSubscriptionDatabases :: "quota_db \<Rightarrow> int \<Rightarrow> string list" where
  "selectActiveSubscriptionDatabases db sub =
     sort (map Dbr_Name (filter (\<lambda>x. Dbr_SubscriptionID x = sub \<and> Dbr_Status x = ''active'') (Q_Databases db)))"

definition CreateBackup :: "int \<Rightarrow> string \<Rightarrow> quota_db \<Rightarrow> prov_error + (int \<times> quota_db)" where
  "CreateBackup sub domain db =
     (case guardBackupIntentTx db sub of
        Some e \<Rightarrow> Inl e
      | None \<Rightarrow>
          (case selectActiveSubscriptionSite db sub domain of
             Inl e \<Rightarrow> Inl e
           | Inr site \<Rightarrow>
               if \<not> active_subscription db sub then Inl ProvSQL
               else
                 let b = \<lparr>Bk_ID = Q_NextBackup db, Bk_OwnerUserID = Sr_OwnerUserID site, Bk_SubscriptionID = sub,
                          Bk_SiteID = Some (Sr_ID site), Bk_Status = ''pending'', Bk_SizeBytes = 0\<rparr> in
                 Inr (Bk_ID b, db\<lparr>Q_Backups := Q_Backups db @ [b], Q_NextBackup := Q_NextBackup db + 1,
                   Q_Jobs := Q_Jobs db @ [CreateBackupJob (Bk_ID b) (Sr_ID site) sub (selectActiveSubscriptionDatabases db sub)]\<rparr>)))"

end
