(* ===== verification/Intent_Safety.thy ===== *)
theory Intent_Safety
  imports Entitlement_Guard
begin

text \<open>
  What the admission checks and the locked guards promise. The locale \<open>quota_reads\<close> is the contract of the
  store the checks read through: a successful read returns the limits the subscription is bound to and the
  resources it holds. The client lemmas say what an accepted request means under that contract; the SQL
  store satisfies it. The last section carries the promise over the transactions themselves.
\<close>

section \<open>The contract of the store\<close>

definition enforced :: "string \<Rightarrow> int \<Rightarrow> bool" where
  "enforced policy allowed \<longleftrightarrow> policy \<noteq> ''normal'' \<and> policy \<noteq> ''notify'' \<and> allowed \<ge> 0"

definition allowed_bytes :: "int \<Rightarrow> int" where
  "allowed_bytes mb = wrap64 (wrap64 (mb * 1024) * 1024)"

lemma countLimitReached_iff: "countLimitReached used allowed policy \<longleftrightarrow> enforced policy allowed \<and> used \<ge> allowed"
  by (auto simp: countLimitReached_def limitReached_def enforced_def)

locale quota_reads =
  fixes store :: quota_store
    and bound :: "int \<Rightarrow> Limits option"
    and held :: "int \<Rightarrow> Usage"
  assumes limits_law: "St_GetLimitsForSubscription store sub = Inr l \<Longrightarrow> l = bound sub"
    and usage_law: "St_GetUsageForSubscription store sub = Inr u \<Longrightarrow> u = held sub"
begin

lemma reads: "limits_and_usage (St_GetLimitsForSubscription store) (St_GetUsageForSubscription store) sub = Inr (l, u) \<Longrightarrow>
    bound sub = Some l \<and> u = held sub"
  by (auto simp: limits_and_usage_def dest: limits_law usage_law split: sum.split_asm option.split_asm)

lemma database_room:
  assumes "CheckDatabaseForSubscription (Some store) sub = Inr l"
  shows "bound sub = Some l \<and>
    (enforced (Lm_OverusePolicy l) (Lm_MaxDatabases l) \<longrightarrow> Us_Databases (held sub) < Lm_MaxDatabases l)"
  using assms reads [of sub]
  by (auto simp: CheckDatabaseForSubscription_def check_database_def countLimitReached_iff
      split: sum.split_asm if_split_asm)

lemma backup_room:
  assumes "CheckBackupForSubscription (Some store) sub = Inr l"
  shows "bound sub = Some l \<and> (Lm_OverusePolicy l \<noteq> [] \<longrightarrow> Lm_AllowBackups l) \<and>
    (enforced (Lm_OverusePolicy l) (Lm_MaxBackups l) \<longrightarrow> Us_Backups (held sub) < Lm_MaxBackups l) \<and>
    (Lm_BackupStorageMB l \<ge> 0 \<longrightarrow> Us_BackupStorageBytes (held sub) < allowed_bytes (Lm_BackupStorageMB l))"
  using assms reads [of sub]
  by (auto simp: CheckBackupForSubscription_def check_backup_def countLimitReached_iff allowed_bytes_def
      split: sum.split_asm if_split_asm)

lemma site_room:
  assumes "siteLimitsForSubscription (Some store) sub subdomain = Inr (rl, l)"
  shows "bound sub = Some l \<and> (Lm_OverusePolicy l \<noteq> [] \<longrightarrow> Lm_HostingEnabled l) \<and>
    (subdomain \<longrightarrow> enforced (Lm_OverusePolicy l) (Lm_MaxSubdomains l) \<longrightarrow> Us_Subdomains (held sub) < Lm_MaxSubdomains l) \<and>
    (\<not> subdomain \<longrightarrow> enforced (Lm_OverusePolicy l) (Lm_MaxSites l) \<longrightarrow> Us_Domains (held sub) < Lm_MaxSites l)"
  using assms reads [of sub]
  by (auto simp: siteLimitsForSubscription_def Let_def countLimitReached_iff
      split: sum.split_asm if_split_asm option.split_asm prod.split_asm)

end

section \<open>The SQL store\<close>

text \<open>The policy read of \<open>EffectiveSubscriptionPolicy\<close> is a parameter: it does not change what is admitted.\<close>

definition SQLStore :: "(int \<Rightarrow> quota_error + HostingPolicy) \<Rightarrow> quota_db \<Rightarrow> quota_store" where
  "SQLStore policy db = \<lparr>St_GetLimits = GetLimits db, St_GetUsage = GetUsage db,
     St_GetLimitsForSubscription = GetLimitsForSubscription db, St_GetUsageForSubscription = GetUsageForSubscription db,
     St_Policy = Some policy\<rparr>"

definition subscription_limits :: "quota_db \<Rightarrow> int \<Rightarrow> Limits option" where
  "subscription_limits db sub = (case GetLimitsForSubscription db sub of Inl _ \<Rightarrow> None | Inr l \<Rightarrow> l)"

definition subscription_usage :: "quota_db \<Rightarrow> int \<Rightarrow> Usage" where
  "subscription_usage db sub =
     \<lparr>Us_UserID = 0, Us_CustomerID = 0, Us_SubscriptionID = sub,
      Us_Sites = count_rows (\<lambda>x. Sr_SubscriptionID x = sub \<and> live_site x) (Q_Sites db),
      Us_Domains = count_rows (domain_row sub) (Q_Sites db),
      Us_Subdomains = count_rows (subdomain_row sub) (Q_Sites db),
      Us_Databases = count_rows (database_row sub) (Q_Databases db),
      Us_Backups = count_rows (backup_row sub) (Q_Backups db),
      Us_BackupStorageBytes = backup_bytes db sub\<rparr>"

lemma GetUsageForSubscription_sized: "GetUsageForSubscription db sub = sized (subscription_usage db sub)"
  by (simp add: GetUsageForSubscription_def subscription_usage_def)

interpretation sql: quota_reads "SQLStore policy db" "subscription_limits db" "subscription_usage db" for policy db
  by unfold_locales (auto simp: SQLStore_def subscription_limits_def GetUsageForSubscription_sized dest: sized_Inr)

lemma GetLimitsForSubscription_Inr: "GetLimitsForSubscription db sub = Inr (subscription_limits db sub)"
  by (simp add: subscription_limits_def GetLimitsForSubscription_def split: option.split)

section \<open>The guard reads the same limits\<close>

definition locked_of :: "Limits \<Rightarrow> lockedSubscriptionLimits" where
  "locked_of l = \<lparr>Lk_MaxSites = Lm_MaxSites l, Lk_MaxSubdomains = Lm_MaxSubdomains l,
     Lk_MaxDatabases = Lm_MaxDatabases l, Lk_MaxBackups = Lm_MaxBackups l,
     Lk_BackupStorageMB = Lm_BackupStorageMB l, Lk_OverusePolicy = Lm_OverusePolicy l,
     Lk_HostingEnabled = Lm_HostingEnabled l, Lk_AllowBackups = Lm_AllowBackups l\<rparr>"

lemma lock_limits:
  "LockSubscriptionMutationTx db sub = None \<Longrightarrow>
   lockActiveSubscriptionLimits db sub =
     (case subscription_limits db sub of None \<Rightarrow> Inl ProvNoActiveSubscription | Some l \<Rightarrow> Inr (locked_of l))"
  by (auto simp: lockActiveSubscriptionLimits_def subscription_limits_def GetLimitsForSubscription_def
      locked_of_def limits_row_def Let_def split: option.split)

lemma lock_Inr_limits:
  assumes "lockActiveSubscriptionLimits db sub = Inr k"
  shows "LockSubscriptionMutationTx db sub = None \<and> (\<exists>l. subscription_limits db sub = Some l \<and> k = locked_of l)"
proof -
  have n: "LockSubscriptionMutationTx db sub = None"
    using assms by (simp add: lockActiveSubscriptionLimits_def split: option.split_asm)
  show ?thesis using assms n lock_limits [OF n] by (simp split: option.split_asm)
qed

lemma enforceCount_None_iff:
  assumes "resource_count db table sub = Some n" "n \<le> 2 ^ 31 - 1"
  shows "enforceCountLimitTx db table sub allowed policy = None \<longleftrightarrow> \<not> countLimitReached n allowed policy"
  using assms by (auto simp: enforceCountLimitTx_def countLimitReached_iff enforced_def)

lemma enforceCount_below:
  assumes "enforceCountLimitTx db table sub allowed policy = None" "enforced policy allowed"
  shows "\<exists>n. resource_count db table sub = Some n \<and> n < allowed"
  using assms by (auto simp: enforceCountLimitTx_def enforced_def split: option.split_asm if_split_asm)

lemma resource_counts:
  "resource_count db ''domains'' sub = Some (count_rows (domain_row sub) (Q_Sites db))"
  "resource_count db ''subdomains'' sub = Some (count_rows (subdomain_row sub) (Q_Sites db))"
  "resource_count db ''databases'' sub = Some (count_rows (database_row sub) (Q_Databases db))"
  by (simp_all add: resource_count_def)

lemma sized_counts:
  assumes "GetUsageForSubscription db sub = Inr u"
  shows "u = subscription_usage db sub \<and> is_int64 (backup_bytes db sub) \<and>
    count_rows (domain_row sub) (Q_Sites db) \<le> 2 ^ 31 - 1 \<and> count_rows (subdomain_row sub) (Q_Sites db) \<le> 2 ^ 31 - 1 \<and>
    count_rows (database_row sub) (Q_Databases db) \<le> 2 ^ 31 - 1 \<and> count_rows (backup_row sub) (Q_Backups db) \<le> 2 ^ 31 - 1"
  using assms by (auto simp: GetUsageForSubscription_def sized_def subscription_usage_def split: if_split_asm)

lemma count_rows_nonneg [simp]: "0 \<le> count_rows P xs"
  by (simp add: count_rows_def)

lemma count_rows_append [simp]: "count_rows P (xs @ ys) = count_rows P xs + count_rows P ys"
  by (simp add: count_rows_def)

lemma count_rows_single [simp]: "count_rows P [x] = (if P x then 1 else 0)"
  by (simp add: count_rows_def)

lemma count_rows_map_le:
  "(\<And>x. x \<in> set xs \<Longrightarrow> P (f x) \<Longrightarrow> P x) \<Longrightarrow> count_rows P (map f xs) \<le> count_rows P xs"
  by (induction xs) (auto simp: count_rows_def)

lemma count_rows_map_eq:
  "(\<And>x. x \<in> set xs \<Longrightarrow> P (f x) = P x) \<Longrightarrow> count_rows P (map f xs) = count_rows P xs"
  by (induction xs) (auto simp: count_rows_def)

section \<open>A sample database\<close>

definition demo_quota_entitlements :: SubscriptionEntitlements where
  "demo_quota_entitlements = zero_SubscriptionEntitlements
     \<lparr>Ent_SubscriptionID := 5, Ent_MaxSites := 1, Ent_MaxSubdomains := 1, Ent_MaxDatabases := 1, Ent_MaxBackups := 1,
      Ent_BackupStorageMB := 10, Ent_OverusePolicy := ''block'', Ent_HostingEnabled := True, Ent_AllowBackups := True,
      Ent_AllowTLS := True\<rparr>"

definition demo_site :: SiteRow where
  "demo_site = \<lparr>Sr_ID = 1, Sr_OwnerUserID = 9, Sr_SubscriptionID = 5, Sr_Domain = ''example.com'', Sr_ParentSiteID = None,
     Sr_PHPVersion = ''8.4'', Sr_Status = ''active'', Sr_DesiredStatus = ''active'', Sr_RemovalState = ''none'', Sr_TLSStatus = ''none''\<rparr>"

definition demo_quota_db :: quota_db where
  "demo_quota_db = \<lparr>Q_Customers = [\<lparr>Cu_ID = 3, Cu_ResellerID = None, Cu_Status = ''active''\<rparr>],
     Q_Subscriptions = [\<lparr>Su_ID = 5, Su_CustomerID = Some 3, Su_CustomerUserID = Some 9, Su_PlanID = None,
       Su_Status = ''active'', Su_SyncMode = ''custom''\<rparr>],
     Q_Entitlements = [\<lparr>Er_Entitlements = demo_quota_entitlements, Er_UpdatedAt = 0\<rparr>],
     Q_Resellers = [], Q_ResellerSubscriptions = [], Q_ResellerPlans = [], Q_Billing = [],
     Q_Accounts = [\<lparr>Ac_SubID = 5, Ac_SystemUser = ''nak5'', Ac_DesiredRevision = 1\<rparr>],
     Q_Sites = [demo_site], Q_Databases = [], Q_Backups = [], Q_DatabaseRequests = [], Q_Credentials = [], Q_Jobs = [],
     Q_Settings = \<lparr>Set_OversellPolicy = ''cap'', Set_ServerDiskCapacityMB = 100, Set_ValkeyCapacityMB = 100,
       Set_CreatedAt = 0, Set_UpdatedAt = 0\<rparr>,
     Q_DNSTemplateActive = True, Q_NextSite = 2, Q_NextDatabase = 1, Q_NextBackup = 1\<rparr>"

definition demo_database_req :: CreateDatabaseReq where
  "demo_database_req = \<lparr>Cd_IdempotencyScope = ''api'', Cd_IdempotencyKey = ''k1'', Cd_IdempotencyFingerprint = ''f1'',
     Cd_SubscriptionID = 5, Cd_SiteID = 1, Cd_Engine = ''mariadb'', Cd_DBName = ''shop'', Cd_DBUser = ''shop_u'', Cd_Password = ''pw''\<rparr>"

lemma demo_limits: "map_option (\<lambda>l. (Lm_OverusePolicy l, Lm_MaxSites l, Lm_MaxSubdomains l, Lm_MaxDatabases l, Lm_MaxBackups l, Lm_BackupStorageMB l))
    (subscription_limits demo_quota_db 5) = Some (''block'', 1, 1, 1, 1, 10)"
  by code_simp

lemma demo_enforced: "enforced ''block'' 1"
  by (simp add: enforced_def)

section \<open>Databases\<close>

lemma guardDatabase_new:
  assumes "guardDatabaseIntentTx db sub name = None" "\<not> (\<exists>x \<in> set (Q_Databases db). Dbr_Name x = name)"
  shows "\<exists>k. lockActiveSubscriptionLimits db sub = Inr k \<and>
    enforceCountLimitTx db ''databases'' sub (Lk_MaxDatabases k) (Lk_OverusePolicy k) = None"
  using assms by (auto simp: guardDatabaseIntentTx_def find_None_iff find_Some_iff split: sum.split_asm option.split_asm if_split_asm)

lemma UpsertDatabaseIntent_new:
  assumes "UpsertDatabaseIntent owner req db = Inr (d, db')"
    and "\<not> (\<exists>x \<in> set (Q_Databases db). Dbr_Name x = Cd_DBName req)"
  shows "Dbr_ID d = Q_NextDatabase db \<and> Dbr_SubscriptionID d = Cd_SubscriptionID req \<and> Dbr_Name d = Cd_DBName req \<and>
    Dbr_Status d = ''pending'' \<and> db' = db\<lparr>Q_Databases := Q_Databases db @ [d], Q_NextDatabase := Q_NextDatabase db + 1\<rparr>"
proof -
  have "find (\<lambda>x. Dbr_Name x = Cd_DBName req) (Q_Databases db) = None" using assms(2) by (simp add: find_None_iff)
  then show ?thesis using assms(1) by (auto simp: UpsertDatabaseIntent_def Let_def split: if_split_asm)
qed

lemma store_database_Inr:
  assumes "store_database req d db = Inr (i, db')"
  shows "i = Dbr_ID d \<and> Q_Databases db' = Q_Databases db \<and> Q_Sites db' = Q_Sites db \<and> Q_Backups db' = Q_Backups db \<and>
    Q_Jobs db' = Q_Jobs db @ [CreateDatabaseJob i (''provision-'' @ Itoa i)] \<and>
    map_of (Q_Credentials db') (''provision-'' @ Itoa i) = Some (Cd_Password req) \<and>
    (Cd_IdempotencyKey req \<noteq> [] \<longrightarrow> Q_DatabaseRequests db' = Q_DatabaseRequests db @
       [\<lparr>Dq_Scope = Cd_IdempotencyScope req, Dq_Key = Cd_IdempotencyKey req,
         Dq_Fingerprint = Cd_IdempotencyFingerprint req, Dq_DatabaseID = i\<rparr>])"
  using assms by (auto simp: store_database_def databaseCredentialName_def Let_def update_conv split: if_split_asm)

lemma create_database_Inr:
  assumes "create_database owner req db = Inr (i, db')"
  shows "\<not> (\<exists>x \<in> set (Q_Databases db). Dbr_Name x = Cd_DBName req) \<and>
    guardDatabaseIntentTx db (Cd_SubscriptionID req) (Cd_DBName req) = None \<and>
    (\<exists>d db1. UpsertDatabaseIntent owner req db = Inr (d, db1) \<and> store_database req d db1 = Inr (i, db'))"
  using assms by (auto simp: create_database_def split: option.split_asm sum.split_asm if_split_asm)

text \<open>A database created by the transaction, and what the transaction leaves alone.\<close>

lemma create_database_effect:
  assumes "create_database owner req db = Inr (i, db')"
  shows "\<exists>k d. lockActiveSubscriptionLimits db (Cd_SubscriptionID req) = Inr k \<and>
    (enforced (Lk_OverusePolicy k) (Lk_MaxDatabases k) \<longrightarrow>
       count_rows (database_row (Cd_SubscriptionID req)) (Q_Databases db) < Lk_MaxDatabases k) \<and>
    Q_Databases db' = Q_Databases db @ [d] \<and> Dbr_ID d = i \<and> i = Q_NextDatabase db \<and>
    Dbr_SubscriptionID d = Cd_SubscriptionID req \<and> Dbr_Name d = Cd_DBName req \<and> Dbr_Status d = ''pending'' \<and>
    Cd_DBName req \<notin> Dbr_Name ` set (Q_Databases db) \<and>
    Q_Jobs db' = Q_Jobs db @ [CreateDatabaseJob i (''provision-'' @ Itoa i)] \<and>
    Q_Sites db' = Q_Sites db \<and> Q_Backups db' = Q_Backups db"
proof -
  from create_database_Inr [OF assms] obtain d db1 where
    new: "\<not> (\<exists>x \<in> set (Q_Databases db). Dbr_Name x = Cd_DBName req)"
    and g: "guardDatabaseIntentTx db (Cd_SubscriptionID req) (Cd_DBName req) = None"
    and u: "UpsertDatabaseIntent owner req db = Inr (d, db1)" and s: "store_database req d db1 = Inr (i, db')" by blast
  from guardDatabase_new [OF g new] obtain k where
    k: "lockActiveSubscriptionLimits db (Cd_SubscriptionID req) = Inr k"
    and e: "enforceCountLimitTx db ''databases'' (Cd_SubscriptionID req) (Lk_MaxDatabases k) (Lk_OverusePolicy k) = None" by blast
  from enforceCount_below [OF e] have
    below: "enforced (Lk_OverusePolicy k) (Lk_MaxDatabases k) \<Longrightarrow>
       count_rows (database_row (Cd_SubscriptionID req)) (Q_Databases db) < Lk_MaxDatabases k"
    by (simp add: resource_counts)
  show ?thesis
    using UpsertDatabaseIntent_new [OF u new] store_database_Inr [OF s] k below new by (intro exI [of _ k] exI [of _ d]) auto
qed

lemma CreateDatabase_cases:
  assumes "CreateDatabase owner req db = Inr (i, db')"
  shows "create_database owner req db = Inr (i, db') \<or>
    (db' = db \<and> i > 0 \<and> Cd_IdempotencyKey req \<noteq> [] \<and> lookupDatabaseCreateTx db req = Inr i)"
  using assms by (auto simp: CreateDatabase_def split: if_split_asm sum.split_asm)

lemma lookupDatabaseCreate_hit:
  assumes "lookupDatabaseCreateTx db req = Inr i" "i > 0"
  shows "\<exists>x \<in> set (Q_DatabaseRequests db). Dq_Scope x = Cd_IdempotencyScope req \<and> Dq_Key x = Cd_IdempotencyKey req \<and>
    Dq_Fingerprint x = Cd_IdempotencyFingerprint req \<and> Dq_DatabaseID x = i"
  using assms by (auto simp: lookupDatabaseCreateTx_def find_Some_iff split: if_split_asm option.split_asm intro!: bexI)

text \<open>
  C22. A successful \<open>CreateDatabase\<close> either replays a recorded request, with the same fingerprint and without
  changing anything, or adds exactly one pending database under a new name, queues its job, and leaves the
  subscription within the number of databases its plan allows whenever that limit is enforced.
\<close>

theorem CreateDatabase_within_limit:
  assumes "CreateDatabase owner req db = Inr (i, db')"
  shows "(db' = db \<and> (\<exists>x \<in> set (Q_DatabaseRequests db). Dq_Scope x = Cd_IdempotencyScope req \<and>
      Dq_Key x = Cd_IdempotencyKey req \<and> Dq_Fingerprint x = Cd_IdempotencyFingerprint req \<and> Dq_DatabaseID x = i)) \<or>
    (\<exists>l d. subscription_limits db (Cd_SubscriptionID req) = Some l \<and>
      Q_Databases db' = Q_Databases db @ [d] \<and> Dbr_ID d = i \<and> Dbr_SubscriptionID d = Cd_SubscriptionID req \<and>
      Dbr_Name d = Cd_DBName req \<and> Cd_DBName req \<notin> Dbr_Name ` set (Q_Databases db) \<and>
      Q_Jobs db' = Q_Jobs db @ [CreateDatabaseJob i (''provision-'' @ Itoa i)] \<and>
      (enforced (Lm_OverusePolicy l) (Lm_MaxDatabases l) \<longrightarrow>
        count_rows (database_row (Cd_SubscriptionID req)) (Q_Databases db') \<le> Lm_MaxDatabases l))"
  using CreateDatabase_cases [OF assms]
proof
  assume c: "create_database owner req db = Inr (i, db')"
  obtain k d where k: "lockActiveSubscriptionLimits db (Cd_SubscriptionID req) = Inr k"
    and below: "enforced (Lk_OverusePolicy k) (Lk_MaxDatabases k) \<longrightarrow>
       count_rows (database_row (Cd_SubscriptionID req)) (Q_Databases db) < Lk_MaxDatabases k"
    and rest: "Q_Databases db' = Q_Databases db @ [d]" "Dbr_ID d = i"
      "Dbr_SubscriptionID d = Cd_SubscriptionID req" "Dbr_Name d = Cd_DBName req" "Dbr_Status d = ''pending''"
      "Cd_DBName req \<notin> Dbr_Name ` set (Q_Databases db)"
      "Q_Jobs db' = Q_Jobs db @ [CreateDatabaseJob i (''provision-'' @ Itoa i)]"
    using create_database_effect [OF c] by blast
  obtain l where l: "subscription_limits db (Cd_SubscriptionID req) = Some l" "k = locked_of l"
    using lock_Inr_limits [OF k] by blast
  show ?thesis
    by (intro disjI2 exI [of _ l] exI [of _ d])
      (use l rest below in \<open>simp add: database_row_def locked_of_def add1_zle_eq\<close>)
next
  assume "db' = db \<and> i > 0 \<and> Cd_IdempotencyKey req \<noteq> [] \<and> lookupDatabaseCreateTx db req = Inr i"
  then show ?thesis using lookupDatabaseCreate_hit [of db req i] by blast
qed

theorem CreateDatabase_within_limit_witness:
  "\<exists>i db'. CreateDatabase 9 demo_database_req demo_quota_db = Inr (i, db') \<and>
     count_rows (database_row 5) (Q_Databases db') \<le> 1 \<and> Q_Jobs db' = [CreateDatabaseJob i (''provision-'' @ Itoa i)]"
proof -
  have "\<not> isl (CreateDatabase 9 demo_database_req demo_quota_db)" by code_simp
  then obtain i db' where c: "CreateDatabase 9 demo_database_req demo_quota_db = Inr (i, db')"
    by (cases "CreateDatabase 9 demo_database_req demo_quota_db") auto
  have "Q_DatabaseRequests demo_quota_db = []" "Q_Jobs demo_quota_db = []" "Cd_SubscriptionID demo_database_req = 5"
    by (simp_all add: demo_quota_db_def demo_database_req_def)
  then show ?thesis using c CreateDatabase_within_limit [OF c] demo_limits demo_enforced by auto
qed

section \<open>Backups\<close>

lemma guardBackup_None:
  assumes "guardBackupIntentTx db sub = None"
  shows "\<exists>k. lockActiveSubscriptionLimits db sub = Inr k \<and> Lk_AllowBackups k \<and>
    (enforced (Lk_OverusePolicy k) (Lk_MaxBackups k) \<longrightarrow> count_rows (backup_row sub) (Q_Backups db) < Lk_MaxBackups k) \<and>
    (Lk_BackupStorageMB k \<ge> 0 \<longrightarrow> backup_bytes db sub < allowed_bytes (Lk_BackupStorageMB k))"
  using assms
  by (auto simp: guardBackupIntentTx_def Let_def enforced_def allowed_bytes_def fail_if_def
      split: sum.split_asm if_split_asm option.split_asm)

text \<open>
  A successful \<open>CreateBackup\<close> adds one pending backup of the site, of no size yet, for a subscription that
  may take backups, within the number and below the storage its plan allows, and queues a job with the
  active databases of that subscription.
\<close>

theorem CreateBackup_within_limit:
  assumes "CreateBackup sub domain db = Inr (i, db')"
  shows "\<exists>l b. subscription_limits db sub = Some l \<and> Lm_AllowBackups l \<and>
    Q_Backups db' = Q_Backups db @ [b] \<and> Bk_ID b = i \<and> Bk_SubscriptionID b = sub \<and> Bk_Status b = ''pending'' \<and>
    (enforced (Lm_OverusePolicy l) (Lm_MaxBackups l) \<longrightarrow> count_rows (backup_row sub) (Q_Backups db') \<le> Lm_MaxBackups l) \<and>
    (Lm_BackupStorageMB l \<ge> 0 \<longrightarrow> backup_bytes db' sub < allowed_bytes (Lm_BackupStorageMB l)) \<and>
    (\<exists>s \<in> set (Q_Sites db). Sr_Domain s = domain \<and> Sr_SubscriptionID s = sub \<and> Sr_Status s = ''active'' \<and>
       Q_Jobs db' = Q_Jobs db @ [CreateBackupJob i (Sr_ID s) sub (selectActiveSubscriptionDatabases db sub)])"
proof -
  from assms have g: "guardBackupIntentTx db sub = None" by (simp add: CreateBackup_def split: option.split_asm)
  from guardBackup_None [OF g] obtain k where k: "lockActiveSubscriptionLimits db sub = Inr k" "Lk_AllowBackups k"
    "enforced (Lk_OverusePolicy k) (Lk_MaxBackups k) \<longrightarrow> count_rows (backup_row sub) (Q_Backups db) < Lk_MaxBackups k"
    "Lk_BackupStorageMB k \<ge> 0 \<longrightarrow> backup_bytes db sub < allowed_bytes (Lk_BackupStorageMB k)" by blast
  from lock_Inr_limits [OF k(1)] obtain l where l: "subscription_limits db sub = Some l" "k = locked_of l" by blast
  from assms g obtain s where s: "selectActiveSubscriptionSite db sub domain = Inr s"
    by (simp add: CreateBackup_def split: sum.split_asm)
  define b where "b = \<lparr>Bk_ID = Q_NextBackup db, Bk_OwnerUserID = Sr_OwnerUserID s, Bk_SubscriptionID = sub,
    Bk_SiteID = Some (Sr_ID s), Bk_Status = ''pending'', Bk_SizeBytes = 0\<rparr>"
  have r: "i = Bk_ID b" "Q_Backups db' = Q_Backups db @ [b]"
    "Q_Jobs db' = Q_Jobs db @ [CreateBackupJob i (Sr_ID s) sub (selectActiveSubscriptionDatabases db sub)]"
    using assms g s by (auto simp: CreateBackup_def Let_def b_def split: if_split_asm)
  have site: "s \<in> set (Q_Sites db)" "Sr_Domain s = domain" "Sr_SubscriptionID s = sub" "Sr_Status s = ''active''"
    using s by (auto simp: selectActiveSubscriptionSite_def find_Some_iff split: option.split_asm)
  have bytes: "backup_bytes db' sub = backup_bytes db sub" using r(2) by (simp add: backup_bytes_def b_def)
  show ?thesis
    by (intro exI [of _ l] exI [of _ b] conjI bexI [of _ s])
      (use k l r site bytes in \<open>simp_all add: backup_row_def locked_of_def b_def add1_zle_eq\<close>)
qed

theorem CreateBackup_within_limit_witness:
  "\<exists>i db'. CreateBackup 5 ''example.com'' demo_quota_db = Inr (i, db') \<and>
     count_rows (backup_row 5) (Q_Backups db') \<le> 1 \<and> backup_bytes db' 5 < 10485760"
proof -
  have "\<not> isl (CreateBackup 5 ''example.com'' demo_quota_db)" by code_simp
  then obtain i db' where c: "CreateBackup 5 ''example.com'' demo_quota_db = Inr (i, db')"
    by (cases "CreateBackup 5 ''example.com'' demo_quota_db") auto
  have "allowed_bytes 10 = 10485760" by code_simp
  then show ?thesis using c CreateBackup_within_limit [OF c] demo_limits demo_enforced by auto
qed

section \<open>Checks and guards agree\<close>

lemma CheckDatabase_iff:
  assumes "GetUsageForSubscription db sub = Inr u"
  shows "(\<exists>l. CheckDatabaseForSubscription (Some (SQLStore policy db)) sub = Inr l) \<longleftrightarrow>
    (\<exists>l. subscription_limits db sub = Some l \<and> \<not> countLimitReached (Us_Databases u) (Lm_MaxDatabases l) (Lm_OverusePolicy l))"
  using assms
  by (auto simp: CheckDatabaseForSubscription_def limits_and_usage_def check_database_def SQLStore_def
      GetLimitsForSubscription_Inr split: option.split)

lemma CheckBackup_iff:
  assumes "GetUsageForSubscription db sub = Inr u"
  shows "(\<exists>l. CheckBackupForSubscription (Some (SQLStore policy db)) sub = Inr l) \<longleftrightarrow>
    (\<exists>l. subscription_limits db sub = Some l \<and> (Lm_AllowBackups l \<or> Lm_OverusePolicy l = []) \<and>
      \<not> countLimitReached (Us_Backups u) (Lm_MaxBackups l) (Lm_OverusePolicy l) \<and>
      \<not> (Lm_BackupStorageMB l \<ge> 0 \<and> Us_BackupStorageBytes u \<ge> allowed_bytes (Lm_BackupStorageMB l)))"
  using assms
  by (auto simp: CheckBackupForSubscription_def limits_and_usage_def check_backup_def SQLStore_def allowed_bytes_def
      GetLimitsForSubscription_Inr split: option.split)

lemma guardDatabase_iff:
  assumes "GetUsageForSubscription db sub = Inr u" "LockSubscriptionMutationTx db sub = None"
    and "name \<notin> Dbr_Name ` set (Q_Databases db)"
  shows "guardDatabaseIntentTx db sub name = None \<longleftrightarrow>
    (\<exists>l. subscription_limits db sub = Some l \<and> \<not> countLimitReached (Us_Databases u) (Lm_MaxDatabases l) (Lm_OverusePolicy l))"
proof -
  have "find (\<lambda>x. Dbr_Name x = name) (Q_Databases db) = None" using assms(3) by (auto simp: find_None_iff)
  then show ?thesis
    using sized_counts [OF assms(1)] enforceCount_None_iff [OF resource_counts(3)]
    by (auto simp: guardDatabaseIntentTx_def lock_limits [OF assms(2)] locked_of_def subscription_usage_def split: option.split)
qed

lemma guardBackup_iff:
  assumes "GetUsageForSubscription db sub = Inr u" "LockSubscriptionMutationTx db sub = None"
  shows "guardBackupIntentTx db sub = None \<longleftrightarrow>
    (\<exists>l. subscription_limits db sub = Some l \<and> Lm_AllowBackups l \<and>
      \<not> countLimitReached (Us_Backups u) (Lm_MaxBackups l) (Lm_OverusePolicy l) \<and>
      \<not> (Lm_BackupStorageMB l \<ge> 0 \<and> Us_BackupStorageBytes u \<ge> allowed_bytes (Lm_BackupStorageMB l)))"
  using sized_counts [OF assms(1)]
  by (auto simp: guardBackupIntentTx_def lock_limits [OF assms(2)] locked_of_def subscription_usage_def Let_def fail_if_def
      countLimitReached_iff enforced_def allowed_bytes_def split: option.split)



text \<open>
  What an accepted check means on the SQL store: the limits returned are the subscription's own and, where
  the limit is enforced, the subscription holds fewer databases, backups, domains or subdomains than it may.
\<close>

theorem accepted_checks_leave_room:
  shows "CheckDatabaseForSubscription (Some (SQLStore policy db)) sub = Inr l \<longrightarrow>
      subscription_limits db sub = Some l \<and> (enforced (Lm_OverusePolicy l) (Lm_MaxDatabases l) \<longrightarrow>
        count_rows (database_row sub) (Q_Databases db) < Lm_MaxDatabases l)"
    and "CheckBackupForSubscription (Some (SQLStore policy db)) sub = Inr l \<longrightarrow>
      subscription_limits db sub = Some l \<and> (enforced (Lm_OverusePolicy l) (Lm_MaxBackups l) \<longrightarrow>
        count_rows (backup_row sub) (Q_Backups db) < Lm_MaxBackups l)"
    and "SiteLimitsForSubscription (Some (SQLStore policy db)) sub = Inr (rl, l) \<longrightarrow>
      subscription_limits db sub = Some l \<and> (enforced (Lm_OverusePolicy l) (Lm_MaxSites l) \<longrightarrow>
        count_rows (domain_row sub) (Q_Sites db) < Lm_MaxSites l)"
    and "SiteLimitsForSubdomain (Some (SQLStore policy db)) sub = Inr (rl, l) \<longrightarrow>
      subscription_limits db sub = Some l \<and> (enforced (Lm_OverusePolicy l) (Lm_MaxSubdomains l) \<longrightarrow>
        count_rows (subdomain_row sub) (Q_Sites db) < Lm_MaxSubdomains l)"
  using sql.database_room [of policy db sub l] sql.backup_room [of policy db sub l]
    sql.site_room [of policy db sub False rl l] sql.site_room [of policy db sub True rl l]
  by (simp_all add: SiteLimitsForSubscription_def SiteLimitsForSubdomain_def subscription_usage_def)

end
