(* ===== verification/Site_Tree.thy ===== *)
theory Site_Tree
  imports Intent_Safety
begin

text \<open>
  The tree of sites that \<open>CreateSite\<close> keeps: every site points to the closest site above it in the same
  subscription. With it, the number of domains and subdomains a creation leaves.
\<close>

section \<open>The closest site above\<close>

definition site_key :: "SiteRow \<Rightarrow> int \<times> int" where
  "site_key x = (- int (length (Sr_Domain x)), Sr_ID x)"

definition site_parent :: "SiteRow list \<Rightarrow> SiteRow \<Rightarrow> int option" where
  "site_parent sites c =
     map_option Sr_ID (longest_domain (filter (\<lambda>x. Sr_SubscriptionID x = Sr_SubscriptionID c \<and> Sr_ID x \<noteq> Sr_ID c \<and>
        below_domain (Sr_Domain c) (Sr_Domain x)) sites))"

definition same_place :: "SiteRow \<Rightarrow> SiteRow \<Rightarrow> bool" where
  "same_place x y \<longleftrightarrow> Sr_ID x = Sr_ID y \<and> Sr_Domain x = Sr_Domain y \<and> Sr_SubscriptionID x = Sr_SubscriptionID y"

lemma same_place_refl [simp]: "same_place x x"
  by (simp add: same_place_def)

lemma longest_domain_None [simp]: "longest_domain xs = None \<longleftrightarrow> xs = []"
proof -
  have "sort_key (\<lambda>x. (- int (length (Sr_Domain x)), Sr_ID x)) xs = [] \<longleftrightarrow> xs = []"
    by (metis length_0_conv length_sort)
  then show ?thesis by (auto simp: longest_domain_def split: list.split)
qed

lemma longest_domain_Nil [simp]: "longest_domain [] = None"
  by simp

lemma longest_domain_Some:
  assumes "longest_domain xs = Some x"
  shows "x \<in> set xs \<and> (\<forall>y \<in> set xs. site_key x \<le> site_key y)"
proof -
  obtain zs where zs: "sort_key site_key xs = x # zs"
    using assms by (auto simp: longest_domain_def site_key_def [abs_def] split: list.split_asm)
  have "sorted (map site_key (x # zs))" unfolding zs [symmetric] by simp
  moreover have "set xs = set (x # zs)" unfolding zs [symmetric] by simp
  ultimately show ?thesis by auto
qed

lemma longest_domain_unique:
  assumes "x \<in> set xs" "\<And>y. y \<in> set xs \<Longrightarrow> site_key x \<le> site_key y" "inj_on Sr_ID (set xs)"
  shows "longest_domain xs = Some x"
proof -
  obtain m where m: "longest_domain xs = Some m" using assms(1) by (cases "longest_domain xs") auto
  have "site_key m = site_key x" using longest_domain_Some [OF m] assms(1,2) by (meson order_antisym)
  then have "m = x" using longest_domain_Some [OF m] assms(1,3) by (auto simp: site_key_def inj_on_def)
  then show ?thesis using m by simp
qed

lemma insort_key_map:
  "(\<And>x. k (f x) = k x) \<Longrightarrow> insort_key k (f x) (map f xs) = map f (insort_key k x xs)"
  by (induction xs) auto

lemma sort_key_map: "(\<And>x. k (f x) = k x) \<Longrightarrow> sort_key k (map f xs) = map f (sort_key k xs)"
  by (induction xs) (auto simp: insort_key_map)

lemma longest_domain_map:
  assumes "\<And>x. same_place (f x) x"
  shows "longest_domain (map f xs) = map_option f (longest_domain xs)"
proof -
  have "sort_key (\<lambda>x. (- int (length (Sr_Domain x)), Sr_ID x)) (map f xs) =
    map f (sort_key (\<lambda>x. (- int (length (Sr_Domain x)), Sr_ID x)) xs)"
    by (rule sort_key_map) (use assms in \<open>simp add: same_place_def\<close>)
  then show ?thesis by (simp add: longest_domain_def split: list.split)
qed

lemma site_parent_map:
  assumes "\<And>x. same_place (f x) x" "same_place c d"
  shows "site_parent (map f xs) c = site_parent xs d"
proof -
  have "filter (\<lambda>x. Sr_SubscriptionID x = Sr_SubscriptionID c \<and> Sr_ID x \<noteq> Sr_ID c \<and> below_domain (Sr_Domain c) (Sr_Domain x)) (map f xs) =
    map f (filter (\<lambda>x. Sr_SubscriptionID x = Sr_SubscriptionID d \<and> Sr_ID x \<noteq> Sr_ID d \<and> below_domain (Sr_Domain d) (Sr_Domain x)) xs)"
    using assms by (auto simp: filter_map o_def same_place_def intro!: arg_cong [of _ _ "map f"] filter_cong)
  then show ?thesis
    unfolding site_parent_def using assms(1) by (simp add: longest_domain_map option.map_comp o_def same_place_def)
qed

lemma site_parent_Some:
  assumes "site_parent sites c = Some i"
  shows "\<exists>x \<in> set sites. Sr_ID x = i \<and> Sr_SubscriptionID x = Sr_SubscriptionID c \<and> i \<noteq> Sr_ID c \<and>
    below_domain (Sr_Domain c) (Sr_Domain x)"
  using assms longest_domain_Some by (fastforce simp: site_parent_def)

lemma site_parent_None:
  "site_parent sites c = None \<longleftrightarrow>
   \<not> (\<exists>x \<in> set sites. Sr_SubscriptionID x = Sr_SubscriptionID c \<and> Sr_ID x \<noteq> Sr_ID c \<and> below_domain (Sr_Domain c) (Sr_Domain x))"
  by (auto simp: site_parent_def filter_empty_conv)

lemma below_domain_shorter: "below_domain c p \<Longrightarrow> length p < length c"
  by (auto simp: below_domain_def HasSuffix_iff)

lemma below_domain_trans:
  assumes "below_domain a b" "below_domain b c" shows "below_domain a c"
proof -
  obtain t u where "a = t @ CHR ''.'' # b" "b = u @ CHR ''.'' # c" using assms by (auto simp: below_domain_def HasSuffix_iff)
  then have "a = (t @ CHR ''.'' # u) @ CHR ''.'' # c" by simp
  then show ?thesis unfolding below_domain_def HasSuffix_iff by blast
qed

lemma not_below_self [simp]: "\<not> below_domain d d"
  using below_domain_shorter by blast

section \<open>Adoption\<close>

text \<open>A new candidate either becomes the closest site above or changes nothing.\<close>

lemma site_parent_new_site:
  assumes "inj_on Sr_ID (set sites \<union> {s})" "c \<in> set sites" "s \<notin> set sites"
  shows "site_parent (sites @ [s]) c = site_parent sites c \<or> site_parent (sites @ [s]) c = Some (Sr_ID s)"
proof -
  let ?P = "\<lambda>x. Sr_SubscriptionID x = Sr_SubscriptionID c \<and> Sr_ID x \<noteq> Sr_ID c \<and> below_domain (Sr_Domain c) (Sr_Domain x)"
  show ?thesis
  proof (cases "longest_domain (filter ?P (sites @ [s]))")
    case None
    then show ?thesis by (simp add: site_parent_def)
  next
    case (Some m)
    show ?thesis
    proof (cases "m = s")
      case True
      then show ?thesis using Some by (simp add: site_parent_def)
    next
      case False
      have m: "m \<in> set sites" "?P m" "\<forall>y \<in> set sites. ?P y \<longrightarrow> site_key m \<le> site_key y"
        using longest_domain_Some [OF Some, unfolded set_filter set_append] False by auto
      have "longest_domain (filter ?P sites) = Some m"
      proof (rule longest_domain_unique)
        show "m \<in> set (filter ?P sites)" using m by simp
        show "site_key m \<le> site_key y" if "y \<in> set (filter ?P sites)" for y using m(3) that by simp
        show "inj_on Sr_ID (set (filter ?P sites))" using assms(1) by (auto simp: inj_on_def)
      qed
      then show ?thesis using Some by (simp add: site_parent_def)
    qed
  qed
qed

lemma adopt_child_alt:
  "adopt_child sites s c =
     (if Sr_SubscriptionID c = Sr_SubscriptionID s \<and> Sr_ID c \<noteq> Sr_ID s \<and> below_domain (Sr_Domain c) (Sr_Domain s) \<and>
         site_parent sites c = Some (Sr_ID s)
      then c\<lparr>Sr_ParentSiteID := Some (Sr_ID s)\<rparr> else c)"
  by (simp add: adopt_child_def site_parent_def)

lemma adopt_child_place [simp]: "same_place (adopt_child sites s c) c"
  by (simp add: adopt_child_alt same_place_def)

lemma adopt_child_fields [simp]:
  "Sr_Status (adopt_child sites s c) = Sr_Status c" "Sr_RemovalState (adopt_child sites s c) = Sr_RemovalState c"
  "Sr_SubscriptionID (adopt_child sites s c) = Sr_SubscriptionID c"
  "Sr_ID (adopt_child sites s c) = Sr_ID c" "Sr_Domain (adopt_child sites s c) = Sr_Domain c"
  by (simp_all add: adopt_child_alt)

definition linked :: "SiteRow list \<Rightarrow> bool" where
  "linked sites \<longleftrightarrow> distinct (map Sr_ID sites) \<and> distinct (map Sr_Domain sites) \<and>
     (\<forall>c \<in> set sites. Sr_ParentSiteID c = site_parent sites c)"

lemma adopted_parent:
  assumes "inj_on Sr_ID (set sites)" "s \<in> set sites" "c \<in> set sites"
    and "Sr_ParentSiteID c = site_parent sites c \<or> site_parent sites c = Some (Sr_ID s)"
  shows "Sr_ParentSiteID (adopt_child sites s c) = site_parent sites c"
proof (cases "site_parent sites c = Some (Sr_ID s)")
  case True
  from site_parent_Some [OF True] obtain x where x: "x \<in> set sites" "Sr_ID x = Sr_ID s"
    "Sr_SubscriptionID x = Sr_SubscriptionID c" "Sr_ID s \<noteq> Sr_ID c" "below_domain (Sr_Domain c) (Sr_Domain x)" by blast
  have "x = s" using x(1,2) assms(1,2) by (auto dest: inj_onD)
  then show ?thesis using x True by (simp add: adopt_child_alt)
next
  case False
  then show ?thesis using assms(4) by (simp add: adopt_child_alt)
qed

lemma adopt_linked:
  assumes "distinct (map Sr_ID sites)" "distinct (map Sr_Domain sites)" "s \<in> set sites"
    and "\<And>c. c \<in> set sites \<Longrightarrow> Sr_ParentSiteID c = site_parent sites c \<or> site_parent sites c = Some (Sr_ID s)"
  shows "linked (map (adopt_child sites s) sites)"
  unfolding linked_def
  using assms adopted_parent [of sites s] site_parent_map [of "adopt_child sites s" _ _ sites, OF adopt_child_place adopt_child_place]
  by (simp add: distinct_map o_def)

text \<open>Changing rows in place, without moving them, keeps the links.\<close>

lemma map_linked:
  assumes "linked sites" "\<And>x. same_place (f x) x" "\<And>x. Sr_ParentSiteID (f x) = Sr_ParentSiteID x"
  shows "linked (map f sites)"
proof -
  have "site_parent (map f sites) (f x) = site_parent sites x" for x
    by (rule site_parent_map) (use assms(2) in auto)
  then show ?thesis using assms by (simp add: linked_def same_place_def o_def)
qed

section \<open>Creation\<close>

lemma parent_in_fresh:
  assumes "\<And>x. x \<in> set sites \<Longrightarrow> Sr_ID x \<noteq> Sr_ID s"
  shows "site_parent (sites @ [s]) s = parent_in sites (Sr_SubscriptionID s) (Sr_Domain s)"
proof -
  have "filter (\<lambda>x. Sr_SubscriptionID x = Sr_SubscriptionID s \<and> Sr_ID x \<noteq> Sr_ID s \<and> below_domain (Sr_Domain s) (Sr_Domain x)) sites =
    filter (\<lambda>x. Sr_SubscriptionID x = Sr_SubscriptionID s \<and> Sr_Domain x \<noteq> Sr_Domain s \<and> below_domain (Sr_Domain s) (Sr_Domain x)) sites"
    by (rule filter_cong) (use assms in auto)
  then show ?thesis by (simp add: site_parent_def parent_in_def)
qed

lemma parent_in_existing:
  assumes "inj_on Sr_ID (set sites)" "s \<in> set sites"
  shows "site_parent sites s = parent_in sites (Sr_SubscriptionID s) (Sr_Domain s)"
proof -
  have "filter (\<lambda>x. Sr_SubscriptionID x = Sr_SubscriptionID s \<and> Sr_ID x \<noteq> Sr_ID s \<and> below_domain (Sr_Domain s) (Sr_Domain x)) sites =
    filter (\<lambda>x. Sr_SubscriptionID x = Sr_SubscriptionID s \<and> Sr_Domain x \<noteq> Sr_Domain s \<and> below_domain (Sr_Domain s) (Sr_Domain x)) sites"
    by (rule filter_cong) (use assms in \<open>auto dest: inj_onD\<close>)
  then show ?thesis by (simp add: site_parent_def parent_in_def)
qed

definition site_ids_below :: "quota_db \<Rightarrow> bool" where
  "site_ids_below db \<longleftrightarrow> (\<forall>x \<in> set (Q_Sites db). Sr_ID x < Q_NextSite db)"

lemma UpsertSite_new:
  assumes "UpsertSiteIntent owner req db = Inr (s, db')" "Cs_Domain req \<notin> Sr_Domain ` set (Q_Sites db)"
  shows "Q_Sites db' = Q_Sites db @ [s] \<and> Q_NextSite db' = Q_NextSite db + 1 \<and> Q_Accounts db' = Q_Accounts db \<and>
    Sr_ID s = Q_NextSite db \<and> Sr_Domain s = Cs_Domain req \<and> Sr_SubscriptionID s = Cs_SubscriptionID req \<and>
    Sr_ParentSiteID s = parent_in (Q_Sites db) (Cs_SubscriptionID req) (Cs_Domain req) \<and>
    Sr_Status s = ''pending'' \<and> Sr_RemovalState s = ''none''"
proof -
  have "find (\<lambda>x. Sr_Domain x = Cs_Domain req) (Q_Sites db) = None" using assms(2) by (auto simp: find_None_iff image_iff)
  then show ?thesis using assms(1) by (auto simp: UpsertSiteIntent_def Let_def split: if_split_asm)
qed

lemma UpsertSite_old:
  assumes "UpsertSiteIntent owner req db = Inr (s, db')" "x \<in> set (Q_Sites db)" "Sr_Domain x = Cs_Domain req"
    and "distinct (map Sr_Domain (Q_Sites db))"
  shows "Q_Sites db' = map (\<lambda>z. if z = x then s else z) (Q_Sites db) \<and> Q_NextSite db' = Q_NextSite db + 1 \<and>
    same_place s x \<and> Sr_ParentSiteID s = parent_in (Q_Sites db) (Sr_SubscriptionID x) (Sr_Domain x)"
proof -
  obtain w where f: "find (\<lambda>z. Sr_Domain z = Cs_Domain req) (Q_Sites db) = Some w"
    using assms(2,3) by (cases "find (\<lambda>z. Sr_Domain z = Cs_Domain req) (Q_Sites db)") (auto simp: find_None_iff)
  have inj: "inj_on Sr_Domain (set (Q_Sites db))" using assms(4) by (simp add: distinct_map)
  have "w \<in> set (Q_Sites db)" "Sr_Domain w = Cs_Domain req" using f by (auto simp: find_Some_iff)
  then have w: "w = x" using inj_onD [OF inj, of w x] assms(2,3) by simp
  have "map (\<lambda>z. if Sr_Domain z = Cs_Domain req then s else z) (Q_Sites db) = map (\<lambda>z. if z = x then s else z) (Q_Sites db)"
    by (rule map_cong) (use inj_onD [OF inj _ _ assms(2)] assms(3) in auto)
  then show ?thesis using assms(1,3) f w
    by (auto simp: UpsertSiteIntent_def Let_def same_place_def split: if_split_asm)
qed

lemma upsert_adopt_linked:
  assumes u: "UpsertSiteIntent owner req db = Inr (s, db')" and l: "linked (Q_Sites db)" and b: "site_ids_below db"
  shows "linked (map (adopt_child (Q_Sites db') s) (Q_Sites db')) \<and> site_ids_below db'"
proof (cases "Cs_Domain req \<in> Sr_Domain ` set (Q_Sites db)")
  case True
  then obtain x where x: "x \<in> set (Q_Sites db)" "Sr_Domain x = Cs_Domain req" by auto
  note o = UpsertSite_old [OF u x] 
  have d: "distinct (map Sr_Domain (Q_Sites db))" "inj_on Sr_ID (set (Q_Sites db))"
    using l by (simp_all add: linked_def distinct_map)
  have "Sr_ParentSiteID s = Sr_ParentSiteID x"
    using o [OF d(1)] parent_in_existing [OF d(2) x(1)] l x(1) by (simp add: linked_def)
  then have l1: "linked (Q_Sites db')"
    using o [OF d(1)] map_linked [OF l, of "\<lambda>z. if z = x then s else z"] by simp
  have "s \<in> set (Q_Sites db')" using o [OF d(1)] x(1) by auto
  then have "linked (map (adopt_child (Q_Sites db') s) (Q_Sites db'))"
    by (intro adopt_linked) (use l1 in \<open>simp_all add: linked_def\<close>)
  moreover have "site_ids_below db'"
    using o [OF d(1)] b x(1) by (auto simp: site_ids_below_def same_place_def)
  ultimately show ?thesis by blast
next
  case False
  note n = UpsertSite_new [OF u False]
  have fresh: "Sr_ID s \<notin> Sr_ID ` set (Q_Sites db)" using b n by (auto simp: site_ids_below_def)
  then have new: "Sr_ID x \<noteq> Sr_ID s" if "x \<in> set (Q_Sites db)" for x using that by (metis imageI)
  have d: "distinct (map Sr_ID (Q_Sites db @ [s]))" "distinct (map Sr_Domain (Q_Sites db @ [s]))"
    using l n fresh False by (simp_all add: linked_def)
  have "inj_on Sr_ID (set (Q_Sites db @ [s]))" using d(1) by (simp only: distinct_map)
  moreover have "set (Q_Sites db @ [s]) = set (Q_Sites db) \<union> {s}" by simp
  ultimately have inj: "inj_on Sr_ID (set (Q_Sites db) \<union> {s})" "s \<notin> set (Q_Sites db)" using fresh by auto
  have p: "Sr_ParentSiteID c = site_parent (Q_Sites db @ [s]) c \<or> site_parent (Q_Sites db @ [s]) c = Some (Sr_ID s)"
    if "c \<in> set (Q_Sites db @ [s])" for c
  proof (cases "c = s")
    case True
    then show ?thesis using parent_in_fresh [of "Q_Sites db" s] new n by simp
  next
    case False
    then show ?thesis using that site_parent_new_site [OF inj(1) _ inj(2), of c] l by (auto simp: linked_def)
  qed
  have "linked (map (adopt_child (Q_Sites db @ [s]) s) (Q_Sites db @ [s]))" by (rule adopt_linked [OF d _ p]) simp_all
  moreover have "site_ids_below db'" using n b by (auto simp: site_ids_below_def)
  ultimately show ?thesis using n by simp
qed

lemma EnqueueConvergence_sites:
  "EnqueueSubscriptionConvergenceTx sub db = Inr db' \<Longrightarrow> Q_Sites db' = Q_Sites db \<and> Q_NextSite db' = Q_NextSite db"
  by (auto simp: EnqueueSubscriptionConvergenceTx_def Let_def split: option.split_asm)

definition mark_tls :: "bool \<Rightarrow> int \<Rightarrow> SiteRow \<Rightarrow> SiteRow" where
  "mark_tls secure i x = (if secure \<and> Sr_ID x = i then x\<lparr>Sr_TLSStatus := ''pending''\<rparr> else x)"

lemma mark_tls_fields [simp]:
  "same_place (mark_tls b i x) x" "Sr_ParentSiteID (mark_tls b i x) = Sr_ParentSiteID x"
  "Sr_Status (mark_tls b i x) = Sr_Status x" "Sr_RemovalState (mark_tls b i x) = Sr_RemovalState x"
  "Sr_SubscriptionID (mark_tls b i x) = Sr_SubscriptionID x" "Sr_ID (mark_tls b i x) = Sr_ID x"
  by (simp_all add: mark_tls_def same_place_def)

text \<open>The rows a successful \<open>CreateSite\<close> leaves, in terms of the upsert.\<close>

lemma CreateSite_sites:
  assumes "CreateSite owner req db = Inr (i, db')"
  shows "guardSiteIntentTx db (Cs_SubscriptionID req) (Cs_Domain req) (Cs_ParentSiteID req) = None \<and>
    (\<exists>s db1. UpsertSiteIntent owner req db = Inr (s, db1) \<and> i = Sr_ID s \<and> Q_NextSite db' = Q_NextSite db1 \<and>
      Q_Sites db' = map (mark_tls (Cs_SecureWithSSL req) i) (map (adopt_child (Q_Sites db1) s) (Q_Sites db1)))"
proof -
  have g: "guardSiteIntentTx db (Cs_SubscriptionID req) (Cs_Domain req) (Cs_ParentSiteID req) = None"
    using assms by (simp add: CreateSite_def split: option.split_asm)
  obtain s db1 where u: "UpsertSiteIntent owner req db = Inr (s, db1)"
    using assms g by (auto simp: CreateSite_def split: option.split_asm sum.split_asm if_split_asm)
  let ?db2 = "db1\<lparr>Q_Sites := map (adopt_child (Q_Sites db1) s) (Q_Sites db1),
    Q_Jobs := Q_Jobs db1 @ [CreateSiteJob (Cs_SubscriptionID req) (Sr_ID s)]\<rparr>"
  let ?db3 = "if Cs_SecureWithSSL req then request_tls (Sr_ID s) ?db2 else ?db2"
  have e: "EnqueueSubscriptionConvergenceTx (Cs_SubscriptionID req) ?db3 = Inr db' \<and> i = Sr_ID s"
    using assms g u by (simp add: CreateSite_def Let_def split: option.split_asm sum.split_asm if_split_asm)
  have "Q_Sites ?db3 = map (mark_tls (Cs_SecureWithSSL req) (Sr_ID s)) (map (adopt_child (Q_Sites db1) s) (Q_Sites db1))"
    by (simp add: request_tls_def mark_tls_def)
  moreover have "Q_NextSite ?db3 = Q_NextSite db1" by (simp add: request_tls_def)
  ultimately show ?thesis using g u e EnqueueConvergence_sites [of "Cs_SubscriptionID req" ?db3 db'] by metis
qed

text \<open>
  C23. Creating a site keeps the tree of sites: when, before, identifiers and domains are unique and every site
  points to the closest site above it in its own subscription (or to none when there is none), the same
  holds after, for a new domain, for one that revives an existing row, and for the sites the new one adopts.
\<close>

theorem CreateSite_keeps_links:
  assumes "CreateSite owner req db = Inr (i, db')" "linked (Q_Sites db)" "site_ids_below db"
  shows "linked (Q_Sites db') \<and> site_ids_below db'"
proof -
  obtain s db1 where u: "UpsertSiteIntent owner req db = Inr (s, db1)" and n: "Q_NextSite db' = Q_NextSite db1"
    and q: "Q_Sites db' = map (mark_tls (Cs_SecureWithSSL req) i) (map (adopt_child (Q_Sites db1) s) (Q_Sites db1))"
    using CreateSite_sites [OF assms(1)] by blast
  note k = upsert_adopt_linked [OF u assms(2,3)]
  have "linked (Q_Sites db')" unfolding q by (rule map_linked) (use k in simp_all)
  moreover have "site_ids_below db'" using k by (auto simp: site_ids_below_def q n)
  ultimately show ?thesis by blast
qed

section \<open>Numbers of domains and subdomains\<close>

lemma live_site_cong: "Sr_Status x = Sr_Status y \<Longrightarrow> Sr_RemovalState x = Sr_RemovalState y \<Longrightarrow> live_site x = live_site y"
  by (simp add: live_site_def)

lemma adopt_keeps_parent: "Sr_ParentSiteID c \<noteq> None \<Longrightarrow> Sr_ParentSiteID (adopt_child sites s c) \<noteq> None"
  by (simp add: adopt_child_alt)

text \<open>Adoption only ever turns a domain into a subdomain.\<close>

lemma adopted_domains_le:
  "count_rows (domain_row sub) (map (mark_tls b i) (map (adopt_child sites s) xs)) \<le> count_rows (domain_row sub) xs"
  unfolding map_map
  by (rule count_rows_map_le) (auto simp: domain_row_def live_site_def adopt_child_alt split: if_split_asm)

definition site_above :: "quota_db \<Rightarrow> string \<Rightarrow> SiteRow \<Rightarrow> bool" where
  "site_above db d p \<longleftrightarrow> p \<in> set (Q_Sites db) \<and> below_domain d (Sr_Domain p)"

lemma guardSite_new:
  assumes "guardSiteIntentTx db sub d parent = None" "d \<notin> Sr_Domain ` set (Q_Sites db)"
  obtains k where "lockActiveSubscriptionLimits db sub = Inr k" "Lk_HostingEnabled k" "\<nexists>x. site_above db d x"
      "enforceCountLimitTx db ''domains'' sub (Lk_MaxSites k) (Lk_OverusePolicy k) = None"
    | k p where "lockActiveSubscriptionLimits db sub = Inr k" "Lk_HostingEnabled k"
      "site_above db d p" "Sr_SubscriptionID p = sub" "Sr_ID p = parent" "Sr_Status p = ''active''"
      "enforceCountLimitTx db ''subdomains'' sub (Lk_MaxSubdomains k) (Lk_OverusePolicy k) = None"
proof -
  have f: "find (\<lambda>x. Sr_Domain x = d) (Q_Sites db) = None" using assms(2) by (auto simp: find_None_iff image_iff)
  obtain k where k: "lockActiveSubscriptionLimits db sub = Inr k" "Lk_HostingEnabled k"
    using assms(1) by (auto simp: guardSiteIntentTx_def split: sum.split_asm if_split_asm)
  show thesis
  proof (cases "longest_domain (filter (\<lambda>x. below_domain d (Sr_Domain x)) (Q_Sites db))")
    case None
    then have "\<nexists>x. site_above db d x" by (auto simp: site_above_def filter_empty_conv)
    then show thesis using that(1) [OF k] assms(1) f k None by (simp add: guardSiteIntentTx_def split: if_split_asm)
  next
    case (Some p)
    have "site_above db d p" using longest_domain_Some [OF Some] by (auto simp: site_above_def)
    then show thesis using that(2) [OF k, of p] assms(1) f k Some by (simp add: guardSiteIntentTx_def split: if_split_asm)
  qed
qed

text \<open>Below an existing site, a new site has a parent and adopts only sites that already had one.\<close>

lemma subdomain_adoption:
  assumes "linked sites" "p \<in> set sites" "Sr_SubscriptionID p = Sr_SubscriptionID s" "below_domain (Sr_Domain s) (Sr_Domain p)"
    and "c \<in> set sites"
  shows "(Sr_ParentSiteID (adopt_child (sites @ [s]) s c) = None) = (Sr_ParentSiteID c = None)"
proof (cases "Sr_SubscriptionID c = Sr_SubscriptionID s \<and> below_domain (Sr_Domain c) (Sr_Domain s)")
  case True
  have "below_domain (Sr_Domain c) (Sr_Domain p)" using True assms(4) below_domain_trans by blast
  moreover have "inj_on Sr_ID (set sites)" using assms(1) by (simp add: linked_def distinct_map)
  then have "Sr_ID p \<noteq> Sr_ID c" using calculation assms(2,5) inj_onD by fastforce
  ultimately have "site_parent sites c \<noteq> None" using assms(2,3) True by (auto simp: site_parent_None)
  then show ?thesis using assms(1,5) by (auto simp: linked_def adopt_child_alt)
next
  case False
  then show ?thesis by (auto simp: adopt_child_alt)
qed

lemma adopted_subdomains_eq:
  assumes "linked sites" "p \<in> set sites" "Sr_SubscriptionID p = Sr_SubscriptionID s" "below_domain (Sr_Domain s) (Sr_Domain p)"
  shows "count_rows (subdomain_row sub) (map (mark_tls b i) (map (adopt_child (sites @ [s]) s) sites)) = count_rows (subdomain_row sub) sites"
  unfolding map_map
  by (rule count_rows_map_eq) (use subdomain_adoption [OF assms] in \<open>auto simp: subdomain_row_def live_site_def\<close>)

lemma parent_in_ancestor:
  "p \<in> set sites \<Longrightarrow> Sr_SubscriptionID p = sub \<Longrightarrow> below_domain d (Sr_Domain p) \<Longrightarrow> parent_in sites sub d \<noteq> None"
  by (auto simp: parent_in_def filter_empty_conv)

text \<open>Rows of other subscriptions do not change.\<close>

lemma adopt_other: "Sr_SubscriptionID c \<noteq> Sr_SubscriptionID s \<Longrightarrow> adopt_child sites s c = c"
  by (simp add: adopt_child_alt)

lemma create_keeps_others:
  assumes "site_ids_below db" "Sr_ID s = Q_NextSite db"
  shows "filter (\<lambda>x. Sr_SubscriptionID x \<noteq> Sr_SubscriptionID s)
      (map (mark_tls b (Sr_ID s)) (map (adopt_child (Q_Sites db @ [s]) s) (Q_Sites db @ [s]))) =
    filter (\<lambda>x. Sr_SubscriptionID x \<noteq> Sr_SubscriptionID s) (Q_Sites db)"
proof -
  have "map (mark_tls b (Sr_ID s) \<circ> adopt_child (Q_Sites db @ [s]) s) (filter (\<lambda>x. Sr_SubscriptionID x \<noteq> Sr_SubscriptionID s) (Q_Sites db)) =
    filter (\<lambda>x. Sr_SubscriptionID x \<noteq> Sr_SubscriptionID s) (Q_Sites db)"
    by (rule map_idI) (use assms in \<open>auto simp: adopt_other mark_tls_def site_ids_below_def\<close>)
  then show ?thesis by (simp add: filter_map o_def)
qed

text \<open>The rows that a creation for a new domain leaves, counted.\<close>

lemma CreateSite_new_rows:
  assumes "CreateSite owner req db = Inr (i, db')" "Cs_Domain req \<notin> Sr_Domain ` set (Q_Sites db)"
  obtains s where "Sr_ID s = Q_NextSite db" "i = Sr_ID s" "Sr_Domain s = Cs_Domain req" "Sr_SubscriptionID s = Cs_SubscriptionID req"
    "Sr_ParentSiteID s = parent_in (Q_Sites db) (Cs_SubscriptionID req) (Cs_Domain req)"
    "Q_Sites db' = map (mark_tls (Cs_SecureWithSSL req) (Sr_ID s)) (map (adopt_child (Q_Sites db @ [s]) s) (Q_Sites db @ [s]))"
  using CreateSite_sites [OF assms(1)] UpsertSite_new [OF _ assms(2)] that by metis

lemma created_domains_le:
  "count_rows (domain_row sub) (map (mark_tls b i) (map (adopt_child sites s) (xs @ [s]))) \<le>
   count_rows (domain_row sub) xs + (if domain_row sub s then 1 else 0)"
  using adopted_domains_le [of sub b i sites s "xs @ [s]"] unfolding count_rows_append count_rows_single .

lemma created_subdomains_le:
  assumes "linked sites" "p \<in> set sites" "Sr_SubscriptionID p = Sr_SubscriptionID s" "below_domain (Sr_Domain s) (Sr_Domain p)"
  shows "count_rows (subdomain_row sub) (map (mark_tls b i) (map (adopt_child (sites @ [s]) s) (sites @ [s]))) \<le>
    count_rows (subdomain_row sub) sites + 1"
  using adopted_subdomains_eq [OF assms, of sub b i] by simp

lemma counted_within:
  assumes "enforceCountLimitTx db table sub allowed policy = None" "enforced policy allowed"
    and "resource_count db table sub = Some n" "m \<le> n + 1"
  shows "m \<le> allowed"
  using enforceCount_below [OF assms(1,2)] assms(3,4) by auto

text \<open>
  C16. Creating a site for a new domain: the subscription may host; at the top level, the number of its domains
  stays within the plan; below an active site of the same subscription, the number of domains does not grow
  and the number of subdomains stays within the plan. No row of another subscription changes.
\<close>

theorem CreateSite_within_limits:
  assumes c: "CreateSite owner req db = Inr (i, db')" and new: "Cs_Domain req \<notin> Sr_Domain ` set (Q_Sites db)"
    and links: "linked (Q_Sites db)" and ids: "site_ids_below db" and sub: "sub = Cs_SubscriptionID req"
  shows "filter (\<lambda>x. Sr_SubscriptionID x \<noteq> sub) (Q_Sites db') = filter (\<lambda>x. Sr_SubscriptionID x \<noteq> sub) (Q_Sites db) \<and>
    (\<exists>l. subscription_limits db sub = Some l \<and> Lm_HostingEnabled l \<and>
     (((\<nexists>x. site_above db (Cs_Domain req) x) \<and>
       (enforced (Lm_OverusePolicy l) (Lm_MaxSites l) \<longrightarrow> count_rows (domain_row sub) (Q_Sites db') \<le> Lm_MaxSites l)) \<or>
      ((\<exists>p. site_above db (Cs_Domain req) p \<and> Sr_ID p = Cs_ParentSiteID req \<and> Sr_SubscriptionID p = sub \<and>
         Sr_Status p = ''active'') \<and>
       count_rows (domain_row sub) (Q_Sites db') \<le> count_rows (domain_row sub) (Q_Sites db) \<and>
       (enforced (Lm_OverusePolicy l) (Lm_MaxSubdomains l) \<longrightarrow>
         count_rows (subdomain_row sub) (Q_Sites db') \<le> Lm_MaxSubdomains l))))"
proof -
  obtain s where s: "Sr_ID s = Q_NextSite db" "Sr_Domain s = Cs_Domain req" "Sr_SubscriptionID s = sub"
    "Sr_ParentSiteID s = parent_in (Q_Sites db) sub (Cs_Domain req)"
    and q: "Q_Sites db' = map (mark_tls (Cs_SecureWithSSL req) (Sr_ID s)) (map (adopt_child (Q_Sites db @ [s]) s) (Q_Sites db @ [s]))"
    using CreateSite_new_rows [OF c new] sub by metis
  note dom = created_domains_le [of sub "Cs_SecureWithSSL req" "Sr_ID s" "Q_Sites db @ [s]" s "Q_Sites db", folded q]
  have others: "filter (\<lambda>x. Sr_SubscriptionID x \<noteq> sub) (Q_Sites db') = filter (\<lambda>x. Sr_SubscriptionID x \<noteq> sub) (Q_Sites db)"
    using create_keeps_others [OF ids s(1), of "Cs_SecureWithSSL req"] unfolding q s(3) .
  from CreateSite_sites [OF c] sub have "guardSiteIntentTx db sub (Cs_Domain req) (Cs_ParentSiteID req) = None" by simp
  then show ?thesis
  proof (rule guardSite_new [OF _ new])
    fix k assume k: "lockActiveSubscriptionLimits db sub = Inr k" "Lk_HostingEnabled k" "\<nexists>x. site_above db (Cs_Domain req) x"
      and e: "enforceCountLimitTx db ''domains'' sub (Lk_MaxSites k) (Lk_OverusePolicy k) = None"
    have "count_rows (domain_row sub) (Q_Sites db') \<le> Lk_MaxSites k" if "enforced (Lk_OverusePolicy k) (Lk_MaxSites k)"
      by (rule counted_within [OF e that resource_counts(1)]) (use dom in \<open>simp split: if_split_asm\<close>)
    then show ?thesis using others k lock_Inr_limits [OF k(1)] by (auto simp: locked_of_def)
  next
    fix k p assume k: "lockActiveSubscriptionLimits db sub = Inr k" "Lk_HostingEnabled k"
      and p: "site_above db (Cs_Domain req) p" "Sr_SubscriptionID p = sub" "Sr_ID p = Cs_ParentSiteID req" "Sr_Status p = ''active''"
      and e: "enforceCountLimitTx db ''subdomains'' sub (Lk_MaxSubdomains k) (Lk_OverusePolicy k) = None"
    have le: "count_rows (subdomain_row sub) (Q_Sites db') \<le> count_rows (subdomain_row sub) (Q_Sites db) + 1"
      unfolding q by (rule created_subdomains_le [OF links, of p]) (use p s in \<open>simp_all add: site_above_def\<close>)
    have d: "count_rows (domain_row sub) (Q_Sites db') \<le> count_rows (domain_row sub) (Q_Sites db)"
      using dom parent_in_ancestor [of p "Q_Sites db" sub "Cs_Domain req"] p s by (auto simp: domain_row_def site_above_def)
    have "count_rows (subdomain_row sub) (Q_Sites db') \<le> Lk_MaxSubdomains k" if "enforced (Lk_OverusePolicy k) (Lk_MaxSubdomains k)"
      by (rule counted_within [OF e that resource_counts(2) le])
    then show ?thesis using others d k p lock_Inr_limits [OF k(1)] by (auto simp: locked_of_def)
  qed
qed

section \<open>A creation below the sample site\<close>

definition demo_site_req :: CreateSiteIntent where
  "demo_site_req = \<lparr>Cs_SecureWithSSL = True, Cs_ParentSiteID = 1, Cs_SubscriptionID = 5, Cs_Domain = ''shop.example.com'',
     Cs_PHPVersion = ''8.4''\<rparr>"

lemma demo_site_created: "\<exists>i db'. CreateSite 9 demo_site_req demo_quota_db = Inr (i, db')"
proof -
  have "\<not> isl (CreateSite 9 demo_site_req demo_quota_db)" by code_simp
  then show ?thesis by (cases "CreateSite 9 demo_site_req demo_quota_db") auto
qed

lemma demo_linked: "linked (Q_Sites demo_quota_db)" "site_ids_below demo_quota_db"
  by code_simp+

theorem CreateSite_keeps_links_witness:
  "\<exists>i db'. CreateSite 9 demo_site_req demo_quota_db = Inr (i, db') \<and> linked (Q_Sites db')"
  using demo_site_created CreateSite_keeps_links [OF _ demo_linked] by blast

theorem CreateSite_within_limits_witness:
  "\<exists>i db'. CreateSite 9 demo_site_req demo_quota_db = Inr (i, db') \<and>
     count_rows (subdomain_row 5) (Q_Sites db') \<le> 1 \<and> count_rows (domain_row 5) (Q_Sites db') \<le> 1"
proof -
  obtain i db' where c: "CreateSite 9 demo_site_req demo_quota_db = Inr (i, db')" using demo_site_created by blast
  have new: "Cs_Domain demo_site_req \<notin> Sr_Domain ` set (Q_Sites demo_quota_db)" by code_simp
  have above: "site_above demo_quota_db (Cs_Domain demo_site_req) demo_site" by code_simp
  have sub: "(5::int) = Cs_SubscriptionID demo_site_req" by (simp add: demo_site_req_def)
  have "count_rows (domain_row 5) (Q_Sites demo_quota_db) = 1" by code_simp
  then show ?thesis using c above CreateSite_within_limits [OF c new demo_linked sub] demo_limits demo_enforced by auto
qed

section \<open>Reviving a failed site\<close>

text \<open>
  A site that failed does not count; creating its domain again finds the row, skips the count and makes the
  site live. Under the lock alone, a subscription with one domain allowed and one in use gains a second one.
\<close>

definition demo_failed_site :: SiteRow where
  "demo_failed_site = demo_site\<lparr>Sr_ID := 2, Sr_Domain := ''other.org'', Sr_Status := ''failed''\<rparr>"

definition demo_revival_db :: quota_db where
  "demo_revival_db = demo_quota_db\<lparr>Q_Sites := [demo_site, demo_failed_site], Q_NextSite := 3\<rparr>"

lemma revival_skips_count:
  "count_rows (domain_row 5) (Q_Sites demo_revival_db) = 1 \<and> linked (Q_Sites demo_revival_db) \<and>
   (case CreateSite 9 (demo_site_req\<lparr>Cs_Domain := ''other.org'', Cs_ParentSiteID := 0, Cs_SecureWithSSL := False\<rparr>) demo_revival_db of
      Inl _ \<Rightarrow> False | Inr (_, db') \<Rightarrow> count_rows (domain_row 5) (Q_Sites db') = 2)"
  by code_simp

end
