(* ===== verification/Reseller_Capacity.thy ===== *)
theory Reseller_Capacity
  imports Site_Tree Policy_Within
begin

text \<open>
  What a reseller and the server may hand out: the capacity checks of
  \<open>internal/control/quota/provider.go\<close> and the committed disk allocation of \<open>plans.go\<close> and
  \<open>customers.go\<close>. Sums of the database are cast to \<open>int\<close> or \<open>bigint\<close> and fail when they do not fit;
  the sums of the program are \<open>int\<close> with wrap-around (\<open>wrap64\<close>).
\<close>

datatype capacity_error =
    ErrResellerCapacity string
  | ResellerPolicyExceeded within_error
  | CustomPlansNotPermitted
  | ResellerNotActive
  | ErrOversellCap string
  | SubscriptionExceeds int capacity_error
  | CapacityNoRows
  | CapacitySQL

section \<open>The allocation of a reseller\<close>

definition active_reseller_plan :: "quota_db \<Rightarrow> int \<Rightarrow> ResellerPlan option" where
  "active_reseller_plan db r =
     (if list_ex (\<lambda>a. Re_ID a = r) (Q_Resellers db) then
        (case find (\<lambda>x. Rs_ResellerID x = r \<and> Rs_SubStatus x = ''active'' \<and> list_ex (\<lambda>p. Rp_ID p = Rs_PlanID x) (Q_ResellerPlans db))
                (Q_ResellerSubscriptions db) of
           None \<Rightarrow> None
         | Some x \<Rightarrow> find (\<lambda>p. Rp_ID p = Rs_PlanID x) (Q_ResellerPlans db))
      else None)"

definition reseller_customers :: "quota_db \<Rightarrow> int \<Rightarrow> CustomerRow list" where
  "reseller_customers db r = filter (\<lambda>c. Cu_ResellerID c = Some r) (Q_Customers db)"

definition validateNewResellerCustomerTx :: "quota_db \<Rightarrow> int \<Rightarrow> capacity_error option" where
  "validateNewResellerCustomerTx db r =
     (if \<not> list_ex (\<lambda>a. Re_ID a = r \<and> Re_Status a = ''active'') (Q_Resellers db) then Some CapacityNoRows
      else case active_reseller_plan db r of
        None \<Rightarrow> Some CapacityNoRows
      | Some p \<Rightarrow>
          let used = int (length (reseller_customers db r)) in
          if used > 2 ^ 31 - 1 then Some CapacitySQL
          else fail_if (Rp_MaxCustomers p \<ge> 0 \<and> used \<ge> Rp_MaxCustomers p) (ErrResellerCapacity ''customers''))"

definition ensureResellerActiveTx :: "quota_db \<Rightarrow> int \<Rightarrow> capacity_error option" where
  "ensureResellerActiveTx db r =
     (case find (\<lambda>a. Re_ID a = r) (Q_Resellers db) of
        None \<Rightarrow> Some ResellerNotActive
      | Some a \<Rightarrow>
          fail_if (\<not> list_ex (\<lambda>x. Rs_ResellerID x = r \<and> Rs_SubStatus x = ''active'') (Q_ResellerSubscriptions db) \<or>
            Re_Status a \<noteq> ''active'') ResellerNotActive)"

text \<open>The unrestricted policy a reseller plan has when none is configured.\<close>

definition resellerHostingPolicyFromLegacy :: "ResellerPlan \<Rightarrow> HostingPolicy" where
  "resellerHostingPolicyFromLegacy p =
     (let e = zero_SubscriptionEntitlements
            \<lparr>Ent_DiskMB := Rp_DiskMB p, Ent_MaxSites := Rp_MaxSites p, Ent_MaxDatabases := Rp_MaxDatabases p,
             Ent_BandwidthMB := Rp_BandwidthMB p, Ent_MaxMailboxes := Rp_MaxMailboxes p, Ent_MaxBackups := Rp_MaxBackups p,
             Ent_BackupStorageMB := Rp_BackupStorageMB p, Ent_MaxSubdomains := Rp_MaxSubdomains p,
             Ent_MaxDomainAliases := Rp_MaxDomainAliases p, Ent_MaxFTPAccounts := Rp_MaxFTPAccounts p,
             Ent_HostingEnabled := True, Ent_AllowSSH := Rp_AllowSSH p, Ent_AllowDNS := Rp_AllowDNS p,
             Ent_AllowTLS := Rp_AllowTLS p, Ent_AllowBackups := Rp_AllowBackups p, Ent_AllowPHPSettings := Rp_AllowPHPSettings p\<rparr>;
          q = DefaultFromEntitlements e in
      q\<lparr>HP_Resources := (HP_Resources q)
           \<lparr>Res_CPUPercent := -1, Res_MemoryMB := -1, Res_IOReadMBPS := -1, Res_IOWriteMBPS := -1, Res_MaxTasks := -1,
            Res_MaxDatabaseUsers := -1, Res_MaxMailAliases := -1, Res_MaxScheduledTasks := -1, Res_MaxApplications := -1,
            Res_ContainerStorageMB := -1, Res_ValkeyMemoryMB := -1\<rparr>,
         HP_Permissions := (HP_Permissions q)
           \<lparr>Perm_SFTP := True, Perm_FTPS := True, Perm_Logs := True, Perm_Git := True, Perm_Staging := True, Perm_Valkey := True,
            Perm_ScheduledTasks := True, Perm_Applications := True, Perm_CustomOCIImages := True, Perm_ApplicationEgress := True\<rparr>,
         HP_Web := (HP_Web q)\<lparr>Web_StaticCache := True, Web_FastCGIMicrocache := True, Web_Compression := True,
            Web_SecurityHeaderPreset := ''off''\<rparr>,
         HP_PHP := (HP_PHP q)\<lparr>PHP_AllowedVersions := [''8.2'', ''8.3''], PHP_DefaultVersion := ''8.3'', PHP_DisplayErrors := True,
            PHP_LogErrors := True, PHP_AllowURLFOpen := True, PHP_ExecEnabled := True, PHP_OPcacheEnabled := True\<rparr>,
         HP_Mail := (HP_Mail q)\<lparr>Mail_Enabled := True, Mail_DKIM := True, Mail_Webmail := True\<rparr>,
         HP_DNS := (HP_DNS q)\<lparr>DNS_Enabled := True, DNS_DNSSEC := True\<rparr>,
         HP_Access := (HP_Access q)\<lparr>Access_FTPSEnabled := True\<rparr>,
         HP_Applications := (HP_Applications q)\<lparr>App_CatalogEnabled := True, App_AllowedCatalogSlugs := [],
            App_AllowedRegistries := [''docker.io'', ''ghcr.io''], App_AllowedRuntimes := [''php'', ''python'', ''node'', ''oci''],
            App_EgressEnabled := True\<rparr>,
         HP_Valkey := (HP_Valkey q)\<lparr>Valkey_Enabled := True, Valkey_MemoryMB := 0\<rparr>\<rparr>)"

definition reseller_policy :: "ResellerPlan \<Rightarrow> HostingPolicy" where
  "reseller_policy p = (case Rp_HostingPolicy p of Some q \<Rightarrow> q | None \<Rightarrow> resellerHostingPolicyFromLegacy p)"

section \<open>One plan within the allocation\<close>

definition plan_reseller_limits :: "Plan \<Rightarrow> ResellerPlan \<Rightarrow> (string \<times> int \<times> int) list" where
  "plan_reseller_limits p rp =
     [(''disk'', Pl_DiskMB p, Rp_DiskMB rp), (''sites'', Pl_MaxSites p, Rp_MaxSites rp),
      (''subdomains'', Pl_MaxSubdomains p, Rp_MaxSubdomains rp), (''domain aliases'', Pl_MaxDomainAliases p, Rp_MaxDomainAliases rp),
      (''databases'', Pl_MaxDatabases p, Rp_MaxDatabases rp), (''bandwidth'', Pl_BandwidthMB p, Rp_BandwidthMB rp),
      (''mailboxes'', Pl_MaxMailboxes p, Rp_MaxMailboxes rp), (''FTP accounts'', Pl_MaxFTPAccounts p, Rp_MaxFTPAccounts rp),
      (''backups'', Pl_MaxBackups p, Rp_MaxBackups rp), (''backup storage'', Pl_BackupStorageMB p, Rp_BackupStorageMB rp)]"

definition plan_reseller_flags :: "Plan \<Rightarrow> ResellerPlan \<Rightarrow> (string \<times> bool \<times> bool) list" where
  "plan_reseller_flags p rp =
     [(''SSH permission'', Pl_AllowSSH p, Rp_AllowSSH rp), (''DNS permission'', Pl_AllowDNS p, Rp_AllowDNS rp),
      (''TLS permission'', Pl_AllowTLS p, Rp_AllowTLS rp), (''backup permission'', Pl_AllowBackups p, Rp_AllowBackups rp),
      (''PHP settings permission'', Pl_AllowPHPSettings p, Rp_AllowPHPSettings rp)]"

definition validatePlanWithinReseller :: "quota_db \<Rightarrow> Plan \<Rightarrow> capacity_error option" where
  "validatePlanWithinReseller db p =
     (if Pl_ResellerID p \<le> 0 then None
      else case active_reseller_plan db (Pl_ResellerID p) of
        None \<Rightarrow> Some CapacityNoRows
      | Some rp \<Rightarrow>
          first_error
            [map_option (\<lambda>x. ErrResellerCapacity (fst x))
               (find (\<lambda>(name, want, cap). cap \<ge> 0 \<and> (want < 0 \<or> want > cap)) (plan_reseller_limits p rp)),
             map_option (\<lambda>x. ErrResellerCapacity (fst x))
               (find (\<lambda>(name, want, granted). want \<and> \<not> granted) (plan_reseller_flags p rp)),
             map_option ResellerPolicyExceeded
               (ValidateWithin (EffectivePlanHostingPolicy p) (Upgrade (reseller_policy rp)))])"

definition validateCustomWithinResellerTx :: "quota_db \<Rightarrow> int \<Rightarrow> SubscriptionEntitlements \<Rightarrow> capacity_error option" where
  "validateCustomWithinResellerTx db r e =
     (case active_reseller_plan db r of
        None \<Rightarrow> Some CapacityNoRows
      | Some p \<Rightarrow>
          if \<not> Rp_AllowCustomPlans p then Some CustomPlansNotPermitted
          else validatePlanWithinReseller db ((planFromEntitlements e)\<lparr>Pl_ResellerID := r\<rparr>))"

definition validateEntitlementsWithinResellerTx :: "quota_db \<Rightarrow> int \<Rightarrow> SubscriptionEntitlements \<Rightarrow> capacity_error option" where
  "validateEntitlementsWithinResellerTx db r e = validatePlanWithinReseller db ((planFromEntitlements e)\<lparr>Pl_ResellerID := r\<rparr>)"

definition readSubscriptionEntitlementsTx :: "quota_db \<Rightarrow> int \<Rightarrow> capacity_error + SubscriptionEntitlements" where
  "readSubscriptionEntitlementsTx db sub =
     (case entitlement_of db sub of None \<Rightarrow> Inl CapacityNoRows | Some row \<Rightarrow> Inr (Er_Entitlements row))"

definition validate_subscription :: "quota_db \<Rightarrow> int \<Rightarrow> SubscriptionRow \<Rightarrow> capacity_error option" where
  "validate_subscription db r s =
     (case readSubscriptionEntitlementsTx db (Su_ID s) of
        Inl e \<Rightarrow> Some e
      | Inr e \<Rightarrow>
          map_option (SubscriptionExceeds (Su_ID s))
           (if Su_SyncMode s = ''custom'' then validateCustomWithinResellerTx db r e
            else validateEntitlementsWithinResellerTx db r e))"

definition validateCustomerSubscriptionsForTransferTx :: "quota_db \<Rightarrow> int \<Rightarrow> int \<Rightarrow> capacity_error option" where
  "validateCustomerSubscriptionsForTransferTx db c r =
     first_error (map (validate_subscription db r) (sort_key Su_ID (filter (\<lambda>s. Su_CustomerID s = Some c) (Q_Subscriptions db))))"

definition validateResellerSubscriptionsTx :: "quota_db \<Rightarrow> int \<Rightarrow> capacity_error option" where
  "validateResellerSubscriptionsTx db r =
     first_error (map (validate_subscription db r) (sort_key Su_ID
       (filter (\<lambda>s. \<exists>c \<in> set (reseller_customers db r). Su_CustomerID s = Some (Cu_ID c)) (Q_Subscriptions db))))"

section \<open>All subscriptions of a reseller within the allocation\<close>

text \<open>The customer of a subscription is found by its primary key, so the join has one row per subscription.\<close>

definition reseller_active_subs :: "quota_db \<Rightarrow> int \<Rightarrow> int \<Rightarrow> SubscriptionRow list" where
  "reseller_active_subs db r excluded =
     filter (\<lambda>s. (\<exists>c \<in> set (reseller_customers db r). Su_CustomerID s = Some (Cu_ID c)) \<and> Su_Status s = ''active'' \<and>
       (excluded = 0 \<or> Su_ID s \<noteq> excluded)) (Q_Subscriptions db)"

definition reseller_entitlements :: "quota_db \<Rightarrow> int \<Rightarrow> int \<Rightarrow> SubscriptionEntitlements list" where
  "reseller_entitlements db r excluded =
     concat (map (\<lambda>s. map Er_Entitlements (filter (\<lambda>e. Ent_SubscriptionID (Er_Entitlements e) = Su_ID s) (Q_Entitlements db)))
       (reseller_active_subs db r excluded))"

text \<open>\<open>SUM(CASE WHEN v>=0 THEN v ELSE 0 END)\<close> and \<open>BOOL_OR(v<0)\<close>\<close>

definition finite_total :: "('a \<Rightarrow> int) \<Rightarrow> 'a list \<Rightarrow> int" where
  "finite_total f xs = sum_list (map (\<lambda>x. if f x \<ge> 0 then f x else 0) xs)"

definition any_unlimited :: "('a \<Rightarrow> int) \<Rightarrow> 'a list \<Rightarrow> bool" where
  "any_unlimited f xs \<longleftrightarrow> list_ex (\<lambda>x. f x < 0) xs"

definition reseller_columns :: "(string \<times> (SubscriptionEntitlements \<Rightarrow> int) \<times> (ResellerPlan \<Rightarrow> int)) list" where
  "reseller_columns =
     [(''disk'', Ent_DiskMB, Rp_DiskMB), (''sites'', Ent_MaxSites, Rp_MaxSites),
      (''subdomains'', Ent_MaxSubdomains, Rp_MaxSubdomains), (''domain aliases'', Ent_MaxDomainAliases, Rp_MaxDomainAliases),
      (''databases'', Ent_MaxDatabases, Rp_MaxDatabases), (''traffic'', Ent_BandwidthMB, Rp_BandwidthMB),
      (''mailboxes'', Ent_MaxMailboxes, Rp_MaxMailboxes), (''FTP accounts'', Ent_MaxFTPAccounts, Rp_MaxFTPAccounts),
      (''backups'', Ent_MaxBackups, Rp_MaxBackups), (''backup storage'', Ent_BackupStorageMB, Rp_BackupStorageMB)]"

definition boolInt :: "bool \<Rightarrow> int" where
  "boolInt v = (if v then 1 else 0)"

record capacity_check =
  Cc_Name :: string
  Cc_Used :: int
  Cc_Add :: int
  Cc_Limit :: int
  Cc_Unlimited :: bool

definition check_fails :: "capacity_check \<Rightarrow> bool" where
  "check_fails c \<longleftrightarrow> Cc_Limit c \<ge> 0 \<and> (Cc_Unlimited c \<or> Cc_Add c < 0 \<or> wrap64 (Cc_Used c + Cc_Add c) > Cc_Limit c)"

definition column_check :: "SubscriptionEntitlements list \<Rightarrow> SubscriptionEntitlements \<Rightarrow> ResellerPlan \<Rightarrow>
    string \<times> (SubscriptionEntitlements \<Rightarrow> int) \<times> (ResellerPlan \<Rightarrow> int) \<Rightarrow> capacity_check" where
  "column_check es candidate p col =
     (case col of (name, f, g) \<Rightarrow> \<lparr>Cc_Name = name, Cc_Used = finite_total f es, Cc_Add = f candidate, Cc_Limit = g p,
        Cc_Unlimited = any_unlimited f es\<rparr>)"

definition typedPolicyLimits :: "HostingPolicy \<Rightarrow> int list" where
  "typedPolicyLimits p =
     (let r = HP_Resources p in
      [Res_CPUPercent r, Res_MemoryMB r, Res_IOReadMBPS r, Res_IOWriteMBPS r, Res_MaxTasks r, Res_MaxDatabaseUsers r,
       Res_MaxMailAliases r, Res_MaxScheduledTasks r, Res_MaxApplications r, Res_ContainerStorageMB r, Res_ValkeyMemoryMB r,
       Res_MaxWordPressSites r])"

definition typed_names :: "string list" where
  "typed_names = [''CPU'', ''memory'', ''read I/O'', ''write I/O'', ''processes'', ''database users'', ''mail aliases'',
     ''scheduled tasks'', ''applications'', ''container storage'', ''Valkey memory'', ''WordPress sites'']"

definition accumulateTypedPolicy :: "HostingPolicy \<Rightarrow> (int \<times> bool) list \<Rightarrow> (int \<times> bool) list" where
  "accumulateTypedPolicy policy acc =
     map2 (\<lambda>v (used, unlimited). if v < 0 then (used, True) else (wrap64 (used + v), unlimited)) (typedPolicyLimits policy) acc"

definition typed_checks :: "SubscriptionEntitlements list \<Rightarrow> SubscriptionEntitlements \<Rightarrow> ResellerPlan \<Rightarrow> capacity_check list" where
  "typed_checks es candidate p =
     (let caps = typedPolicyLimits (reseller_policy p);
          acc = fold (\<lambda>e. accumulateTypedPolicy (Ent_HostingPolicy e)) es (replicate (length caps) (0, False));
          policy = (if HP_SchemaVersion (Ent_HostingPolicy candidate) = 0 then DefaultFromEntitlements candidate
                    else Ent_HostingPolicy candidate) in
      map (\<lambda>i. \<lparr>Cc_Name = typed_names ! i, Cc_Used = fst (acc ! i), Cc_Add = typedPolicyLimits policy ! i, Cc_Limit = caps ! i,
           Cc_Unlimited = snd (acc ! i)\<rparr>) [0..<length caps])"

definition first_failure :: "capacity_check list \<Rightarrow> capacity_error option" where
  "first_failure cs = map_option (\<lambda>c. ErrResellerCapacity (Cc_Name c)) (find check_fails cs)"

definition validateResellerCapacity :: "quota_db \<Rightarrow> int \<Rightarrow> int \<Rightarrow> SubscriptionEntitlements \<Rightarrow> capacity_error option" where
  "validateResellerCapacity db r excluded candidate =
     (case active_reseller_plan db r of
        None \<Rightarrow> Some CapacityNoRows
      | Some p \<Rightarrow>
          let customers = int (length (remdups (map Cu_ID (reseller_customers db r))));
              subs = int (length (remdups (map Su_ID (reseller_active_subs db r excluded))));
              es = reseller_entitlements db r excluded in
          if customers > 2 ^ 31 - 1 \<or> subs > 2 ^ 31 - 1 \<or>
             list_ex (\<lambda>(_, f, _). finite_total f es > 2 ^ 31 - 1) reseller_columns then Some CapacitySQL
          else first_error
            [first_failure
               (\<lparr>Cc_Name = ''customers'', Cc_Used = customers, Cc_Add = 0, Cc_Limit = Rp_MaxCustomers p, Cc_Unlimited = False\<rparr> #
                \<lparr>Cc_Name = ''subscriptions'', Cc_Used = subs, Cc_Add = boolInt (Ent_PlanName candidate \<noteq> []),
                 Cc_Limit = Rp_MaxSubscriptions p, Cc_Unlimited = False\<rparr> #
                map (column_check es candidate p) reseller_columns),
             first_failure (typed_checks es candidate p)])"

section \<open>The disk of the server\<close>

definition fits_bigint :: "int \<Rightarrow> capacity_error + int" where
  "fits_bigint n = (if is_int64 n then Inr n else Inl CapacitySQL)"

text \<open>\<open>s.customer_user_id <> $1\<close> is not true of a row whose column is null.\<close>

definition committed_entitlements :: "quota_db \<Rightarrow> (SubscriptionRow \<Rightarrow> bool) \<Rightarrow> SubscriptionEntitlements list" where
  "committed_entitlements db keep =
     concat (map (\<lambda>s. map Er_Entitlements (filter (\<lambda>e. Ent_SubscriptionID (Er_Entitlements e) = Su_ID s) (Q_Entitlements db)))
       (filter (\<lambda>s. Su_Status s = ''active'' \<and> keep s) (Q_Subscriptions db)))"

definition committed :: "SubscriptionEntitlements list \<Rightarrow> capacity_error + int \<times> bool" where
  "committed es =
     (case fits_bigint (finite_total Ent_DiskMB es) of Inl e \<Rightarrow> Inl e | Inr n \<Rightarrow> Inr (n, any_unlimited Ent_DiskMB es))"

definition committedAllocationTx :: "quota_db \<Rightarrow> int \<Rightarrow> capacity_error + int \<times> bool" where
  "committedAllocationTx db user =
     committed (committed_entitlements db (\<lambda>s. user = 0 \<or> (case Su_CustomerUserID s of None \<Rightarrow> False | Some u \<Rightarrow> u \<noteq> user)))"

definition committedAllocationForSubscriptionTx :: "quota_db \<Rightarrow> int \<Rightarrow> capacity_error + int \<times> bool" where
  "committedAllocationForSubscriptionTx db sub =
     committed (committed_entitlements db (\<lambda>s. sub = 0 \<or> Su_ID s \<noteq> sub))"

text \<open>The shared tail of the two oversell checks; a warning is a value, a refusal an error.\<close>

datatype oversell_warning = NoWarning | UnlimitedWarning | ExceedsWarning int int

definition oversell_verdict :: "Settings \<Rightarrow> int \<times> bool \<Rightarrow> int \<Rightarrow> capacity_error + oversell_warning" where
  "oversell_verdict st used disk =
     (case used of (n, unlimited) \<Rightarrow>
      let full = Set_ServerDiskCapacityMB st > 0 \<and> wrap64 (n + disk) > Set_ServerDiskCapacityMB st in
      if Set_OversellPolicy st = ''cap'' then
        (if disk < 0 then Inl (ErrOversellCap ''plan has unlimited disk'')
         else if unlimited then Inl (ErrOversellCap ''existing unlimited disk'')
         else if full then Inl (ErrOversellCap ''exceeds capacity'')
         else Inr NoWarning)
      else if disk < 0 \<or> unlimited then Inr UnlimitedWarning
      else if full then Inr (ExceedsWarning (wrap64 (n + disk)) (Set_ServerDiskCapacityMB st))
      else Inr NoWarning)"

definition subscriptionOversellWarningTx :: "quota_db \<Rightarrow> int \<Rightarrow> Plan \<Rightarrow> capacity_error + oversell_warning" where
  "subscriptionOversellWarningTx db user plan =
     (case committedAllocationTx db user of Inl e \<Rightarrow> Inl e | Inr used \<Rightarrow> oversell_verdict (Q_Settings db) used (Pl_DiskMB plan))"

definition subscriptionOversellWarningForSubscriptionTx :: "quota_db \<Rightarrow> int \<Rightarrow> Plan \<Rightarrow> string \<Rightarrow> capacity_error + oversell_warning" where
  "subscriptionOversellWarningForSubscriptionTx db sub plan status =
     (if status \<noteq> ''active'' then Inr NoWarning
      else case committedAllocationForSubscriptionTx db sub of
        Inl e \<Rightarrow> Inl e | Inr used \<Rightarrow> oversell_verdict (Q_Settings db) used (Pl_DiskMB plan))"

definition enforceCommittedAllocationCapTx :: "quota_db \<Rightarrow> capacity_error option" where
  "enforceCommittedAllocationCapTx db =
     (let st = Q_Settings db in
      if Set_OversellPolicy st \<noteq> ''cap'' then None
      else case committedAllocationTx db 0 of
        Inl e \<Rightarrow> Some e
      | Inr (n, unlimited) \<Rightarrow>
          first_error [fail_if unlimited (ErrOversellCap ''unlimited disk''),
            fail_if (Set_ServerDiskCapacityMB st > 0 \<and> n > Set_ServerDiskCapacityMB st) (ErrOversellCap ''exceeds capacity'')])"

definition ValidateProvisioningCapacityTx :: "quota_db \<Rightarrow> int \<Rightarrow> int \<Rightarrow> capacity_error option" where
  "ValidateProvisioningCapacityTx db r sub =
     (case readSubscriptionEntitlementsTx db sub of
        Inl e \<Rightarrow> Some e
      | Inr e \<Rightarrow>
          first_error
            [if r > 0 then ensureResellerActiveTx db r else None,
             if r > 0 then validateResellerCapacity db r sub e else None,
             (case subscriptionOversellWarningForSubscriptionTx db sub (planFromEntitlements e) ''active'' of
                Inl x \<Rightarrow> Some x | Inr _ \<Rightarrow> None)])"

end
