(* ===== verification/Capacity_Safety.thy ===== *)
theory Capacity_Safety
  imports Reseller_Capacity
begin

text \<open>
  The capacity checks against their specification: an allocation is in order when nothing in it is
  unlimited and it adds up to at most the limit, or there is no limit.
\<close>

section \<open>Allocations\<close>

definition allocation_ok :: "int \<Rightarrow> int list \<Rightarrow> bool" where
  "allocation_ok limit vs \<longleftrightarrow> limit < 0 \<or> (list_all (\<lambda>v. 0 \<le> v) vs \<and> sum_list vs \<le> limit)"

lemma finite_total_Nil [simp]: "finite_total f [] = 0"
  by (simp add: finite_total_def)

lemma finite_total_Cons [simp]: "finite_total f (x # xs) = (if f x \<ge> 0 then f x else 0) + finite_total f xs"
  by (simp add: finite_total_def)

lemma any_unlimited_Cons [simp]: "any_unlimited f (x # xs) \<longleftrightarrow> f x < 0 \<or> any_unlimited f xs"
  by (simp add: any_unlimited_def)

lemma finite_total_nonneg [simp]: "0 \<le> finite_total f xs"
  by (induction xs) auto

lemma any_unlimited_iff: "\<not> any_unlimited f xs \<longleftrightarrow> list_all (\<lambda>v. 0 \<le> v) (map f xs)"
  by (induction xs) (auto simp: any_unlimited_def)

lemma finite_total_sum: "\<not> any_unlimited f xs \<Longrightarrow> finite_total f xs = sum_list (map f xs)"
  by (induction xs) auto

lemma finite_total_le: "(\<And>x. x \<in> set xs \<Longrightarrow> f x \<le> m) \<Longrightarrow> 0 \<le> m \<Longrightarrow> finite_total f xs \<le> int (length xs) * m"
proof (induction xs)
  case (Cons x xs)
  then have "finite_total f xs \<le> int (length xs) * m" "f x \<le> m" by auto
  then show ?case using Cons.prems(2) by (auto simp: algebra_simps)
qed simp

lemma wrap64_small: "0 \<le> x \<Longrightarrow> x < 2 ^ 63 \<Longrightarrow> wrap64 x = x"
  by (rule wrap64_id) (simp add: is_int64_def)

text \<open>A single check decides the allocation, as long as its numbers do not wrap around.\<close>

lemma check_fails_iff:
  assumes "Cc_Used c = finite_total f xs" "Cc_Unlimited c \<longleftrightarrow> any_unlimited f xs"
    and "finite_total f xs < 2 ^ 62" "Cc_Add c < 2 ^ 62"
  shows "\<not> check_fails c \<longleftrightarrow> allocation_ok (Cc_Limit c) (Cc_Add c # map f xs)"
proof (cases "Cc_Add c \<ge> 0")
  case True
  have "0 \<le> finite_total f xs + Cc_Add c" using True by simp
  then have w: "wrap64 (finite_total f xs + Cc_Add c) = finite_total f xs + Cc_Add c"
    by (rule wrap64_small) (use assms(3,4) in simp)
  show ?thesis
  proof (cases "any_unlimited f xs")
    case True
    then show ?thesis using assms any_unlimited_iff [of f xs] by (auto simp: check_fails_def allocation_ok_def)
  next
    case False
    then show ?thesis using assms w \<open>Cc_Add c \<ge> 0\<close> any_unlimited_iff [of f xs] finite_total_sum [OF False]
      by (auto simp: check_fails_def allocation_ok_def)
  qed
next
  case False
  then show ?thesis by (auto simp: check_fails_def allocation_ok_def)
qed

lemma first_failure_None: "first_failure cs = None \<longleftrightarrow> (\<forall>c \<in> set cs. \<not> check_fails c)"
  by (auto simp: first_failure_def find_None_iff)

section \<open>Typed limits\<close>

definition typed_step :: "int \<Rightarrow> int \<times> bool \<Rightarrow> int \<times> bool" where
  "typed_step v a = (case a of (used, unlimited) \<Rightarrow> if v < 0 then (used, True) else (wrap64 (used + v), unlimited))"

lemma typedPolicyLimits_length [simp]: "length (typedPolicyLimits p) = 12"
  by (simp add: typedPolicyLimits_def Let_def)

lemma accumulate_length [simp]: "length acc = 12 \<Longrightarrow> length (accumulateTypedPolicy p acc) = 12"
  by (simp add: accumulateTypedPolicy_def)

lemma accumulate_nth:
  "length acc = 12 \<Longrightarrow> i < 12 \<Longrightarrow> accumulateTypedPolicy p acc ! i = typed_step (typedPolicyLimits p ! i) (acc ! i)"
  by (simp add: accumulateTypedPolicy_def typed_step_def)

lemma fold_accumulate_nth:
  "length acc = 12 \<Longrightarrow> i < 12 \<Longrightarrow>
   fold (\<lambda>e. accumulateTypedPolicy (g e)) es acc ! i = fold (\<lambda>e. typed_step (typedPolicyLimits (g e) ! i)) es (acc ! i)"
  by (induction es arbitrary: acc) (simp_all add: accumulate_nth)

lemma fold_typed_step:
  assumes "0 \<le> u" "u + finite_total f es < 2 ^ 63"
  shows "fold (\<lambda>e. typed_step (f e)) es (u, b) = (u + finite_total f es, b \<or> any_unlimited f es)"
  using assms
proof (induction es arbitrary: u b)
  case (Cons e es)
  show ?case
  proof (cases "f e < 0")
    case True
    then show ?thesis using Cons.IH [of u True] Cons.prems by (simp add: typed_step_def)
  next
    case False
    have "u + (f e + finite_total f es) < 2 ^ 63" using Cons.prems False by simp
    then have "u + f e < 2 ^ 63" using finite_total_nonneg [of f es] by linarith
    then have "wrap64 (u + f e) = u + f e" using False Cons.prems(1) by (intro wrap64_small) auto
    then show ?thesis using Cons.IH [of "u + f e" b] Cons.prems False by (simp add: typed_step_def add.assoc)
  qed
qed (simp add: any_unlimited_def)

section \<open>The capacity check of a reseller\<close>

definition candidate_policy :: "SubscriptionEntitlements \<Rightarrow> HostingPolicy" where
  "candidate_policy e = (if HP_SchemaVersion (Ent_HostingPolicy e) = 0 then DefaultFromEntitlements e else Ent_HostingPolicy e)"

text \<open>What the validators guarantee of stored values: no limit above the largest supported one.\<close>

definition bounded_limits :: "SubscriptionEntitlements list \<Rightarrow> SubscriptionEntitlements \<Rightarrow> bool" where
  "bounded_limits es candidate \<longleftrightarrow> int (length es) \<le> maxPlanLimit \<and>
     list_all (\<lambda>e. list_all (\<lambda>v. v \<le> maxPlanLimit) (typedPolicyLimits (Ent_HostingPolicy e))) es \<and>
     list_all (\<lambda>v. v \<le> maxPlanLimit) (typedPolicyLimits (candidate_policy candidate)) \<and>
     list_all (\<lambda>(_, f, _). f candidate \<le> maxPlanLimit) reseller_columns"

definition counts_fit :: "quota_db \<Rightarrow> int \<Rightarrow> int \<Rightarrow> bool" where
  "counts_fit db r excluded \<longleftrightarrow>
     int (length (remdups (map Cu_ID (reseller_customers db r)))) \<le> 2 ^ 31 - 1 \<and>
     int (length (remdups (map Su_ID (reseller_active_subs db r excluded)))) \<le> 2 ^ 31 - 1 \<and>
     list_all (\<lambda>(_, f, _). finite_total f (reseller_entitlements db r excluded) \<le> 2 ^ 31 - 1) reseller_columns"

definition within_allocation :: "quota_db \<Rightarrow> int \<Rightarrow> int \<Rightarrow> SubscriptionEntitlements \<Rightarrow> ResellerPlan \<Rightarrow> bool" where
  "within_allocation db r excluded candidate p \<longleftrightarrow>
     (let es = reseller_entitlements db r excluded in
      (Rp_MaxCustomers p < 0 \<or> int (length (remdups (map Cu_ID (reseller_customers db r)))) \<le> Rp_MaxCustomers p) \<and>
      (Rp_MaxSubscriptions p < 0 \<or>
        int (length (remdups (map Su_ID (reseller_active_subs db r excluded)))) + boolInt (Ent_PlanName candidate \<noteq> []) \<le> Rp_MaxSubscriptions p) \<and>
      list_all (\<lambda>(_, f, g). allocation_ok (g p) (f candidate # map f es)) reseller_columns \<and>
      list_all (\<lambda>i. allocation_ok (typedPolicyLimits (reseller_policy p) ! i)
        (typedPolicyLimits (candidate_policy candidate) ! i # map (\<lambda>e. typedPolicyLimits (Ent_HostingPolicy e) ! i) es)) [0..<12])"

lemma column_checks_ok:
  assumes "list_all (\<lambda>(_, f, _). finite_total f es \<le> 2 ^ 31 - 1) cols" "list_all (\<lambda>(_, f, _). f candidate \<le> maxPlanLimit) cols"
  shows "(\<forall>c \<in> set (map (column_check es candidate p) cols). \<not> check_fails c) \<longleftrightarrow>
    list_all (\<lambda>(_, f, g). allocation_ok (g p) (f candidate # map f es)) cols"
  using assms
proof (induction cols)
  case (Cons col cols)
  obtain n f g where col: "col = (n, f, g)" by (cases col)
  have "\<not> check_fails (column_check es candidate p col) \<longleftrightarrow>
    allocation_ok (Cc_Limit (column_check es candidate p col)) (Cc_Add (column_check es candidate p col) # map f es)"
    by (rule check_fails_iff) (use Cons.prems in \<open>auto simp: column_check_def col maxPlanLimit_def\<close>)
  then show ?case using Cons by (simp add: column_check_def col)
qed simp

lemma typed_total_small:
  assumes "bounded_limits es candidate" "i < 12"
  shows "finite_total (\<lambda>e. typedPolicyLimits (Ent_HostingPolicy e) ! i) es < 2 ^ 62"
proof -
  have "typedPolicyLimits (Ent_HostingPolicy e) ! i \<le> maxPlanLimit" if "e \<in> set es" for e
    using nth_mem [of i "typedPolicyLimits (Ent_HostingPolicy e)"] assms that by (simp add: bounded_limits_def list_all_iff)
  then have "finite_total (\<lambda>e. typedPolicyLimits (Ent_HostingPolicy e) ! i) es \<le> int (length es) * maxPlanLimit"
    by (intro finite_total_le) (auto simp: maxPlanLimit_def)
  also have "\<dots> \<le> maxPlanLimit * maxPlanLimit"
    using assms(1) by (intro mult_right_mono) (auto simp: bounded_limits_def maxPlanLimit_def)
  also have "\<dots> < 2 ^ 62" by (simp add: maxPlanLimit_def)
  finally show ?thesis .
qed

lemma typed_checks_ok:
  assumes "bounded_limits es candidate"
  shows "(\<forall>c \<in> set (typed_checks es candidate p). \<not> check_fails c) \<longleftrightarrow>
    list_all (\<lambda>i. allocation_ok (typedPolicyLimits (reseller_policy p) ! i)
      (typedPolicyLimits (candidate_policy candidate) ! i # map (\<lambda>e. typedPolicyLimits (Ent_HostingPolicy e) ! i) es)) [0..<12]"
proof -
  define acc where "acc = fold (\<lambda>e. accumulateTypedPolicy (Ent_HostingPolicy e)) es (replicate 12 (0, False))"
  let ?c = "\<lambda>i. \<lparr>Cc_Name = typed_names ! i, Cc_Used = fst (acc ! i), Cc_Add = typedPolicyLimits (candidate_policy candidate) ! i,
    Cc_Limit = typedPolicyLimits (reseller_policy p) ! i, Cc_Unlimited = snd (acc ! i)\<rparr>"
  let ?f = "\<lambda>i e. typedPolicyLimits (Ent_HostingPolicy e) ! i"
  have eq: "typed_checks es candidate p = map ?c [0..<12]"
    by (simp add: typed_checks_def acc_def candidate_policy_def Let_def)
  have "\<not> check_fails (?c i) \<longleftrightarrow> allocation_ok (Cc_Limit (?c i)) (Cc_Add (?c i) # map (?f i) es)" if i: "i < 12" for i
  proof (rule check_fails_iff)
    have a: "acc ! i = (finite_total (?f i) es, any_unlimited (?f i) es)"
      using i typed_total_small [OF assms i] fold_typed_step [of 0 "?f i" es False]
      by (simp add: acc_def fold_accumulate_nth)
    then show "Cc_Used (?c i) = finite_total (?f i) es" "Cc_Unlimited (?c i) \<longleftrightarrow> any_unlimited (?f i) es" by simp_all
    show "finite_total (?f i) es < 2 ^ 62" by (rule typed_total_small [OF assms i])
    show "Cc_Add (?c i) < 2 ^ 62" using assms i by (auto simp: bounded_limits_def list_all_length maxPlanLimit_def)
  qed
  then show ?thesis unfolding eq by (simp add: list_all_iff)
qed

lemma count_check_ok:
  "0 \<le> n \<Longrightarrow> n \<le> 2 ^ 31 - 1 \<Longrightarrow>
   \<not> check_fails \<lparr>Cc_Name = a, Cc_Used = n, Cc_Add = boolInt b, Cc_Limit = l, Cc_Unlimited = False\<rparr> \<longleftrightarrow> l < 0 \<or> n + boolInt b \<le> l"
  by (auto simp: check_fails_def boolInt_def wrap64_small)

section \<open>A reseller with one subscription\<close>

definition demo_reseller_plan :: ResellerPlan where
  "demo_reseller_plan = \<lparr>Rp_ID = 4, Rp_Name = ''Starter'', Rp_Description = [], Rp_MaxCustomers = 2, Rp_MaxSubscriptions = 2,
     Rp_DiskMB = 50, Rp_MaxSites = 5, Rp_MaxSubdomains = 5, Rp_MaxDomainAliases = 5, Rp_MaxDatabases = 5, Rp_BandwidthMB = -1,
     Rp_MaxMailboxes = 5, Rp_MaxFTPAccounts = 5, Rp_MaxBackups = 5, Rp_BackupStorageMB = 50, Rp_AllowCustomPlans = True,
     Rp_AllowSSH = False, Rp_AllowDNS = True, Rp_AllowTLS = True, Rp_AllowBackups = True, Rp_AllowPHPSettings = False,
     Rp_HostingPolicy = None, Rp_IsActive = True, Rp_CreatedAt = 0, Rp_UpdatedAt = 0\<rparr>"

definition demo_reseller_row :: EntitlementRow where
  "demo_reseller_row = \<lparr>Er_Entitlements = demo_quota_entitlements\<lparr>Ent_PlanName := ''Basic'', Ent_DiskMB := 40\<rparr>, Er_UpdatedAt = 0\<rparr>"

definition demo_reseller_db :: quota_db where
  "demo_reseller_db = demo_quota_db
     \<lparr>Q_Customers := [\<lparr>Cu_ID = 3, Cu_ResellerID = Some 8, Cu_Status = ''active''\<rparr>],
      Q_Entitlements := [demo_reseller_row],
      Q_Resellers := [\<lparr>Re_ID = 8, Re_Status = ''active''\<rparr>],
      Q_ResellerSubscriptions := [\<lparr>Rs_ResellerID = 8, Rs_PlanID = 4, Rs_SubStatus = ''active''\<rparr>],
      Q_ResellerPlans := [demo_reseller_plan]\<rparr>"

text \<open>
  C18. The capacity check of a reseller accepts a candidate exactly when the reseller has an active allocation,
  the database can return its totals, and with the candidate every number the allocation limits (customers,
  subscriptions, ten plan columns, twelve typed policy limits) stays within it, nothing unlimited being
  handed out under a limit. The stored limits are those the validators accept.
\<close>

theorem validateResellerCapacity_iff:
  assumes "bounded_limits (reseller_entitlements db r excluded) candidate"
  shows "validateResellerCapacity db r excluded candidate = None \<longleftrightarrow>
    (\<exists>p. active_reseller_plan db r = Some p \<and> counts_fit db r excluded \<and> within_allocation db r excluded candidate p)"
proof (cases "active_reseller_plan db r")
  case (Some p)
  let ?es = "reseller_entitlements db r excluded"
  have cand: "list_all (\<lambda>(_, f, _). f candidate \<le> maxPlanLimit) reseller_columns" using assms by (simp add: bounded_limits_def)
  show ?thesis
  proof (cases "counts_fit db r excluded")
    case True
    have sums: "list_all (\<lambda>(_, f, _). finite_total f ?es \<le> 2 ^ 31 - 1) reseller_columns" using True by (simp add: counts_fit_def)
    have nosql: "\<not> list_ex (\<lambda>(_, f, _). finite_total f ?es > 2 ^ 31 - 1) reseller_columns"
      using sums by (auto simp: list_ex_iff list_all_iff)
    define nc where "nc = int (length (remdups (map Cu_ID (reseller_customers db r))))"
    define ns where "ns = int (length (remdups (map Su_ID (reseller_active_subs db r excluded))))"
    have n: "0 \<le> nc" "nc \<le> 2 ^ 31 - 1" "0 \<le> ns" "ns \<le> 2 ^ 31 - 1" using True by (simp_all add: counts_fit_def nc_def ns_def)
    have c: "\<not> check_fails \<lparr>Cc_Name = ''customers'', Cc_Used = nc, Cc_Add = 0, Cc_Limit = Rp_MaxCustomers p, Cc_Unlimited = False\<rparr> \<longleftrightarrow>
        Rp_MaxCustomers p < 0 \<or> nc \<le> Rp_MaxCustomers p"
      using count_check_ok [OF n(1,2), of _ False] by (simp add: boolInt_def)
    have "validateResellerCapacity db r excluded candidate = None \<longleftrightarrow> within_allocation db r excluded candidate p"
      using Some n(2,4) nosql c count_check_ok [OF n(3,4)] column_checks_ok [OF sums cand, of p] typed_checks_ok [OF assms, of p]
      by (simp add: validateResellerCapacity_def within_allocation_def first_failure_None first_error_None Let_def
          flip: nc_def ns_def del: length_remdups_card_conv first_error.simps)
    then show ?thesis using Some True by simp
  next
    case False
    then have "validateResellerCapacity db r excluded candidate \<noteq> None"
      using Some by (auto simp: validateResellerCapacity_def counts_fit_def list_ex_iff list_all_iff Let_def)
    then show ?thesis using False by blast
  qed
qed (simp add: validateResellerCapacity_def)

theorem validateResellerCapacity_iff_witness:
  "validateResellerCapacity demo_reseller_db 8 0 zero_SubscriptionEntitlements = None \<and>
   within_allocation demo_reseller_db 8 0 zero_SubscriptionEntitlements demo_reseller_plan"
proof -
  have b: "bounded_limits (reseller_entitlements demo_reseller_db 8 0) zero_SubscriptionEntitlements" by code_simp
  have "within_allocation demo_reseller_db 8 0 zero_SubscriptionEntitlements demo_reseller_plan" by code_simp
  moreover have "active_reseller_plan demo_reseller_db 8 = Some demo_reseller_plan" by code_simp
  moreover have "counts_fit demo_reseller_db 8 0" by code_simp
  ultimately show ?thesis using validateResellerCapacity_iff [OF b] by blast
qed

section \<open>A provisioning that passed\<close>

definition keys_unique :: "quota_db \<Rightarrow> bool" where
  "keys_unique db \<longleftrightarrow> distinct (map Su_ID (Q_Subscriptions db)) \<and>
     distinct (map (\<lambda>e. Ent_SubscriptionID (Er_Entitlements e)) (Q_Entitlements db))"

definition entitlements_for :: "quota_db \<Rightarrow> SubscriptionRow \<Rightarrow> SubscriptionEntitlements list" where
  "entitlements_for db s = map Er_Entitlements (filter (\<lambda>e. Ent_SubscriptionID (Er_Entitlements e) = Su_ID s) (Q_Entitlements db))"

lemma filter_unique_key: "distinct (map k xs) \<Longrightarrow> filter (\<lambda>x. k x = i) xs = (case find (\<lambda>x. k x = i) xs of None \<Rightarrow> [] | Some x \<Rightarrow> [x])"
proof (induction xs)
  case (Cons x xs)
  show ?case
  proof (cases "k x = i")
    case True
    then have "filter (\<lambda>y. k y = i) xs = []" using Cons.prems by (auto simp: filter_empty_conv image_iff)
    then show ?thesis using True by simp
  next
    case False
    then show ?thesis using Cons by simp
  qed
qed simp

lemma entitlements_for_unique:
  "keys_unique db \<Longrightarrow> entitlements_for db s = (case entitlement_of db (Su_ID s) of None \<Rightarrow> [] | Some x \<Rightarrow> [Er_Entitlements x])"
  by (simp add: entitlements_for_def entitlement_of_def keys_unique_def filter_unique_key split: option.split)

lemma sum_list_partition: "sum_list (map (g :: _ \<Rightarrow> int) xs) = sum_list (map g (filter P xs)) + sum_list (map g (filter (\<lambda>x. \<not> P x) xs))"
  by (induction xs) auto

lemma sum_concat: "sum_list (map (f :: _ \<Rightarrow> int) (concat xss)) = sum_list (map (\<lambda>xs. sum_list (map f xs)) xss)"
  by (induction xss) auto

text \<open>
  An allocation in order with the row of one subscription counted apart is in order with the row in place:
  each subscription has at most one row.
\<close>

lemma allocation_with_row:
  assumes u: "keys_unique db" and e: "entitlement_of db sub = Some row"
    and d: "distinct (map Su_ID subs)"
    and ok: "allocation_ok limit (f (Er_Entitlements row) # map f (concat (map (entitlements_for db) (filter (\<lambda>s. Su_ID s \<noteq> sub) subs))))"
  shows "allocation_ok limit (map f (concat (map (entitlements_for db) subs)))"
proof (cases "limit < 0")
  case False
  let ?others = "concat (map (entitlements_for db) (filter (\<lambda>s. Su_ID s \<noteq> sub) subs))"
  have own: "entitlements_for db s = [Er_Entitlements row]" if "Su_ID s = sub" for s
    using entitlements_for_unique [OF u, of s] e that by simp
  have pos: "0 \<le> f x" if "x \<in> set (concat (map (entitlements_for db) subs))" for x
    using ok that own False by (fastforce simp: allocation_ok_def list_all_iff)
  have "sum_list (map f (concat (map (entitlements_for db) (filter (\<lambda>s. \<not> Su_ID s \<noteq> sub) subs)))) \<le> f (Er_Entitlements row)"
    using filter_unique_key [OF d, of sub] own ok False
    by (auto simp: allocation_ok_def find_Some_iff split: option.split)
  then have "sum_list (map f (concat (map (entitlements_for db) subs))) \<le> f (Er_Entitlements row) + sum_list (map f ?others)"
    using sum_list_partition [of "\<lambda>s. sum_list (map f (entitlements_for db s))" subs "\<lambda>s. Su_ID s \<noteq> sub"]
    by (simp add: sum_concat o_def)
  then show ?thesis using ok pos False by (auto simp: allocation_ok_def list_all_iff)
qed (simp add: allocation_ok_def)

lemma reseller_entitlements_alt:
  "sub \<noteq> 0 \<Longrightarrow> reseller_entitlements db r sub =
     concat (map (entitlements_for db) (filter (\<lambda>s. Su_ID s \<noteq> sub) (reseller_active_subs db r 0)))"
  "reseller_entitlements db r 0 = concat (map (entitlements_for db) (reseller_active_subs db r 0))"
  by (simp_all add: reseller_entitlements_def entitlements_for_def [abs_def] reseller_active_subs_def conj_assoc)

lemma committed_alt:
  "sub \<noteq> 0 \<Longrightarrow> committed_entitlements db (\<lambda>s. sub = 0 \<or> Su_ID s \<noteq> sub) =
     concat (map (entitlements_for db) (filter (\<lambda>s. Su_ID s \<noteq> sub) (filter (\<lambda>s. Su_Status s = ''active'') (Q_Subscriptions db))))"
  "committed_entitlements db (\<lambda>s. True) = concat (map (entitlements_for db) (filter (\<lambda>s. Su_Status s = ''active'') (Q_Subscriptions db)))"
  by (simp_all add: committed_entitlements_def entitlements_for_def [abs_def] conj_commute)

text \<open>A verdict under the cap, in terms of the disk it adds up.\<close>

lemma oversell_cap:
  assumes "oversell_verdict st (finite_total Ent_DiskMB es, any_unlimited Ent_DiskMB es) disk = Inr w"
    and "Set_OversellPolicy st = ''cap''" "Set_ServerDiskCapacityMB st > 0"
    and "finite_total Ent_DiskMB es < 2 ^ 62" "disk < 2 ^ 62"
  shows "allocation_ok (Set_ServerDiskCapacityMB st) (disk # map Ent_DiskMB es)"
proof -
  have a: "0 \<le> disk" "\<not> any_unlimited Ent_DiskMB es" "wrap64 (finite_total Ent_DiskMB es + disk) \<le> Set_ServerDiskCapacityMB st"
    using assms(1-3) by (auto simp: oversell_verdict_def Let_def split: if_split_asm)
  have "wrap64 (finite_total Ent_DiskMB es + disk) = finite_total Ent_DiskMB es + disk"
    by (rule wrap64_small) (use a(1) assms(4,5) finite_total_nonneg [of Ent_DiskMB es] in \<open>auto simp del: finite_total_nonneg\<close>)
  then show ?thesis
    using a any_unlimited_iff [of Ent_DiskMB es] finite_total_sum [OF a(2)] by (simp add: allocation_ok_def)
qed

lemma planFromEntitlements_disk: "Pl_DiskMB (planFromEntitlements e) = Ent_DiskMB e"
  by (simp add: planFromEntitlements_def plan_of_columns_def Let_def)



section \<open>Where the committed disk is not counted\<close>

text \<open>
  \<open>committedAllocationTx\<close> leaves out more than the subscription it replaces: an active subscription of a
  customer without a login has no \<open>customer_user_id\<close>, the comparison with it is null, and the row is not
  summed. Assigning a plan then passes the cap although the active subscriptions exceed the server.
\<close>

definition demo_loginless_db :: quota_db where
  "demo_loginless_db = demo_reseller_db
     \<lparr>Q_Subscriptions := [\<lparr>Su_ID = 5, Su_CustomerID = Some 3, Su_CustomerUserID = None, Su_PlanID = None,
        Su_Status = ''active'', Su_SyncMode = ''custom''\<rparr>]\<rparr>"

lemma committed_misses_loginless:
  "subscriptionOversellWarningTx demo_loginless_db 9 (planFromEntitlements (demo_quota_entitlements\<lparr>Ent_DiskMB := 90\<rparr>)) = Inr NoWarning \<and>
   Set_OversellPolicy (Q_Settings demo_loginless_db) = ''cap'' \<and>
   sum_list (map Ent_DiskMB (committed_entitlements demo_loginless_db (\<lambda>s. True))) + 90 >
     Set_ServerDiskCapacityMB (Q_Settings demo_loginless_db)"
  by code_simp

end
