(* ===== verification/Nak_Crypto.thy ===== *)
theory Nak_Crypto
  imports Nak_Prelude "HOL-Library.Word"
begin

text \<open>
  What the authentication code uses of Go's \<open>crypto/sha1\<close>, \<open>crypto/hmac\<close>, \<open>encoding/binary\<close>,
  \<open>encoding/base32\<close> and \<open>encoding/base64\<close>. Byte slices are strings. The encodings work on the bits of
  the bytes: a group of five or six bits is one character of the alphabet, the last group is completed
  with zeros.
\<close>

unbundle bit_operations_syntax

section \<open>Chunks\<close>

function chunks :: "nat \<Rightarrow> 'a list \<Rightarrow> 'a list list" where
  "chunks n xs = (if n = 0 \<or> xs = [] then [] else take n xs # chunks n (drop n xs))"
  by pat_completeness auto
termination by (relation "measure (\<lambda>(n, xs). length xs)") auto

declare chunks.simps [simp del]

lemma chunks_Nil [simp]: "chunks n [] = []"
  by (simp add: chunks.simps)

lemma chunks_step: "0 < n \<Longrightarrow> xs \<noteq> [] \<Longrightarrow> chunks n xs = take n xs # chunks n (drop n xs)"
  by (subst chunks.simps) simp

lemma concat_chunks: "0 < n \<Longrightarrow> concat (chunks n xs) = xs"
proof (induction n xs rule: chunks.induct)
  case (1 n xs)
  then show ?case by (cases "xs = []") (simp_all add: chunks_step)
qed

lemma chunks_append: "0 < n \<Longrightarrow> length x = n \<Longrightarrow> chunks n (x @ xs) = x # chunks n xs"
  by (subst chunks_step) auto

lemma chunks_concat: "0 < n \<Longrightarrow> (\<And>x. x \<in> set xss \<Longrightarrow> length x = n) \<Longrightarrow> chunks n (concat xss @ r) = xss @ chunks n r"
  by (induction xss) (simp_all add: chunks_append)

lemma chunks_short: "xs \<noteq> [] \<Longrightarrow> length xs \<le> n \<Longrightarrow> chunks n xs = [xs]"
  by (cases xs) (auto simp: chunks_step)

section \<open>Bits of bytes\<close>

definition byte_bits :: "char \<Rightarrow> bool list" where
  "byte_bits c = [digit7 c, digit6 c, digit5 c, digit4 c, digit3 c, digit2 c, digit1 c, digit0 c]"

definition bits_byte :: "bool list \<Rightarrow> char" where
  "bits_byte bs = Char (bs ! 7) (bs ! 6) (bs ! 5) (bs ! 4) (bs ! 3) (bs ! 2) (bs ! 1) (bs ! 0)"

definition bits_value :: "bool list \<Rightarrow> nat" where
  "bits_value bs = foldl (\<lambda>a b. 2 * a + (if b then 1 else 0)) 0 bs"

fun value_bits :: "nat \<Rightarrow> nat \<Rightarrow> bool list" where
  "value_bits 0 v = []"
| "value_bits (Suc n) v = value_bits n (v div 2) @ [odd v]"

lemma bits_byte_bits [simp]: "bits_byte (byte_bits c) = c"
  by (cases c) (simp add: bits_byte_def byte_bits_def)

lemma length_byte_bits [simp]: "length (byte_bits c) = 8"
  by (simp add: byte_bits_def)

lemma length_value_bits [simp]: "length (value_bits n v) = n"
  by (induction n arbitrary: v) auto

lemma bits_value_snoc: "bits_value (bs @ [b]) = 2 * bits_value bs + (if b then 1 else 0)"
  by (simp add: bits_value_def)

lemma value_bits_value: "value_bits (length bs) (bits_value bs) = bs"
proof (induction bs rule: rev_induct)
  case (snoc b bs)
  then show ?case by (simp add: bits_value_snoc)
qed simp

lemma bits_value_less: "bits_value bs < 2 ^ length bs"
proof (induction bs rule: rev_induct)
  case (snoc b bs)
  then show ?case by (simp add: bits_value_snoc)
qed (simp add: bits_value_def)

section \<open>Text encodings\<close>

definition base64_alphabet :: string where
  "base64_alphabet = ''ABCDEFGHIJKLMNOPQRSTUVWXYZabcdefghijklmnopqrstuvwxyz0123456789+/''"

definition base64url_alphabet :: string where
  "base64url_alphabet = ''ABCDEFGHIJKLMNOPQRSTUVWXYZabcdefghijklmnopqrstuvwxyz0123456789-_''"

definition base32_alphabet :: string where
  "base32_alphabet = ''ABCDEFGHIJKLMNOPQRSTUVWXYZ234567''"

text \<open>\<open>EncodeToString\<close> without padding, for groups of \<open>w\<close> bits.\<close>

definition fill :: "nat \<Rightarrow> bool list \<Rightarrow> bool list" where
  "fill w bs = bs @ replicate (w - length bs) False"

definition encode_bits :: "nat \<Rightarrow> string \<Rightarrow> string \<Rightarrow> string" where
  "encode_bits w alphabet s = map (\<lambda>g. alphabet ! bits_value (fill w g)) (chunks w (concat (map byte_bits s)))"

definition base64_encode :: "string \<Rightarrow> string" where
  "base64_encode = encode_bits 6 base64_alphabet"

definition base32_encode :: "string \<Rightarrow> string" where
  "base32_encode = encode_bits 5 base32_alphabet"

text \<open>Position of a character of the alphabet.\<close>

fun char_index :: "string \<Rightarrow> char \<Rightarrow> nat option" where
  "char_index [] c = None"
| "char_index (x # xs) c = (if x = c then Some 0 else map_option Suc (char_index xs c))"

definition decode_bits :: "nat \<Rightarrow> string \<Rightarrow> string \<Rightarrow> string" where
  "decode_bits w alphabet t =
     map bits_byte (filter (\<lambda>g. length g = 8) (chunks 8 (concat (map (\<lambda>c. case char_index alphabet c of None \<Rightarrow> [] | Some i \<Rightarrow> value_bits w i) t))))"

text \<open>
  \<open>base64.RawStdEncoding.DecodeString\<close>: line ends are skipped, every other character must belong to the
  alphabet, and a group of a single character is corrupt. The completing bits are not checked.
\<close>

definition base64_decode :: "string \<Rightarrow> string option" where
  "base64_decode s =
     (let t = filter (\<lambda>c. c \<notin> set [CHR 10, CHR 13]) s in
      if list_ex (\<lambda>c. char_index base64_alphabet c = None) t \<or> length t mod 4 = 1 then None
      else Some (decode_bits 6 base64_alphabet t))"

lemma char_index_nth: "distinct xs \<Longrightarrow> i < length xs \<Longrightarrow> char_index xs (xs ! i) = Some i"
proof (induction xs arbitrary: i)
  case (Cons x xs)
  then show ?case by (cases i) auto
qed simp

lemma chunks_length: "g \<in> set (chunks n xs) \<Longrightarrow> 0 < length g \<and> length g \<le> n"
proof (induction n xs rule: chunks.induct)
  case (1 n xs)
  then show ?case by (cases "n = 0 \<or> xs = []") (auto simp: chunks.simps [of n xs])
qed

text \<open>The filled groups are the bits with fewer than \<open>w\<close> zeros after them.\<close>

lemma concat_fill_chunks: "0 < w \<Longrightarrow> \<exists>k < w. concat (map (fill w) (chunks w xs)) = xs @ replicate k False"
proof (induction w xs rule: chunks.induct)
  case (1 n xs)
  show ?case
  proof (cases "length xs \<le> n")
    case True
    then show ?thesis using 1(2)
    proof (cases "xs = []")
      case False
      then show ?thesis using True 1(2) by (intro exI [of _ "n - length xs"]) (simp add: chunks_short fill_def)
    qed auto
  next
    case False
    then have ne: "xs \<noteq> []" by auto
    obtain k where k: "k < n" "concat (map (fill n) (chunks n (drop n xs))) = drop n xs @ replicate k False"
      using 1(1) ne 1(2) by auto
    have "concat (map (fill n) (chunks n xs)) = fill n (take n xs) @ concat (map (fill n) (chunks n (drop n xs)))"
      unfolding chunks_step [OF 1(2) ne] by simp
    also have "\<dots> = take n xs @ (drop n xs @ replicate k False)" unfolding k(2) using False by (simp add: fill_def)
    finally show ?thesis using k(1) by auto
  qed
qed

lemma decode_encode_bits:
  assumes "distinct alphabet" "2 ^ w \<le> length alphabet" "0 < w" "w \<le> 8"
  shows "decode_bits w alphabet (encode_bits w alphabet s) = s"
proof -
  let ?gs = "chunks w (concat (map byte_bits s))"
  have g: "(case char_index alphabet (alphabet ! bits_value (fill w g)) of None \<Rightarrow> [] | Some i \<Rightarrow> value_bits w i) = fill w g"
    if "g \<in> set ?gs" for g
  proof -
    have l: "length (fill w g) = w" using chunks_length [OF that] by (simp add: fill_def)
    then have "bits_value (fill w g) < length alphabet" using bits_value_less [of "fill w g"] assms(2) by simp
    then show ?thesis using char_index_nth [OF assms(1)] value_bits_value [of "fill w g"] l by simp
  qed
  obtain k where k: "k < w" "concat (map (fill w) ?gs) = concat (map byte_bits s) @ replicate k False"
    using concat_fill_chunks [OF assms(3)] by blast
  have "concat (map (\<lambda>c. case char_index alphabet c of None \<Rightarrow> [] | Some i \<Rightarrow> value_bits w i) (encode_bits w alphabet s)) =
    concat (map (fill w) ?gs)"
    unfolding encode_bits_def map_map by (rule arg_cong [of _ _ concat], rule map_cong) (simp_all add: g)
  moreover have "chunks 8 (concat (map byte_bits s) @ replicate k False) = map byte_bits s @ (if k = 0 then [] else [replicate k False])"
    using k(1) assms(4) by (subst chunks_concat) (auto simp: chunks_short)
  ultimately show ?thesis using k assms(4) by (simp add: decode_bits_def o_def filter_map)
qed

lemma length_encode_bits: "length (encode_bits w alphabet s) = length (chunks w (concat (map byte_bits s)))"
  by (simp add: encode_bits_def)

lemma length_chunks: "0 < n \<Longrightarrow> length (chunks n xs) = (length xs + n - 1) div n"
proof (induction n xs rule: chunks.induct)
  case (1 n xs)
  show ?case
  proof (cases "xs = []")
    case False
    have "length (chunks n xs) = Suc ((length xs - n + n - 1) div n)"
      using 1 False by (simp add: chunks_step)
    also have "\<dots> = (length xs + n - 1) div n"
    proof (cases "n \<le> length xs")
      case True
      then have a: "length xs + n - 1 = (length xs - 1) + n" and b: "length xs - n + n - 1 = length xs - 1" using False by auto
      show ?thesis unfolding a b using div_add_self2 [of n "length xs - 1"] 1(2) by simp
    next
      case less: False
      have a: "length xs + n - 1 = (length xs - 1) + n" using False by (cases xs) auto
      have b: "length xs - n + n - 1 = n - 1" and c: "length xs - 1 < n" using less by auto
      show ?thesis unfolding a b using div_add_self2 [of n "length xs - 1"] 1(2) c by simp
    qed
    finally show ?thesis .
  qed (use 1(2) in simp)
qed

lemma length_concat_bits: "length (concat (map byte_bits s)) = 8 * length s"
  by (induction s) auto

lemma encode_bits_set:
  assumes "2 ^ w \<le> length alphabet" "0 < w"
  shows "set (encode_bits w alphabet s) \<subseteq> set alphabet"
proof -
  have "alphabet ! bits_value (fill w g) \<in> set alphabet" if "g \<in> set (chunks w (concat (map byte_bits s)))" for g
  proof (rule nth_mem)
    have "length (fill w g) = w" using chunks_length [OF that] by (simp add: fill_def)
    then show "bits_value (fill w g) < length alphabet" using bits_value_less [of "fill w g"] assms(1) by simp
  qed
  then show ?thesis by (auto simp: encode_bits_def)
qed

lemma base64_alphabet_ok: "distinct base64_alphabet" "length base64_alphabet = 64"
    "list_all (\<lambda>c. c \<notin> set [CHR 10, CHR 13, CHR ''$'', CHR '','', CHR ''='']) base64_alphabet"
  by code_simp+

lemma base32_alphabet_ok: "distinct base32_alphabet" "length base32_alphabet = 32"
    "list_all (\<lambda>c. is_ascii c \<and> \<not> ascii_space c) base32_alphabet"
  by code_simp+

lemma char_index_Some: "c \<in> set xs \<Longrightarrow> char_index xs c \<noteq> None"
  by (induction xs) auto

lemma base64_encode_set: "set (base64_encode s) \<subseteq> set base64_alphabet"
  using encode_bits_set [of 6 base64_alphabet s] base64_alphabet_ok(2) by (simp add: base64_encode_def)

lemma base64_encode_clean: "c \<in> set (base64_encode s) \<Longrightarrow> c \<notin> {CHR 10, CHR 13, CHR ''$'', CHR '','', CHR ''=''}"
  using base64_encode_set [of s] base64_alphabet_ok(3) by (auto simp: list_all_iff)

lemma sextets_mod: "(8 * n + 5) div 6 mod 4 \<noteq> (1 :: nat)"
proof -
  define q r where "q = n div 3" and "r = n mod 3"
  have n: "8 * n + 5 = (8 * r + 5) + 6 * (4 * q)" unfolding q_def r_def using div_mult_mod_eq [of n 3] by linarith
  have "(8 * n + 5) div 6 = 4 * q + (8 * r + 5) div 6" unfolding n by (subst div_mult_self2) simp_all
  moreover have "r = 0 \<or> r = 1 \<or> r = 2" unfolding r_def by auto
  ultimately show ?thesis by auto
qed

theorem base64_roundtrip: "base64_decode (base64_encode s) = Some s"
proof -
  let ?t = "base64_encode s"
  have f: "filter (\<lambda>c. c \<notin> set [CHR 10, CHR 13]) ?t = ?t" using base64_encode_clean [of _ s] by (auto simp: filter_id_conv)
  have a: "\<not> list_ex (\<lambda>c. char_index base64_alphabet c = None) ?t"
    using base64_encode_set [of s] char_index_Some by (fastforce simp: list_ex_iff)
  have "length ?t = (8 * length s + 5) div 6"
    by (simp add: base64_encode_def length_encode_bits length_chunks length_concat_bits)
  then have m: "length ?t mod 4 \<noteq> 1" by (metis sextets_mod)
  have "decode_bits 6 base64_alphabet ?t = s"
    unfolding base64_encode_def by (rule decode_encode_bits) (simp_all add: base64_alphabet_ok)
  then show ?thesis using f a m by (simp add: base64_decode_def Let_def del: set_simps)
qed

lemma base64_encode_Nil: "base64_encode s = [] \<longleftrightarrow> s = []"
  using base64_roundtrip [of s] base64_roundtrip [of "[]"] by (auto simp: base64_encode_def encode_bits_def)

section \<open>SHA-1 and HMAC\<close>

text \<open>\<open>binary.BigEndian\<close>: \<open>PutUint64\<close> of a two's complement number, \<open>Uint32\<close> and \<open>PutUint32\<close>.\<close>

definition put_uint64 :: "int \<Rightarrow> string" where
  "put_uint64 n = map (\<lambda>i. char_of (nat (n div 2 ^ (8 * i) mod 256))) [7, 6, 5, 4, 3, 2, 1, 0]"

definition uint32 :: "string \<Rightarrow> int" where
  "uint32 s = foldl (\<lambda>a c. 256 * a + int (byte c)) 0 s"

definition put_uint32 :: "32 word \<Rightarrow> string" where
  "put_uint32 w = map (\<lambda>i. char_of (nat (uint w div 2 ^ (8 * i) mod 256))) [3, 2, 1, 0]"

definition sha1_pad :: "string \<Rightarrow> string" where
  "sha1_pad m = m @ [CHR 0x80] @ replicate ((119 - length m mod 64) mod 64) (CHR 0x00) @ put_uint64 (8 * int (length m))"

text \<open>The message schedule, latest word first.\<close>

fun sha1_extend :: "nat \<Rightarrow> 32 word list \<Rightarrow> 32 word list" where
  "sha1_extend 0 ws = ws"
| "sha1_extend (Suc n) ws = sha1_extend n (word_rotl 1 ((ws ! 2) XOR (ws ! 7) XOR (ws ! 13) XOR (ws ! 15)) # ws)"

definition sha1_schedule :: "string \<Rightarrow> 32 word list" where
  "sha1_schedule block = rev (sha1_extend 64 (rev (map (\<lambda>c. word_of_int (uint32 c)) (chunks 4 block))))"

type_synonym sha1_state = "32 word \<times> 32 word \<times> 32 word \<times> 32 word \<times> 32 word"

definition sha1_mix :: "nat \<Rightarrow> 32 word \<Rightarrow> 32 word \<Rightarrow> 32 word \<Rightarrow> 32 word" where
  "sha1_mix t b c d =
     (if t < 20 then ((b AND c) OR (NOT b AND d)) + 0x5A827999
      else if t < 40 then (b XOR c XOR d) + 0x6ED9EBA1
      else if t < 60 then ((b AND c) OR (b AND d) OR (c AND d)) + 0x8F1BBCDC
      else (b XOR c XOR d) + 0xCA62C1D6)"

definition sha1_round :: "nat \<times> 32 word \<Rightarrow> sha1_state \<Rightarrow> sha1_state" where
  "sha1_round tw st =
     (case tw of (t, w) \<Rightarrow> case st of (a, b, c, d, e) \<Rightarrow>
        (word_rotl 5 a + sha1_mix t b c d + e + w, a, word_rotl 30 b, c, d))"

definition sha1_block :: "sha1_state \<Rightarrow> string \<Rightarrow> sha1_state" where
  "sha1_block st block =
     (case st of (a, b, c, d, e) \<Rightarrow>
      case fold sha1_round (enumerate 0 (sha1_schedule block)) st of (a', b', c', d', e') \<Rightarrow>
        (a + a', b + b', c + c', d + d', e + e'))"

definition sha1 :: "string \<Rightarrow> string" where
  "sha1 m =
     (case foldl sha1_block (0x67452301, 0xEFCDAB89, 0x98BADCFE, 0x10325476, 0xC3D2E1F0) (chunks 64 (sha1_pad m)) of
        (a, b, c, d, e) \<Rightarrow> concat (map put_uint32 [a, b, c, d, e]))"

definition xor_byte :: "nat \<Rightarrow> char \<Rightarrow> char" where
  "xor_byte n c = char_of (byte c XOR n)"

definition hmac_sha1 :: "string \<Rightarrow> string \<Rightarrow> string" where
  "hmac_sha1 key m =
     (let k = (if length key > 64 then sha1 key else key);
          block = k @ replicate (64 - length k) (CHR 0x00) in
      sha1 (map (xor_byte 0x5c) block @ sha1 (map (xor_byte 0x36) block @ m)))"

lemma length_sha1: "length (sha1 m) = 20"
  by (simp add: sha1_def put_uint32_def split: prod.split)

lemma length_hmac: "length (hmac_sha1 k m) = 20"
  by (simp add: hmac_sha1_def Let_def length_sha1)

end
