(* ===== verification/Auth_Totp.thy ===== *)
theory Auth_Totp
  imports Nak_Crypto
begin

text \<open>
  One-time codes and recovery codes (\<open>internal/control/auth/totp.go\<close>), the roles and the check for a
  recent login (\<open>role.go\<close>, \<open>session.go\<close>), and the row of \<open>user_totp\<close> that the login handlers of
  \<open>internal/control/http/login_security.go\<close> update. Times are Unix seconds; random bytes are an argument,
  \<open>None\<close> being a failed read.
\<close>

section \<open>Codes\<close>

definition TOTPStepSeconds :: int where "TOTPStepSeconds = 30"

definition totpDigits :: nat where "totpDigits = 6"

definition TOTPStep :: "int \<Rightarrow> int" where
  "TOTPStep unix = go_div unix TOTPStepSeconds"

text \<open>\<open>& 0x0f\<close> and \<open>& 0x7fffffff\<close> keep the low bits; \<open>%06d\<close> fills with zeros on the left.\<close>

definition TOTPCode :: "string \<Rightarrow> int \<Rightarrow> string" where
  "TOTPCode secret step =
     (let sum = hmac_sha1 secret (put_uint64 step);
          offset = byte (last sum) mod 16;
          v = uint32 (take 4 (drop offset sum)) mod 2 ^ 31;
          d = Itoa (v mod 1000000) in
      replicate (6 - length d) (CHR ''0'') @ d)"

definition VerifyTOTP :: "string \<Rightarrow> string \<Rightarrow> int \<Rightarrow> int \<Rightarrow> int \<times> bool" where
  "VerifyTOTP secret code now lastUsedStep =
     (let c = TrimSpace code; current = TOTPStep now in
      if length c \<noteq> totpDigits then (0, False)
      else case find (\<lambda>step. \<not> step \<le> lastUsedStep \<and> TOTPCode secret step = c) [current, current - 1, current + 1] of
        None \<Rightarrow> (0, False)
      | Some step \<Rightarrow> (step, True))"

section \<open>Presentation of the secret\<close>

function group_loop :: "string \<Rightarrow> string list \<Rightarrow> string list" where
  "group_loop encoded groups =
     (if length encoded > 4 then group_loop (drop 4 encoded) (groups @ [take 4 encoded]) else groups @ [encoded])"
  by pat_completeness auto
termination by (relation "measure (\<lambda>(encoded, groups). length encoded)") auto

declare group_loop.simps [simp del]

definition FormatTOTPSecret :: "string \<Rightarrow> string" where
  "FormatTOTPSecret secret = Join (group_loop (base32_encode secret) []) '' ''"

text \<open>\<open>url.PathEscape\<close> and \<open>url.QueryEscape\<close>\<close>

definition unreserved :: "char \<Rightarrow> bool" where
  "unreserved c \<longleftrightarrow> is_lower c \<or> is_upper c \<or> is_digit c \<or> c \<in> set ''-_.~''"

definition percent :: "char \<Rightarrow> string" where
  "percent c = [CHR ''%'', ''0123456789ABCDEF'' ! (byte c div 16), ''0123456789ABCDEF'' ! (byte c mod 16)]"

definition PathEscape :: "string \<Rightarrow> string" where
  "PathEscape s = concat (map (\<lambda>c. if unreserved c \<or> c \<in> set ''$&+=:@'' then [c] else percent c) s)"

definition QueryEscape :: "string \<Rightarrow> string" where
  "QueryEscape s = concat (map (\<lambda>c. if unreserved c then [c] else if c = CHR '' '' then ''+'' else percent c) s)"

text \<open>\<open>Values.Encode\<close> orders by key.\<close>

definition OTPAuthURI :: "string \<Rightarrow> string \<Rightarrow> string \<Rightarrow> string" where
  "OTPAuthURI issuer account secret =
     ''otpauth://totp/'' @ PathEscape (issuer @ '':'' @ account) @ ''?algorithm=SHA1&digits=6&issuer='' @ QueryEscape issuer @
     ''&period=30&secret='' @ QueryEscape (base32_encode secret)"

section \<open>Recovery codes\<close>

definition recoveryCodeAlphabet :: string where
  "recoveryCodeAlphabet = ''ABCDEFGHJKMNPQRSTVWXYZ0123456789''"

definition recovery_code :: "string \<Rightarrow> string" where
  "recovery_code raw =
     concat (map (\<lambda>(j, c). (if j = 5 then ''-'' else []) @ [recoveryCodeAlphabet ! (byte c mod length recoveryCodeAlphabet)])
       (enumerate 0 raw))"

fun generate_codes :: "nat \<Rightarrow> (nat \<Rightarrow> string option) \<Rightarrow> string list option" where
  "generate_codes 0 read = Some []"
| "generate_codes (Suc n) read =
     (case generate_codes n read of
        None \<Rightarrow> None
      | Some codes \<Rightarrow> map_option (\<lambda>raw. codes @ [recovery_code raw]) (read n))"

definition GenerateRecoveryCodes :: "int \<Rightarrow> (nat \<Rightarrow> string option) \<Rightarrow> string list option" where
  "GenerateRecoveryCodes count read = generate_codes (if count \<le> 0 then 10 else nat count) read"

definition NormalizeRecoveryCode :: "unicode_case \<Rightarrow> string \<Rightarrow> string" where
  "NormalizeRecoveryCode uc code = filter (\<lambda>c. c \<noteq> CHR '' '') (ToUpper uc (TrimSpace code))"

section \<open>Roles and recent logins\<close>

definition Role_Valid :: "string \<Rightarrow> bool" where
  "Role_Valid r \<longleftrightarrow> r = ''admin'' \<or> r = ''reseller'' \<or> r = ''client''"

text \<open>
  Times in nanoseconds, \<open>None\<close> the zero time; \<open>time.Time.Sub\<close> stops at the largest and smallest duration.
\<close>

definition sub_time :: "int \<Rightarrow> int \<Rightarrow> int" where
  "sub_time t u = max (- (2 ^ 63)) (min (2 ^ 63 - 1) (t - u))"

definition RecentlyAuthenticated :: "int \<Rightarrow> int option \<Rightarrow> int \<Rightarrow> bool" where
  "RecentlyAuthenticated now authenticatedAt period =
     (case authenticatedAt of
        None \<Rightarrow> False
      | Some a \<Rightarrow> if period \<le> 0 then False else \<not> a > now \<and> sub_time now a \<le> period)"

section \<open>The stored step\<close>

record user_totp =
  Ut_Secret :: string
  Ut_Confirmed :: bool
  Ut_LastUsedStep :: int

definition upsertProvisionalTOTP :: "string \<Rightarrow> user_totp option \<Rightarrow> user_totp option" where
  "upsertProvisionalTOTP secret row = Some \<lparr>Ut_Secret = secret, Ut_Confirmed = False, Ut_LastUsedStep = 0\<rparr>"

definition confirmTOTP :: "int \<Rightarrow> user_totp option \<Rightarrow> user_totp option" where
  "confirmTOTP step row = map_option (\<lambda>r. r\<lparr>Ut_Confirmed := True, Ut_LastUsedStep := step\<rparr>) row"

definition advanceTOTPStep :: "int \<Rightarrow> user_totp option \<Rightarrow> bool \<times> user_totp option" where
  "advanceTOTPStep step row =
     (case row of
        None \<Rightarrow> (False, None)
      | Some r \<Rightarrow> if Ut_LastUsedStep r < step then (True, Some (r\<lparr>Ut_LastUsedStep := step\<rparr>)) else (False, Some r))"

text \<open>
  Logins in progress: a request reads the row and verifies a code against it, and stores the accepted step
  in a later statement; other requests run in between. \<open>Lg_Accepted\<close> is the history of completed logins.
\<close>

record login_state =
  Lg_Row :: "user_totp option"
  Lg_Pending :: "int list"
  Lg_Accepted :: "int list"

inductive login_step :: "login_state \<Rightarrow> login_state \<Rightarrow> bool" where
  verified: "Lg_Row s = Some r \<Longrightarrow> Ut_Confirmed r \<Longrightarrow> VerifyTOTP (Ut_Secret r) code now (Ut_LastUsedStep r) = (step, True) \<Longrightarrow>
    login_step s (s\<lparr>Lg_Pending := step # Lg_Pending s\<rparr>)"
| completed: "Lg_Pending s = xs @ step # ys \<Longrightarrow> advanceTOTPStep step (Lg_Row s) = (True, row) \<Longrightarrow>
    login_step s (s\<lparr>Lg_Row := row, Lg_Pending := xs @ ys, Lg_Accepted := step # Lg_Accepted s\<rparr>)"
| refused: "Lg_Pending s = xs @ step # ys \<Longrightarrow> advanceTOTPStep step (Lg_Row s) = (False, row) \<Longrightarrow>
    login_step s (s\<lparr>Lg_Row := row, Lg_Pending := xs @ ys\<rparr>)"

inductive_cases login_stepE: "login_step s t"

section \<open>Shape of a code\<close>

lemma nat_string_length: "0 < k \<Longrightarrow> n < 10 ^ k \<Longrightarrow> length (nat_string n) \<le> k"
proof (induction n arbitrary: k rule: nat_string.induct)
  case (1 n)
  show ?case
  proof (cases "n < 10")
    case True
    then show ?thesis using 1(2) by (simp add: nat_string.simps [of n])
  next
    case False
    then obtain j where j: "k = Suc j" "0 < j" using 1(2,3) by (cases k; cases "k - 1") auto
    have "n div 10 < 10 ^ j" using 1(3) j(1) by (simp add: div_less_iff_less_mult mult.commute)
    then show ?thesis using 1(1) [OF False j(2)] j(1) False by (simp add: nat_string.simps [of n])
  qed
qed

lemma TOTPCode_shape: "length (TOTPCode secret step) = 6 \<and> list_all is_digit (TOTPCode secret step)"
proof -
  define v where "v = uint32 (take 4 (drop (byte (last (hmac_sha1 secret (put_uint64 step))) mod 16) (hmac_sha1 secret (put_uint64 step)))) mod 2 ^ 31 mod 1000000"
  have v: "0 \<le> v" "v < 1000000" by (simp_all add: v_def)
  have i: "Itoa v = nat_string (nat v)" using v(1) by (simp add: Itoa_def)
  have "length (Itoa v) \<le> 6" unfolding i by (rule nat_string_length) (use v in auto)
  moreover have "list_all is_digit (Itoa v)" unfolding i by (rule nat_string_digits)
  moreover have "TOTPCode secret step = replicate (6 - length (Itoa v)) (CHR ''0'') @ Itoa v"
    by (simp add: TOTPCode_def Let_def v_def)
  moreover have "is_digit (CHR ''0'')" by (simp add: is_digit_def byte_def)
  ultimately show ?thesis by (auto simp: list_all_iff set_replicate_conv_if)
qed

text \<open>The four bytes that are read lie inside the sum of twenty.\<close>

lemma TOTPCode_in_range: "length (take 4 (drop (byte c mod 16) (hmac_sha1 secret m))) = 4"
proof -
  have "byte c mod 16 \<le> 15" by simp
  then show ?thesis by (simp add: length_hmac)
qed

lemma digit_plain: "is_digit c \<Longrightarrow> is_ascii c \<and> \<not> ascii_space c"
  by (auto simp: is_digit_def is_ascii_def ascii_space_def)

lemma TrimSpace_TOTPCode: "TrimSpace (TOTPCode secret step) = TOTPCode secret step"
proof (rule TrimSpace_plain)
  have "list_all is_digit (TOTPCode secret step)" using TOTPCode_shape by simp
  then show "plain_ends (TOTPCode secret step)"
    by (auto simp: plain_ends_def list_all_iff dest!: digit_plain)
qed

section \<open>Acceptance\<close>

lemma VerifyTOTP_accepts:
  assumes "VerifyTOTP secret code now lastStep = (step, True)"
  shows "lastStep < step \<and> \<bar>step - TOTPStep now\<bar> \<le> 1 \<and> TrimSpace code = TOTPCode secret step"
proof -
  have "find (\<lambda>step. \<not> step \<le> lastStep \<and> TOTPCode secret step = TrimSpace code) [TOTPStep now, TOTPStep now - 1, TOTPStep now + 1] = Some step"
    using assms by (auto simp: VerifyTOTP_def Let_def split: if_split_asm option.split_asm)
  then show ?thesis by (auto split: if_split_asm)
qed

text \<open>The code of any step of the window that was not used yet is accepted.\<close>

lemma VerifyTOTP_complete:
  assumes "\<bar>step - TOTPStep now\<bar> \<le> 1" "lastStep < step"
  shows "\<exists>t. VerifyTOTP secret (TOTPCode secret step) now lastStep = (t, True) \<and> TOTPCode secret t = TOTPCode secret step"
proof -
  let ?P = "\<lambda>s. \<not> s \<le> lastStep \<and> TOTPCode secret s = TOTPCode secret step"
  let ?w = "[TOTPStep now, TOTPStep now - 1, TOTPStep now + 1]"
  have "step = TOTPStep now \<or> step = TOTPStep now - 1 \<or> step = TOTPStep now + 1" using assms(1) by arith
  then have "step \<in> set ?w" by auto
  then have "find ?P ?w \<noteq> None" unfolding find_None_iff not_le [symmetric] using assms(2) [unfolded not_le [symmetric]] by blast
  then obtain t where t: "find ?P ?w = Some t" by blast
  then have "TOTPCode secret t = TOTPCode secret step" unfolding find_Some_iff by blast
  moreover have "VerifyTOTP secret (TOTPCode secret step) now lastStep = (t, True)"
    unfolding VerifyTOTP_def Let_def TrimSpace_TOTPCode using t TOTPCode_shape [of secret step] by (simp add: totpDigits_def)
  ultimately show ?thesis by blast
qed

section \<open>Single use\<close>

definition logins_ok :: "login_state \<Rightarrow> bool" where
  "logins_ok s \<longleftrightarrow> sorted_wrt (>) (Lg_Accepted s) \<and>
     (\<forall>r. Lg_Row s = Some r \<longrightarrow> (\<forall>a \<in> set (Lg_Accepted s). a \<le> Ut_LastUsedStep r)) \<and> (Lg_Row s = None \<longrightarrow> Lg_Accepted s = [])"

lemma advance_True:
  "advanceTOTPStep step row = (True, row') \<Longrightarrow> \<exists>r. row = Some r \<and> Ut_LastUsedStep r < step \<and> row' = Some (r\<lparr>Ut_LastUsedStep := step\<rparr>)"
  by (auto simp: advanceTOTPStep_def split: option.split_asm if_split_asm)

lemma advance_False: "advanceTOTPStep step row = (False, row') \<Longrightarrow> row' = row"
  by (auto simp: advanceTOTPStep_def split: option.split_asm if_split_asm)

lemma login_step_ok: "login_step s t \<Longrightarrow> logins_ok s \<Longrightarrow> logins_ok t"
proof (induction rule: login_step.induct)
  case (verified s r code now step)
  then show ?case by (simp add: logins_ok_def)
next
  case (completed s xs step ys row)
  from advance_True [OF completed.hyps(2)] obtain r where r: "Lg_Row s = Some r" "Ut_LastUsedStep r < step"
    "row = Some (r\<lparr>Ut_LastUsedStep := step\<rparr>)" by blast
  then have "\<forall>a \<in> set (Lg_Accepted s). a < step" using completed.prems by (auto simp: logins_ok_def)
  then show ?case using completed.prems r by (auto simp: logins_ok_def)
next
  case (refused s xs step ys row)
  then show ?case using advance_False [OF refused.hyps(2)] by (simp add: logins_ok_def)
qed

lemma decreasing_distinct: "sorted_wrt (>) (xs :: int list) \<Longrightarrow> distinct xs"
  by (induction xs) auto

text \<open>
  C14. One-time codes are single-use, whatever the interleaving: over any run of login requests for one
  account, where each request verifies a code against the row it read and stores the accepted step
  later, the completed logins have strictly increasing steps, so no step completes two logins; every
  accepted code was that of a step at most one step away from the clock and later than the last one used.
\<close>

theorem totp_single_use:
  assumes "login_step\<^sup>*\<^sup>* s t" "Lg_Accepted s = []"
  shows "sorted_wrt (>) (Lg_Accepted t) \<and> distinct (Lg_Accepted t) \<and>
    (VerifyTOTP secret code now lastStep = (step, True) \<longrightarrow>
      lastStep < step \<and> \<bar>step - TOTPStep now\<bar> \<le> 1 \<and> TrimSpace code = TOTPCode secret step)"
proof -
  have "logins_ok t"
    using assms(1)
  proof (induction rule: rtranclp_induct)
    case base
    then show ?case using assms(2) by (simp add: logins_ok_def)
  next
    case (step y z)
    then show ?case using login_step_ok by blast
  qed
  then have "sorted_wrt (>) (Lg_Accepted t)" by (simp add: logins_ok_def)
  moreover from this have "distinct (Lg_Accepted t)" by (rule decreasing_distinct)
  ultimately show ?thesis using VerifyTOTP_accepts by blast
qed

text \<open>Two requests with the same code: both verify it, one completes.\<close>

definition demo_login :: login_state where
  "demo_login = \<lparr>Lg_Row = Some \<lparr>Ut_Secret = ''12345678901234567890'', Ut_Confirmed = True, Ut_LastUsedStep = 0\<rparr>,
     Lg_Pending = [], Lg_Accepted = []\<rparr>"

theorem totp_single_use_witness:
  "\<exists>step t. login_step\<^sup>*\<^sup>* demo_login t \<and> Lg_Accepted t = [step] \<and> Lg_Pending t = [] \<and> distinct (Lg_Accepted t)"
proof -
  let ?secret = "''12345678901234567890''" let ?r = "\<lparr>Ut_Secret = ?secret, Ut_Confirmed = True, Ut_LastUsedStep = 0\<rparr>"
  have "TOTPStep 59 = 1" by code_simp
  then obtain step where v: "VerifyTOTP ?secret (TOTPCode ?secret 1) 59 0 = (step, True)"
    using VerifyTOTP_complete [of 1 59 0 ?secret] by auto
  have pos: "0 < step" using VerifyTOTP_accepts [OF v] by simp
  let ?s1 = "demo_login\<lparr>Lg_Pending := [step]\<rparr>" let ?s2 = "demo_login\<lparr>Lg_Pending := [step, step]\<rparr>"
  let ?s3 = "demo_login\<lparr>Lg_Row := Some (?r\<lparr>Ut_LastUsedStep := step\<rparr>), Lg_Pending := [step], Lg_Accepted := [step]\<rparr>"
  let ?s4 = "?s3\<lparr>Lg_Pending := []\<rparr>"
  have 1: "login_step demo_login ?s1" using login_step.verified [of demo_login ?r _ 59 step] v by (simp add: demo_login_def)
  have 2: "login_step ?s1 ?s2" using login_step.verified [of ?s1 ?r _ 59 step] v by (simp add: demo_login_def)
  have 3: "login_step ?s2 ?s3"
    using login_step.completed [of ?s2 "[]" step "[step]"] pos by (simp add: demo_login_def advanceTOTPStep_def)
  have 4: "login_step ?s3 ?s4"
    using login_step.refused [of ?s3 "[]" step "[]"] by (simp add: demo_login_def advanceTOTPStep_def)
  have run: "login_step\<^sup>*\<^sup>* demo_login ?s4" using 1 2 3 4 by (meson rtranclp.rtrancl_into_rtrancl rtranclp.rtrancl_refl)
  have "Lg_Accepted demo_login = []" by (simp add: demo_login_def)
  then have "distinct (Lg_Accepted ?s4)" using totp_single_use [OF run] by blast
  then show ?thesis using run by (intro exI [of _ step] exI [of _ ?s4]) simp
qed

section \<open>The secret as it is shown\<close>

lemma group_loop_chunks: "group_loop e gs = gs @ (if e = [] then [[]] else chunks 4 e)"
proof (induction e gs rule: group_loop.induct)
  case (1 e gs)
  show ?case
  proof (cases "4 < length e")
    case True
    then have "drop 4 e \<noteq> []" "e \<noteq> []" by auto
    then show ?thesis using 1 [OF True] True by (subst group_loop.simps) (simp add: chunks_step)
  next
    case False
    then show ?thesis by (subst group_loop.simps) (simp add: chunks_short)
  qed
qed

lemma base32_no_space: "CHR '' '' \<notin> set (base32_encode s)"
proof -
  have "set (base32_encode s) \<subseteq> set base32_alphabet"
    using encode_bits_set [of 5 base32_alphabet s] base32_alphabet_ok(2) by (simp add: base32_encode_def)
  moreover have "CHR '' '' \<notin> set base32_alphabet" by code_simp
  ultimately show ?thesis by blast
qed

lemma filter_Join: "c \<notin> set (concat ps) \<Longrightarrow> filter (\<lambda>x. x \<noteq> c) (Join ps [c]) = concat ps"
  by (induction ps "[c]" rule: Join.induct) (auto simp: filter_id_conv)

text \<open>
  C39. Showing a secret terminates with its groups of four: the loop leaves one group per four characters of
  the base 32 text (one empty group for an empty secret), splitting the shown text at the spaces gives the
  groups back, and the secret can be read from what is shown.
\<close>

theorem FormatTOTPSecret_groups:
  "length (group_loop (base32_encode secret) []) = max 1 ((length (base32_encode secret) + 3) div 4) \<and>
   Split (FormatTOTPSecret secret) (CHR '' '') = group_loop (base32_encode secret) [] \<and>
   list_all (\<lambda>g. length g \<le> 4) (group_loop (base32_encode secret) []) \<and>
   decode_bits 5 base32_alphabet (filter (\<lambda>c. c \<noteq> CHR '' '') (FormatTOTPSecret secret)) = secret"
proof -
  let ?e = "base32_encode secret" let ?gs = "group_loop ?e []"
  have gs: "?gs = (if ?e = [] then [[]] else chunks 4 ?e)" by (simp add: group_loop_chunks)
  have cat: "concat ?gs = ?e" unfolding gs by (simp add: concat_chunks)
  have sp: "CHR '' '' \<notin> set (concat ?gs)" unfolding cat by (rule base32_no_space)
  have "length ?gs = max 1 ((length ?e + 3) div 4)"
    unfolding gs by (cases ?e) (simp_all add: length_chunks)
  moreover have "Split (FormatTOTPSecret secret) (CHR '' '') = ?gs"
    unfolding FormatTOTPSecret_def by (rule Split_Join) (use sp in \<open>auto simp: gs chunks_step\<close>)
  moreover have "list_all (\<lambda>g. length g \<le> 4) ?gs" unfolding gs using chunks_length [of _ 4 ?e] by (auto simp: list_all_iff)
  moreover have "filter (\<lambda>c. c \<noteq> CHR '' '') (FormatTOTPSecret secret) = ?e"
    using filter_Join [OF sp] cat by (simp add: FormatTOTPSecret_def)
  moreover have "decode_bits 5 base32_alphabet ?e = secret"
    unfolding base32_encode_def by (rule decode_encode_bits) (simp_all add: base32_alphabet_ok)
  ultimately show ?thesis by simp
qed

section \<open>Recovery codes\<close>

lemma recovery_alphabet_ok: "length recoveryCodeAlphabet = 32"
    "list_all (\<lambda>c. (is_upper c \<or> is_digit c) \<and> upper_char (lower_char c) = c) recoveryCodeAlphabet"
  by code_simp+

lemma recovery_chars: "set (recovery_code raw) \<subseteq> insert (CHR ''-'') (set recoveryCodeAlphabet)"
proof -
  have "recoveryCodeAlphabet ! (byte c mod length recoveryCodeAlphabet) \<in> set recoveryCodeAlphabet" for c
    by (rule nth_mem) (simp add: recovery_alphabet_ok)
  then show ?thesis by (auto simp: recovery_code_def split: if_split_asm)
qed

lemma recovery_char_shape: "c \<in> set (recovery_code raw) \<Longrightarrow>
    is_ascii c \<and> \<not> ascii_space c \<and> c \<noteq> CHR '' '' \<and> \<not> is_lower c \<and> is_ascii (lower_char c) \<and> \<not> ascii_space (lower_char c) \<and>
    upper_char (lower_char c) = c"
proof -
  assume "c \<in> set (recovery_code raw)"
  then have "c = CHR ''-'' \<or> (is_upper c \<or> is_digit c) \<and> upper_char (lower_char c) = c"
    using recovery_chars [of raw] recovery_alphabet_ok(2) by (auto simp: list_all_iff)
  then show ?thesis
    by (elim disjE) (simp_all add: is_upper_def is_digit_def is_ascii_def ascii_space_def is_lower_def lower_char_def upper_char_def byte_def
        byte_char_of [unfolded byte_def] | auto)+
qed

text \<open>A recovery code, as it was shown, normalises to itself.\<close>

lemma NormalizeRecoveryCode_code:
  "NormalizeRecoveryCode uc (recovery_code raw) = recovery_code raw"
proof -
  let ?c = "recovery_code raw"
  have t: "TrimSpace ?c = ?c" by (rule TrimSpace_plain) (use recovery_char_shape [of "hd ?c" raw] recovery_char_shape [of "last ?c" raw] in \<open>simp add: plain_ends_def\<close>)
  have "ToUpper uc ?c = ?c" by (rule ToUpper_id) (use recovery_char_shape in \<open>auto simp: list_all_iff\<close>)
  then show ?thesis using recovery_char_shape [of _ raw] by (auto simp: NormalizeRecoveryCode_def t filter_id_conv)
qed

end
