(* ===== verification/Auth_Password.thy ===== *)
theory Auth_Password
  imports Nak_Crypto
begin

text \<open>
  Password hashes (\<open>internal/control/auth/password.go\<close>). The key derivation of the package
  \<open>golang.org/x/crypto/argon2\<close> is a parameter: a function of password, salt, time, memory, threads and
  key length. Random bytes are an argument. The parameters are numbers of 32 (threads: 8) bits; where the
  code converts a length to \<open>uint32\<close>, the reduction is written out.
\<close>

type_synonym argon2 = "string \<Rightarrow> string \<Rightarrow> int \<Rightarrow> int \<Rightarrow> int \<Rightarrow> int \<Rightarrow> string"

record PasswordParams =
  Pw_Memory :: int
  Pw_Time :: int
  Pw_Threads :: int
  Pw_SaltLength :: int
  Pw_KeyLength :: int

definition DefaultPasswordParams :: PasswordParams where
  "DefaultPasswordParams = \<lparr>Pw_Memory = 64 * 1024, Pw_Time = 3, Pw_Threads = 1, Pw_SaltLength = 16, Pw_KeyLength = 32\<rparr>"

datatype password_error =
    ParamsZero
  | WorkParamsTooLarge
  | FieldTooLong
  | SaltReadFailed
  | BadHashFormat
  | BadVersionField
  | BadVersionNumber
  | UnsupportedVersion int
  | BadParamField
  | DuplicateParam string
  | BadParamNumber string
  | ThreadsOutOfRange
  | UnknownParam string
  | BadSalt
  | BadKey
  | EmptySaltOrKey

definition validatePasswordParams :: "PasswordParams \<Rightarrow> password_error option" where
  "validatePasswordParams p =
     first_error
      [fail_if (Pw_Memory p = 0 \<or> Pw_Time p = 0 \<or> Pw_Threads p = 0 \<or> Pw_SaltLength p = 0 \<or> Pw_KeyLength p = 0) ParamsZero,
       fail_if (Pw_Memory p > 256 * 1024 \<or> Pw_Time p > 10 \<or> Pw_Threads p > 16) WorkParamsTooLarge,
       fail_if (Pw_SaltLength p > 1024 \<or> Pw_KeyLength p > 1024) FieldTooLong]"

definition encodePHC :: "PasswordParams \<Rightarrow> string \<Rightarrow> string \<Rightarrow> string" where
  "encodePHC p salt key =
     ''$argon2id$v='' @ Itoa 19 @ ''$m='' @ Itoa (Pw_Memory p) @ '',t='' @ Itoa (Pw_Time p) @ '',p='' @ Itoa (Pw_Threads p) @
     ''$'' @ base64_encode salt @ ''$'' @ base64_encode key"

definition HashPassword :: "argon2 \<Rightarrow> string option \<Rightarrow> string \<Rightarrow> PasswordParams \<Rightarrow> password_error + string" where
  "HashPassword argon2 random password p =
     (case validatePasswordParams p of
        Some e \<Rightarrow> Inl e
      | None \<Rightarrow>
          (case random of
             None \<Rightarrow> Inl SaltReadFailed
           | Some salt \<Rightarrow>
               Inr (encodePHC p salt (argon2 password salt (Pw_Time p) (Pw_Memory p) (Pw_Threads p) (Pw_KeyLength p)))))"

section \<open>Parsing\<close>

text \<open>\<open>strconv.Atoi\<close> and \<open>strconv.ParseUint(_, 10, 32)\<close>\<close>

definition digits_only :: "string \<Rightarrow> bool" where
  "digits_only s \<longleftrightarrow> s \<noteq> [] \<and> list_all is_digit s"

definition Atoi :: "string \<Rightarrow> int option" where
  "Atoi s =
     (let body = (if s \<noteq> [] \<and> (hd s = CHR ''-'' \<or> hd s = CHR ''+'') then tl s else s);
          n = int (dec_value body);
          v = (if s \<noteq> [] \<and> hd s = CHR ''-'' then - n else n) in
      if digits_only body \<and> is_int64 v then Some v else None)"

definition ParseUint32 :: "string \<Rightarrow> int option" where
  "ParseUint32 s = (if digits_only s \<and> dec_value s < 2 ^ 32 then Some (int (dec_value s)) else None)"

definition parseVersion :: "string \<Rightarrow> password_error + int" where
  "parseVersion field =
     (if \<not> HasPrefix field ''v='' then Inl BadVersionField
      else case Atoi (TrimPrefix field ''v='') of None \<Rightarrow> Inl BadVersionNumber | Some v \<Rightarrow> Inr v)"

text \<open>\<open>strings.Cut\<close> at a one-byte separator\<close>

definition cut :: "char \<Rightarrow> string \<Rightarrow> (string \<times> string) option" where
  "cut c s = (if c \<in> set s then Some (takeWhile (\<lambda>x. x \<noteq> c) s, tl (dropWhile (\<lambda>x. x \<noteq> c) s)) else None)"

definition set_param :: "string \<Rightarrow> int \<Rightarrow> PasswordParams \<Rightarrow> password_error + PasswordParams" where
  "set_param key v p =
     (if key = ''m'' then Inr (p\<lparr>Pw_Memory := v\<rparr>)
      else if key = ''t'' then Inr (p\<lparr>Pw_Time := v\<rparr>)
      else if key = ''p'' then (if v > 255 then Inl ThreadsOutOfRange else Inr (p\<lparr>Pw_Threads := v\<rparr>))
      else Inl (UnknownParam key))"

fun params_loop :: "string list \<Rightarrow> string list \<Rightarrow> PasswordParams \<Rightarrow> password_error + PasswordParams" where
  "params_loop [] seen p = Inr p"
| "params_loop (part # parts) seen p =
     (case cut (CHR ''='') part of
        None \<Rightarrow> Inl BadParamField
      | Some (key, v) \<Rightarrow>
          if key \<in> set seen then Inl (DuplicateParam key)
          else case ParseUint32 v of
            None \<Rightarrow> Inl (BadParamNumber key)
          | Some n \<Rightarrow> (case set_param key n p of Inl e \<Rightarrow> Inl e | Inr q \<Rightarrow> params_loop parts (key # seen) q))"

definition zero_params :: PasswordParams where
  "zero_params = \<lparr>Pw_Memory = 0, Pw_Time = 0, Pw_Threads = 0, Pw_SaltLength = 0, Pw_KeyLength = 0\<rparr>"

definition parseParams :: "string \<Rightarrow> password_error + PasswordParams" where
  "parseParams field =
     (case params_loop (Split field (CHR '','')) [] zero_params of
        Inl e \<Rightarrow> Inl e
      | Inr p \<Rightarrow> if Pw_Memory p = 0 \<or> Pw_Time p = 0 \<or> Pw_Threads p = 0 then Inl ParamsZero else Inr p)"

definition decode_fields :: "string \<Rightarrow> string \<Rightarrow> PasswordParams \<Rightarrow> password_error + PasswordParams \<times> string \<times> string" where
  "decode_fields s k p =
     (case base64_decode s of
        None \<Rightarrow> Inl BadSalt
      | Some salt \<Rightarrow>
          (case base64_decode k of
             None \<Rightarrow> Inl BadKey
           | Some key \<Rightarrow>
               if salt = [] \<or> key = [] then Inl EmptySaltOrKey
               else
                 let q = p\<lparr>Pw_SaltLength := int (length salt) mod 2 ^ 32, Pw_KeyLength := int (length key) mod 2 ^ 32\<rparr> in
                 case validatePasswordParams q of Some e \<Rightarrow> Inl e | None \<Rightarrow> Inr (q, salt, key)))"

definition decodePHC :: "string \<Rightarrow> password_error + PasswordParams \<times> string \<times> string" where
  "decodePHC encoded =
     (case Split encoded (CHR ''$'') of
        [a, b, c, d, e, f] \<Rightarrow>
          if a \<noteq> [] \<or> b \<noteq> ''argon2id'' then Inl BadHashFormat
          else (case parseVersion c of
            Inl err \<Rightarrow> Inl err
          | Inr v \<Rightarrow>
              if v \<noteq> 19 then Inl (UnsupportedVersion v)
              else (case parseParams d of Inl err \<Rightarrow> Inl err | Inr p \<Rightarrow> decode_fields e f p))
      | _ \<Rightarrow> Inl BadHashFormat)"

definition VerifyPassword :: "argon2 \<Rightarrow> string \<Rightarrow> string \<Rightarrow> password_error + bool" where
  "VerifyPassword argon2 password encoded =
     (case decodePHC encoded of
        Inl e \<Rightarrow> Inl e
      | Inr (p, salt, key) \<Rightarrow>
          Inr (argon2 password salt (Pw_Time p) (Pw_Memory p) (Pw_Threads p) (int (length key) mod 2 ^ 32) = key))"

section \<open>Round trip\<close>

lemma digits_only_nat_string [simp]: "digits_only (nat_string n)"
  by (simp add: digits_only_def nat_string_digits)

lemma ParseUint32_Itoa: "0 \<le> n \<Longrightarrow> n < 2 ^ 32 \<Longrightarrow> ParseUint32 (Itoa n) = Some n"
  by (simp add: ParseUint32_def Itoa_def dec_value_nat_string)

lemma Atoi_nat_string:
  assumes "n < 2 ^ 63" shows "Atoi (nat_string n) = Some (int n)"
proof -
  obtain c cs where s: "nat_string n = c # cs" by (cases "nat_string n") auto
  have "is_digit c" using nat_string_digits [of n] s by simp
  then have "c \<noteq> CHR ''-''" "c \<noteq> CHR ''+''" by (auto simp: is_digit_def byte_def)
  then show ?thesis
    using assms digits_only_nat_string [of n] dec_value_nat_string [of n] by (simp add: Atoi_def s Let_def is_int64_def)
qed

lemma cut_append: "c \<notin> set k \<Longrightarrow> cut c (k @ c # v) = Some (k, v)"
  by (simp add: cut_def takeWhile_append dropWhile_append takeWhile_eq_all_conv)

lemma Itoa_set: "0 \<le> n \<Longrightarrow> c \<in> set (Itoa n) \<Longrightarrow> is_digit c"
  using nat_string_digits [of "nat n"] by (simp add: Itoa_def list_all_iff)

lemma not_digits: "\<not> is_digit CHR '',''" "\<not> is_digit CHR ''$''" "\<not> is_digit CHR ''=''"
  by (simp_all add: is_digit_def byte_def)

lemma Itoa_separators [simp]:
  "0 \<le> n \<Longrightarrow> CHR '','' \<notin> set (Itoa n)" "0 \<le> n \<Longrightarrow> CHR ''$'' \<notin> set (Itoa n)" "0 \<le> n \<Longrightarrow> CHR ''='' \<notin> set (Itoa n)"
  using Itoa_set not_digits by blast+

lemma parseParams_encoded:
  assumes "0 < m" "m < 2 ^ 32" "0 < t" "t < 2 ^ 32" "0 < h" "h < 256"
  shows "parseParams (''m='' @ Itoa m @ '',t='' @ Itoa t @ '',p='' @ Itoa h) = Inr (zero_params\<lparr>Pw_Memory := m, Pw_Time := t, Pw_Threads := h\<rparr>)"
proof -
  have "''m='' @ Itoa m @ '',t='' @ Itoa t @ '',p='' @ Itoa h = Join [''m='' @ Itoa m, ''t='' @ Itoa t, ''p='' @ Itoa h] [CHR '','']"
    by simp
  moreover have "Split (Join [''m='' @ Itoa m, ''t='' @ Itoa t, ''p='' @ Itoa h] [CHR '','']) (CHR '','') =
    [''m='' @ Itoa m, ''t='' @ Itoa t, ''p='' @ Itoa h]"
    by (rule Split_Join) (use assms in auto)
  moreover have "cut (CHR ''='') (''m='' @ Itoa m) = Some (''m'', Itoa m)" "cut (CHR ''='') (''t='' @ Itoa t) = Some (''t'', Itoa t)"
    "cut (CHR ''='') (''p='' @ Itoa h) = Some (''p'', Itoa h)"
    using cut_append [of "CHR ''=''" "''m''" "Itoa m"] cut_append [of "CHR ''=''" "''t''" "Itoa t"] cut_append [of "CHR ''=''" "''p''" "Itoa h"]
    by simp_all
  ultimately show ?thesis
    using assms by (simp add: parseParams_def ParseUint32_Itoa set_param_def zero_params_def)
qed

text \<open>Parameters that passed the validation, as unsigned numbers.\<close>

definition unsigned_params :: "PasswordParams \<Rightarrow> bool" where
  "unsigned_params p \<longleftrightarrow> 0 \<le> Pw_Memory p \<and> 0 \<le> Pw_Time p \<and> 0 \<le> Pw_Threads p \<and> 0 \<le> Pw_SaltLength p \<and> 0 \<le> Pw_KeyLength p"

lemma validated_ranges:
  assumes "validatePasswordParams p = None" "unsigned_params p"
  shows "0 < Pw_Memory p \<and> Pw_Memory p \<le> 262144 \<and> 0 < Pw_Time p \<and> Pw_Time p \<le> 10 \<and> 0 < Pw_Threads p \<and> Pw_Threads p \<le> 16 \<and>
    0 < Pw_SaltLength p \<and> Pw_SaltLength p \<le> 1024 \<and> 0 < Pw_KeyLength p \<and> Pw_KeyLength p \<le> 1024"
  using assms by (auto simp: validatePasswordParams_def unsigned_params_def fail_if_def split: if_split_asm)

lemma Split_encodePHC:
  assumes "0 \<le> Pw_Memory p" "0 \<le> Pw_Time p" "0 \<le> Pw_Threads p"
  shows "Split (encodePHC p salt key) (CHR ''$'') =
    [[], ''argon2id'', ''v='' @ Itoa 19, ''m='' @ Itoa (Pw_Memory p) @ '',t='' @ Itoa (Pw_Time p) @ '',p='' @ Itoa (Pw_Threads p),
     base64_encode salt, base64_encode key]" (is "_ = ?parts")
proof -
  have "encodePHC p salt key = Join ?parts [CHR ''$'']" by (simp add: encodePHC_def)
  moreover have "CHR ''$'' \<notin> set (base64_encode salt)" "CHR ''$'' \<notin> set (base64_encode key)" using base64_encode_clean by blast+
  then have "Split (Join ?parts [CHR ''$'']) (CHR ''$'') = ?parts"
    by (intro Split_Join) (use assms in auto)
  ultimately show ?thesis by simp
qed

lemma decodePHC_encodePHC:
  assumes v: "validatePasswordParams p = None" "unsigned_params p"
    and s: "int (length salt) = Pw_SaltLength p" and k: "int (length key) = Pw_KeyLength p"
  shows "decodePHC (encodePHC p salt key) = Inr (p, salt, key)"
proof -
  note r = validated_ranges [OF v]
  have ne: "salt \<noteq> []" "key \<noteq> []" using r s k by auto
  have ver: "parseVersion (''v='' @ Itoa 19) = Inr 19"
  proof -
    have "Atoi (Itoa 19) = Some 19" using Atoi_nat_string [of 19] by (simp add: Itoa_def)
    then show ?thesis by (simp add: parseVersion_def HasPrefix_def TrimPrefix_def)
  qed
  have par: "parseParams (''m='' @ Itoa (Pw_Memory p) @ '',t='' @ Itoa (Pw_Time p) @ '',p='' @ Itoa (Pw_Threads p)) =
      Inr (zero_params\<lparr>Pw_Memory := Pw_Memory p, Pw_Time := Pw_Time p, Pw_Threads := Pw_Threads p\<rparr>)"
    by (rule parseParams_encoded) (use r in auto)
  have q: "zero_params\<lparr>Pw_Memory := Pw_Memory p, Pw_Time := Pw_Time p, Pw_Threads := Pw_Threads p,
      Pw_SaltLength := int (length salt) mod 2 ^ 32, Pw_KeyLength := int (length key) mod 2 ^ 32\<rparr> = p"
    using r s k by (simp add: zero_params_def)
  have "decode_fields (base64_encode salt) (base64_encode key)
      (zero_params\<lparr>Pw_Memory := Pw_Memory p, Pw_Time := Pw_Time p, Pw_Threads := Pw_Threads p\<rparr>) = Inr (p, salt, key)"
    using ne v(1) q by (simp add: decode_fields_def base64_roundtrip Let_def)
  then show ?thesis
    using r Split_encodePHC [of p salt key] ver par by (simp add: decodePHC_def)
qed

text \<open>
  C17. A stored password verifies: the hash of a password, with any accepted parameters and any salt of the
  requested length, decodes without error and verifies that password; another password verifies exactly
  when the key derivation gives it the same key.
\<close>

theorem VerifyPassword_HashPassword:
  assumes h: "HashPassword argon2 (Some salt) password p = Inr h" and u: "unsigned_params p"
    and s: "int (length salt) = Pw_SaltLength p" and k: "\<And>pw sa t m th n. 0 \<le> n \<Longrightarrow> int (length (argon2 pw sa t m th n)) = n"
  shows "VerifyPassword argon2 password h = Inr True \<and>
    VerifyPassword argon2 other h =
      Inr (argon2 other salt (Pw_Time p) (Pw_Memory p) (Pw_Threads p) (Pw_KeyLength p) =
           argon2 password salt (Pw_Time p) (Pw_Memory p) (Pw_Threads p) (Pw_KeyLength p))"
proof -
  let ?key = "argon2 password salt (Pw_Time p) (Pw_Memory p) (Pw_Threads p) (Pw_KeyLength p)"
  have v: "validatePasswordParams p = None" and e: "h = encodePHC p salt ?key"
    using h by (auto simp: HashPassword_def split: option.split_asm)
  note r = validated_ranges [OF v u]
  have l: "int (length ?key) = Pw_KeyLength p" using k r by simp
  have "decodePHC h = Inr (p, salt, ?key)" unfolding e by (rule decodePHC_encodePHC [OF v u s l])
  moreover have "int (length ?key) mod 2 ^ 32 = Pw_KeyLength p" using l r by simp
  ultimately show ?thesis by (simp add: VerifyPassword_def)
qed

theorem VerifyPassword_HashPassword_witness:
  "\<exists>h. HashPassword (\<lambda>pw sa t m th n. take (nat n) (pw @ replicate (nat n) CHR ''x'')) (Some (replicate 16 CHR ''s'')) ''secret'' DefaultPasswordParams = Inr h \<and>
     VerifyPassword (\<lambda>pw sa t m th n. take (nat n) (pw @ replicate (nat n) CHR ''x'')) ''secret'' h = Inr True"
proof -
  let ?a = "\<lambda>(pw :: string) (sa :: string) (t :: int) (m :: int) (th :: int) (n :: int). take (nat n) (pw @ replicate (nat n) CHR ''x'')"
  have v: "validatePasswordParams DefaultPasswordParams = None" by code_simp
  then obtain h where h: "HashPassword ?a (Some (replicate 16 CHR ''s'')) ''secret'' DefaultPasswordParams = Inr h"
    by (simp add: HashPassword_def)
  have "VerifyPassword ?a ''secret'' h = Inr True"
    using VerifyPassword_HashPassword [OF h, of "''other''"] by (simp add: unsigned_params_def DefaultPasswordParams_def)
  then show ?thesis using h by blast
qed

end
