(* ===== verification/Auth_Session.thy ===== *)
theory Auth_Session
  imports Auth_Totp
begin

unbundle bit_operations_syntax

text \<open>
  Login sessions: \<open>SessionManager\<close> of \<open>internal/control/auth/session.go\<close> over the store of
  \<open>internal/control/store/authstore.go\<close> and the queries of \<open>users.sql.go\<close>. The browser holds a random token, the
  table its SHA-256 hash. \<open>crypto/sha256\<close> is defined here; a read of \<open>n\<close> random bytes is \<open>random n\<close>, \<open>None\<close> when it
  fails. The clock of the database and that of the manager are both \<open>now\<close>, in nanoseconds; \<open>lower\<close> is the function of
  the database. A query that fails for another reason than a missing row or a foreign key is not modelled. The store of
  the panel has \<open>MarkSessionReauthenticated\<close>, so that \<open>ErrSessionSecurityUnavailable\<close> is not returned.
\<close>

section \<open>SHA-256\<close>

definition sha256_keys :: "32 word list" where
  "sha256_keys =
     [0x428A2F98, 0x71374491, 0xB5C0FBCF, 0xE9B5DBA5, 0x3956C25B, 0x59F111F1, 0x923F82A4, 0xAB1C5ED5,
      0xD807AA98, 0x12835B01, 0x243185BE, 0x550C7DC3, 0x72BE5D74, 0x80DEB1FE, 0x9BDC06A7, 0xC19BF174,
      0xE49B69C1, 0xEFBE4786, 0x0FC19DC6, 0x240CA1CC, 0x2DE92C6F, 0x4A7484AA, 0x5CB0A9DC, 0x76F988DA,
      0x983E5152, 0xA831C66D, 0xB00327C8, 0xBF597FC7, 0xC6E00BF3, 0xD5A79147, 0x06CA6351, 0x14292967,
      0x27B70A85, 0x2E1B2138, 0x4D2C6DFC, 0x53380D13, 0x650A7354, 0x766A0ABB, 0x81C2C92E, 0x92722C85,
      0xA2BFE8A1, 0xA81A664B, 0xC24B8B70, 0xC76C51A3, 0xD192E819, 0xD6990624, 0xF40E3585, 0x106AA070,
      0x19A4C116, 0x1E376C08, 0x2748774C, 0x34B0BCB5, 0x391C0CB3, 0x4ED8AA4A, 0x5B9CCA4F, 0x682E6FF3,
      0x748F82EE, 0x78A5636F, 0x84C87814, 0x8CC70208, 0x90BEFFFA, 0xA4506CEB, 0xBEF9A3F7, 0xC67178F2]"

fun sha256_extend :: "nat \<Rightarrow> 32 word list \<Rightarrow> 32 word list" where
  "sha256_extend 0 ws = ws"
| "sha256_extend (Suc n) ws =
     sha256_extend n
       (((word_rotr 17 (ws ! 1) XOR word_rotr 19 (ws ! 1) XOR drop_bit 10 (ws ! 1)) + ws ! 6 +
        (word_rotr 7 (ws ! 14) XOR word_rotr 18 (ws ! 14) XOR drop_bit 3 (ws ! 14)) + ws ! 15) # ws)"

definition sha256_schedule :: "string \<Rightarrow> 32 word list" where
  "sha256_schedule block = rev (sha256_extend 48 (rev (map (\<lambda>c. word_of_int (uint32 c)) (chunks 4 block))))"

text \<open>One round on the eight working variables \<open>a\<close> to \<open>h\<close>.\<close>

definition sha256_round :: "32 word \<times> 32 word \<Rightarrow> 32 word list \<Rightarrow> 32 word list" where
  "sha256_round kw st =
     (case st of [a, b, c, d, e, f, g, h] \<Rightarrow>
        (let t1 = h + (word_rotr 6 e XOR word_rotr 11 e XOR word_rotr 25 e) + ((e AND f) XOR (NOT e AND g)) + fst kw + snd kw;
             t2 = (word_rotr 2 a XOR word_rotr 13 a XOR word_rotr 22 a) + ((a AND b) XOR (a AND c) XOR (b AND c))
         in [t1 + t2, a, b, c, d + t1, e, f, g])
      | _ \<Rightarrow> st)"

definition sha256_block :: "32 word list \<Rightarrow> string \<Rightarrow> 32 word list" where
  "sha256_block st block = map2 (+) st (fold sha256_round (zip sha256_keys (sha256_schedule block)) st)"

definition sha256 :: "string \<Rightarrow> string" where
  "sha256 m =
     concat (map put_uint32
       (foldl sha256_block [0x6A09E667, 0xBB67AE85, 0x3C6EF372, 0xA54FF53A, 0x510E527F, 0x9B05688C, 0x1F83D9AB, 0x5BE0CD19]
         (chunks 64 (sha1_pad m))))"

definition hex_encode :: "string \<Rightarrow> string" where
  "hex_encode s = concat (map (\<lambda>c. [''0123456789abcdef'' ! (byte c div 16), ''0123456789abcdef'' ! (byte c mod 16)]) s)"

definition TokenHash :: "string \<Rightarrow> string" where
  "TokenHash token = hex_encode (sha256 token)"

definition randomToken :: "(nat \<Rightarrow> string option) \<Rightarrow> int \<Rightarrow> string option" where
  "randomToken random n = map_option (encode_bits 6 base64url_alphabet) (random (nat n))"

section \<open>The store\<close>

text \<open>The numeric id of a session and the reason of a revocation, which no query here reads, are left out.\<close>

record SessionRow =
  Ss_TokenHash :: string
  Ss_UserID :: int
  Ss_ExpiresAt :: int
  Ss_IPAddress :: string
  Ss_UserAgent :: string
  Ss_CreatedAt :: int
  Ss_AuthenticatedAt :: int
  Ss_LastSeenAt :: int
  Ss_Revoked :: bool

record UserRow =
  Uu_ID :: int
  Uu_Email :: string
  Uu_PasswordHash :: string
  Uu_Role :: string
  Uu_LoginDisabled :: bool

text \<open>Customers and resellers with their login and status; the active allocations of resellers.\<close>

record auth_db =
  A_Users :: "UserRow list"
  A_Sessions :: "SessionRow list"
  A_Customers :: "(int option \<times> string) list"
  A_Resellers :: "(int \<times> int \<times> string) list"
  A_ResellerSubscriptions :: "(int \<times> string) list"

record SessionMeta =
  Sm_IPAddress :: string
  Sm_UserAgent :: string

record SessionUser =
  Se_ID :: int
  Se_Email :: string
  Se_Role :: string
  Se_AuthenticatedAt :: int
  Se_LastSeenAt :: int

record User =
  Usr_ID :: int
  Usr_Email :: string
  Usr_PasswordHash :: string
  Usr_Role :: string

datatype session_error =
    ErrSessionNotFound
  | ErrUserNotFound
  | InvalidRole string
  | SessionForeignKey
  | NoRandomness

text \<open>The condition that both queries put on a user.\<close>

definition may_login :: "auth_db \<Rightarrow> UserRow \<Rightarrow> bool" where
  "may_login db u \<longleftrightarrow>
     \<not> Uu_LoginDisabled u \<and>
     (Uu_Role u = ''admin'' \<or>
      Uu_Role u = ''client'' \<and> list_ex (\<lambda>(login, status). login = Some (Uu_ID u) \<and> status = ''active'') (A_Customers db) \<or>
      Uu_Role u = ''reseller'' \<and>
        list_ex (\<lambda>(r, login, status). login = Uu_ID u \<and> status = ''active'' \<and>
          list_ex (\<lambda>(r', status'). r' = r \<and> status' = ''active'') (A_ResellerSubscriptions db)) (A_Resellers db))"

definition FindUserByEmail :: "(string \<Rightarrow> string) \<Rightarrow> string \<Rightarrow> auth_db \<Rightarrow> session_error + User" where
  "FindUserByEmail lower email db =
     (case find (\<lambda>u. lower (Uu_Email u) = lower email \<and> may_login db u) (A_Users db) of
        None \<Rightarrow> Inl ErrUserNotFound
      | Some u \<Rightarrow>
          if \<not> Role_Valid (Uu_Role u) then Inl (InvalidRole (Uu_Role u))
          else Inr \<lparr>Usr_ID = Uu_ID u, Usr_Email = Uu_Email u, Usr_PasswordHash = Uu_PasswordHash u, Usr_Role = Uu_Role u\<rparr>)"

definition CreateSession :: "string \<Rightarrow> int \<Rightarrow> int \<Rightarrow> SessionMeta \<Rightarrow> int \<Rightarrow> auth_db \<Rightarrow> session_error + auth_db" where
  "CreateSession hash user expires meta now db =
     (if \<not> list_ex (\<lambda>u. Uu_ID u = user) (A_Users db) then Inl SessionForeignKey
      else let row = \<lparr>Ss_TokenHash = hash, Ss_UserID = user, Ss_ExpiresAt = expires, Ss_IPAddress = Sm_IPAddress meta,
                      Ss_UserAgent = Sm_UserAgent meta, Ss_CreatedAt = now, Ss_AuthenticatedAt = now, Ss_LastSeenAt = now,
                      Ss_Revoked = False\<rparr> in
        Inr (db\<lparr>A_Sessions :=
          (if list_ex (\<lambda>s. Ss_TokenHash s = hash) (A_Sessions db)
           then map (\<lambda>s. if Ss_TokenHash s = hash then row else s) (A_Sessions db) else A_Sessions db @ [row])\<rparr>))"

definition session_user :: "string \<Rightarrow> int \<Rightarrow> auth_db \<Rightarrow> (SessionRow \<times> UserRow) option" where
  "session_user hash now db =
     (case find (\<lambda>s. Ss_TokenHash s = hash \<and> Ss_ExpiresAt s > now \<and> \<not> Ss_Revoked s \<and>
          list_ex (\<lambda>u. Uu_ID u = Ss_UserID s \<and> may_login db u) (A_Users db)) (A_Sessions db) of
        None \<Rightarrow> None
      | Some s \<Rightarrow> map_option (\<lambda>u. (s, u)) (find (\<lambda>u. Uu_ID u = Ss_UserID s \<and> may_login db u) (A_Users db)))"

definition GetSession :: "string \<Rightarrow> int \<Rightarrow> auth_db \<Rightarrow> session_error + SessionUser" where
  "GetSession hash now db =
     (case session_user hash now db of
        None \<Rightarrow> Inl ErrSessionNotFound
      | Some (s, u) \<Rightarrow>
          if \<not> Role_Valid (Uu_Role u) then Inl ErrSessionNotFound
          else Inr \<lparr>Se_ID = Uu_ID u, Se_Email = Uu_Email u, Se_Role = Uu_Role u, Se_AuthenticatedAt = Ss_AuthenticatedAt s,
                    Se_LastSeenAt = Ss_LastSeenAt s\<rparr>)"

definition reauthenticated :: "string \<Rightarrow> int \<Rightarrow> SessionRow \<Rightarrow> bool" where
  "reauthenticated hash now s \<longleftrightarrow> Ss_TokenHash s = hash \<and> Ss_ExpiresAt s > now \<and> \<not> Ss_Revoked s"

definition MarkSessionReauthenticated :: "string \<Rightarrow> int \<Rightarrow> auth_db \<Rightarrow> nat \<times> auth_db" where
  "MarkSessionReauthenticated hash now db =
     (length (filter (reauthenticated hash now) (A_Sessions db)),
      db\<lparr>A_Sessions := map (\<lambda>s. if reauthenticated hash now s then s\<lparr>Ss_AuthenticatedAt := now, Ss_LastSeenAt := now\<rparr> else s)
        (A_Sessions db)\<rparr>)"

definition DeleteSession :: "string \<Rightarrow> auth_db \<Rightarrow> auth_db" where
  "DeleteSession hash db = db\<lparr>A_Sessions := filter (\<lambda>s. Ss_TokenHash s \<noteq> hash) (A_Sessions db)\<rparr>"

section \<open>The manager\<close>

record SessionManager =
  Mg_TTL :: int
  Mg_TokenBytes :: int

definition NewSessionManager :: "int \<Rightarrow> int \<Rightarrow> SessionManager" where
  "NewSessionManager ttl tokenBytes =
     \<lparr>Mg_TTL = (if ttl = 0 then 24 * 3600 * 10 ^ 9 else ttl), Mg_TokenBytes = (if tokenBytes = 0 then 32 else tokenBytes)\<rparr>"

definition Create ::
  "SessionManager \<Rightarrow> (nat \<Rightarrow> string option) \<Rightarrow> int \<Rightarrow> SessionMeta \<Rightarrow> int \<Rightarrow> auth_db \<Rightarrow> session_error + (string \<times> int) \<times> auth_db" where
  "Create m random user meta now db =
     (case randomToken random (Mg_TokenBytes m) of
        None \<Rightarrow> Inl NoRandomness
      | Some token \<Rightarrow>
          (let expires = now + Mg_TTL m; meta' = meta\<lparr>Sm_UserAgent := take 256 (Sm_UserAgent meta)\<rparr> in
           case CreateSession (TokenHash token) user expires meta' now db of
             Inl e \<Rightarrow> Inl e
           | Inr db' \<Rightarrow> Inr ((token, expires), db')))"

definition Authenticate :: "string \<Rightarrow> int \<Rightarrow> auth_db \<Rightarrow> session_error + SessionUser" where
  "Authenticate token now db = (if token = [] then Inl ErrSessionNotFound else GetSession (TokenHash token) now db)"

definition Delete :: "string \<Rightarrow> auth_db \<Rightarrow> auth_db" where
  "Delete token db = (if token = [] then db else DeleteSession (TokenHash token) db)"

definition MarkReauthenticated :: "string \<Rightarrow> int \<Rightarrow> auth_db \<Rightarrow> session_error option \<times> auth_db" where
  "MarkReauthenticated token now db =
     (if token = [] then (Some ErrSessionNotFound, db)
      else let (updated, db') = MarkSessionReauthenticated (TokenHash token) now db in
        (if updated \<noteq> 1 then Some ErrSessionNotFound else None, db'))"

section \<open>What the manager relies on\<close>

text \<open>\<open>SessionStore\<close>: sessions do not disturb each other, and a deleted or expired one is not found.\<close>

datatype store_op = OpCreate string int int SessionMeta int | OpDelete string | OpMark string int

locale session_store =
  fixes create :: "string \<Rightarrow> int \<Rightarrow> int \<Rightarrow> SessionMeta \<Rightarrow> int \<Rightarrow> 's \<Rightarrow> session_error + 's"
    and get :: "string \<Rightarrow> int \<Rightarrow> 's \<Rightarrow> session_error + SessionUser"
    and delete :: "string \<Rightarrow> 's \<Rightarrow> 's"
    and mark :: "string \<Rightarrow> int \<Rightarrow> 's \<Rightarrow> nat \<times> 's"
  assumes create_other: "create h u e m now s = Inr s' \<Longrightarrow> h' \<noteq> h \<Longrightarrow> get h' t s' = get h' t s"
    and create_expired: "create h u e m now s = Inr s' \<Longrightarrow> e \<le> t \<Longrightarrow> get h t s' = Inl ErrSessionNotFound"
    and delete_same: "get h t (delete h s) = Inl ErrSessionNotFound"
    and delete_other: "h' \<noteq> h \<Longrightarrow> get h' t (delete h s) = get h' t s"
    and mark_missing: "get h' t s = Inl ErrSessionNotFound \<Longrightarrow> get h' t (snd (mark h now s)) = Inl ErrSessionNotFound"
begin

definition apply_op :: "store_op \<Rightarrow> 's \<Rightarrow> 's" where
  "apply_op op s =
     (case op of
        OpCreate h u e m now \<Rightarrow> (case create h u e m now s of Inl _ \<Rightarrow> s | Inr s' \<Rightarrow> s')
      | OpDelete h \<Rightarrow> delete h s
      | OpMark h now \<Rightarrow> snd (mark h now s))"

lemma apply_op_missing:
  assumes "get h t s = Inl ErrSessionNotFound" and "\<And>u e m now. op \<noteq> OpCreate h u e m now"
  shows "get h t (apply_op op s) = Inl ErrSessionNotFound"
proof (cases op)
  case (OpCreate h' u e m now)
  then have "h \<noteq> h'" using assms(2) by blast
  then show ?thesis using OpCreate assms(1) create_other by (auto simp: apply_op_def split: sum.split)
next
  case (OpDelete h')
  then show ?thesis using assms(1) delete_same delete_other by (cases "h = h'") (simp_all add: apply_op_def)
next
  case (OpMark h' now)
  then show ?thesis using assms(1) mark_missing by (simp add: apply_op_def)
qed

lemma missing_stays:
  assumes "\<forall>op \<in> set ops. \<forall>u e m now. op \<noteq> OpCreate h u e m now" and "get h t s = Inl ErrSessionNotFound"
  shows "get h t (fold apply_op ops s) = Inl ErrSessionNotFound"
  using assms by (induction ops arbitrary: s) (simp_all add: apply_op_missing)

text \<open>A session that was deleted, or whose lifetime has ended, stays away whatever happens to others.\<close>

lemma logout_final:
  assumes "\<forall>op \<in> set ops. \<forall>u e m now. op \<noteq> OpCreate h u e m now"
  shows "get h t (fold apply_op ops (delete h s)) = Inl ErrSessionNotFound"
  using assms delete_same by (rule missing_stays)

lemma expiry_final:
  assumes "\<forall>op \<in> set ops. \<forall>u e m now. op \<noteq> OpCreate h u e m now"
    and "create h u e m now s = Inr s'" and "e \<le> t"
  shows "get h t (fold apply_op ops s') = Inl ErrSessionNotFound"
  using assms(1) create_expired [OF assms(2, 3)] by (rule missing_stays)

end

lemma may_login_sessions [simp]: "may_login (db\<lparr>A_Sessions := ss\<rparr>) = may_login db"
  by (simp add: fun_eq_iff may_login_def)

lemma GetSession_missing:
  "GetSession h t db = Inl ErrSessionNotFound \<longleftrightarrow> (case session_user h t db of None \<Rightarrow> True | Some (s, u) \<Rightarrow> \<not> Role_Valid (Uu_Role u))"
  by (auto simp: GetSession_def split: option.split)

lemma session_user_Some:
  assumes "session_user h t db = Some (s, u)"
  shows "s \<in> set (A_Sessions db)" "Ss_TokenHash s = h" "t < Ss_ExpiresAt s" "\<not> Ss_Revoked s"
    "u \<in> set (A_Users db)" "Uu_ID u = Ss_UserID s" "may_login db u"
  using assms by (auto simp: session_user_def find_Some_iff split: option.splits)

lemma may_login_role: "may_login db u \<Longrightarrow> Role_Valid (Uu_Role u)"
  by (auto simp: may_login_def Role_Valid_def)

lemma session_user_None:
  "session_user h t db = None \<longleftrightarrow>
     (\<forall>s \<in> set (A_Sessions db). Ss_TokenHash s = h \<longrightarrow> Ss_ExpiresAt s \<le> t \<or> Ss_Revoked s \<or>
        \<not> (\<exists>u \<in> set (A_Users db). Uu_ID u = Ss_UserID s \<and> may_login db u))"
proof -
  let ?P = "\<lambda>s. Ss_TokenHash s = h \<and> Ss_ExpiresAt s > t \<and> \<not> Ss_Revoked s \<and>
    list_ex (\<lambda>u. Uu_ID u = Ss_UserID s \<and> may_login db u) (A_Users db)"
  have "session_user h t db = None \<longleftrightarrow> find ?P (A_Sessions db) = None"
  proof (cases "find ?P (A_Sessions db)")
    case (Some s)
    then have "find (\<lambda>u. Uu_ID u = Ss_UserID s \<and> may_login db u) (A_Users db) \<noteq> None"
      by (auto simp: find_Some_iff find_None_iff list_ex_iff)
    with Some show ?thesis by (auto simp: session_user_def)
  qed (simp add: session_user_def)
  then show ?thesis by (auto simp: find_None_iff list_ex_iff not_less)
qed

lemma GetSession_not_found: "GetSession h t db = Inl ErrSessionNotFound \<longleftrightarrow> session_user h t db = None"
  using session_user_Some(7) [of h t db] may_login_role by (auto simp: GetSession_missing split: option.splits prod.splits)

lemma find_irrelevant:
  assumes "\<And>x. Q x \<Longrightarrow> \<not> P x" and "\<not> P row"
  shows "find P (map (\<lambda>x. if Q x then row else x) xs) = find P xs" "find P (xs @ [row]) = find P xs"
  using assms by (induction xs) auto

lemma find_filter_irrelevant: "(\<And>x. P x \<Longrightarrow> R x) \<Longrightarrow> find P (filter R xs) = find P xs"
  by (induction xs) auto

lemma session_user_cong:
  assumes "A_Users db' = A_Users db" and "may_login db' = may_login db"
    and "\<And>P. (\<And>s. P s \<Longrightarrow> Ss_TokenHash s = h) \<Longrightarrow> find P (A_Sessions db') = find P (A_Sessions db)"
  shows "session_user h t db' = session_user h t db"
proof -
  have "find (\<lambda>s. Ss_TokenHash s = h \<and> Ss_ExpiresAt s > t \<and> \<not> Ss_Revoked s \<and>
      list_ex (\<lambda>u. Uu_ID u = Ss_UserID s \<and> may_login db u) (A_Users db)) (A_Sessions db') =
    find (\<lambda>s. Ss_TokenHash s = h \<and> Ss_ExpiresAt s > t \<and> \<not> Ss_Revoked s \<and>
      list_ex (\<lambda>u. Uu_ID u = Ss_UserID s \<and> may_login db u) (A_Users db)) (A_Sessions db)"
    by (rule assms(3)) simp
  then show ?thesis by (simp only: session_user_def assms(1, 2))
qed

lemma GetSession_cong: "session_user h t db' = session_user h t db \<Longrightarrow> GetSession h t db' = GetSession h t db"
  by (simp add: GetSession_def)

lemma CreateSession_Inr:
  assumes "CreateSession h user expires meta now db = Inr db'"
  obtains row where "Ss_TokenHash row = h" "Ss_UserID row = user" "Ss_ExpiresAt row = expires" "\<not> Ss_Revoked row" "Ss_AuthenticatedAt row = now"
    "list_ex (\<lambda>u. Uu_ID u = user) (A_Users db)"
    "db' = db\<lparr>A_Sessions := (if list_ex (\<lambda>s. Ss_TokenHash s = h) (A_Sessions db)
       then map (\<lambda>s. if Ss_TokenHash s = h then row else s) (A_Sessions db) else A_Sessions db @ [row])\<rparr>"
proof -
  let ?row = "\<lparr>Ss_TokenHash = h, Ss_UserID = user, Ss_ExpiresAt = expires, Ss_IPAddress = Sm_IPAddress meta,
    Ss_UserAgent = Sm_UserAgent meta, Ss_CreatedAt = now, Ss_AuthenticatedAt = now, Ss_LastSeenAt = now, Ss_Revoked = False\<rparr>"
  show thesis
    by (rule that [of ?row]) (use assms in \<open>simp_all add: CreateSession_def Let_def split: if_splits\<close>)
qed

lemma CreateSession_rows:
  assumes "CreateSession h user expires meta now db = Inr db'" and "s \<in> set (A_Sessions db')"
  shows "if Ss_TokenHash s = h then Ss_UserID s = user \<and> Ss_ExpiresAt s = expires \<and> \<not> Ss_Revoked s else s \<in> set (A_Sessions db)"
  by (rule CreateSession_Inr [OF assms(1)]) (use assms(2) in \<open>auto simp: list_ex_iff split: if_splits\<close>)

lemma CreateSession_other:
  assumes "CreateSession h user expires meta now db = Inr db'" and "h' \<noteq> h"
  shows "GetSession h' t db' = GetSession h' t db"
proof (rule CreateSession_Inr [OF assms(1)])
  fix row
  assume row: "Ss_TokenHash row = h" and db': "db' = db\<lparr>A_Sessions := (if list_ex (\<lambda>s. Ss_TokenHash s = h) (A_Sessions db)
       then map (\<lambda>s. if Ss_TokenHash s = h then row else s) (A_Sessions db) else A_Sessions db @ [row])\<rparr>"
  show ?thesis
  proof (intro GetSession_cong session_user_cong)
    fix P :: "SessionRow \<Rightarrow> bool"
    assume P: "\<And>s. P s \<Longrightarrow> Ss_TokenHash s = h'"
    have "\<And>s. Ss_TokenHash s = h \<Longrightarrow> \<not> P s" "\<not> P row" using P row assms(2) by auto
    from find_irrelevant [of "\<lambda>s. Ss_TokenHash s = h" P row, OF this] show "find P (A_Sessions db') = find P (A_Sessions db)"
      by (simp add: db')
  qed (simp_all add: db')
qed

lemma MarkSessionReauthenticated_rows:
  "s \<in> set (A_Sessions (snd (MarkSessionReauthenticated h now db))) \<Longrightarrow>
     \<exists>s0 \<in> set (A_Sessions db). Ss_TokenHash s = Ss_TokenHash s0 \<and> Ss_UserID s = Ss_UserID s0 \<and> Ss_ExpiresAt s = Ss_ExpiresAt s0 \<and>
       Ss_Revoked s = Ss_Revoked s0"
  by (auto simp: MarkSessionReauthenticated_def split: if_splits)

interpretation sessions_table: session_store CreateSession GetSession DeleteSession MarkSessionReauthenticated
proof unfold_locales
  fix h h' u e m now t and s s' :: auth_db
  assume "CreateSession h u e m now s = Inr s'" and "h' \<noteq> h"
  then show "GetSession h' t s' = GetSession h' t s" by (rule CreateSession_other)
next
  fix h u e m now t and s s' :: auth_db
  assume "CreateSession h u e m now s = Inr s'" and "e \<le> t"
  then show "GetSession h t s' = Inl ErrSessionNotFound"
    using CreateSession_rows by (fastforce simp: GetSession_not_found session_user_None)
next
  fix h t and s :: auth_db
  show "GetSession h t (DeleteSession h s) = Inl ErrSessionNotFound"
    by (simp add: GetSession_not_found session_user_None DeleteSession_def)
next
  fix h h' :: string and t and s :: auth_db
  assume "h' \<noteq> h"
  show "GetSession h' t (DeleteSession h s) = GetSession h' t s"
  proof (intro GetSession_cong session_user_cong)
    fix P :: "SessionRow \<Rightarrow> bool"
    assume "\<And>x. P x \<Longrightarrow> Ss_TokenHash x = h'"
    with \<open>h' \<noteq> h\<close> show "find P (A_Sessions (DeleteSession h s)) = find P (A_Sessions s)"
      by (auto simp: DeleteSession_def intro: find_filter_irrelevant)
  qed (simp_all add: DeleteSession_def)
next
  fix h h' t now and s :: auth_db
  assume "GetSession h' t s = Inl ErrSessionNotFound"
  moreover have "A_Users (snd (MarkSessionReauthenticated h now s)) = A_Users s"
    "may_login (snd (MarkSessionReauthenticated h now s)) = may_login s" by (simp_all add: MarkSessionReauthenticated_def)
  ultimately show "GetSession h' t (snd (MarkSessionReauthenticated h now s)) = Inl ErrSessionNotFound"
    using MarkSessionReauthenticated_rows [of _ h now s] unfolding GetSession_not_found session_user_None by metis
qed

text \<open>A token is not accepted again after its logout, nor after its lifetime, unless its hash is stored anew.\<close>

lemma logged_out_stays_out:
  assumes "\<forall>op \<in> set ops. \<forall>u e m now. op \<noteq> OpCreate (TokenHash token) u e m now"
  shows "Authenticate token t (fold sessions_table.apply_op ops (Delete token db)) = Inl ErrSessionNotFound"
  using sessions_table.logout_final [OF assms] by (simp add: Authenticate_def Delete_def)

section \<open>Runs\<close>

datatype session_event = Created string int int int | Deleted string | Renewed string int

text \<open>What the events, latest first, say of a hash: the user, the end of the session and when the password was last given.\<close>

fun latest :: "string \<Rightarrow> session_event list \<Rightarrow> (int \<times> int \<times> int) option" where
  "latest h [] = None"
| "latest h (Created h' user expires now # es) = (if h = h' then Some (user, expires, now) else latest h es)"
| "latest h (Deleted h' # es) = (if h = h' then None else latest h es)"
| "latest h (Renewed h' now # es) =
     (if h = h' then map_option (\<lambda>(user, expires, _). (user, expires, now)) (latest h es) else latest h es)"

text \<open>
  Any interleaving of logins, logouts and renewed logins with the rest of the panel, which changes users and their
  accounts and deletes sessions, by a \<open>DELETE\<close> or with their user.
\<close>

inductive session_run :: "SessionManager \<Rightarrow> auth_db \<Rightarrow> session_event list \<Rightarrow> bool" for m where
  start: "A_Sessions db = [] \<Longrightarrow> session_run m db []"
| login: "session_run m db es \<Longrightarrow> Create m random user meta now db = Inr ((token, expires), db') \<Longrightarrow>
    session_run m db' (Created (TokenHash token) user expires now # es)"
| logout: "session_run m db es \<Longrightarrow> token \<noteq> [] \<Longrightarrow> session_run m (Delete token db) (Deleted (TokenHash token) # es)"
| renew: "session_run m db es \<Longrightarrow> MarkReauthenticated token now db = (None, db') \<Longrightarrow>
    session_run m db' (Renewed (TokenHash token) now # es)"
| refused: "session_run m db es \<Longrightarrow> MarkReauthenticated token now db = (Some e, db') \<Longrightarrow> session_run m db' es"
| panel: "session_run m db es \<Longrightarrow> A_Sessions db' = filter keep (A_Sessions db) \<Longrightarrow> session_run m db' es"

text \<open>The primary key, and every row as the events have it.\<close>

definition rows_ok :: "session_event list \<Rightarrow> auth_db \<Rightarrow> bool" where
  "rows_ok es db \<longleftrightarrow> distinct (map Ss_TokenHash (A_Sessions db)) \<and>
     list_all (\<lambda>s. latest (Ss_TokenHash s) es = Some (Ss_UserID s, Ss_ExpiresAt s, Ss_AuthenticatedAt s)) (A_Sessions db)"

lemma Create_Inr:
  assumes "Create m random user meta now db = Inr ((token, expires), db')"
  shows "expires = now + Mg_TTL m" "\<exists>meta'. CreateSession (TokenHash token) user expires meta' now db = Inr db'"
  using assms by (auto simp: Create_def Let_def split: option.splits sum.splits)

lemma rows_ok_filter: "rows_ok es db \<Longrightarrow> A_Sessions db' = filter keep (A_Sessions db) \<Longrightarrow> rows_ok es db'"
  by (auto simp: rows_ok_def list_all_iff distinct_map_filter)

lemma map_upsert: "Ss_TokenHash row = h \<Longrightarrow>
    map Ss_TokenHash (map (\<lambda>s. if Ss_TokenHash s = h then row else s) ss) = map Ss_TokenHash ss"
  by (induction ss) auto

lemma CreateSession_rows_ok:
  assumes "CreateSession h user expires meta now db = Inr db'" and "rows_ok es db"
  shows "rows_ok (Created h user expires now # es) db'"
  by (rule CreateSession_Inr [OF assms(1)])
    (use assms(2) in \<open>auto simp: rows_ok_def list_all_iff list_ex_iff map_upsert simp del: map_map split: if_splits\<close>)

lemma marked_hashes:
  "map Ss_TokenHash (map (\<lambda>s. if reauthenticated h now s then s\<lparr>Ss_AuthenticatedAt := now, Ss_LastSeenAt := now\<rparr> else s) ss) =
     map Ss_TokenHash ss"
  by (induction ss) auto

lemma reauthenticated_count:
  assumes "distinct (map Ss_TokenHash ss)"
  shows "length (filter (reauthenticated h now) ss) \<le> 1"
proof -
  have "length (filter (reauthenticated h now) ss) = card (Ss_TokenHash ` set (filter (reauthenticated h now) ss))"
    using assms distinct_card [of "map Ss_TokenHash (filter (reauthenticated h now) ss)"] by (simp add: distinct_map_filter)
  also have "\<dots> \<le> card {h}" by (intro card_mono) (auto simp: reauthenticated_def)
  finally show ?thesis by simp
qed

lemma reauthenticated_none:
  assumes "length (filter (reauthenticated h now) ss) = 0"
  shows "map (\<lambda>s. if reauthenticated h now s then f s else s) ss = ss"
  using assms by (induction ss) (auto split: if_splits)

lemma MarkReauthenticated_rows_ok:
  assumes "rows_ok es db"
  shows "MarkReauthenticated token now db = (Some e, db') \<Longrightarrow> rows_ok es db'"
    and "MarkReauthenticated token now db = (None, db') \<Longrightarrow> rows_ok (Renewed (TokenHash token) now # es) db'"
proof -
  let ?h = "TokenHash token"
  let ?P = "reauthenticated ?h now"
  have count: "length (filter ?P (A_Sessions db)) \<le> 1" using assms reauthenticated_count by (simp add: rows_ok_def)
  show "rows_ok es db'" if "MarkReauthenticated token now db = (Some e, db')"
  proof (cases "token = []")
    case False
    then have "length (filter ?P (A_Sessions db)) \<noteq> 1" and db': "db' = snd (MarkSessionReauthenticated ?h now db)"
      using that by (auto simp: MarkReauthenticated_def MarkSessionReauthenticated_def Let_def split: if_splits)
    with count have "length (filter ?P (A_Sessions db)) = 0" by linarith
    with assms db' show ?thesis by (simp add: MarkSessionReauthenticated_def reauthenticated_none rows_ok_def)
  qed (use that assms in \<open>simp add: MarkReauthenticated_def\<close>)
  show "rows_ok (Renewed ?h now # es) db'" if "MarkReauthenticated token now db = (None, db')"
  proof -
    have one: "length (filter ?P (A_Sessions db)) = 1" and db': "db' = snd (MarkSessionReauthenticated ?h now db)"
      using that by (auto simp: MarkReauthenticated_def MarkSessionReauthenticated_def Let_def split: if_splits)
    from one have "filter ?P (A_Sessions db) \<noteq> []" by force
    then have "set (filter ?P (A_Sessions db)) \<noteq> {}" by (simp only: set_empty simp_thms)
    then obtain r where r: "r \<in> set (A_Sessions db)" "?P r" by auto
    have "inj_on Ss_TokenHash (set (A_Sessions db))" using assms by (simp add: rows_ok_def distinct_map)
    then have "?P s" if "s \<in> set (A_Sessions db)" "Ss_TokenHash s = ?h" for s
      using that r inj_onD [of Ss_TokenHash "set (A_Sessions db)" s r] by (simp add: reauthenticated_def)
    with assms show ?thesis
      unfolding rows_ok_def db' MarkSessionReauthenticated_def
      by (auto simp: list_all_iff marked_hashes [unfolded reauthenticated_def] reauthenticated_def simp del: map_map)
  qed
qed

lemma session_run_rows: "session_run m db es \<Longrightarrow> rows_ok es db"
proof (induction rule: session_run.induct)
  case (login db es random user meta now token expires db')
  then show ?case using Create_Inr(2) CreateSession_rows_ok by blast
next
  case (logout db es token)
  then show ?case by (auto simp: Delete_def DeleteSession_def rows_ok_def list_all_iff distinct_map_filter)
qed (auto simp: rows_ok_def [of "[]"] dest: MarkReauthenticated_rows_ok rows_ok_filter)

text \<open>C15. Whatever the order of logins, logouts, renewals and changes of accounts, a token is accepted only if the latest
  login under its hash has not been followed by a logout and its lifetime has not ended. The request then runs as the user
  who logged in, who may still log in, and \<open>AuthenticatedAt\<close>, on which the guard of sensitive actions rests, is the time of
  that login or of the latest confirmed renewal. Renewing a login does not prolong it.\<close>

theorem authenticated_only_by_login:
  assumes "session_run m db es" and "Authenticate token now db = Inr su"
  shows "\<exists>expires u. latest (TokenHash token) es = Some (Se_ID su, expires, Se_AuthenticatedAt su) \<and> now < expires \<and>
    u \<in> set (A_Users db) \<and> Uu_ID u = Se_ID su \<and> Uu_Role u = Se_Role su \<and> may_login db u"
proof -
  have "GetSession (TokenHash token) now db = Inr su" using assms(2) by (simp add: Authenticate_def split: if_splits)
  then obtain s u where s: "session_user (TokenHash token) now db = Some (s, u)" and
    "Se_ID su = Uu_ID u" "Se_Role su = Uu_Role u" "Se_AuthenticatedAt su = Ss_AuthenticatedAt s"
    by (auto simp: GetSession_def split: option.splits if_splits)
  moreover have "latest (TokenHash token) es = Some (Ss_UserID s, Ss_ExpiresAt s, Ss_AuthenticatedAt s)"
    using session_user_Some(1, 2) [OF s] session_run_rows [OF assms(1)] by (auto simp: rows_ok_def list_all_iff)
  ultimately show ?thesis using session_user_Some [OF s] by auto
qed

definition demo_users :: auth_db where
  "demo_users =
     \<lparr>A_Users = [\<lparr>Uu_ID = 1, Uu_Email = ''root@example.test'', Uu_PasswordHash = ''p'', Uu_Role = ''admin'', Uu_LoginDisabled = False\<rparr>,
                 \<lparr>Uu_ID = 7, Uu_Email = ''ann@example.test'', Uu_PasswordHash = ''p'', Uu_Role = ''client'', Uu_LoginDisabled = False\<rparr>],
      A_Sessions = [], A_Customers = [(Some 7, ''active'')], A_Resellers = [], A_ResellerSubscriptions = []\<rparr>"

definition demo_meta :: SessionMeta where
  "demo_meta = \<lparr>Sm_IPAddress = ''192.0.2.1'', Sm_UserAgent = ''browser''\<rparr>"

definition demo_random :: "nat \<Rightarrow> string option" where
  "demo_random n = Some (replicate n (CHR ''a''))"

definition demo_db :: "int \<Rightarrow> auth_db" where
  "demo_db at = demo_users\<lparr>A_Sessions := [\<lparr>Ss_TokenHash = TokenHash ''YWFh'', Ss_UserID = 7, Ss_ExpiresAt = 150,
     Ss_IPAddress = ''192.0.2.1'', Ss_UserAgent = ''browser'', Ss_CreatedAt = 50, Ss_AuthenticatedAt = at, Ss_LastSeenAt = at,
     Ss_Revoked = False\<rparr>]\<rparr>"

definition ann_session :: SessionUser where
  "ann_session = \<lparr>Se_ID = 7, Se_Email = ''ann@example.test'', Se_Role = ''client'', Se_AuthenticatedAt = 120, Se_LastSeenAt = 120\<rparr>"

lemma demo_login: "Create (NewSessionManager 100 3) demo_random 7 demo_meta 50 demo_users = Inr ((''YWFh'', 150), demo_db 50)"
proof -
  have "randomToken demo_random 3 = Some ''YWFh''" by code_simp
  then show ?thesis by (simp add: Create_def NewSessionManager_def CreateSession_def demo_db_def demo_users_def demo_meta_def)
qed

lemma demo_renew: "MarkReauthenticated ''YWFh'' 120 (demo_db 50) = (None, demo_db 120)"
  by (simp add: demo_db_def MarkReauthenticated_def MarkSessionReauthenticated_def reauthenticated_def)

lemma demo_may_login: "may_login (demo_db at) u = may_login demo_users u" "may_login demo_users (A_Users demo_users ! 1)"
  by (simp add: demo_db_def) code_simp

lemma demo_authenticate: "Authenticate ''YWFh'' 130 (demo_db 120) = Inr ann_session"
proof -
  have "GetSession h 130 (demo_users\<lparr>A_Sessions := [\<lparr>Ss_TokenHash = h, Ss_UserID = 7, Ss_ExpiresAt = 150,
     Ss_IPAddress = i, Ss_UserAgent = a, Ss_CreatedAt = 50, Ss_AuthenticatedAt = 120, Ss_LastSeenAt = 120,
     Ss_Revoked = False\<rparr>]\<rparr>) = Inr ann_session" for h i a
    by (simp add: GetSession_def session_user_def demo_users_def may_login_def Role_Valid_def ann_session_def)
  then show ?thesis by (simp add: Authenticate_def demo_db_def)
qed

theorem authenticated_only_by_login_witness:
  "let es = [Renewed (TokenHash ''YWFh'') 120, Created (TokenHash ''YWFh'') 7 150 50] in
   session_run (NewSessionManager 100 3) (demo_db 120) es \<and> Authenticate ''YWFh'' 130 (demo_db 120) = Inr ann_session \<and>
   (\<exists>expires u. latest (TokenHash ''YWFh'') es = Some (Se_ID ann_session, expires, Se_AuthenticatedAt ann_session) \<and> 130 < expires \<and>
      u \<in> set (A_Users (demo_db 120)) \<and> Uu_ID u = Se_ID ann_session \<and> Uu_Role u = Se_Role ann_session \<and> may_login (demo_db 120) u)"
proof -
  have "A_Sessions demo_users = []" by (simp add: demo_users_def)
  from session_run.renew [OF session_run.login [OF session_run.start [OF this] demo_login] demo_renew]
  have run: "session_run (NewSessionManager 100 3) (demo_db 120)
    [Renewed (TokenHash ''YWFh'') 120, Created (TokenHash ''YWFh'') 7 150 50]" .
  from run demo_authenticate authenticated_only_by_login [OF run demo_authenticate] show ?thesis unfolding Let_def by blast
qed

lemma expired_stays_out:
  assumes "Create m random user meta now db = Inr ((token, expires), db')" and "now + Mg_TTL m \<le> t"
    and "\<forall>op \<in> set ops. \<forall>u e m now. op \<noteq> OpCreate (TokenHash token) u e m now"
  shows "Authenticate token t (fold sessions_table.apply_op ops db') = Inl ErrSessionNotFound"
  using Create_Inr [OF assms(1)] assms(2) sessions_table.expiry_final [OF assms(3)] by (auto simp: Authenticate_def)

lemma CreateSession_new_row:
  assumes "CreateSession h user expires meta now db = Inr db'"
  shows "(\<exists>s \<in> set (A_Sessions db'). Ss_TokenHash s = h) \<and> A_Users db' = A_Users db \<and> may_login db' = may_login db \<and>
    (\<forall>s \<in> set (A_Sessions db'). Ss_TokenHash s = h \<longrightarrow> Ss_AuthenticatedAt s = now)"
proof (rule CreateSession_Inr [OF assms], intro conjI)
  fix row
  assume "Ss_TokenHash row = h" "Ss_AuthenticatedAt row = now" and db': "db' = db\<lparr>A_Sessions := (if list_ex (\<lambda>s. Ss_TokenHash s = h) (A_Sessions db)
       then map (\<lambda>s. if Ss_TokenHash s = h then row else s) (A_Sessions db) else A_Sessions db @ [row])\<rparr>"
  then show "\<exists>s \<in> set (A_Sessions db'). Ss_TokenHash s = h"
    and "\<forall>s \<in> set (A_Sessions db'). Ss_TokenHash s = h \<longrightarrow> Ss_AuthenticatedAt s = now"
    by (auto simp: list_ex_iff split: if_splits)
qed simp_all

lemma randomToken_nonempty:
  assumes "\<And>k b. random k = Some b \<Longrightarrow> length b = k" and "0 < n" and "randomToken random n = Some token"
  shows "token \<noteq> []"
proof -
  obtain b where "length b = nat n" and token: "token = encode_bits 6 base64url_alphabet b"
    using assms(1, 3) by (auto simp: randomToken_def)
  then have "0 < length token" using assms(2) by (simp add: length_encode_bits length_chunks length_concat_bits)
  then show ?thesis by simp
qed

lemma FindUserByEmail_Inr:
  assumes "FindUserByEmail lower email db = Inr user"
  obtains u where "u \<in> set (A_Users db)" "Uu_ID u = Usr_ID user" "may_login db u"
  using assms by (auto simp: FindUserByEmail_def find_Some_iff split: option.splits if_splits) (metis nth_mem)

text \<open>C29. The token that \<open>Create\<close> returns for a user found by \<open>FindUserByEmail\<close> is accepted at every moment before its
  lifetime ends, for that user and with the time of the login. \<open>crypto/rand\<close> fills the bytes it is given.\<close>

theorem login_is_accepted:
  assumes rand_Read: "\<And>n b. random n = Some b \<Longrightarrow> length b = n" and "0 < Mg_TokenBytes m"
    and "FindUserByEmail lower email db = Inr user"
    and create: "Create m random (Usr_ID user) meta now db = Inr ((token, expires), db')" and "t < now + Mg_TTL m"
  shows "\<exists>su. Authenticate token t db' = Inr su \<and> Se_ID su = Usr_ID user \<and> Se_AuthenticatedAt su = now"
proof -
  let ?h = "TokenHash token"
  have token: "token \<noteq> []"
    using create randomToken_nonempty [OF rand_Read assms(2)] by (auto simp: Create_def Let_def split: option.splits sum.splits)
  obtain u where u: "u \<in> set (A_Users db)" "Uu_ID u = Usr_ID user" "may_login db u" using FindUserByEmail_Inr [OF assms(3)] .
  obtain meta' where inserted: "CreateSession ?h (Usr_ID user) expires meta' now db = Inr db'" using Create_Inr(2) [OF create] by blast
  note row = CreateSession_new_row [OF inserted] and rows = CreateSession_rows [OF inserted]
  have "t < expires" using Create_Inr(1) [OF create] assms(5) by simp
  then have "session_user ?h t db' \<noteq> None"
    using row rows u unfolding session_user_None by (metis not_le)
  then obtain s v where s: "session_user ?h t db' = Some (s, v)" by auto
  with session_user_Some [OF s] rows have "Uu_ID v = Usr_ID user" "Role_Valid (Uu_Role v)" by (auto dest: may_login_role)
  with s session_user_Some [OF s] row token show ?thesis by (auto simp: Authenticate_def GetSession_def)
qed

definition ann :: User where
  "ann = \<lparr>Usr_ID = 7, Usr_Email = ''ann@example.test'', Usr_PasswordHash = ''p'', Usr_Role = ''client''\<rparr>"

lemma demo_found: "FindUserByEmail id ''ann@example.test'' demo_users = Inr ann"
  by code_simp

theorem login_is_accepted_witness:
  "FindUserByEmail id ''ann@example.test'' demo_users = Inr ann \<and>
   (\<exists>su. Authenticate ''YWFh'' 149 (demo_db 50) = Inr su \<and> Se_ID su = Usr_ID ann \<and> Se_AuthenticatedAt su = 50)"
proof -
  have "Create (NewSessionManager 100 3) demo_random (Usr_ID ann) demo_meta 50 demo_users = Inr ((''YWFh'', 150), demo_db 50)"
    using demo_login by (simp add: ann_def)
  from login_is_accepted [OF _ _ demo_found this, of 149] show ?thesis
    by (simp add: demo_found demo_random_def NewSessionManager_def)
qed

end
