(* ===== verification/Nak_Path.thy ===== *)
theory Nak_Path
  imports Nak_Prelude "HOL-Library.Sublist"
begin

text \<open>
  Lexical paths of Go's \<open>path/filepath\<close> on Unix: \<open>Clean\<close>, \<open>IsAbs\<close>, \<open>Join\<close> of elements, \<open>Base\<close> and
  \<open>Dir\<close>, with the containment facts the agent's confinement checks rest on.
\<close>

section \<open>Clean\<close>

text \<open>
  Components are processed from the left with the kept ones on a stack: empty components and \<open>.\<close>
  vanish, \<open>..\<close> removes the component before it, is dropped at the root, and is kept in front of a
  relative path.
\<close>

fun clean_comps :: "bool \<Rightarrow> string list \<Rightarrow> string list \<Rightarrow> string list" where
  "clean_comps rooted kept [] = rev kept"
| "clean_comps rooted kept (c # cs) =
     (if c = [] \<or> c = ''.'' then clean_comps rooted kept cs
      else if c = ''..'' then
        (case kept of
           k # ks \<Rightarrow> if k \<noteq> ''..'' then clean_comps rooted ks cs else clean_comps rooted (c # kept) cs
         | [] \<Rightarrow> if rooted then clean_comps rooted [] cs else clean_comps rooted [c] cs)
      else clean_comps rooted (c # kept) cs)"

definition IsAbs :: "string \<Rightarrow> bool" where
  "IsAbs p = HasPrefix p ''/''"

definition path_comps :: "string \<Rightarrow> string list" where
  "path_comps p = clean_comps (IsAbs p) [] (Split p CHR ''/'')"

definition Clean :: "string \<Rightarrow> string" where
  "Clean p =
     (let out = Join (path_comps p) ''/'' in
      if IsAbs p then CHR ''/'' # out else if out = [] then ''.'' else out)"

definition Join_path :: "string list \<Rightarrow> string" where
  "Join_path elems =
     (let es = dropWhile (\<lambda>e. e = []) elems in
      if es = [] then [] else Clean (Join es ''/''))"

text \<open>\<open>strings.TrimRight(s, "/")\<close>.\<close>

definition TrimRight_slash :: "string \<Rightarrow> string" where
  "TrimRight_slash s = rev (dropWhile (\<lambda>c. c = CHR ''/'') (rev s))"

section \<open>Components of a clean path\<close>

definition plain_comp :: "string \<Rightarrow> bool" where
  "plain_comp c \<longleftrightarrow> c \<noteq> [] \<and> c \<noteq> ''.'' \<and> c \<noteq> ''..'' \<and> CHR ''/'' \<notin> set c"

lemma clean_comps_plain:
  assumes "\<forall>c \<in> set cs. CHR ''/'' \<notin> set c" and "list_all plain_comp kept"
  shows "list_all plain_comp (clean_comps True kept cs)"
  using assms
proof (induction "True" kept cs rule: clean_comps.induct)
  case (2 kept c cs)
  then show ?case by (cases kept) (auto simp: plain_comp_def)
qed simp

lemma clean_comps_subset: "set (clean_comps r kept cs) \<subseteq> set kept \<union> (set cs - {[]})"
proof (induction r kept cs rule: clean_comps.induct)
  case (2 r kept c cs)
  show ?case
  proof (cases "c = ''..''")
    case True
    then show ?thesis using "2.IH"(2-) by (cases kept) (fastforce split: if_splits)+
  qed (use "2.IH" in auto)
qed simp

lemma path_comps_plain: "IsAbs p \<Longrightarrow> list_all plain_comp (path_comps p)"
  unfolding path_comps_def by (simp add: clean_comps_plain Split_no_sep)

lemma path_comps_no_slash: "c \<in> set (path_comps p) \<Longrightarrow> c \<noteq> [] \<and> CHR ''/'' \<notin> set c"
  unfolding path_comps_def using clean_comps_subset [of "IsAbs p" "[]" "Split p CHR ''/''"]
  by (auto dest: Split_no_sep)

text \<open>Plain components pass through unchanged, on top of whatever is kept.\<close>

lemma clean_comps_append_plain:
  "list_all plain_comp cs \<Longrightarrow> clean_comps r kept cs = rev kept @ cs"
  by (induction cs arbitrary: kept) (auto simp: plain_comp_def)

lemma Split_path_comps:
  assumes "path_comps p \<noteq> []"
  shows "Split (Join (path_comps p) ''/'') CHR ''/'' = path_comps p"
  using assms path_comps_no_slash by (intro Split_Join) auto

lemma IsAbs_Clean [simp]: "IsAbs (Clean p) = IsAbs p"
proof (cases "IsAbs p")
  case False
  have "\<not> HasPrefix (Join (path_comps p) ''/'') ''/''"
  proof (cases "path_comps p")
    case (Cons c cs)
    then have "c \<noteq> []" "CHR ''/'' \<notin> set c" using path_comps_no_slash [of c p] by auto
    then show ?thesis using Cons by (cases cs; cases c) (auto simp: HasPrefix_iff)
  qed (simp add: HasPrefix_iff)
  then show ?thesis using False by (auto simp: Clean_def IsAbs_def Let_def HasPrefix_iff)
qed (simp add: Clean_def IsAbs_def Let_def HasPrefix_iff)

lemma path_comps_Clean_abs: "IsAbs p \<Longrightarrow> path_comps (Clean p) = path_comps p"
proof (cases "path_comps p = []")
  case False
  assume abs: "IsAbs p"
  then have "Split (Clean p) CHR ''/'' = [] # path_comps p"
    using Split_append_sep [of "CHR ''/''" "[]"] Split_path_comps [OF False] by (simp add: Clean_def Let_def)
  then show ?thesis
    using abs clean_comps_append_plain [OF path_comps_plain [OF abs], of True "[]"]
    by (simp add: path_comps_def [of "Clean p"])
next
  case True
  assume "IsAbs p"
  then show ?thesis using True by (simp add: Clean_def path_comps_def [of "''/''"] IsAbs_def HasPrefix_def)
qed

lemma Clean_abs: "IsAbs p \<Longrightarrow> Clean p = CHR ''/'' # Join (path_comps p) ''/''"
  by (simp add: Clean_def Let_def)

lemma Clean_idem_abs: "IsAbs p \<Longrightarrow> Clean (Clean p) = Clean p"
  by (metis Clean_abs IsAbs_Clean path_comps_Clean_abs)

section \<open>Containment\<close>

lemma TrimRight_slash_id: "s = [] \<or> last s \<noteq> CHR ''/'' \<Longrightarrow> TrimRight_slash s = s"
  unfolding TrimRight_slash_def
  by (cases s rule: rev_cases) auto

lemma Join_last_no_slash:
  "cs \<noteq> [] \<Longrightarrow> \<forall>c \<in> set cs. c \<noteq> [] \<and> CHR ''/'' \<notin> set c \<Longrightarrow>
     Join cs ''/'' \<noteq> [] \<and> last (Join cs ''/'') \<noteq> CHR ''/''"
proof (induction cs rule: induct_list012)
  case (2 c)
  then show ?case by (auto dest: last_in_set)
qed auto

lemma Join_append:
  "xs \<noteq> [] \<Longrightarrow> ys \<noteq> [] \<Longrightarrow> Join (xs @ ys) s = Join xs s @ s @ Join ys s"
proof (induction xs rule: induct_list012)
  case (2 x)
  then show ?case by (cases ys) auto
qed auto

lemma TrimRight_Clean_abs:
  assumes "IsAbs d"
  shows "TrimRight_slash (Clean d) =
    (if path_comps d = [] then [] else CHR ''/'' # Join (path_comps d) ''/'')"
proof (cases "path_comps d = []")
  case True
  then show ?thesis using assms by (simp add: Clean_abs TrimRight_slash_def)
next
  case False
  then have "Join (path_comps d) ''/'' \<noteq> [] \<and> last (Join (path_comps d) ''/'') \<noteq> CHR ''/''"
    using Join_last_no_slash path_comps_no_slash by blast
  then show ?thesis using False assms TrimRight_slash_id [of "Clean d"] by (simp add: Clean_abs)
qed

text \<open>Textual prefix up to a separator is prefix of the components.\<close>

lemma Join_prefix_iff:
  assumes "xs \<noteq> []" and "ys \<noteq> []"
    and "\<forall>c \<in> set xs. c \<noteq> [] \<and> CHR ''/'' \<notin> set c" and "\<forall>c \<in> set ys. c \<noteq> [] \<and> CHR ''/'' \<notin> set c"
  shows "Join ys ''/'' = Join xs ''/'' \<or> HasPrefix (Join ys ''/'') (Join xs ''/'' @ ''/'') \<longleftrightarrow> prefix xs ys"
proof
  have split: "Split (Join zs ''/'') CHR ''/'' = zs" if "zs \<noteq> []" "\<forall>c \<in> set zs. c \<noteq> [] \<and> CHR ''/'' \<notin> set c" for zs
    using that by (intro Split_Join) auto
  have split_app: "Split (Join xs ''/'' @ CHR ''/'' # t) CHR ''/'' = xs @ Split t CHR ''/''" for t
    using assms(1,3)
  proof (induction xs rule: induct_list012)
    case (3 x y zs)
    then show ?case using Split_append_sep [of "CHR ''/''" x] by simp
  qed (auto simp: Split_append_sep)
  assume "Join ys ''/'' = Join xs ''/'' \<or> HasPrefix (Join ys ''/'') (Join xs ''/'' @ ''/'')"
  then show "prefix xs ys"
  proof
    assume "Join ys ''/'' = Join xs ''/''"
    then show ?thesis using split [of xs] split [of ys] assms by simp
  next
    assume "HasPrefix (Join ys ''/'') (Join xs ''/'' @ ''/'')"
    then obtain t where "Join ys ''/'' = Join xs ''/'' @ CHR ''/'' # t" by (auto simp: HasPrefix_iff)
    then have "ys = xs @ Split t CHR ''/''" using split [of ys] split_app assms by simp
    then show ?thesis by simp
  qed
next
  assume "prefix xs ys"
  then obtain zs where "ys = xs @ zs" by (auto elim: prefixE)
  then show "Join ys ''/'' = Join xs ''/'' \<or> HasPrefix (Join ys ''/'') (Join xs ''/'' @ ''/'')"
    using assms(1) Join_append [of xs zs "''/''"] by (cases "zs = []") (auto simp: HasPrefix_iff)
qed

text \<open>Appending plain components to a path appends them to its components.\<close>

lemma clean_comps_append:
  "clean_comps r kept (xs @ ys) = clean_comps r (rev (clean_comps r kept xs)) ys"
proof (induction r kept xs rule: clean_comps.induct)
  case (2 r kept c cs)
  then show ?case by (cases kept) auto
qed simp

lemma IsAbs_append: "IsAbs p \<Longrightarrow> IsAbs (p @ q)"
  by (auto simp: IsAbs_def HasPrefix_iff)

lemma path_comps_append:
  assumes "IsAbs p" and "list_all plain_comp cs" and "cs \<noteq> []"
  shows "path_comps (p @ CHR ''/'' # Join cs ''/'') = path_comps p @ cs"
proof -
  have "Split (Join cs ''/'') CHR ''/'' = cs"
    using assms(2,3) by (intro Split_Join) (auto simp: list_all_iff plain_comp_def)
  then show ?thesis
    using assms by (simp add: path_comps_def IsAbs_append Split_append clean_comps_append
        clean_comps_append_plain)
qed

lemma path_comps_Join_path:
  assumes "IsAbs p" and "list_all plain_comp cs"
  shows "IsAbs (Join_path (p # cs))" "path_comps (Join_path (p # cs)) = path_comps p @ cs"
proof -
  have "p \<noteq> []" using assms(1) by (auto simp: IsAbs_def HasPrefix_iff)
  then have join: "Join_path (p # cs) = Clean (if cs = [] then p else p @ CHR ''/'' # Join cs ''/'')"
    by (cases cs) (simp_all add: Join_path_def)
  show "IsAbs (Join_path (p # cs))" using assms(1) by (simp add: join IsAbs_append)
  show "path_comps (Join_path (p # cs)) = path_comps p @ cs"
    using assms path_comps_append [OF assms] by (simp add: join path_comps_Clean_abs IsAbs_append)
qed

lemma Clean_not_Nil [simp]: "Clean p \<noteq> []"
  by (auto simp: Clean_def Let_def)

end
