(* ===== verification/Site_Request.thy ===== *)
theory Site_Request
  imports Policy Nak_Path
begin

text \<open>
  \<open>internal/site/create_site.go\<close>: the names a tenant may choose. Usernames, domains, subdomain labels
  and SFTP roots are checked here before the agent derives Linux accounts, directories and nginx
  configuration from them; the theorems say which strings get through.
\<close>

section \<open>Names\<close>

definition usernameRE :: rexp where
  "usernameRE = Seq (Cls is_lower) (Rep (Cls lower_alnum) 2 31)"

definition label_char :: "char \<Rightarrow> bool" where
  "label_char c \<longleftrightarrow> lower_alnum c \<or> c = CHR ''-''"

definition labelRE :: rexp where
  "labelRE = Seq (Cls lower_alnum) (Opt (Seq (Rep (Cls label_char) 0 61) (Cls lower_alnum)))"

definition reservedUsernames :: "string list" where
  "reservedUsernames =
     [''root'', ''daemon'', ''bin'', ''sys'', ''sync'', ''games'', ''man'', ''lp'', ''mail'',
      ''news'', ''uucp'', ''proxy'', ''backup'', ''list'', ''irc'', ''gnats'', ''nobody'',
      ''systemd'', ''messagebus'', ''syslog'', ''sshd'', ''ntp'', ''dnsmasq'', ''tss'',
      ''postgres'', ''mysql'', ''mariadb'', ''redis'', ''memcache'', ''mongodb'',
      ''bind'', ''named'', ''nginx'', ''apache'', ''httpd'', ''www'', ''wwwdata'',
      ''stalwart'', ''roundcube'', ''adminer'', ''nakpanel'', ''admin'', ''adm'',
      ''operator'', ''ftp'', ''ubuntu'', ''sudo'', ''staff'', ''users'', ''shadow'',
      ''disk'', ''tty'', ''dialout'', ''landscape'', ''lxd'', ''netdev'', ''render'',
      ''scheduler'', ''postfix'', ''dovecot'', ''opendkim'', ''clamav'', ''spamd'']"

datatype site_error =
    UsernameFormat
  | UsernameReserved string
  | DomainLength
  | DomainNotQualified
  | DomainLabelInvalid string
  | PHPVersionUnsupported string
  | DocrootNotEmpty
  | PreferredDomainInvalid
  | HeaderPresetInvalid
  | IndexFilesInvalid
  | AccessCIDRInvalid string
  | ErrorDocumentInvalid string
  | SubdomainLabelInvalid
  | SubdomainOutsideParent string
  | SFTPRootNotDomain
  | SFTPRootNotPublic

definition ValidateUsername :: "string \<Rightarrow> site_error option" where
  "ValidateUsername username =
     first_error
      [fail_if (\<not> MatchString usernameRE username) UsernameFormat,
       fail_if (username \<in> set reservedUsernames) (UsernameReserved username)]"

definition ValidateDomain :: "string \<Rightarrow> site_error option" where
  "ValidateDomain domain =
     first_error
      [fail_if (length domain < 4 \<or> length domain > 253) DomainLength,
       fail_if (Contains domain ''..'' \<or> \<not> Contains domain ''.'') DomainNotQualified,
       map_option DomainLabelInvalid
         (find (\<lambda>l. \<not> MatchString labelRE l) (Split domain CHR ''.''))]"

definition NormalizeDomain :: "unicode_case \<Rightarrow> string \<Rightarrow> string" where
  "NormalizeDomain uc domain = ToLower uc (TrimSuffix (TrimSpace domain) ''.'')"

section \<open>Paths\<close>

definition PathWithinDir :: "string \<Rightarrow> string \<Rightarrow> bool" where
  "PathWithinDir dir p =
     (let d = TrimRight_slash (Clean dir); q = Clean p in
      if q = d then True else HasPrefix q (d @ ''/''))"

definition ValidateSFTPRelativeRoot :: "string \<Rightarrow> site_error option" where
  "ValidateSFTPRelativeRoot v =
     (let cl = Clean (TrimSpace v); parts = Split cl CHR ''/'' in
      if cl = [] \<or> cl = ''.'' then None
      else if length parts < 2 \<or> length parts > 3 \<or> parts ! 0 \<noteq> ''domains'' \<or>
          ValidateDomain (parts ! 1) \<noteq> None then Some SFTPRootNotDomain
      else if length parts = 3 \<and> parts ! 2 \<noteq> ''public_html'' then Some SFTPRootNotPublic
      else None)"

section \<open>Site creation\<close>

record CreateSiteReq =
  CSR_SecureWithSSL :: bool
  CSR_RequestedByUserID :: int
  CSR_SiteID :: int
  CSR_ParentSiteID :: int
  CSR_SubscriptionID :: int
  CSR_Username :: string
  CSR_Domain :: string
  CSR_PHPVersion :: string
  CSR_Docroot :: string
  CSR_SharedAccount :: bool
  CSR_Limits :: SiteResourceLimits

definition NormalizeCreateSiteRequest :: "unicode_case \<Rightarrow> CreateSiteReq \<Rightarrow> CreateSiteReq" where
  "NormalizeCreateSiteRequest uc req =
     \<lparr>CSR_SecureWithSSL = CSR_SecureWithSSL req,
      CSR_RequestedByUserID = CSR_RequestedByUserID req,
      CSR_SiteID = CSR_SiteID req,
      CSR_ParentSiteID = CSR_ParentSiteID req,
      CSR_SubscriptionID = CSR_SubscriptionID req,
      CSR_Username = ToLower uc (TrimSpace (CSR_Username req)),
      CSR_Domain = NormalizeDomain uc (CSR_Domain req),
      CSR_PHPVersion = TrimSpace (CSR_PHPVersion req),
      CSR_Docroot = TrimSpace (CSR_Docroot req),
      CSR_SharedAccount = CSR_SharedAccount req,
      CSR_Limits = CSR_Limits req\<rparr>"

definition errorDocumentRE :: rexp where
  "errorDocumentRE = Seq (Chr CHR ''/'') (Plus (Cls (\<lambda>c. alnum c \<or> c \<in> set ''._/-'')))"

definition validateRuntimeLimits :: "SiteResourceLimits \<Rightarrow> site_error option" where
  "validateRuntimeLimits limits =
     first_error
      [fail_if (SRL_PreferredDomain limits \<notin> {[], ''none'', ''www'', ''root'', ''non-www''})
         PreferredDomainInvalid,
       fail_if (SRL_SecurityHeaderPreset limits \<notin> {[], ''off'', ''balanced'', ''strict''})
         HeaderPresetInvalid,
       fail_if (SRL_IndexFiles limits \<noteq> [] \<and> \<not> MatchString nginxFileListRE (SRL_IndexFiles limits))
         IndexFilesInvalid,
       map_option AccessCIDRInvalid
         (find (\<lambda>c. \<not> (c = [] \<or> ParseCIDR c \<noteq> None))
           (map TrimSpace (Split (SRL_AllowedCIDRs limits) CHR '',''))),
       map_option ErrorDocumentInvalid
         (find (\<lambda>v. \<not> (v = [] \<or> HasPrefix v ''/'' \<and> \<not> Contains v ''..'' \<and> MatchString errorDocumentRE v))
           [SRL_ErrorDocument404 limits, SRL_ErrorDocument50X limits])]"

definition validateCreateSiteRequest :: "CreateSiteReq \<Rightarrow> bool \<Rightarrow> site_error option" where
  "validateCreateSiteRequest req validateUsername =
     first_error
      [if validateUsername then ValidateUsername (CSR_Username req) else None,
       ValidateDomain (CSR_Domain req),
       fail_if (\<not> MatchString phpVersionRE (CSR_PHPVersion req))
         (PHPVersionUnsupported (CSR_PHPVersion req)),
       fail_if (CSR_Docroot req \<noteq> []) DocrootNotEmpty,
       validateRuntimeLimits (CSR_Limits req)]"

definition ValidateCreateSiteRequest :: "CreateSiteReq \<Rightarrow> site_error option" where
  "ValidateCreateSiteRequest req = validateCreateSiteRequest req True"

definition ValidateSubscriptionCreateSiteRequest :: "CreateSiteReq \<Rightarrow> site_error option" where
  "ValidateSubscriptionCreateSiteRequest req = validateCreateSiteRequest req False"

section \<open>Subdomains\<close>

definition ValidateSubdomainLabel :: "string \<Rightarrow> site_error option" where
  "ValidateSubdomainLabel label = fail_if (\<not> MatchString labelRE label) SubdomainLabelInvalid"

definition ParseSubdomainLabel :: "unicode_case \<Rightarrow> string \<Rightarrow> string \<Rightarrow> site_error + string" where
  "ParseSubdomainLabel uc input parent =
     (let name = NormalizeDomain uc input; par = NormalizeDomain uc parent;
          label = (if HasSuffix name (''.'' @ par) then TrimSuffix name (''.'' @ par) else name) in
      if \<not> HasSuffix name (''.'' @ par) \<and> Contains name ''.'' then Inl (SubdomainOutsideParent par)
      else case ValidateSubdomainLabel label of
        Some e \<Rightarrow> Inl e
      | None \<Rightarrow> Inr label)"

section \<open>The accepted names\<close>

definition valid_label :: "string \<Rightarrow> bool" where
  "valid_label l \<longleftrightarrow> 1 \<le> length l \<and> length l \<le> 63 \<and> list_all label_char l \<and>
     lower_alnum (hd l) \<and> lower_alnum (last l)"

lemma label_of_alnum: "lower_alnum c \<Longrightarrow> label_char c"
  by (simp add: label_char_def)

lemma MatchString_labelRE: "MatchString labelRE l \<longleftrightarrow> valid_label l"
proof
  assume "MatchString labelRE l"
  then obtain u v where l: "l = u @ v" "u \<in> lang (Cls lower_alnum)"
    "v \<in> lang (Opt (Seq (Rep (Cls label_char) 0 61) (Cls lower_alnum)))"
    unfolding MatchString_iff labelRE_def by (elim lang_SeqE)
  then obtain c where u: "u = [c]" "lower_alnum c" by auto
  show "valid_label l"
  proof (cases "v = []")
    case False
    then have "v \<in> lang (Seq (Rep (Cls label_char) 0 61) (Cls lower_alnum))" using l(3) by auto
    then obtain m w where v: "v = m @ w" "m \<in> lang (Rep (Cls label_char) 0 61)" "w \<in> lang (Cls lower_alnum)"
      by (elim lang_SeqE)
    then obtain d where "w = [d]" "lower_alnum d" by auto
    then show ?thesis
      using l(1) u v(1) v(2) [unfolded lang_Rep_Cls] by (simp add: valid_label_def label_of_alnum)
  qed (use l u in \<open>simp add: valid_label_def label_of_alnum\<close>)
next
  assume ok: "valid_label l"
  then obtain c t where l: "l = c # t" by (cases l) (auto simp: valid_label_def)
  have one: "[c] \<in> lang (Cls lower_alnum)" using ok l by (simp add: valid_label_def)
  have "t \<in> lang (Opt (Seq (Rep (Cls label_char) 0 61) (Cls lower_alnum)))"
  proof (cases t rule: rev_cases)
    case (snoc m d)
    then have "m \<in> lang (Rep (Cls label_char) 0 61)" "[d] \<in> lang (Cls lower_alnum)"
      using ok l unfolding lang_Rep_Cls by (simp_all add: valid_label_def)
    then have "m @ [d] \<in> lang (Seq (Rep (Cls label_char) 0 61) (Cls lower_alnum))"
      by (rule lang_SeqI)
    then show ?thesis using snoc by simp
  qed simp
  from lang_SeqI [OF one this] show "MatchString labelRE l"
    unfolding MatchString_iff labelRE_def l by simp
qed

lemma MatchString_usernameRE:
  "MatchString usernameRE u \<longleftrightarrow>
     3 \<le> length u \<and> length u \<le> 32 \<and> is_lower (hd u) \<and> list_all lower_alnum u"
proof -
  have "MatchString usernameRE u \<longleftrightarrow>
      (\<exists>c t. u = c # t \<and> is_lower c \<and> t \<in> lang (Rep (Cls lower_alnum) 2 31))"
    unfolding MatchString_iff usernameRE_def by (rule lang_Seq_Cls)
  then show ?thesis
    unfolding lang_Rep_Cls by (cases u) (auto simp: lower_alnum_def)
qed

lemma double_dot_label:
  assumes "list_all valid_label (Split d CHR ''.'')"
  shows "\<not> Contains d ''..''"
proof
  assume "Contains d ''..''"
  then obtain l r where d: "d = l @ ''..'' @ r" by (auto simp: Contains_iff)
  have "[] \<in> set (Split d CHR ''.'')" using d by (simp add: Split_append)
  then show False using assms by (auto simp: list_all_iff valid_label_def)
qed

lemma Split_two: "CHR ''.'' \<in> set d \<longleftrightarrow> 2 \<le> length (Split d CHR ''.'')"
proof
  assume "2 \<le> length (Split d CHR ''.'')"
  then show "CHR ''.'' \<in> set d" using Split_id [of "CHR ''.''" d] by force
next
  assume "CHR ''.'' \<in> set d"
  then obtain l r where "d = l @ CHR ''.'' # r" "CHR ''.'' \<notin> set l" by (auto dest: split_list_first)
  then show "2 \<le> length (Split d CHR ''.'')" by (cases "Split r CHR ''.''") (simp_all add: Split_append_sep)
qed

lemma ValidateDomain_None_iff:
  "ValidateDomain d = None \<longleftrightarrow>
     4 \<le> length d \<and> length d \<le> 253 \<and> 2 \<le> length (Split d CHR ''.'') \<and>
     list_all valid_label (Split d CHR ''.'')"
  unfolding ValidateDomain_def first_error_None list.pred_inject fail_if_None map_option_None_find
    MatchString_labelRE Contains_char Split_two
  using double_dot_label [of d] by auto

lemma label_chars_safe: "list_all label_char l \<Longrightarrow> list_all (\<lambda>c. is_ascii c \<and> \<not> is_upper c) l"
  by (auto simp: list_all_iff label_char_def lower_alnum_def is_lower_def is_digit_def is_ascii_def
      is_upper_def byte_def)

definition domain_char :: "char \<Rightarrow> bool" where
  "domain_char c \<longleftrightarrow> label_char c \<or> c = CHR ''.''"

lemma Split_chars: "list_all (list_all P) (Split s sep) \<Longrightarrow> P sep \<Longrightarrow> list_all P s"
proof (induction s)
  case (Cons c cs)
  then show ?case by (cases "Split cs sep") (auto split: if_splits)
qed simp

lemma ValidateDomain_chars:
  assumes "ValidateDomain d = None"
  shows "list_all domain_char d"
proof (rule Split_chars [where sep = "CHR ''.''"])
  show "list_all (list_all domain_char) (Split d CHR ''.'')"
    using assms unfolding ValidateDomain_None_iff by (auto simp: list_all_iff valid_label_def domain_char_def)
qed (simp add: domain_char_def)

lemma domain_char_cases: "domain_char c \<longleftrightarrow> is_lower c \<or> is_digit c \<or> c = CHR ''-'' \<or> c = CHR ''.''"
  by (auto simp: domain_char_def label_char_def lower_alnum_def)

lemma domain_char_plain:
  "domain_char c \<Longrightarrow> is_ascii c \<and> \<not> is_upper c \<and> \<not> ascii_space c \<and> c \<noteq> CHR ''/''"
  by (auto simp: domain_char_cases is_lower_def is_digit_def is_ascii_def is_upper_def ascii_space_def byte_def)

lemma plain_ends_domain: "list_all domain_char d \<Longrightarrow> plain_ends d"
  unfolding plain_ends_def list_all_iff
  using domain_char_plain by (meson hd_in_set last_in_set)

lemma NormalizeDomain_id:
  assumes "list_all domain_char d" and "\<not> HasSuffix d ''.''"
  shows "NormalizeDomain uc d = d"
proof -
  have "TrimSuffix (TrimSpace d) ''.'' = d"
    using assms by (simp add: TrimSpace_plain plain_ends_domain TrimSuffix_def)
  moreover have "list_all (\<lambda>c. is_ascii c \<and> \<not> is_upper c) d"
    using assms(1) domain_char_plain by (auto simp: list_all_iff)
  ultimately show ?thesis by (simp add: NormalizeDomain_def ToLower_id)
qed

lemma ValidateDomain_no_trailing_dot:
  assumes "ValidateDomain d = None"
  shows "\<not> HasSuffix d ''.''"
proof
  assume "HasSuffix d ''.''"
  then obtain t where d: "d = t @ ''.''" by (auto simp: HasSuffix_iff)
  have "[] \<in> set (Split d CHR ''.'')" using d by (simp add: Split_append)
  then show False using assms unfolding ValidateDomain_None_iff by (auto simp: list_all_iff valid_label_def)
qed

section \<open>Confinement\<close>

lemma within_of_prefix:
  assumes "IsAbs dir" and "IsAbs p" and "prefix (path_comps dir) (path_comps p)"
  shows "PathWithinDir dir p"
proof -
  obtain cs where cs: "path_comps p = path_comps dir @ cs" using assms(3) by (auto elim: prefixE)
  note within = PathWithinDir_def Let_def TrimRight_Clean_abs [OF assms(1)] Clean_abs [OF assms(2)]
  show ?thesis
  proof (cases "path_comps dir = []")
    case True
    then show ?thesis by (simp add: within HasPrefix_def)
  next
    case False
    then show ?thesis
      using cs Join_append [OF False, of cs "''/''"] by (cases "cs = []") (simp_all add: within HasPrefix_iff)
  qed
qed

text \<open>
  \<open>PathWithinDir\<close> decides containment of components: for an absolute directory, a path is inside
  exactly when it is absolute and its components, with every dot and double dot resolved, extend
  those of the directory. A sibling that merely shares the directory's text as a prefix is outside.
\<close>

theorem PathWithinDir_iff:
  assumes "IsAbs dir"
  shows "PathWithinDir dir p \<longleftrightarrow> IsAbs p \<and> prefix (path_comps dir) (path_comps p)"
proof (cases "IsAbs p")
  case False
  have "\<not> HasPrefix (Clean p) ''/''" using False IsAbs_Clean [of p] by (simp add: IsAbs_def)
  then show ?thesis
    using False assms by (auto simp: PathWithinDir_def Let_def TrimRight_Clean_abs HasPrefix_iff)
next
  case True
  have free: "\<forall>c \<in> set (path_comps q). c \<noteq> [] \<and> CHR ''/'' \<notin> set c" for q
    using path_comps_no_slash by blast
  note within = PathWithinDir_def Let_def TrimRight_Clean_abs [OF assms] Clean_abs [OF True]
  consider (root) "path_comps dir = []" | (top) "path_comps dir \<noteq> []" "path_comps p = []"
    | (both) "path_comps dir \<noteq> []" "path_comps p \<noteq> []" by blast
  then show ?thesis
  proof cases
    case root
    then show ?thesis using True by (simp add: within HasPrefix_def)
  next
    case top
    have "Join (path_comps dir) ''/'' \<noteq> []" using Join_last_no_slash [OF top(1) free] by simp
    then show ?thesis using top True by (auto simp: within HasPrefix_iff Cons_eq_append_conv)
  next
    case both
    show ?thesis
      using Join_prefix_iff [OF both free free] both True by (simp add: within HasPrefix_iff) argo
  qed
qed

theorem PathWithinDir_iff_witness:
  "PathWithinDir ''/srv/a/'' ''/srv/b/../a/x'' \<and> \<not> PathWithinDir ''/srv/a'' ''/srv/ab''"
proof -
  have "IsAbs ''/srv/a/''" "IsAbs ''/srv/a''" by code_simp+
  then show ?thesis
    using PathWithinDir_iff [of "''/srv/a/''" "''/srv/b/../a/x''"] PathWithinDir_iff [of "''/srv/a''" "''/srv/ab''"]
    by (simp add: path_comps_def IsAbs_def HasPrefix_def)
qed

lemma ValidateDomain_plain_comp:
  assumes "ValidateDomain d = None"
  shows "plain_comp d"
proof -
  have "CHR ''/'' \<notin> set d"
    using ValidateDomain_chars [OF assms] domain_char_plain unfolding list_all_iff by blast
  moreover have "4 \<le> length d" using assms by (simp add: ValidateDomain_None_iff)
  ultimately show ?thesis by (auto simp: plain_comp_def)
qed

lemma ValidateUsername_plain_comp:
  assumes "ValidateUsername u = None"
  shows "plain_comp u"
proof -
  have "3 \<le> length u" "list_all lower_alnum u"
    using assms unfolding ValidateUsername_def first_error_None list.pred_inject fail_if_None
      not_not MatchString_usernameRE by simp_all
  moreover have "\<not> lower_alnum CHR ''/''" by code_simp
  ultimately show ?thesis by (auto simp: plain_comp_def list_all_iff)
qed

lemma ValidateCreateSiteRequest_parts:
  "ValidateCreateSiteRequest req = None \<longleftrightarrow>
     ValidateUsername (CSR_Username req) = None \<and> ValidateDomain (CSR_Domain req) = None \<and>
     MatchString phpVersionRE (CSR_PHPVersion req) \<and> CSR_Docroot req = [] \<and>
     validateRuntimeLimits (CSR_Limits req) = None"
  unfolding ValidateCreateSiteRequest_def validateCreateSiteRequest_def first_error_None list.pred_inject
  by simp

lemma username_canonical:
  assumes "ValidateUsername u = None"
  shows "ToLower uc (TrimSpace u) = u"
proof -
  have u: "list_all lower_alnum u"
    using assms unfolding ValidateUsername_def first_error_None list.pred_inject fail_if_None
      not_not MatchString_usernameRE by simp
  then have "list_all domain_char u"
    by (auto simp: list_all_iff domain_char_def label_char_def)
  moreover from this have "list_all (\<lambda>c. is_ascii c \<and> \<not> is_upper c) u"
    using domain_char_plain by (auto simp: list_all_iff)
  ultimately show ?thesis by (simp add: TrimSpace_plain plain_ends_domain ToLower_id)
qed

lemma phpVersion_chars:
  assumes "MatchString phpVersionRE v"
  shows "TrimSpace v = v"
proof -
  have "list_all domain_char v"
    using MatchString_chars [OF assms] by (auto simp: phpVersionRE_def list_all_iff domain_char_cases)
  then show ?thesis by (simp add: TrimSpace_plain plain_ends_domain)
qed



section \<open>Subdomain labels\<close>

lemma valid_label_domain_chars: "valid_label l \<Longrightarrow> list_all domain_char l"
  by (auto simp: valid_label_def domain_char_def list_all_iff)

lemma valid_label_no_dot: "valid_label l \<Longrightarrow> CHR ''.'' \<notin> set l"
  by (auto simp: valid_label_def list_all_iff label_char_def lower_alnum_def is_lower_def is_digit_def byte_def)

lemma NormalizeDomain_label: "valid_label l \<Longrightarrow> NormalizeDomain uc l = l"
  by (rule NormalizeDomain_id) (auto simp: valid_label_domain_chars HasSuffix_iff dest: valid_label_no_dot)

lemma HasSuffix_dot: "ValidateDomain p = None \<Longrightarrow> \<not> HasSuffix (l @ CHR ''.'' # p) ''.''"
  using ValidateDomain_no_trailing_dot [of p]
  by (cases p rule: rev_cases) (auto simp: HasSuffix_iff ValidateDomain_None_iff)

text \<open>
  Choosing a subdomain of a valid parent: the accepted inputs are read as a single DNS label,
  the label alone and the full name below the parent give the same result, and any result is a
  label that makes a valid domain when put in front of the parent (up to the length limit).
\<close>

theorem ParseSubdomainLabel_correct:
  assumes "ValidateDomain parent = None"
  shows "(MatchString labelRE l \<longrightarrow>
       ParseSubdomainLabel uc l parent = Inr l \<and>
       ParseSubdomainLabel uc (l @ ''.'' @ parent) parent = Inr l) \<and>
     (ParseSubdomainLabel uc input parent = Inr r \<longrightarrow>
       MatchString labelRE r \<and>
       (length r + 1 + length parent \<le> 253 \<longrightarrow> ValidateDomain (r @ ''.'' @ parent) = None))"
proof (intro conjI impI)
  have par: "NormalizeDomain uc parent = parent"
    using NormalizeDomain_id [OF ValidateDomain_chars ValidateDomain_no_trailing_dot] assms by blast
  {
    assume "MatchString labelRE l"
    then have l: "valid_label l" by (simp add: MatchString_labelRE)
    have "\<not> HasSuffix l (CHR ''.'' # parent)" using valid_label_no_dot [OF l] by (auto simp: HasSuffix_iff)
    then show "ParseSubdomainLabel uc l parent = Inr l"
      using valid_label_no_dot [OF l] l
      by (simp add: ParseSubdomainLabel_def Let_def NormalizeDomain_label par Contains_char
          ValidateSubdomainLabel_def fail_if_def MatchString_labelRE)
    have "list_all domain_char (l @ CHR ''.'' # parent)"
      using valid_label_domain_chars [OF l] ValidateDomain_chars [OF assms] by (simp add: domain_char_def)
    then have norm: "NormalizeDomain uc (l @ CHR ''.'' # parent) = l @ CHR ''.'' # parent"
      using HasSuffix_dot [OF assms] by (rule NormalizeDomain_id)
    have "HasSuffix (l @ CHR ''.'' # parent) (CHR ''.'' # parent)" by (auto simp: HasSuffix_iff)
    then show "ParseSubdomainLabel uc (l @ ''.'' @ parent) parent = Inr l"
      using l by (simp add: ParseSubdomainLabel_def Let_def norm par
          ValidateSubdomainLabel_def fail_if_def MatchString_labelRE)
  }
  {
    assume "ParseSubdomainLabel uc input parent = Inr r"
    then show match: "MatchString labelRE r"
      by (auto simp: ParseSubdomainLabel_def Let_def ValidateSubdomainLabel_def fail_if_def
          split: if_splits)
    assume "length r + 1 + length parent \<le> 253"
    then show "ValidateDomain (r @ ''.'' @ parent) = None"
      using assms match Split_append_sep [OF valid_label_no_dot [of r], of parent]
      by (simp add: MatchString_labelRE ValidateDomain_None_iff)
  }
qed

theorem ParseSubdomainLabel_correct_witness:
  "ParseSubdomainLabel \<lparr>uc_lower = id, uc_upper = id, uc_fold = (=)\<rparr> ''blog'' ''example.com'' = Inr ''blog'' \<and>
   ParseSubdomainLabel \<lparr>uc_lower = id, uc_upper = id, uc_fold = (=)\<rparr> ''blog.example.com'' ''example.com'' = Inr ''blog''"
proof -
  have "ValidateDomain ''example.com'' = None" "MatchString labelRE ''blog''" by code_simp+
  then show ?thesis
    using ParseSubdomainLabel_correct [of "''example.com''" "''blog''" "\<lparr>uc_lower = id, uc_upper = id, uc_fold = (=)\<rparr>"] by simp
qed

section \<open>SFTP roots\<close>

text \<open>
  An SFTP identity starts either at the subscription root or at \<open>domains/d\<close> or
  \<open>domains/d/public_html\<close> of a valid domain \<open>d\<close>: these are exactly the accepted values, up to
  surrounding space and lexical cleaning.
\<close>

theorem ValidateSFTPRelativeRoot_accepts:
  "ValidateSFTPRelativeRoot v = None \<longleftrightarrow>
     Clean (TrimSpace v) = ''.'' \<or>
     (\<exists>d. ValidateDomain d = None \<and>
        (Clean (TrimSpace v) = ''domains/'' @ d \<or> Clean (TrimSpace v) = ''domains/'' @ d @ ''/public_html''))"
  (is "_ \<longleftrightarrow> ?c = _ \<or> ?R")
proof -
  let ?parts = "Split ?c CHR ''/''"
  have join: "Join ?parts ''/'' = ?c" by (rule Join_Split)
  have split: "Split (''domains/'' @ d) CHR ''/'' = [''domains'', d]"
    "Split (''domains/'' @ d @ ''/public_html'') CHR ''/'' = [''domains'', d, ''public_html'']"
    if "ValidateDomain d = None" for d
    using ValidateDomain_plain_comp [OF that]
      Split_append_sep [of "CHR ''/''" d "''public_html''"] Split_id [of "CHR ''/''" d]
    by (simp_all add: plain_comp_def)
  have "?R \<longleftrightarrow> (length ?parts = 2 \<or> length ?parts = 3 \<and> ?parts ! 2 = ''public_html'') \<and>
      ?parts ! 0 = ''domains'' \<and> ValidateDomain (?parts ! 1) = None" (is "_ \<longleftrightarrow> ?L")
  proof
    assume ?R
    then show ?L using split by fastforce
  next
    assume L: ?L
    consider (two) d where "?parts = [''domains'', d]" "ValidateDomain d = None"
      | (three) d where "?parts = [''domains'', d, ''public_html'']" "ValidateDomain d = None"
      using L by (auto simp: length_Suc_conv numeral_2_eq_2 numeral_3_eq_3)
    then show ?R
    proof cases
      case two
      then show ?thesis using join by auto
    next
      case three
      then show ?thesis using join by auto
    qed
  qed
  then show ?thesis
    unfolding ValidateSFTPRelativeRoot_def Let_def by auto
qed

end
