(* ===== verification/Nak_Monad.thy ===== *)
theory Nak_Monad
  imports Nak_Prelude
begin

text \<open>
  Operations that read and change a state and may fail: the shape of a Go method on a store that
  returns \<open>(value, error)\<close>. A failure keeps the state reached so far. The weakest precondition of an
  operation takes one postcondition for results and one for errors.
\<close>

section \<open>Operations\<close>

type_synonym ('e, 's, 'a) st_op = "'s \<Rightarrow> ('e + 'a) \<times> 's"

definition ret :: "'a \<Rightarrow> ('e, 's, 'a) st_op" where
  "ret x s = (Inr x, s)"

definition fail :: "'e \<Rightarrow> ('e, 's, 'a) st_op" where
  "fail e s = (Inl e, s)"

definition andthen :: "('e, 's, 'a) st_op \<Rightarrow> ('a \<Rightarrow> ('e, 's, 'b) st_op) \<Rightarrow> ('e, 's, 'b) st_op" where
  "andthen m f s = (case m s of (Inl e, s') \<Rightarrow> (Inl e, s') | (Inr x, s') \<Rightarrow> f x s')"

definition check :: "bool \<Rightarrow> 'e \<Rightarrow> ('e, 's, unit) st_op" where
  "check ok e = (if ok then ret () else fail e)"

primrec each :: "('a \<Rightarrow> ('e, 's, unit) st_op) \<Rightarrow> 'a list \<Rightarrow> ('e, 's, unit) st_op" where
  "each f [] = ret ()"
| "each f (x # xs) = andthen (f x) (\<lambda>_. each f xs)"


section \<open>Weakest preconditions\<close>

definition wp :: "('e, 's, 'a) st_op \<Rightarrow> ('a \<Rightarrow> 's \<Rightarrow> bool) \<Rightarrow> ('s \<Rightarrow> bool) \<Rightarrow> 's \<Rightarrow> bool" where
  "wp m P Q s = (case m s of (Inl e, s') \<Rightarrow> Q s' | (Inr x, s') \<Rightarrow> P x s')"

named_theorems wp_rules

lemma wp_ret [wp_rules]: "P x s \<Longrightarrow> wp (ret x) P Q s"
  by (simp add: wp_def ret_def)

lemma wp_fail [wp_rules]: "Q s \<Longrightarrow> wp (fail e) P Q s"
  by (simp add: wp_def fail_def)

lemma wp_andthen [wp_rules]:
  "wp m (\<lambda>x. wp (f x) P Q) Q s \<Longrightarrow> wp (andthen m f) P Q s"
  by (auto simp: wp_def andthen_def split: prod.splits sum.splits)

lemma wp_andthenD: "wp (andthen m f) P Q s \<Longrightarrow> wp m (\<lambda>x. wp (f x) P Q) Q s"
  by (auto simp: wp_def andthen_def split: prod.splits sum.splits)

lemma wp_check [wp_rules]:
  "(ok \<Longrightarrow> P () s) \<Longrightarrow> (\<not> ok \<Longrightarrow> Q s) \<Longrightarrow> wp (check ok e) P Q s"
  by (simp add: wp_def check_def ret_def fail_def)

lemma wp_if [wp_rules]:
  "(b \<Longrightarrow> wp m P Q s) \<Longrightarrow> (\<not> b \<Longrightarrow> wp n P Q s) \<Longrightarrow> wp (if b then m else n) P Q s"
  by simp

lemma wp_option [wp_rules]:
  "(x = None \<Longrightarrow> wp m P Q s) \<Longrightarrow> (\<And>y. x = Some y \<Longrightarrow> wp (f y) P Q s) \<Longrightarrow>
     wp (case x of None \<Rightarrow> m | Some y \<Rightarrow> f y) P Q s"
  by (cases x) simp_all

lemma wp_conseq:
  "wp m P Q s \<Longrightarrow> (\<And>x s'. P x s' \<Longrightarrow> P' x s') \<Longrightarrow> (\<And>s'. Q s' \<Longrightarrow> Q' s') \<Longrightarrow>
     wp m P' Q' s"
  by (auto simp: wp_def split: prod.splits sum.splits)

lemma wp_each:
  assumes "\<And>x s. x \<in> set xs \<Longrightarrow> I s \<Longrightarrow> wp (f x) (\<lambda>_. I) Q s" and "I s"
  shows "wp (each f xs) (\<lambda>_. I) Q s"
  using assms
proof (induction xs arbitrary: s)
  case (Cons x xs)
  have "wp (f x) (\<lambda>_. I) Q s" using Cons.prems by simp
  then have "wp (f x) (\<lambda>_. wp (each f xs) (\<lambda>_. I) Q) Q s"
    by (rule wp_conseq) (use Cons in auto)
  then show ?case by (simp add: wp_andthen)
qed (simp add: wp_ret)

end
