(* ===== verification/Site_Registry.thy ===== *)
theory Site_Registry
  imports Site_Request Nak_Monad "HOL-Library.Char_ord" "HOL-Library.List_Lexorder"
begin

text \<open>
  \<open>internal/agent/ops/site_identity.go\<close>: the agent's durable registry of website identities. A site
  record per site id and a binding record per hostname decide which site may act on a hostname, and
  a removed site keeps a tombstone. Records are files; every read, write and lock may fail, which the
  model takes from a list of fault outcomes in the state, so each theorem covers every pattern of
  failures and of half-finished operations.
\<close>

section \<open>State\<close>

record SiteIdentity =
  Id_SiteID :: int
  Id_SubscriptionID :: int
  Id_Username :: string
  Id_Domain :: string

record siteIdentityRecord =
  Rec_Identity :: SiteIdentity
  Rec_State :: string
  Rec_OperationID :: int
  Rec_Revision :: int
  Rec_RemovalKind :: string

record domainIdentityRecord =
  Dom_ActiveID :: int
  Dom_RemovedHistory :: bool

text \<open>
  The directory \<open>root\<close>: the files \<open>site-<id>.json\<close> by id and \<open>domain-<key>.json\<close> by key, where the key
  of a hostname is the hexadecimal SHA-256 digest \<open>Reg_Hash\<close>. \<open>Reg_Faults\<close> holds the outcomes of the
  file operations to come (\<open>True\<close> is a failure; an exhausted list means no further failure).
\<close>

record registry =
  Reg_Root :: string
  Reg_Hash :: "string \<Rightarrow> string"
  Reg_Sites :: "int \<Rightarrow> siteIdentityRecord option"
  Reg_Domains :: "string \<Rightarrow> domainIdentityRecord option"
  Reg_Faults :: "bool list"

datatype reg_error =
    IOFault
  | NotExist
  | RecordInconsistent
  | ErrSiteIdentityRemoved
  | ErrSiteIdentityUnknown
  | NestedScope
  | InvalidIdentity
  | InvalidAccount
  | OwnerDiffers
  | ConflictingIdentities
  | LegacyDiffers
  | NeedsSubscription
  | HostnameReserved
  | RemovalIdentityRequired
  | CleanupNotReserved
  | AccountInconsistent
  | WorkFailed

section \<open>Operations on the registry\<close>

type_synonym 'a reg_op = "(reg_error, registry, 'a) st_op"

text \<open>\<open>errors.Is(err, os.ErrNotExist)\<close> handled by the caller.\<close>

definition if_exists :: "'a reg_op \<Rightarrow> 'a option reg_op" where
  "if_exists m reg =
     (case m reg of
        (Inl NotExist, reg') \<Rightarrow> (Inr None, reg')
      | (Inl e, reg') \<Rightarrow> (Inl e, reg')
      | (Inr x, reg') \<Rightarrow> (Inr (Some x), reg'))"

text \<open>One file operation.\<close>

definition io :: "unit reg_op" where
  "io reg =
     (case Reg_Faults reg of
        [] \<Rightarrow> (Inr (), reg)
      | bad # rest \<Rightarrow> ((if bad then Inl IOFault else Inr ()), reg\<lparr>Reg_Faults := rest\<rparr>))"

definition site_states :: "string list" where
  "site_states = [''active'', ''removing'', ''removed'']"

definition consistent_record :: "int \<Rightarrow> siteIdentityRecord \<Rightarrow> bool" where
  "consistent_record ident rec \<longleftrightarrow>
     Id_SiteID (Rec_Identity rec) = ident \<and> Rec_State rec \<in> set site_states \<and>
     ValidateDomain (Id_Domain (Rec_Identity rec)) = None"

definition readSite :: "int \<Rightarrow> siteIdentityRecord reg_op" where
  "readSite ident = andthen io (\<lambda>_ reg.
     case Reg_Sites reg ident of
       None \<Rightarrow> (Inl NotExist, reg)
     | Some rec \<Rightarrow> ((if consistent_record ident rec then Inr rec else Inl RecordInconsistent), reg))"

definition readDomain :: "string \<Rightarrow> domainIdentityRecord reg_op" where
  "readDomain domain = andthen io (\<lambda>_ reg.
     case Reg_Domains reg (Reg_Hash reg domain) of
       None \<Rightarrow> (Inl NotExist, reg)
     | Some rec \<Rightarrow> (Inr rec, reg))"

definition writeSite :: "siteIdentityRecord \<Rightarrow> unit reg_op" where
  "writeSite rec = andthen io (\<lambda>_ reg.
     (Inr (), reg\<lparr>Reg_Sites := (Reg_Sites reg)(Id_SiteID (Rec_Identity rec) \<mapsto> rec)\<rparr>))"

definition writeDomain :: "string \<Rightarrow> domainIdentityRecord \<Rightarrow> unit reg_op" where
  "writeDomain domain rec = andthen io (\<lambda>_ reg.
     (Inr (), reg\<lparr>Reg_Domains := (Reg_Domains reg)(Reg_Hash reg domain \<mapsto> rec)\<rparr>))"

definition ensureRoot :: "unit reg_op" where
  "ensureRoot = andthen (\<lambda>reg. (if IsAbs (Reg_Root reg) then Inr () else Inl IOFault, reg)) (\<lambda>_. io)"

section \<open>Leases\<close>

datatype lease_mode = Existing | Create | Remove | AccountRemove

record siteLease =
  Lease_Registry :: string
  Lease_Identities :: "string \<Rightarrow> SiteIdentity option"

definition compatibleIdentity :: "SiteIdentity \<Rightarrow> SiteIdentity \<Rightarrow> bool" where
  "compatibleIdentity stored supplied \<longleftrightarrow>
     Id_Domain stored = Id_Domain supplied \<and>
     (Id_SiteID supplied = 0 \<or> Id_SiteID stored = Id_SiteID supplied) \<and>
     (Id_SubscriptionID supplied = 0 \<or> Id_SubscriptionID stored = Id_SubscriptionID supplied) \<and>
     (Id_Username supplied = [] \<or> Id_Username stored = Id_Username supplied)"

definition removalRecordKind :: "siteIdentityRecord \<Rightarrow> string" where
  "removalRecordKind rec = (if Rec_RemovalKind rec = [] then ''site'' else Rec_RemovalKind rec)"

definition validateLease :: "SiteIdentity \<Rightarrow> lease_mode \<Rightarrow> int \<Rightarrow> int \<Rightarrow> unit reg_op" where
  "validateLease ident mode op revision =
     andthen (if_exists (readDomain (Id_Domain ident))) (\<lambda>found.
     let binding = (case found of None \<Rightarrow> \<lparr>Dom_ActiveID = 0, Dom_RemovedHistory = False\<rparr> | Some b \<Rightarrow> b) in
     if Id_SiteID ident = 0 then
       (if Dom_RemovedHistory binding then fail ErrSiteIdentityRemoved
        else if Dom_ActiveID binding > 0 then
          andthen (readSite (Dom_ActiveID binding)) (\<lambda>rec.
          andthen (check (Rec_State rec = ''active'') ErrSiteIdentityRemoved) (\<lambda>_.
          check (compatibleIdentity (Rec_Identity rec) ident) LegacyDiffers))
        else ret ())
     else
       andthen (if_exists (readSite (Id_SiteID ident))) (\<lambda>stored.
       andthen
        (case stored of
           Some rec \<Rightarrow> ret rec
         | None \<Rightarrow>
             let rec = \<lparr>Rec_Identity = ident, Rec_State = ''active'', Rec_OperationID = 0,
                        Rec_Revision = 0, Rec_RemovalKind = []\<rparr> in
             andthen (check (mode \<noteq> Existing) ErrSiteIdentityUnknown) (\<lambda>_.
             andthen (check (Id_SubscriptionID ident > 0 \<and> Id_Username ident \<noteq> []) NeedsSubscription) (\<lambda>_.
             andthen (check (Dom_ActiveID binding = 0 \<or> Dom_ActiveID binding = Id_SiteID ident)
               HostnameReserved) (\<lambda>_.
             andthen (writeSite rec) (\<lambda>_. ret rec))))) (\<lambda>rec.
       andthen (check (compatibleIdentity (Rec_Identity rec) ident) OwnerDiffers) (\<lambda>_.
       if Rec_State rec \<noteq> ''active'' then
         check ((mode = Remove \<or> mode = AccountRemove) \<and> Rec_OperationID rec = op \<and>
           Rec_Revision rec \<le> revision \<and>
           removalRecordKind rec = (if mode = AccountRemove then ''account'' else ''site''))
           ErrSiteIdentityRemoved
       else
         andthen (check (Dom_ActiveID binding = 0 \<or> Dom_ActiveID binding = Id_SiteID ident)
           HostnameReserved) (\<lambda>_.
         if Dom_ActiveID binding = 0 then
           andthen (check (mode \<noteq> Existing) ErrSiteIdentityUnknown) (\<lambda>_.
           writeDomain (Id_Domain ident) (binding\<lparr>Dom_ActiveID := Id_SiteID ident\<rparr>))
         else ret ())))))"

text \<open>The first loop of \<open>withSites\<close>: identities completed from their records, and the lock names.\<close>

definition merge_identity :: "SiteIdentity \<Rightarrow> SiteIdentity \<Rightarrow> SiteIdentity" where
  "merge_identity previous ident =
     ident\<lparr>Id_SiteID := (if Id_SiteID ident = 0 then Id_SiteID previous else Id_SiteID ident),
        Id_SubscriptionID :=
          (if Id_SubscriptionID ident = 0 then Id_SubscriptionID previous else Id_SubscriptionID ident),
        Id_Username := (if Id_Username ident = [] then Id_Username previous else Id_Username ident)\<rparr>"

definition conflicting :: "SiteIdentity \<Rightarrow> SiteIdentity \<Rightarrow> bool" where
  "conflicting previous ident \<longleftrightarrow>
     (Id_SiteID previous > 0 \<and> Id_SiteID ident > 0 \<and> Id_SiteID previous \<noteq> Id_SiteID ident) \<or>
     (Id_SubscriptionID previous > 0 \<and> Id_SubscriptionID ident > 0 \<and>
        Id_SubscriptionID previous \<noteq> Id_SubscriptionID ident) \<or>
     (Id_Username previous \<noteq> [] \<and> Id_Username ident \<noteq> [] \<and> Id_Username previous \<noteq> Id_Username ident)"

text \<open>\<open>%020d\<close> of a non-negative number.\<close>

definition pad20 :: "int \<Rightarrow> string" where
  "pad20 n = (let s = nat_string (nat n) in replicate (20 - length s) CHR ''0'' @ s)"

definition identity_locks :: "registry \<Rightarrow> SiteIdentity \<Rightarrow> string list" where
  "identity_locks reg ident =
     (if Id_SubscriptionID ident > 0 then [''0-sub-'' @ pad20 (Id_SubscriptionID ident)] else []) @
     [''1-domain-'' @ Reg_Hash reg (Id_Domain ident)] @
     (if Id_SiteID ident > 0 then [''2-site-'' @ pad20 (Id_SiteID ident)] else [])"

definition complete_identity :: "SiteIdentity \<Rightarrow> SiteIdentity reg_op" where
  "complete_identity ident =
     (if Id_SiteID ident > 0 then
        andthen (if_exists (readSite (Id_SiteID ident))) (\<lambda>stored.
          case stored of
            None \<Rightarrow> ret ident
          | Some rec \<Rightarrow> andthen (check (compatibleIdentity (Rec_Identity rec) ident) OwnerDiffers)
              (\<lambda>_. ret (Rec_Identity rec)))
      else ret ident)"

fun resolve_identities :: "unicode_case \<Rightarrow> SiteIdentity list \<Rightarrow> (string \<Rightarrow> SiteIdentity option) \<Rightarrow>
  ((string \<Rightarrow> SiteIdentity option) \<times> SiteIdentity list) reg_op" where
  "resolve_identities uc [] resolved = ret (resolved, [])"
| "resolve_identities uc (ident # ids) resolved =
     andthen (check (\<not> (ValidateDomain (Id_Domain ident) \<noteq> None \<or>
       NormalizeDomain uc (Id_Domain ident) \<noteq> Id_Domain ident \<or> Id_SiteID ident < 0 \<or> Id_SubscriptionID ident < 0))
       InvalidIdentity) (\<lambda>_.
     andthen (check (\<not> (Id_Username ident \<noteq> [] \<and> ValidateUsername (Id_Username ident) \<noteq> None))
       InvalidAccount) (\<lambda>_.
     andthen (complete_identity ident) (\<lambda>ident.
     andthen
      (case resolved (Id_Domain ident) of
         None \<Rightarrow> ret (resolved(Id_Domain ident \<mapsto> ident))
       | Some previous \<Rightarrow>
           if conflicting previous ident then fail ConflictingIdentities
           else ret (resolved(Id_Domain ident \<mapsto> merge_identity previous ident))) (\<lambda>resolved.
     andthen (resolve_identities uc ids resolved) (\<lambda>(resolved, values).
     ret (resolved, ident # values))))))"

definition lock_names :: "registry \<Rightarrow> SiteIdentity list \<Rightarrow> string list" where
  "lock_names reg values = remdups_adj (sort (concat (map (identity_locks reg) values)))"

text \<open>
  Opening and taking one lock is a file operation that may fail (also by the caller's cancellation);
  waiting for another holder is not modelled.
\<close>

definition take_locks :: "SiteIdentity list \<Rightarrow> unit reg_op" where
  "take_locks values reg = each (\<lambda>_. io) (lock_names reg values) reg"

text \<open>
  The lease proper: resolve, lock in name order, validate each identity; then the work runs.
\<close>

definition prepare_lease :: "unicode_case \<Rightarrow> SiteIdentity list \<Rightarrow> lease_mode \<Rightarrow> int \<Rightarrow> int \<Rightarrow> siteLease reg_op" where
  "prepare_lease uc ids mode op revision =
     andthen (resolve_identities uc ids Map.empty) (\<lambda>(resolved, values).
     andthen (take_locks values) (\<lambda>_.
     andthen (each (\<lambda>ident. validateLease ident mode op revision) values) (\<lambda>_ reg.
     (Inr \<lparr>Lease_Registry = Reg_Root reg, Lease_Identities = resolved\<rparr>, reg))))"

definition withSites :: "unicode_case \<Rightarrow> siteLease option \<Rightarrow> SiteIdentity list \<Rightarrow> lease_mode \<Rightarrow>
  int \<Rightarrow> int \<Rightarrow> (siteLease \<Rightarrow> 'a reg_op) \<Rightarrow> 'a reg_op" where
  "withSites uc held ids mode op revision fn =
     andthen ensureRoot (\<lambda>_ reg.
     (case held of
        Some lease \<Rightarrow>
          if Lease_Registry lease = Reg_Root reg then
            andthen (check (list_all (\<lambda>ident.
                case Lease_Identities lease (Id_Domain ident) of
                  None \<Rightarrow> False | Some h \<Rightarrow> compatibleIdentity h ident) ids) NestedScope)
              (\<lambda>_. fn lease) reg
          else andthen (prepare_lease uc ids mode op revision) fn reg
      | None \<Rightarrow> andthen (prepare_lease uc ids mode op revision) fn reg))"

definition WithSites :: "unicode_case \<Rightarrow> siteLease option \<Rightarrow> SiteIdentity list \<Rightarrow>
  (siteLease \<Rightarrow> 'a reg_op) \<Rightarrow> 'a reg_op" where
  "WithSites uc held ids fn = withSites uc held ids Existing 0 0 fn"

definition WithCreation :: "unicode_case \<Rightarrow> siteLease option \<Rightarrow> SiteIdentity list \<Rightarrow>
  (siteLease \<Rightarrow> 'a reg_op) \<Rightarrow> 'a reg_op" where
  "WithCreation uc held ids fn = withSites uc held ids Create 0 0 fn"

definition WithRemoval :: "unicode_case \<Rightarrow> siteLease option \<Rightarrow> int \<Rightarrow> int \<Rightarrow> SiteIdentity list \<Rightarrow>
  (siteLease \<Rightarrow> 'a reg_op) \<Rightarrow> 'a reg_op" where
  "WithRemoval uc held op revision ids fn = withSites uc held ids Remove op revision fn"

section \<open>Removal\<close>

definition mark_one :: "int \<Rightarrow> int \<Rightarrow> SiteIdentity \<Rightarrow> unit reg_op" where
  "mark_one op revision ident =
     andthen (readSite (Id_SiteID ident)) (\<lambda>rec.
     andthen (check (\<not> (Rec_State rec \<noteq> ''active'' \<and>
         (Rec_OperationID rec \<noteq> op \<or> revision < Rec_Revision rec \<or> removalRecordKind rec \<noteq> ''site'')))
       ErrSiteIdentityRemoved) (\<lambda>_.
     if Rec_State rec = ''removed'' then ret ()
     else
       andthen (writeSite (rec\<lparr>Rec_State := ''removing'', Rec_OperationID := op,
         Rec_RemovalKind := ''site'', Rec_Revision := revision\<rparr>)) (\<lambda>_.
       andthen (readDomain (Id_Domain ident)) (\<lambda>binding.
       writeDomain (Id_Domain ident) (binding\<lparr>Dom_RemovedHistory := True\<rparr>)))))"

definition MarkRemoved :: "unicode_case \<Rightarrow> siteLease option \<Rightarrow> int \<Rightarrow> int \<Rightarrow> SiteIdentity list \<Rightarrow> unit reg_op" where
  "MarkRemoved uc held op revision ids =
     andthen (check (\<not> (op \<le> 0 \<or> revision \<le> 0 \<or> ids = [])) RemovalIdentityRequired) (\<lambda>_.
     WithRemoval uc held op revision ids (\<lambda>_. each (mark_one op revision) ids))"

definition release_one :: "SiteIdentity \<Rightarrow> unit reg_op" where
  "release_one ident =
     andthen (readDomain (Id_Domain ident)) (\<lambda>binding.
     writeDomain (Id_Domain ident)
       (binding\<lparr>Dom_ActiveID := (if Dom_ActiveID binding = Id_SiteID ident then 0 else Dom_ActiveID binding),
                Dom_RemovedHistory := True\<rparr>))"

definition releaseRemovedBindings :: "SiteIdentity list \<Rightarrow> unit reg_op" where
  "releaseRemovedBindings ids = each release_one ids"

definition complete_one :: "int \<Rightarrow> SiteIdentity \<Rightarrow> unit reg_op" where
  "complete_one op ident =
     andthen (readSite (Id_SiteID ident)) (\<lambda>rec.
     andthen (check (\<not> (Rec_OperationID rec \<noteq> op \<or> Rec_State rec = ''active'')) CleanupNotReserved) (\<lambda>_.
     if Rec_State rec \<noteq> ''removed'' then writeSite (rec\<lparr>Rec_State := ''removed''\<rparr>) else ret ()))"

definition CompleteRemoval :: "unicode_case \<Rightarrow> siteLease option \<Rightarrow> int \<Rightarrow> SiteIdentity list \<Rightarrow> unit reg_op" where
  "CompleteRemoval uc held op ids =
     WithRemoval uc held op (2 ^ 62) ids (\<lambda>_.
       andthen (each (complete_one op) ids) (\<lambda>_. releaseRemovedBindings ids))"

definition account_mark :: "int \<Rightarrow> SiteIdentity \<Rightarrow> unit reg_op" where
  "account_mark subscriptionID ident =
     andthen (readSite (Id_SiteID ident)) (\<lambda>rec.
     andthen (writeSite (rec\<lparr>Rec_State := ''removing'', Rec_OperationID := subscriptionID,
       Rec_RemovalKind := ''account'', Rec_Revision := 1\<rparr>)) (\<lambda>_.
     andthen (readDomain (Id_Domain ident)) (\<lambda>binding.
     writeDomain (Id_Domain ident) (binding\<lparr>Dom_RemovedHistory := True\<rparr>))))"

definition account_finish :: "SiteIdentity \<Rightarrow> unit reg_op" where
  "account_finish ident =
     andthen (readSite (Id_SiteID ident)) (\<lambda>rec. writeSite (rec\<lparr>Rec_State := ''removed''\<rparr>))"

fun all_removed :: "SiteIdentity list \<Rightarrow> bool reg_op" where
  "all_removed [] = ret True"
| "all_removed (ident # ids) =
     andthen (readSite (Id_SiteID ident)) (\<lambda>rec.
     andthen (all_removed ids) (\<lambda>rest. ret (Rec_State rec = ''removed'' \<and> rest)))"

definition WithAccountRemoval :: "unicode_case \<Rightarrow> siteLease option \<Rightarrow> int \<Rightarrow> SiteIdentity list \<Rightarrow>
  (siteLease \<Rightarrow> unit reg_op) \<Rightarrow> unit reg_op" where
  "WithAccountRemoval uc held subscriptionID ids fn =
     andthen (check (\<not> subscriptionID \<le> 0) RemovalIdentityRequired) (\<lambda>_.
     andthen (check (list_all (\<lambda>ident. \<not> (Id_SiteID ident \<le> 0 \<or> Id_SubscriptionID ident \<noteq> subscriptionID)) ids)
       AccountInconsistent) (\<lambda>_.
     withSites uc held ids AccountRemove subscriptionID 1 (\<lambda>lease.
       andthen (all_removed ids) (\<lambda>all.
       if ids \<noteq> [] \<and> all then releaseRemovedBindings ids
       else
         andthen (each (account_mark subscriptionID) ids) (\<lambda>_.
         andthen (fn lease) (\<lambda>_.
         andthen (each account_finish ids) (\<lambda>_.
         releaseRemovedBindings ids)))))))"

section \<open>Queries\<close>

definition Removed :: "SiteIdentity \<Rightarrow> bool reg_op" where
  "Removed ident =
     andthen ensureRoot (\<lambda>_.
     if Id_SiteID ident > 0 then
       andthen (if_exists (readSite (Id_SiteID ident))) (\<lambda>stored.
       ret (case stored of None \<Rightarrow> False | Some rec \<Rightarrow> Rec_State rec \<noteq> ''active''))
     else
       andthen (if_exists (readDomain (Id_Domain ident))) (\<lambda>stored.
       ret (case stored of None \<Rightarrow> False | Some b \<Rightarrow> Dom_RemovedHistory b)))"

definition LookupSite :: "int \<Rightarrow> SiteIdentity reg_op" where
  "LookupSite ident =
     (if ident \<le> 0 then fail ErrSiteIdentityUnknown
      else andthen (readSite ident) (\<lambda>rec. ret (Rec_Identity rec)))"

end
