(* ===== verification/Registry_Safety.thy ===== *)
theory Registry_Safety
  imports Site_Registry
begin

text \<open>
  Safety of the website identity registry: a lease lets work run only for identities that own their
  hostname, a removed identity never comes back, and a hostname changes hands only after its owner is
  retired, whatever file operations fail on the way. Operations are reasoned about with a weakest
  precondition for results and errors.
\<close>

section \<open>File operations\<close>

text \<open>States that differ in the pending fault outcomes only.\<close>

definition same_store :: "registry \<Rightarrow> registry \<Rightarrow> bool" where
  "same_store reg reg' \<longleftrightarrow> (\<exists>fs. reg' = reg\<lparr>Reg_Faults := fs\<rparr>)"

lemma same_store_fields:
  assumes "same_store reg reg'"
  shows "Reg_Root reg' = Reg_Root reg" "Reg_Hash reg' = Reg_Hash reg" "Reg_Sites reg' = Reg_Sites reg"
    "Reg_Domains reg' = Reg_Domains reg"
  using assms by (auto simp: same_store_def)

lemma same_store_trans: "same_store a b \<Longrightarrow> same_store b c \<Longrightarrow> same_store a c"
  by (auto simp: same_store_def)

lemma io_same: "same_store reg (snd (io reg))"
proof (cases "Reg_Faults reg")
  case Nil
  then show ?thesis by (cases reg) (simp add: io_def same_store_def)
qed (auto simp: io_def same_store_def)

lemma io_error: "fst (io reg) = Inl e \<Longrightarrow> e = IOFault"
  by (auto simp: io_def split: list.splits if_splits)

lemma wp_io [wp_rules]:
  assumes "\<And>reg'. same_store reg reg' \<Longrightarrow> P () reg'" and "\<And>reg'. same_store reg reg' \<Longrightarrow> Q reg'"
  shows "wp io P Q reg"
  using assms io_same [of reg] by (auto simp: wp_def split: prod.splits sum.splits)

lemma wp_readSite [wp_rules]:
  assumes "\<And>rec reg'. same_store reg reg' \<Longrightarrow> Reg_Sites reg i = Some rec \<Longrightarrow> consistent_record i rec \<Longrightarrow> P rec reg'"
    and "\<And>reg'. same_store reg reg' \<Longrightarrow> Q reg'"
  shows "wp (readSite i) P Q reg"
  unfolding readSite_def
  by (intro wp_rules) (auto simp: wp_def same_store_fields split: option.splits intro: assms)

lemma wp_exists_readSite [wp_rules]:
  assumes "\<And>rec reg'. same_store reg reg' \<Longrightarrow> Reg_Sites reg i = Some rec \<Longrightarrow> consistent_record i rec \<Longrightarrow> P (Some rec) reg'"
    and "\<And>reg'. same_store reg reg' \<Longrightarrow> Reg_Sites reg i = None \<Longrightarrow> P None reg'"
    and "\<And>reg'. same_store reg reg' \<Longrightarrow> Q reg'"
  shows "wp (if_exists (readSite i)) P Q reg"
  using assms io_same [of reg] io_error [of reg]
  by (auto simp: wp_def if_exists_def readSite_def andthen_def same_store_fields
      split: prod.splits sum.splits option.splits reg_error.splits)

lemma wp_readDomain [wp_rules]:
  assumes "\<And>b reg'. same_store reg reg' \<Longrightarrow> Reg_Domains reg (Reg_Hash reg d) = Some b \<Longrightarrow> P b reg'"
    and "\<And>reg'. same_store reg reg' \<Longrightarrow> Q reg'"
  shows "wp (readDomain d) P Q reg"
  unfolding readDomain_def
  by (intro wp_rules) (auto simp: wp_def same_store_fields split: option.splits intro: assms)

lemma wp_exists_readDomain [wp_rules]:
  assumes "\<And>reg'. same_store reg reg' \<Longrightarrow> P (Reg_Domains reg (Reg_Hash reg d)) reg'"
    and "\<And>reg'. same_store reg reg' \<Longrightarrow> Q reg'"
  shows "wp (if_exists (readDomain d)) P Q reg"
  using assms io_same [of reg] io_error [of reg]
  by (auto simp: wp_def if_exists_def readDomain_def andthen_def same_store_fields
      split: prod.splits sum.splits option.splits reg_error.splits)

lemma wp_writeSite [wp_rules]:
  assumes "\<And>reg'. same_store reg reg' \<Longrightarrow>
      P () (reg'\<lparr>Reg_Sites := (Reg_Sites reg)(Id_SiteID (Rec_Identity rec) \<mapsto> rec)\<rparr>)"
    and "\<And>reg'. same_store reg reg' \<Longrightarrow> Q reg'"
  shows "wp (writeSite rec) P Q reg"
  unfolding writeSite_def
  by (intro wp_rules) (auto simp: wp_def same_store_fields dest: assms)

lemma wp_writeDomain [wp_rules]:
  assumes "\<And>reg'. same_store reg reg' \<Longrightarrow>
      P () (reg'\<lparr>Reg_Domains := (Reg_Domains reg)(Reg_Hash reg d \<mapsto> b)\<rparr>)"
    and "\<And>reg'. same_store reg reg' \<Longrightarrow> Q reg'"
  shows "wp (writeDomain d b) P Q reg"
  unfolding writeDomain_def
  by (intro wp_rules) (auto simp: wp_def same_store_fields dest: assms)

lemma wp_ensureRoot [wp_rules]:
  assumes "\<And>reg'. same_store reg reg' \<Longrightarrow> P () reg'" and "\<And>reg'. same_store reg reg' \<Longrightarrow> Q reg'"
  shows "wp ensureRoot P Q reg"
proof -
  have "same_store reg reg" by (cases reg) (simp add: same_store_def)
  moreover have "wp io P Q reg" by (intro wp_rules assms)
  ultimately show ?thesis
    using assms by (auto simp: ensureRoot_def wp_def andthen_def)
qed

section \<open>How the registry evolves\<close>

definition active_at :: "registry \<Rightarrow> string \<Rightarrow> int" where
  "active_at reg h = (case Reg_Domains reg h of None \<Rightarrow> 0 | Some b \<Rightarrow> Dom_ActiveID b)"

definition history_at :: "registry \<Rightarrow> string \<Rightarrow> bool" where
  "history_at reg h = (case Reg_Domains reg h of None \<Rightarrow> False | Some b \<Rightarrow> Dom_RemovedHistory b)"

text \<open>A site whose removal has started: its record is a tombstone.\<close>

definition retired :: "registry \<Rightarrow> int \<Rightarrow> bool" where
  "retired reg i = (case Reg_Sites reg i of None \<Rightarrow> False | Some rec \<Rightarrow> Rec_State rec \<noteq> ''active'')"

text \<open>
  Across any operation: records keep their identity, tombstones and removal history stay, and a
  hostname whose owner changes had its owner retired.
\<close>

definition evolves :: "registry \<Rightarrow> registry \<Rightarrow> bool" where
  "evolves reg reg' \<longleftrightarrow>
     Reg_Root reg' = Reg_Root reg \<and> Reg_Hash reg' = Reg_Hash reg \<and>
     (\<forall>i rec. Reg_Sites reg i = Some rec \<longrightarrow>
        (\<exists>rec'. Reg_Sites reg' i = Some rec' \<and> Rec_Identity rec' = Rec_Identity rec)) \<and>
     (\<forall>i. retired reg i \<longrightarrow> retired reg' i) \<and>
     (\<forall>h. history_at reg h \<longrightarrow> history_at reg' h) \<and>
     (\<forall>h. active_at reg h \<noteq> 0 \<longrightarrow> active_at reg' h \<noteq> active_at reg h \<longrightarrow> retired reg' (active_at reg h))"

lemma evolves_refl [simp]: "evolves reg reg"
  by (simp add: evolves_def)

lemma evolves_trans: "evolves a b \<Longrightarrow> evolves b c \<Longrightarrow> evolves a c"
  unfolding evolves_def by (smt (verit, ccfv_threshold))

lemma same_store_views:
  assumes "same_store reg reg'"
  shows "active_at reg' = active_at reg" "history_at reg' = history_at reg" "retired reg' = retired reg"
  using same_store_fields [OF assms] by (auto simp: active_at_def history_at_def retired_def)

lemma same_store_evolves: "same_store reg reg' \<Longrightarrow> evolves reg reg'"
  by (simp add: evolves_def same_store_fields same_store_views)

lemma evolves_same_store: "evolves a b \<Longrightarrow> same_store b c \<Longrightarrow> evolves a c"
  using evolves_trans same_store_evolves by blast

lemma views_faults [simp]:
  "active_at (reg\<lparr>Reg_Faults := fs\<rparr>) = active_at reg" "history_at (reg\<lparr>Reg_Faults := fs\<rparr>) = history_at reg"
  "retired (reg\<lparr>Reg_Faults := fs\<rparr>) = retired reg"
  by (auto simp: active_at_def history_at_def retired_def)

lemma views_update [simp]:
  "active_at (reg\<lparr>Reg_Sites := S\<rparr>) = active_at reg" "history_at (reg\<lparr>Reg_Sites := S\<rparr>) = history_at reg"
  "retired (reg\<lparr>Reg_Domains := D\<rparr>) = retired reg"
  by (auto simp: active_at_def history_at_def retired_def)

lemma evolves_writeSite:
  assumes "same_store reg reg'" and "Reg_Sites reg i = None \<or>
      (\<exists>old. Reg_Sites reg i = Some old \<and> Rec_Identity new = Rec_Identity old \<and>
        (Rec_State old = ''active'' \<or> Rec_State new \<noteq> ''active''))"
  shows "evolves reg (reg'\<lparr>Reg_Sites := (Reg_Sites reg)(i \<mapsto> new)\<rparr>)"
  using assms same_store_fields [OF assms(1)]
  by (auto simp: evolves_def retired_def active_at_def history_at_def split: option.splits)

lemma evolves_writeDomain:
  assumes "same_store reg reg'" and "history_at reg h \<longrightarrow> Dom_RemovedHistory b"
    and "active_at reg h = 0 \<or> Dom_ActiveID b = active_at reg h \<or> retired reg (active_at reg h)"
  shows "evolves reg (reg'\<lparr>Reg_Domains := (Reg_Domains reg)(h \<mapsto> b)\<rparr>)"
  using assms same_store_fields [OF assms(1)] same_store_views(3) [OF assms(1)]
  by (auto simp: evolves_def active_at_def history_at_def split: option.splits)

section \<open>Leases\<close>

text \<open>Validation only adds: records and bindings that were absent, never a change of one in place.\<close>

definition extends :: "registry \<Rightarrow> registry \<Rightarrow> bool" where
  "extends reg reg' \<longleftrightarrow>
     Reg_Root reg' = Reg_Root reg \<and> Reg_Hash reg' = Reg_Hash reg \<and>
     (\<forall>i rec. Reg_Sites reg i = Some rec \<longrightarrow> Reg_Sites reg' i = Some rec) \<and>
     (\<forall>h. history_at reg' h = history_at reg h) \<and>
     (\<forall>h. active_at reg h \<noteq> 0 \<longrightarrow> active_at reg' h = active_at reg h)"

lemma extends_refl [simp]: "extends reg reg"
  by (simp add: extends_def)

lemma extends_trans: "extends a b \<Longrightarrow> extends b c \<Longrightarrow> extends a c"
  unfolding extends_def by metis

lemma same_store_extends: "same_store reg reg' \<Longrightarrow> extends reg reg'"
  by (simp add: extends_def same_store_fields same_store_views)

lemma extends_evolves: "extends reg reg' \<Longrightarrow> evolves reg reg'"
  unfolding extends_def evolves_def by (auto simp: retired_def split: option.splits)

text \<open>What a validated identity may rely on while its lease is held.\<close>

definition lease_ok :: "registry \<Rightarrow> SiteIdentity \<Rightarrow> lease_mode \<Rightarrow> int \<Rightarrow> int \<Rightarrow> bool" where
  "lease_ok reg ident mode op revision \<longleftrightarrow>
     (if Id_SiteID ident = 0 then \<not> history_at reg (Reg_Hash reg (Id_Domain ident))
      else case Reg_Sites reg (Id_SiteID ident) of
        None \<Rightarrow> False
      | Some rec \<Rightarrow>
          compatibleIdentity (Rec_Identity rec) ident \<and>
          (if Rec_State rec = ''active'' then
             active_at reg (Reg_Hash reg (Id_Domain ident)) = Id_SiteID ident
           else (mode = Remove \<or> mode = AccountRemove) \<and> Rec_OperationID rec = op \<and>
             Rec_Revision rec \<le> revision \<and>
             removalRecordKind rec = (if mode = AccountRemove then ''account'' else ''site'')))"

lemma lease_ok_extends:
  assumes "lease_ok reg ident mode op revision" and "extends reg reg'"
  shows "lease_ok reg' ident mode op revision"
  using assms unfolding lease_ok_def extends_def by (auto split: option.splits if_splits)

lemma compatible_refl [simp]: "compatibleIdentity ident ident"
  by (simp add: compatibleIdentity_def)

lemma extends_writeSite:
  "extends reg reg1 \<Longrightarrow> same_store reg1 reg' \<Longrightarrow> Reg_Sites reg i = None \<Longrightarrow>
     Reg_Sites reg1 = Reg_Sites reg \<Longrightarrow>
     extends reg (reg'\<lparr>Reg_Sites := (Reg_Sites reg1)(i \<mapsto> rec)\<rparr>)"
  by (auto simp: extends_def same_store_fields same_store_views)

lemma extends_writeDomain:
  assumes "extends reg reg1" and "same_store reg1 reg'" and "active_at reg1 h = 0"
    and "Dom_RemovedHistory b = history_at reg h"
  shows "extends reg (reg'\<lparr>Reg_Domains := (Reg_Domains reg1)(h \<mapsto> b)\<rparr>)"
  using assms same_store_fields [OF assms(2)] same_store_views [OF assms(2)]
  by (auto simp: extends_def active_at_def history_at_def)

definition binding_at :: "registry \<Rightarrow> string \<Rightarrow> domainIdentityRecord" where
  "binding_at reg h =
     (case Reg_Domains reg h of None \<Rightarrow> \<lparr>Dom_ActiveID = 0, Dom_RemovedHistory = False\<rparr> | Some b \<Rightarrow> b)"

lemma binding_at_views [simp]:
  "Dom_ActiveID (binding_at reg h) = active_at reg h"
  "Dom_RemovedHistory (binding_at reg h) = history_at reg h"
  by (simp_all add: binding_at_def active_at_def history_at_def split: option.splits)

lemma views_write [simp]:
  "active_at (reg\<lparr>Reg_Domains := D(h \<mapsto> b)\<rparr>) h' =
     (if h' = h then Dom_ActiveID b else active_at (reg\<lparr>Reg_Domains := D\<rparr>) h')"
  "history_at (reg\<lparr>Reg_Domains := D(h \<mapsto> b)\<rparr>) h' =
     (if h' = h then Dom_RemovedHistory b else history_at (reg\<lparr>Reg_Domains := D\<rparr>) h')"
  "active_at (reg\<lparr>Reg_Domains := Reg_Domains r\<rparr>) = active_at r"
  "history_at (reg\<lparr>Reg_Domains := Reg_Domains r\<rparr>) = history_at r"
  by (auto simp: active_at_def history_at_def)

lemma wp_validateLease:
  "wp (validateLease ident mode op revision)
     (\<lambda>_ reg'. extends reg reg' \<and> lease_ok reg' ident mode op revision) (extends reg) reg"
  unfolding validateLease_def Let_def
  by (intro wp_rules; (fold binding_at_def)?; (simp only: binding_at_views)?)
    (auto simp: same_store_def extends_def lease_ok_def)

subsection \<open>The identities a lease resolves to\<close>

definition resolves_to :: "registry \<Rightarrow> SiteIdentity \<Rightarrow> SiteIdentity \<Rightarrow> bool" where
  "resolves_to reg ident v \<longleftrightarrow>
     v = ident \<or>
     (\<exists>rec. 0 < Id_SiteID ident \<and> Reg_Sites reg (Id_SiteID ident) = Some rec \<and> v = Rec_Identity rec \<and>
        consistent_record (Id_SiteID ident) rec \<and> compatibleIdentity v ident)"

lemma wp_complete_identity:
  "wp (complete_identity ident) (\<lambda>v reg'. same_store reg reg' \<and> resolves_to reg ident v) (same_store reg) reg"
  unfolding complete_identity_def
  by (intro wp_rules) (auto simp: resolves_to_def same_store_def intro: exI [of _ "Reg_Faults reg"])

lemma resolves_to_same: "same_store reg reg' \<Longrightarrow> resolves_to reg' = resolves_to reg"
  by (intro ext) (simp add: resolves_to_def same_store_fields)

lemma same_store_refl [simp]: "same_store reg reg"
  unfolding same_store_def by (rule exI [of _ "Reg_Faults reg"]) simp

lemma wp_resolve_identities:
  "wp (resolve_identities uc ids resolved)
     (\<lambda>(_, values) reg'. same_store reg reg' \<and> list_all2 (resolves_to reg) ids values) (same_store reg) reg"
proof (induction ids arbitrary: resolved reg)
  case (Cons ident ids)
  have rest: "wp (resolve_identities uc ids res)
     (\<lambda>(_, values) reg'. same_store reg reg' \<and> list_all2 (resolves_to reg) ids values) (same_store reg) reg'"
    if "same_store reg reg'" for res reg'
    by (rule wp_conseq [OF Cons.IH]) (use that same_store_trans resolves_to_same in \<open>fastforce+\<close>)
  have tail: "wp (andthen (resolve_identities uc ids res) (\<lambda>(resolved, values). ret (resolved, v # values)))
     (\<lambda>(_, values) reg'. same_store reg reg' \<and> list_all2 (resolves_to reg) (ident # ids) values)
     (same_store reg) reg'"
    if "same_store reg reg'" "resolves_to reg ident v" for res v reg'
    by (rule wp_andthen, rule wp_conseq [OF rest [OF that(1)]]) (use that(2) in \<open>auto intro!: wp_ret\<close>)
  show ?case
    unfolding resolve_identities.simps
    by (intro wp_andthen wp_check wp_conseq [OF wp_complete_identity] wp_option wp_if wp_ret wp_fail)
      (auto intro: tail [THEN wp_andthenD])
qed (simp add: wp_ret)

lemma wp_take_locks: "wp (take_locks vs) (\<lambda>_. same_store reg) (same_store reg) reg"
proof -
  have "wp (each (\<lambda>_. io) xs) (\<lambda>_. same_store reg) (same_store reg) reg" for xs :: "string list"
    by (rule wp_each) (auto intro!: wp_io elim: same_store_trans)
  then show ?thesis by (simp add: take_locks_def wp_def)
qed

text \<open>A lease granted on the resolved identities is one on the identities asked for.\<close>

lemma lease_ok_resolved:
  assumes "resolves_to reg ident v" and "extends reg reg'" and "lease_ok reg' v mode op revision"
  shows "lease_ok reg' ident mode op revision"
proof (cases "v = ident")
  case False
  then obtain rec where rec: "0 < Id_SiteID ident" "Reg_Sites reg (Id_SiteID ident) = Some rec"
    "v = Rec_Identity rec" "consistent_record (Id_SiteID ident) rec" "compatibleIdentity v ident"
    using assms(1) by (auto simp: resolves_to_def)
  then have "Reg_Sites reg' (Id_SiteID ident) = Some rec" "Id_SiteID v = Id_SiteID ident"
    "Id_Domain v = Id_Domain ident"
    using assms(2) by (auto simp: extends_def consistent_record_def compatibleIdentity_def)
  then show ?thesis using assms(3) rec(1,3,5) by (simp add: lease_ok_def split: if_splits)
qed (use assms(3) in simp)

lemma wp_validate_all:
  "wp (each (\<lambda>ident. validateLease ident mode op revision) vs)
     (\<lambda>_ reg'. extends reg reg' \<and> (\<forall>v \<in> set vs. lease_ok reg' v mode op revision)) (extends reg) reg"
proof (induction vs arbitrary: reg)
  case (Cons v vs)
  have "wp (each (\<lambda>ident. validateLease ident mode op revision) vs)
     (\<lambda>_ reg'. extends reg reg' \<and> (\<forall>u \<in> set (v # vs). lease_ok reg' u mode op revision)) (extends reg) reg1"
    if "extends reg reg1" "lease_ok reg1 v mode op revision" for reg1
    by (rule wp_conseq [OF Cons.IH]) (use that in \<open>auto intro: extends_trans lease_ok_extends\<close>)
  then show ?case
    unfolding each.simps by (intro wp_andthen wp_conseq [OF wp_validateLease]) auto
qed (simp add: wp_ret)

lemma wp_prepare_lease:
  "wp (prepare_lease uc ids mode op revision)
     (\<lambda>_ reg'. extends reg reg' \<and> (\<forall>ident \<in> set ids. lease_ok reg' ident mode op revision)) (extends reg) reg"
proof -
  have validate: "wp (each (\<lambda>ident. validateLease ident mode op revision) vs)
     (\<lambda>_ reg'. extends reg reg' \<and> (\<forall>ident \<in> set ids. lease_ok reg' ident mode op revision)) (extends reg) reg1"
    if "same_store reg reg1" "list_all2 (resolves_to reg) ids vs" for vs reg1
  proof (rule wp_conseq [OF wp_validate_all])
    fix reg' assume *: "extends reg1 reg' \<and> (\<forall>v \<in> set vs. lease_ok reg' v mode op revision)"
    then have ext: "extends reg reg'" using that(1) same_store_extends extends_trans by blast
    have "lease_ok reg' ident mode op revision" if "ident \<in> set ids" for ident
      using that \<open>list_all2 (resolves_to reg) ids vs\<close> * lease_ok_resolved [OF _ ext]
      by (metis in_set_conv_nth list_all2_lengthD list_all2_nthD)
    then show "extends reg reg' \<and> (\<forall>ident \<in> set ids. lease_ok reg' ident mode op revision)"
      using ext by blast
  qed (use that(1) in \<open>auto intro: extends_trans same_store_extends\<close>)
  have lock: "wp (andthen (take_locks vs) (\<lambda>_.
      andthen (each (\<lambda>ident. validateLease ident mode op revision) vs) (\<lambda>_ reg.
      (Inr \<lparr>Lease_Registry = Reg_Root reg, Lease_Identities = resolved\<rparr>, reg))))
     (\<lambda>_ reg'. extends reg reg' \<and> (\<forall>ident \<in> set ids. lease_ok reg' ident mode op revision)) (extends reg) reg1"
    if "same_store reg reg1" "list_all2 (resolves_to reg) ids vs" for vs resolved reg1
    by (intro wp_andthen wp_conseq [OF wp_take_locks] wp_conseq [OF validate])
      (use that in \<open>auto simp: wp_def intro: same_store_trans same_store_extends extends_trans\<close>)
  show ?thesis
    unfolding prepare_lease_def
    by (intro wp_andthen wp_conseq [OF wp_resolve_identities])
      (auto simp: split_def intro: same_store_extends lock [unfolded split_def])
qed

section \<open>Every operation evolves the registry\<close>

definition evolving :: "'a reg_op \<Rightarrow> bool" where
  "evolving m \<longleftrightarrow> (\<forall>reg. evolves reg (snd (m reg)))"

lemma wp_state: "wp m (\<lambda>_. R) R reg \<longleftrightarrow> R (snd (m reg))"
  by (cases "m reg"; cases "fst (m reg)") (simp_all add: wp_def)

lemma evolving_wp: "evolving m \<longleftrightarrow> (\<forall>reg. wp m (\<lambda>_. evolves reg) (evolves reg) reg)"
  by (simp add: evolving_def wp_state)

lemma evolving_snd: "evolving m \<Longrightarrow> evolves reg (snd (m reg))"
  by (simp add: evolving_def)

lemma wp_evolving:
  "evolving m \<Longrightarrow> evolves reg0 reg \<Longrightarrow> wp m (\<lambda>_. evolves reg0) (evolves reg0) reg"
  unfolding evolving_wp by (blast intro: wp_conseq evolves_trans)

lemma evolving_andthen [intro]:
  assumes "evolving m" and "\<And>x. evolving (f x)"
  shows "evolving (andthen m f)"
proof -
  have "wp m (\<lambda>x. wp (f x) (\<lambda>_. evolves reg) (evolves reg)) (evolves reg) reg" for reg
    by (rule wp_conseq [OF wp_evolving [OF assms(1) evolves_refl]]) (simp_all add: wp_evolving assms(2))
  then show ?thesis unfolding evolving_wp by (blast intro: wp_andthen)
qed

lemma evolving_basic [intro]: "evolving (ret x)" "evolving (fail e)" "evolving (check ok e)"
  by (simp_all add: evolving_def ret_def fail_def check_def)

lemma evolving_each [intro]: "(\<And>x. x \<in> set xs \<Longrightarrow> evolving (f x)) \<Longrightarrow> evolving (each f xs)"
  by (induction xs) auto

lemma evolving_withSites:
  assumes "\<And>lease. evolving (fn lease)"
  shows "evolving (withSites uc held ids mode op revision fn)"
proof -
  have prepare: "evolving (prepare_lease uc ids mode op revision)"
    unfolding evolving_wp by (blast intro: wp_conseq [OF wp_prepare_lease] extends_evolves)
  have root: "evolving ensureRoot"
    unfolding evolving_wp by (auto intro!: wp_ensureRoot same_store_evolves)
  have "evolving (andthen (check ok NestedScope) (\<lambda>_. fn lease))"
    "evolving (andthen (prepare_lease uc ids mode op revision) fn)" for ok lease
    using assms prepare by blast+
  then show ?thesis
    unfolding withSites_def by (intro evolving_andthen root) (auto simp: evolving_def split: option.split)
qed

text \<open>Retiring one record, and recording the removal in its hostname's history.\<close>

lemma evolving_readSite_write:
  assumes "\<And>rec. Rec_Identity (g rec) = Rec_Identity rec" and "\<And>rec. Rec_State (g rec) \<noteq> ''active''"
  shows "evolves reg0 reg \<Longrightarrow> Reg_Sites reg i = Some rec \<Longrightarrow> consistent_record i rec \<Longrightarrow>
    wp (writeSite (g rec)) (\<lambda>_ reg'. evolves reg0 reg' \<and> retired reg' i) (evolves reg0) reg"
  using assms
  by (intro wp_writeSite)
    (auto simp: consistent_record_def retired_def
      intro!: evolves_trans [OF _ evolves_writeSite] elim: evolves_same_store)

lemma wp_history_write:
  "evolves reg0 reg \<Longrightarrow> Reg_Domains reg (Reg_Hash reg d) = Some b \<Longrightarrow>
   wp (writeDomain d (b\<lparr>Dom_RemovedHistory := True\<rparr>)) (\<lambda>_. evolves reg0) (evolves reg0) reg"
  by (intro wp_writeDomain)
    (auto simp: active_at_def intro!: evolves_trans [OF _ evolves_writeDomain] elim: evolves_same_store)

lemma wp_mark_history:
  "evolves reg0 reg \<Longrightarrow>
   wp (andthen (readDomain d) (\<lambda>binding. writeDomain d (binding\<lparr>Dom_RemovedHistory := True\<rparr>)))
     (\<lambda>_. evolves reg0) (evolves reg0) reg"
  by (intro wp_andthen wp_readDomain wp_history_write)
    (auto simp: same_store_fields elim: evolves_same_store)

lemma evolving_mark_one: "evolving (mark_one op revision ident)"
  unfolding evolving_wp mark_one_def
  by (intro allI wp_andthen wp_readSite wp_check wp_if wp_ret
      wp_conseq [OF evolving_readSite_write] wp_andthenD [OF wp_mark_history])
    (auto simp: same_store_fields intro: same_store_evolves)

lemma evolving_account_mark: "evolving (account_mark sub ident)"
  unfolding evolving_wp account_mark_def
  by (intro allI wp_andthen wp_readSite wp_conseq [OF evolving_readSite_write] wp_andthenD [OF wp_mark_history])
    (auto simp: same_store_fields intro: same_store_evolves)

lemma retired_evolves: "evolves reg reg' \<Longrightarrow> retired reg i \<Longrightarrow> retired reg' i"
  by (simp add: evolves_def)

text \<open>A hostname is given back only for a retired site.\<close>

lemma wp_release_one:
  assumes "evolves reg0 reg" and "retired reg (Id_SiteID ident)"
  shows "wp (release_one ident) (\<lambda>_. evolves reg0) (evolves reg0) reg"
  unfolding release_one_def using assms
  by (intro wp_andthen wp_readDomain wp_writeDomain)
    (auto simp: same_store_fields same_store_views active_at_def
      intro!: evolves_trans [OF _ evolves_writeDomain] intro: evolves_same_store same_store_trans)

lemma wp_release_all:
  assumes "evolves reg0 reg" and "\<forall>ident \<in> set ids. retired reg (Id_SiteID ident)"
  shows "wp (releaseRemovedBindings ids) (\<lambda>_. evolves reg0) (evolves reg0) reg"
proof -
  have "wp (each release_one ids) (\<lambda>_. evolves reg) (evolves reg) reg"
    by (rule wp_each) (use assms(2) retired_evolves in \<open>auto intro!: wp_release_one\<close>)
  then show ?thesis
    unfolding releaseRemovedBindings_def by (rule wp_conseq) (use assms(1) evolves_trans in blast)+
qed

text \<open>A pass that retires one record per identity retires them all.\<close>

lemma wp_retire_all:
  assumes "\<And>ident reg. ident \<in> set ids \<Longrightarrow>
      wp (f ident) (\<lambda>_ reg'. evolves reg reg' \<and> retired reg' (Id_SiteID ident)) (evolves reg) reg"
  shows "wp (each f ids) (\<lambda>_ reg'. evolves reg reg' \<and> (\<forall>ident \<in> set ids. retired reg' (Id_SiteID ident)))
    (evolves reg) reg"
  using assms
proof (induction ids arbitrary: reg)
  case (Cons ident ids)
  have "wp (each f ids) (\<lambda>_ reg'. evolves reg reg' \<and>
      (\<forall>x \<in> set (ident # ids). retired reg' (Id_SiteID x))) (evolves reg) reg1"
    if "evolves reg reg1" "retired reg1 (Id_SiteID ident)" for reg1
    by (rule wp_conseq [OF Cons.IH])
      (use Cons.prems that in \<open>auto intro: evolves_trans retired_evolves\<close>)
  then show ?case
    unfolding each.simps by (intro wp_andthen wp_conseq [OF Cons.prems]) auto
qed (simp add: wp_ret)

lemma wp_complete_one:
  "wp (complete_one op ident) (\<lambda>_ reg'. evolves reg reg' \<and> retired reg' (Id_SiteID ident)) (evolves reg) reg"
  unfolding complete_one_def
  by (intro wp_andthen wp_readSite wp_check wp_if wp_ret wp_conseq [OF evolving_readSite_write])
    (auto simp: same_store_fields retired_def intro: same_store_evolves)

lemma wp_account_finish:
  "wp (account_finish ident) (\<lambda>_ reg'. evolves reg reg' \<and> retired reg' (Id_SiteID ident)) (evolves reg) reg"
  unfolding account_finish_def
  by (intro wp_andthen wp_readSite wp_conseq [OF evolving_readSite_write])
    (auto simp: same_store_fields intro: same_store_evolves)

lemma wp_all_removed:
  "wp (all_removed ids) (\<lambda>all reg'. same_store reg reg' \<and>
     (all \<longrightarrow> (\<forall>ident \<in> set ids. retired reg (Id_SiteID ident)))) (same_store reg) reg"
proof (induction ids arbitrary: reg)
  case (Cons ident ids)
  have "wp (all_removed ids) (\<lambda>all reg'. same_store reg reg' \<and>
     (all \<longrightarrow> (\<forall>ident \<in> set ids. retired reg (Id_SiteID ident)))) (same_store reg) reg1"
    if "same_store reg reg1" for reg1
    by (rule wp_conseq [OF Cons.IH]) (use that in \<open>auto intro: same_store_trans simp: same_store_views\<close>)
  then show ?case
    unfolding all_removed.simps
    by (intro wp_andthen wp_readSite; (rule wp_conseq)?) (auto intro!: wp_ret simp: retired_def)
qed (simp add: wp_ret)

lemma evolving_MarkRemoved: "evolving (MarkRemoved uc held op revision ids)"
  unfolding MarkRemoved_def WithRemoval_def
  by (intro evolving_andthen evolving_basic evolving_withSites evolving_each evolving_mark_one)

lemma evolving_retire_release:
  assumes "\<And>ident reg. ident \<in> set ids \<Longrightarrow>
      wp (f ident) (\<lambda>_ reg'. evolves reg reg' \<and> retired reg' (Id_SiteID ident)) (evolves reg) reg"
  shows "evolving (andthen (each f ids) (\<lambda>_. releaseRemovedBindings ids))"
  unfolding evolving_wp
  by (intro allI wp_andthen wp_conseq [OF wp_retire_all] wp_release_all) (use assms in auto)

lemma evolving_CompleteRemoval: "evolving (CompleteRemoval uc held op ids)"
  unfolding CompleteRemoval_def WithRemoval_def
  by (intro evolving_withSites evolving_retire_release wp_complete_one)

lemma evolving_WithAccountRemoval:
  assumes "\<And>lease. evolving (fn lease)"
  shows "evolving (WithAccountRemoval uc held sub ids fn)"
proof -
  have run: "evolving (andthen (each (account_mark sub) ids) (\<lambda>_. andthen (fn lease) (\<lambda>_.
      andthen (each account_finish ids) (\<lambda>_. releaseRemovedBindings ids))))" for lease
    by (intro evolving_andthen evolving_each evolving_account_mark assms evolving_retire_release wp_account_finish)
  have "evolving (andthen (all_removed ids) (\<lambda>all.
       if ids \<noteq> [] \<and> all then releaseRemovedBindings ids
       else
         andthen (each (account_mark sub) ids) (\<lambda>_.
         andthen (fn lease) (\<lambda>_.
         andthen (each account_finish ids) (\<lambda>_.
         releaseRemovedBindings ids)))))" for lease
    unfolding evolving_wp
    by (intro allI wp_andthen [of "all_removed ids"] wp_conseq [OF wp_all_removed] wp_if
        wp_release_all wp_evolving [OF run])
      (auto intro: same_store_evolves simp: same_store_views)
  then show ?thesis
    unfolding WithAccountRemoval_def
    by (intro evolving_andthen [of "check _ _"] evolving_basic evolving_withSites)
qed

section \<open>Reachable registries\<close>

text \<open>
  One external operation. The work run under a lease, and the teardown inside an account removal, is
  itself made of registry operations.
\<close>

inductive registry_step :: "registry \<Rightarrow> registry \<Rightarrow> bool" where
  step_lease: "(\<And>lease. evolving (fn lease)) \<Longrightarrow>
     registry_step reg (snd (withSites uc held ids mode op revision (fn :: siteLease \<Rightarrow> unit reg_op) reg))"
| step_mark: "registry_step reg (snd (MarkRemoved uc held op revision ids reg))"
| step_complete: "registry_step reg (snd (CompleteRemoval uc held op ids reg))"
| step_account: "(\<And>lease. evolving (fn lease)) \<Longrightarrow>
     registry_step reg (snd (WithAccountRemoval uc held sub ids fn reg))"
| step_removed: "registry_step reg (snd (Removed ident reg))"
| step_lookup: "registry_step reg (snd (LookupSite i reg))"

inductive_cases registry_stepE: "registry_step reg reg'"

lemma evolving_Removed: "evolving (Removed ident)"
  unfolding evolving_wp Removed_def
  by (intro allI wp_rules) (auto intro: same_store_trans same_store_evolves)

lemma evolving_LookupSite: "evolving (LookupSite i)"
  unfolding evolving_wp LookupSite_def
  by (intro allI wp_rules) (auto intro: same_store_evolves)

lemma registry_step_evolves: "registry_step reg reg' \<Longrightarrow> evolves reg reg'"
  by (elim registry_stepE; hypsubst)
    (rule evolving_snd, blast intro: evolving_withSites evolving_MarkRemoved evolving_CompleteRemoval
      evolving_WithAccountRemoval evolving_Removed evolving_LookupSite)+

lemma registry_steps_evolve: "registry_step\<^sup>*\<^sup>* reg reg' \<Longrightarrow> evolves reg reg'"
  by (induction rule: rtranclp_induct) (auto intro: evolves_trans registry_step_evolves)

section \<open>Theorems\<close>

lemma withSites_fresh:
  "withSites uc None ids mode op revision fn =
     andthen ensureRoot (\<lambda>_. andthen (prepare_lease uc ids mode op revision) fn)"
  by (simp add: withSites_def)

lemma withSites_work:
  assumes "withSites uc None ids mode op revision fn reg = (res, reg')"
  shows "(\<exists>e. res = Inl e \<and> extends reg reg') \<or>
    (\<exists>lease reg0. extends reg reg0 \<and> (\<forall>ident \<in> set ids. lease_ok reg0 ident mode op revision) \<and>
       fn lease reg0 = (res, reg'))"
proof -
  let ?ok = "\<lambda>reg0. extends reg reg0 \<and> (\<forall>ident \<in> set ids. lease_ok reg0 ident mode op revision)"
  have "wp (prepare_lease uc ids mode op revision) (\<lambda>_. ?ok) (extends reg) reg1" if "same_store reg reg1" for reg1
    by (rule wp_conseq [OF wp_prepare_lease]) (use that in \<open>auto intro: extends_trans same_store_extends\<close>)
  then have "wp (andthen ensureRoot (\<lambda>_. prepare_lease uc ids mode op revision)) (\<lambda>_. ?ok) (extends reg) reg"
    by (intro wp_andthen wp_ensureRoot) (auto intro: same_store_extends)
  then show ?thesis
    using assms unfolding withSites_fresh wp_def andthen_def by (auto split: prod.splits sum.splits)
qed


text \<open>
  C1. No way back from removal: once the removal of a site has started, after any further sequence
  of registry operations, with any pattern of file failures, its record is still a tombstone of the
  same identity and no lease for existing or new sites is granted on its id: preparing one fails, so
  the work is not run.
\<close>

theorem retired_identity_stays_retired:
  assumes "retired reg i" and "registry_step\<^sup>*\<^sup>* reg reg'" and "i \<noteq> 0"
    and "ident \<in> set ids" and "Id_SiteID ident = i" and "mode \<in> {Existing, Create}"
  shows "retired reg' i \<and> (\<exists>e. fst (prepare_lease uc ids mode op revision reg') = Inl e)"
proof -
  have r: "retired reg' i" using registry_steps_evolve [OF assms(2)] assms(1) by (rule retired_evolves)
  have "\<not> lease_ok reg0 ident mode op revision" if "extends reg' reg0" for reg0
    using r that assms(3,5,6) by (auto simp: lease_ok_def retired_def extends_def split: option.splits)
  then show ?thesis
    using r wp_prepare_lease [of uc ids mode op revision reg'] assms(4)
    by (auto simp: wp_def split: prod.splits sum.splits)
qed

text \<open>
  C24. Hostnames change hands in order: if a hostname is bound to a site and, after any sequence of
  operations, no longer is, then that site's removal has started; and removal history is never
  forgotten. A second site can therefore take a hostname only after the first one was retired.
\<close>

theorem hostname_handover:
  assumes "registry_step\<^sup>*\<^sup>* reg reg'" and "active_at reg h = i" and "i \<noteq> 0"
  shows "(active_at reg' h = i \<or> retired reg' i) \<and> (history_at reg h \<longrightarrow> history_at reg' h)"
  using registry_steps_evolve [OF assms(1)] assms(2,3) unfolding evolves_def by blast

section \<open>A completed removal\<close>

definition removed_record :: "registry \<Rightarrow> int \<Rightarrow> bool" where
  "removed_record reg i = (case Reg_Sites reg i of None \<Rightarrow> False | Some rec \<Rightarrow> Rec_State rec = ''removed'')"

definition released :: "registry \<Rightarrow> SiteIdentity \<Rightarrow> bool" where
  "released reg ident \<longleftrightarrow>
     active_at reg (Reg_Hash reg (Id_Domain ident)) \<noteq> Id_SiteID ident \<and>
     history_at reg (Reg_Hash reg (Id_Domain ident))"

text \<open>A pass whose steps each establish a fact and keep the facts of the others.\<close>

lemma wp_each_all:
  assumes "\<And>x reg. x \<in> set xs \<Longrightarrow> I reg \<Longrightarrow>
      wp (f x) (\<lambda>_ reg'. I reg' \<and> G x reg' \<and> (\<forall>y. G y reg \<longrightarrow> G y reg')) (\<lambda>_. True) reg"
    and "I reg"
  shows "wp (each f xs) (\<lambda>_ reg'. I reg' \<and> (\<forall>x \<in> set xs. G x reg') \<and> (\<forall>y. G y reg \<longrightarrow> G y reg')) (\<lambda>_. True) reg"
  using assms
proof (induction xs arbitrary: reg)
  case (Cons x xs)
  have "wp (each f xs) (\<lambda>_ reg'. I reg' \<and> (\<forall>z \<in> set (x # xs). G z reg') \<and> (\<forall>y. G y reg \<longrightarrow> G y reg')) (\<lambda>_. True) reg1"
    if "I reg1 \<and> G x reg1 \<and> (\<forall>y. G y reg \<longrightarrow> G y reg1)" for reg1
    by (rule wp_conseq [OF Cons.IH]) (use Cons.prems that in auto)
  then show ?case
    unfolding each.simps by (intro wp_andthen wp_conseq [OF Cons.prems(1)]) (use Cons.prems(2) in auto)
qed (simp add: wp_ret)

lemma wp_complete_one_removed:
  "wp (complete_one op ident) (\<lambda>_ reg'. removed_record reg' (Id_SiteID ident) \<and>
     (\<forall>x. removed_record reg (Id_SiteID x) \<longrightarrow> removed_record reg' (Id_SiteID x))) (\<lambda>_. True) reg"
  unfolding complete_one_def
  by (intro wp_rules) (auto simp: same_store_fields removed_record_def consistent_record_def split: option.splits)

lemma wp_release_one_released:
  assumes "I = (\<lambda>reg'. \<forall>i \<in> S. removed_record reg' i)" and "I reg" and "Id_SiteID ident \<noteq> 0"
  shows "wp (release_one ident) (\<lambda>_ reg'. I reg' \<and> released reg' ident \<and>
     (\<forall>x. Id_SiteID x \<noteq> 0 \<and> released reg x \<longrightarrow> released reg' x)) (\<lambda>_. True) reg"
  unfolding release_one_def using assms
  by (intro wp_rules)
    (auto simp: same_store_fields released_def removed_record_def active_at_def history_at_def split: option.splits)

lemma wp_remove_and_release:
  assumes "\<forall>ident \<in> set ids. Id_SiteID ident \<noteq> 0"
  shows "wp (andthen (each (complete_one op) ids) (\<lambda>_. releaseRemovedBindings ids))
     (\<lambda>_ reg'. \<forall>ident \<in> set ids. removed_record reg' (Id_SiteID ident) \<and> released reg' ident) (\<lambda>_. True) reg"
proof -
  let ?I = "\<lambda>reg'. \<forall>i \<in> Id_SiteID ` set ids. removed_record reg' i"
  have release: "wp (releaseRemovedBindings ids)
      (\<lambda>_ reg'. \<forall>ident \<in> set ids. removed_record reg' (Id_SiteID ident) \<and> released reg' ident) (\<lambda>_. True) reg1"
    if "?I reg1" for reg1
    unfolding releaseRemovedBindings_def
    by (rule wp_conseq [OF wp_each_all [where I = ?I and G = "\<lambda>x reg. Id_SiteID x \<noteq> 0 \<and> released reg x"]])
      (use assms that in \<open>auto intro!: wp_conseq [OF wp_release_one_released [where S = "Id_SiteID ` set ids", OF refl]]\<close>)
  have "wp (each (complete_one op) ids) (\<lambda>_. ?I) (\<lambda>_. True) reg"
    by (rule wp_conseq [OF wp_each_all [where I = "\<lambda>_. True" and G = "\<lambda>x reg. removed_record reg (Id_SiteID x)"]])
      (auto intro: wp_complete_one_removed)
  then show ?thesis by (intro wp_andthen) (auto elim!: wp_conseq intro: release)
qed


lemma sorted_remdups_adj_strict:
  "sorted xs \<Longrightarrow> sorted_wrt (<) (remdups_adj (xs :: 'a :: linorder list))"
proof (induction xs rule: remdups_adj.induct)
  case (3 x y xs)
  have "x < z" if "x \<noteq> y" "z \<in> set (remdups_adj (y # xs))" for z
    using that 3(3) by (auto simp: order.strict_iff_order)
  then show ?case using 3 by (cases "x = y") auto
qed auto

text \<open>
  Locks are taken in one global order: the lock names of a lease are strictly increasing in
  byte order, so no two leases wait for each other, and they cover the subscription, the hostname
  and the site of every identity in it.
\<close>

theorem lock_names_ordered:
  "sorted_wrt (<) (lock_names reg vs) \<and>
   set (lock_names reg vs) = (\<Union>v \<in> set vs. set (identity_locks reg v))"
  unfolding lock_names_def by (simp add: sorted_remdups_adj_strict)

section \<open>An example registry\<close>

definition ascii_case :: unicode_case where
  "ascii_case = \<lparr>uc_lower = (\<lambda>s. s), uc_upper = (\<lambda>s. s), uc_fold = (=)\<rparr>"

definition demo_site :: SiteIdentity where
  "demo_site = \<lparr>Id_SiteID = 5, Id_SubscriptionID = 2, Id_Username = ''alice'', Id_Domain = ''example.com''\<rparr>"

definition demo_registry :: registry where
  "demo_registry =
     \<lparr>Reg_Root = ''/var/lib/sites'', Reg_Hash = (\<lambda>d. d),
      Reg_Sites = (\<lambda>i. if i = 5 then Some \<lparr>Rec_Identity = demo_site, Rec_State = ''active'',
        Rec_OperationID = 0, Rec_Revision = 0, Rec_RemovalKind = []\<rparr> else None),
      Reg_Domains = (\<lambda>h. if h = ''example.com'' then
        Some \<lparr>Dom_ActiveID = 5, Dom_RemovedHistory = False\<rparr> else None),
      Reg_Faults = []\<rparr>"

definition demo_marked :: registry where
  "demo_marked = snd (MarkRemoved ascii_case None 9 1 [demo_site] demo_registry)"

definition demo_done :: registry where
  "demo_done = snd (CompleteRemoval ascii_case None 9 [demo_site] demo_marked)"

lemma demo_results:
  "fst (WithSites ascii_case None [demo_site] (\<lambda>_. ret ()) demo_registry) = Inr ()"
  "fst (CompleteRemoval ascii_case None 9 [demo_site] demo_marked) = Inr ()"
  "retired demo_marked 5" "active_at demo_registry ''example.com'' = 5"
  by code_simp+


theorem retired_identity_stays_retired_witness:
  "retired demo_done 5 \<and> (\<exists>e. fst (prepare_lease ascii_case [demo_site] Create 0 0 demo_done) = Inl e)"
proof (rule retired_identity_stays_retired [where ident = demo_site and reg = demo_marked])
  show "registry_step\<^sup>*\<^sup>* demo_marked demo_done"
    unfolding demo_done_def by (rule r_into_rtranclp, rule step_complete)
qed (simp_all add: demo_results demo_site_def)

theorem hostname_handover_witness:
  "active_at demo_marked ''example.com'' = 5 \<or> retired demo_marked 5"
proof -
  have "registry_step\<^sup>*\<^sup>* demo_registry demo_marked"
    unfolding demo_marked_def by (rule r_into_rtranclp, rule step_mark)
  from hostname_handover [OF this demo_results(4)] show ?thesis by simp
qed


end
