(* ===== verification/Site_Guard.thy ===== *)
theory Site_Guard
  imports Registry_Safety
begin

text \<open>
  \<open>internal/agent/rpc/site_guard.go\<close>: every request to the privileged agent is classified by whether
  it carries website intent. Requests that do are stripped of the parts that concern removed
  websites and run under a lease on the rest; an unclassified operation is refused. The registry is
  used through the interface \<open>SiteIdentityGuard\<close>, here the locale \<open>identity_guard\<close>.
\<close>

section \<open>Requests\<close>

text \<open>
  The request body is the value that its JSON decodes to, restricted to the fields the guard reads;
  the remaining fields of an element travel along as its body. A body of another shape than the
  operation's struct is one that strict decoding refuses.
\<close>

record list_item =
  It_SiteID :: int
  It_SubscriptionID :: int
  It_Username :: string
  It_Domain :: string
  It_Body :: string

record sftp_item =
  Sf_SiteID :: int
  Sf_RelativeRoot :: string
  Sf_Body :: string

record dns_item =
  Dr_OwnerSiteID :: int
  Dr_Host :: string
  Dr_Body :: string

record zone_req =
  Zn_SiteID :: int
  Zn_SubscriptionID :: int
  Zn_Domain :: string
  Zn_Records :: "dns_item list"
  Zn_Body :: string

record reconcile_item =
  Rc_Item :: list_item
  Rc_DNSZone :: "zone_req option"

record account_req =
  Ac_SubscriptionID :: int
  Ac_Username :: string
  Ac_Domains :: "list_item list"
  Ac_Tasks :: "list_item list"
  Ac_SFTPIdentities :: "sftp_item list"
  Ac_Body :: string

record scoped_req =
  Sc_SubscriptionID :: int
  Sc_Username :: string
  Sc_Items :: "list_item list"
  Sc_Body :: string

datatype payload =
    SiteBody list_item
  | StagingBody list_item list_item
  | ZoneBody zone_req
  | ReconcileBody "reconcile_item list"
  | AccountBody account_req
  | ScopedBody scoped_req
  | ItemsBody "list_item list"
  | DatabaseBody int
  | OtherBody string

record request =
  Rq_Op :: string
  Rq_ID :: string
  Rq_Data :: payload

record preparedSiteGuard =
  Pr_Request :: request
  Pr_Identities :: "SiteIdentity list"
  Pr_Create :: bool

datatype 'e guard_error =
    RegistryError 'e
  | DecodeError
  | DNSOwnerDiffers
  | Unclassified string

definition guardIdentity :: "int \<Rightarrow> int \<Rightarrow> string \<Rightarrow> string \<Rightarrow> SiteIdentity" where
  "guardIdentity siteID subID username domain =
     \<lparr>Id_SiteID = siteID, Id_SubscriptionID = subID, Id_Username = username, Id_Domain = domain\<rparr>"

section \<open>Classification of operations\<close>

text \<open>
  \<open>GuardOne sub user create\<close>: the body names one site; \<open>sub\<close> and \<open>user\<close> say whether its subscription
  and its account are part of the identity.
\<close>

datatype op_class =
    GuardOne bool bool bool
  | GuardStaging
  | GuardZone
  | GuardReconcile
  | GuardAccount
  | GuardTasks
  | GuardMail
  | GuardFTPS
  | GuardUsage
  | GuardMigrate
  | GuardDatabase
  | NodeOp

definition full_identity_ops :: "string list" where
  "full_identity_ops =
     [''inspect_site_readiness'', ''restore_backup'', ''create_backup'', ''run_scheduled_task'',
      ''ensure_application'', ''deploy_application_generation'', ''get_application_status'',
      ''control_application'', ''read_application_log'', ''deploy_php_release'',
      ''rollback_php_release'', ''reconcile_php_application'', ''reconcile_php_workers'',
      ''run_wordpress'']"

definition account_identity_ops :: "string list" where
  "account_identity_ops =
     [''issue_cert'', ''install_custom_cert'', ''set_hosting_state'', ''apply_site_runtime'',
      ''ensure_git_repository'', ''ensure_protected_directories'', ''read_site_log'', ''list_files'',
      ''search_files'', ''read_file'', ''write_file'', ''create_file_entry'', ''copy_files'',
      ''move_files'', ''delete_files'', ''archive_files'', ''extract_archive'', ''set_file_mode'',
      ''import_file_transfer'', ''export_file_transfer'', ''generate_web_statistics'',
      ''read_web_statistics'']"

definition node_ops :: "string list" where
  "node_ops =
     [''site_service_dependencies'', ''ping'', ''runtime_capabilities'', ''inspect_server'',
      ''inspect_managed_services'', ''inspect_time'', ''inspect_php'', ''control_managed_service'',
      ''read_journal'', ''inspect_updates'', ''apply_updates'', ''apply_fail2ban_policy'',
      ''list_security_bans'', ''unban_security_address'', ''create_server_backup'',
      ''verify_server_backup'', ''prune_server_backups'', ''test_backup_destination'',
      ''inspect_server_security'', ''stage_server_security'', ''confirm_server_security'',
      ''revert_server_security'', ''control_host_power'', ''inspect_database_admin'',
      ''manage_database_admin'', ''reload_service'', ''cleanup_legacy_homes'',
      ''teardown_subscription'', ''teardown_site'', ''collect_mail_queue'', ''query_mail_queue'',
      ''inspect_queued_mail'', ''get_mail_status'', ''stage_maildir'', ''inspect_maildir'',
      ''read_maildir_message'', ''remove_maildir_stage'', ''web_statistics_status'', ''delete_backup'',
      ''read_backup_chunk'', ''ftps_status'', ''ensure_valkey'', ''valkey_status'']"

definition classify_op :: "string \<Rightarrow> op_class option" where
  "classify_op op =
     (if op = ''create_site'' then Some (GuardOne True True True)
      else if op \<in> set full_identity_ops then Some (GuardOne True True False)
      else if op = ''configure_webmail'' then Some (GuardOne True False False)
      else if op \<in> set account_identity_ops then Some (GuardOne False True False)
      else if op = ''run_staging_operation'' then Some GuardStaging
      else if op = ''configure_dns_zone'' then Some GuardZone
      else if op = ''reconcile_system'' then Some GuardReconcile
      else if op = ''ensure_subscription_account'' then Some GuardAccount
      else if op = ''apply_scheduled_tasks'' then Some GuardTasks
      else if op = ''configure_mail'' then Some GuardMail
      else if op = ''ensure_ftps'' then Some GuardFTPS
      else if op = ''collect_usage'' then Some GuardUsage
      else if op = ''migrate_subscription_account'' then Some GuardMigrate
      else if op = ''create_database'' then Some GuardDatabase
      else if op \<in> set node_ops then Some NodeOp
      else None)"

section \<open>Filtering\<close>

definition lift_op :: "('e, 's, 'a) st_op \<Rightarrow> ('e guard_error, 's, 'a) st_op" where
  "lift_op m s = (case m s of (Inl e, s') \<Rightarrow> (Inl (RegistryError e), s') | (Inr x, s') \<Rightarrow> (Inr x, s'))"

fun guardFilter :: "(SiteIdentity \<Rightarrow> ('e, 's, bool) st_op) \<Rightarrow> ('a \<Rightarrow> SiteIdentity) \<Rightarrow> 'a list \<Rightarrow>
  ('e guard_error, 's, 'a list \<times> SiteIdentity list) st_op" where
  "guardFilter rem identity [] = ret ([], [])"
| "guardFilter rem identity (v # vs) =
     andthen (lift_op (rem (identity v))) (\<lambda>removed.
     andthen (guardFilter rem identity vs) (\<lambda>(kept, ids).
     ret (if removed then (kept, ids) else (v # kept, identity v # ids))))"

definition sftp_identity :: "account_req \<Rightarrow> sftp_item \<Rightarrow> SiteIdentity" where
  "sftp_identity p x =
     guardIdentity (Sf_SiteID x) (Ac_SubscriptionID p) (Ac_Username p)
       (hd (Split (TrimPrefix (Sf_RelativeRoot x) ''domains/'') CHR ''/''))"

fun filter_sftp :: "(SiteIdentity \<Rightarrow> ('e, 's, bool) st_op) \<Rightarrow> account_req \<Rightarrow> sftp_item list \<Rightarrow>
  ('e guard_error, 's, sftp_item list) st_op" where
  "filter_sftp rem p [] = ret []"
| "filter_sftp rem p (x # xs) =
     andthen (if HasPrefix (Sf_RelativeRoot x) ''domains/'' then lift_op (rem (sftp_identity p x))
              else ret False) (\<lambda>removed.
     andthen (filter_sftp rem p xs) (\<lambda>kept.
     ret (if removed then kept else x # kept)))"

definition account_identity :: "account_req \<Rightarrow> list_item \<Rightarrow> SiteIdentity" where
  "account_identity p x = guardIdentity (It_SiteID x) (Ac_SubscriptionID p) (Ac_Username p) (It_Domain x)"

definition guardAccount :: "(SiteIdentity \<Rightarrow> ('e, 's, bool) st_op) \<Rightarrow> request \<Rightarrow> account_req \<Rightarrow>
  ('e guard_error, 's, preparedSiteGuard) st_op" where
  "guardAccount rem req p =
     andthen (guardFilter rem (account_identity p) (Ac_Domains p)) (\<lambda>(domains, ids).
     andthen (guardFilter rem (account_identity p) (Ac_Tasks p)) (\<lambda>(tasks, taskIDs).
     andthen (filter_sftp rem p (Ac_SFTPIdentities p)) (\<lambda>kept.
     ret \<lparr>Pr_Request = req\<lparr>Rq_Data := AccountBody
            (p\<lparr>Ac_Domains := domains, Ac_Tasks := tasks, Ac_SFTPIdentities := kept\<rparr>)\<rparr>,
          Pr_Identities = ids @ filter (\<lambda>i. Id_Domain i \<noteq> []) taskIDs,
          Pr_Create = True\<rparr>)))"

definition dns_identity :: "zone_req \<Rightarrow> dns_item \<Rightarrow> SiteIdentity" where
  "dns_identity p r =
     guardIdentity (Dr_OwnerSiteID r) 0 []
       (if Dr_OwnerSiteID r = 0 \<and> Dr_Host r \<noteq> ''@''
        then TrimSuffix (Dr_Host r) ''.'' @ ''.'' @ Zn_Domain p else Zn_Domain p)"

text \<open>
  The owner of a record: none registered is tolerated (\<open>errors.Is(err, os.ErrNotExist)\<close>, here the
  predicate \<open>missing\<close>), another error is returned.
\<close>

definition dns_owner :: "(int \<Rightarrow> ('e, 's, SiteIdentity) st_op) \<Rightarrow> ('e \<Rightarrow> bool) \<Rightarrow> zone_req \<Rightarrow> dns_item \<Rightarrow>
  ('e guard_error, 's, SiteIdentity list) st_op" where
  "dns_owner look missing p r s =
     (if Dr_OwnerSiteID r > 0 then
        (case look (Dr_OwnerSiteID r) s of
           (Inl e, s') \<Rightarrow> (if missing e then Inr [] else Inl (RegistryError e), s')
         | (Inr owner, s') \<Rightarrow>
             (if (Zn_SubscriptionID p > 0 \<and> Id_SubscriptionID owner \<noteq> Zn_SubscriptionID p) \<or>
                 (Id_Domain owner \<noteq> Zn_Domain p \<and> \<not> HasSuffix (Id_Domain owner) (''.'' @ Zn_Domain p))
              then Inl DNSOwnerDiffers else Inr [owner], s'))
      else (Inr [], s))"

fun filter_records :: "(SiteIdentity \<Rightarrow> ('e, 's, bool) st_op) \<Rightarrow> (int \<Rightarrow> ('e, 's, SiteIdentity) st_op) \<Rightarrow>
  ('e \<Rightarrow> bool) \<Rightarrow> zone_req \<Rightarrow> dns_item list \<Rightarrow> ('e guard_error, 's, dns_item list \<times> SiteIdentity list) st_op" where
  "filter_records rem look missing p [] = ret ([], [])"
| "filter_records rem look missing p (r # rs) =
     andthen (lift_op (rem (dns_identity p r))) (\<lambda>removed.
     if removed then filter_records rem look missing p rs
     else
       andthen (dns_owner look missing p r) (\<lambda>owner.
       andthen (filter_records rem look missing p rs) (\<lambda>(records, ids).
       ret (r # records, owner @ ids))))"

definition guard_zone :: "(SiteIdentity \<Rightarrow> ('e, 's, bool) st_op) \<Rightarrow> (int \<Rightarrow> ('e, 's, SiteIdentity) st_op) \<Rightarrow>
  ('e \<Rightarrow> bool) \<Rightarrow> zone_req \<Rightarrow> ('e guard_error, 's, zone_req \<times> SiteIdentity list) st_op" where
  "guard_zone rem look missing p =
     andthen (filter_records rem look missing p (Zn_Records p)) (\<lambda>(records, ids).
     ret (p\<lparr>Zn_Records := records\<rparr>,
          guardIdentity (Zn_SiteID p) (Zn_SubscriptionID p) [] (Zn_Domain p) # ids))"

fun guard_nested_zones :: "(SiteIdentity \<Rightarrow> ('e, 's, bool) st_op) \<Rightarrow> (int \<Rightarrow> ('e, 's, SiteIdentity) st_op) \<Rightarrow>
  ('e \<Rightarrow> bool) \<Rightarrow> reconcile_item list \<Rightarrow> ('e guard_error, 's, reconcile_item list \<times> SiteIdentity list) st_op" where
  "guard_nested_zones rem look missing [] = ret ([], [])"
| "guard_nested_zones rem look missing (x # xs) =
     andthen (case Rc_DNSZone x of
        None \<Rightarrow> ret (x, [])
      | Some zone \<Rightarrow> andthen (guard_zone rem look missing zone) (\<lambda>(zone', ids).
          ret (x\<lparr>Rc_DNSZone := Some zone'\<rparr>, ids))) (\<lambda>(x', ids).
     andthen (guard_nested_zones rem look missing xs) (\<lambda>(xs', ids').
     ret (x' # xs', ids @ ids')))"

definition item_identity :: "bool \<Rightarrow> bool \<Rightarrow> list_item \<Rightarrow> SiteIdentity" where
  "item_identity sub user x =
     guardIdentity (It_SiteID x) (if sub then It_SubscriptionID x else 0)
       (if user then It_Username x else []) (It_Domain x)"

definition scoped_identity :: "bool \<Rightarrow> scoped_req \<Rightarrow> list_item \<Rightarrow> SiteIdentity" where
  "scoped_identity own p x =
     guardIdentity (It_SiteID x) (Sc_SubscriptionID p)
       (if own then It_Username x else Sc_Username p) (It_Domain x)"

definition prepareSiteGuard :: "(SiteIdentity \<Rightarrow> ('e, 's, bool) st_op) \<Rightarrow> (int \<Rightarrow> ('e, 's, SiteIdentity) st_op) \<Rightarrow>
  ('e \<Rightarrow> bool) \<Rightarrow> request \<Rightarrow> ('e guard_error, 's, preparedSiteGuard) st_op" where
  "prepareSiteGuard rem look missing req =
     (let shared = (\<lambda>data ids create.
            \<lparr>Pr_Request = req\<lparr>Rq_Data := data\<rparr>, Pr_Identities = ids, Pr_Create = create\<rparr>);
          plain = (\<lambda>ids create. \<lparr>Pr_Request = req, Pr_Identities = ids, Pr_Create = create\<rparr>);
          scoped = filter (\<lambda>i. Id_Domain i \<noteq> []) in
      case classify_op (Rq_Op req) of
        None \<Rightarrow> fail (Unclassified (Rq_Op req))
      | Some (GuardOne sub user create) \<Rightarrow>
          (case Rq_Data req of
             SiteBody p \<Rightarrow> ret (plain [item_identity sub user p] create) | _ \<Rightarrow> fail DecodeError)
      | Some GuardStaging \<Rightarrow>
          (case Rq_Data req of
             StagingBody src tgt \<Rightarrow>
               ret (plain [guardIdentity (It_SiteID src) 0 (It_Username src) (It_Domain src),
                           guardIdentity (It_SiteID tgt) 0 (It_Username src) (It_Domain tgt)] False)
           | _ \<Rightarrow> fail DecodeError)
      | Some GuardZone \<Rightarrow>
          (case Rq_Data req of
             ZoneBody p \<Rightarrow> andthen (guard_zone rem look missing p) (\<lambda>(p', ids).
               ret (shared (ZoneBody p') ids False))
           | _ \<Rightarrow> fail DecodeError)
      | Some GuardReconcile \<Rightarrow>
          (case Rq_Data req of
             ReconcileBody sites \<Rightarrow>
               andthen (guardFilter rem (\<lambda>x. item_identity True True (Rc_Item x)) sites) (\<lambda>(kept, ids).
               andthen (guard_nested_zones rem look missing kept) (\<lambda>(kept', zoneIDs).
               ret (shared (ReconcileBody kept') (ids @ zoneIDs) True)))
           | _ \<Rightarrow> fail DecodeError)
      | Some GuardAccount \<Rightarrow>
          (case Rq_Data req of AccountBody p \<Rightarrow> guardAccount rem req p | _ \<Rightarrow> fail DecodeError)
      | Some GuardTasks \<Rightarrow>
          (case Rq_Data req of
             ScopedBody p \<Rightarrow> andthen (guardFilter rem (scoped_identity False p) (Sc_Items p)) (\<lambda>(kept, ids).
               ret (shared (ScopedBody (p\<lparr>Sc_Items := kept\<rparr>)) (scoped ids) False))
           | _ \<Rightarrow> fail DecodeError)
      | Some GuardMail \<Rightarrow>
          (case Rq_Data req of
             ItemsBody xs \<Rightarrow> andthen (guardFilter rem (item_identity True False) xs) (\<lambda>(kept, ids).
               ret (shared (ItemsBody kept) ids False))
           | _ \<Rightarrow> fail DecodeError)
      | Some GuardFTPS \<Rightarrow>
          (case Rq_Data req of
             ItemsBody xs \<Rightarrow> andthen (guardFilter rem (item_identity False True) xs) (\<lambda>(kept, ids).
               ret (shared (ItemsBody kept) (scoped ids) False))
           | _ \<Rightarrow> fail DecodeError)
      | Some GuardUsage \<Rightarrow>
          (case Rq_Data req of
             ScopedBody p \<Rightarrow> andthen (guardFilter rem (scoped_identity True p) (Sc_Items p)) (\<lambda>(kept, ids).
               ret (shared (ScopedBody (p\<lparr>Sc_Items := kept\<rparr>)) ids False))
           | _ \<Rightarrow> fail DecodeError)
      | Some GuardMigrate \<Rightarrow>
          (case Rq_Data req of
             ScopedBody p \<Rightarrow> andthen (guardFilter rem (scoped_identity False p) (Sc_Items p)) (\<lambda>(kept, ids).
               ret (shared (ScopedBody (p\<lparr>Sc_Items := kept\<rparr>)) ids True))
           | _ \<Rightarrow> fail DecodeError)
      | Some GuardDatabase \<Rightarrow>
          (case Rq_Data req of
             DatabaseBody siteID \<Rightarrow>
               if siteID > 0 then
                 andthen (lift_op (look siteID)) (\<lambda>i. ret (plain [i] False))
               else ret (plain [] False)
           | _ \<Rightarrow> fail DecodeError)
      | Some NodeOp \<Rightarrow> ret (plain [] False))"

section \<open>Dispatch\<close>

datatype ('e, 'r) outcome = Rejected "'e guard_error" | Handled 'r

text \<open>
  \<open>dispatch\<close> with a configured guard. \<open>handler\<close> is \<open>dispatchUnchecked\<close>; the work under a lease filters
  the original request again and reports its own error through the value it returns.
\<close>

definition guarded_work :: "(SiteIdentity \<Rightarrow> ('e, 's, bool) st_op) \<Rightarrow> (int \<Rightarrow> ('e, 's, SiteIdentity) st_op) \<Rightarrow>
  ('e \<Rightarrow> bool) \<Rightarrow> (siteLease option \<Rightarrow> request \<Rightarrow> 's \<Rightarrow> 'r \<times> 's) \<Rightarrow> request \<Rightarrow> siteLease \<Rightarrow>
  ('e, 's, ('e, 'r) outcome) st_op" where
  "guarded_work rem look missing handler req lease s =
     (case prepareSiteGuard rem look missing req s of
        (Inl e, s') \<Rightarrow> (Inr (Rejected e), s')
      | (Inr current, s') \<Rightarrow>
          (case handler (Some lease) (Pr_Request current) s' of (r, s'') \<Rightarrow> (Inr (Handled r), s'')))"

definition dispatch :: "(SiteIdentity \<Rightarrow> ('e, 's, bool) st_op) \<Rightarrow> (int \<Rightarrow> ('e, 's, SiteIdentity) st_op) \<Rightarrow>
  ('e \<Rightarrow> bool) \<Rightarrow>
  (SiteIdentity list \<Rightarrow> (siteLease \<Rightarrow> ('e, 's, ('e, 'r) outcome) st_op) \<Rightarrow> ('e, 's, ('e, 'r) outcome) st_op) \<Rightarrow>
  (SiteIdentity list \<Rightarrow> (siteLease \<Rightarrow> ('e, 's, ('e, 'r) outcome) st_op) \<Rightarrow> ('e, 's, ('e, 'r) outcome) st_op) \<Rightarrow>
  (siteLease option \<Rightarrow> request \<Rightarrow> 's \<Rightarrow> 'r \<times> 's) \<Rightarrow> request \<Rightarrow> 's \<Rightarrow> ('e, 'r) outcome \<times> 's" where
  "dispatch rem look missing withS withC handler req s =
     (case prepareSiteGuard rem look missing req s of
        (Inl e, s') \<Rightarrow> (Rejected e, s')
      | (Inr prepared, s') \<Rightarrow>
          if Pr_Identities prepared = [] then
            (case handler None (Pr_Request prepared) s' of (r, s'') \<Rightarrow> (Handled r, s''))
          else
            (case (if Pr_Create prepared then withC else withS) (Pr_Identities prepared)
                (guarded_work rem look missing handler req) s' of
               (Inl e, s'') \<Rightarrow> (Rejected (RegistryError e), s'')
             | (Inr out, s'') \<Rightarrow> (out, s'')))"

end
