(* ===== verification/Guard_Safety.thy ===== *)
theory Guard_Safety
  imports Site_Guard
begin

text \<open>
  What the dispatch guard promises, from the contract of the identity registry alone (the locales
  \<open>identity_guard\<close> and \<open>leasing_guard\<close>), and for the agent's registry by interpretation.
\<close>

section \<open>Specification of the filter\<close>

text \<open>The request without the parts that belong to a website for which \<open>dead\<close> holds.\<close>

definition live_zone :: "(SiteIdentity \<Rightarrow> bool) \<Rightarrow> zone_req \<Rightarrow> zone_req" where
  "live_zone dead p = p\<lparr>Zn_Records := filter (\<lambda>r. \<not> dead (dns_identity p r)) (Zn_Records p)\<rparr>"

definition live_account :: "(SiteIdentity \<Rightarrow> bool) \<Rightarrow> account_req \<Rightarrow> account_req" where
  "live_account dead p =
     p\<lparr>Ac_Domains := filter (\<lambda>x. \<not> dead (account_identity p x)) (Ac_Domains p),
       Ac_Tasks := filter (\<lambda>x. \<not> dead (account_identity p x)) (Ac_Tasks p),
       Ac_SFTPIdentities := filter (\<lambda>x. \<not> (HasPrefix (Sf_RelativeRoot x) ''domains/'' \<and>
         dead (sftp_identity p x))) (Ac_SFTPIdentities p)\<rparr>"

definition live_items :: "(SiteIdentity \<Rightarrow> bool) \<Rightarrow> (list_item \<Rightarrow> SiteIdentity) \<Rightarrow> list_item list \<Rightarrow> list_item list" where
  "live_items dead identity xs = filter (\<lambda>x. \<not> dead (identity x)) xs"

fun live_payload :: "(SiteIdentity \<Rightarrow> bool) \<Rightarrow> op_class \<Rightarrow> payload \<Rightarrow> payload" where
  "live_payload dead GuardZone (ZoneBody p) = ZoneBody (live_zone dead p)"
| "live_payload dead GuardReconcile (ReconcileBody xs) =
     ReconcileBody (map (\<lambda>x. x\<lparr>Rc_DNSZone := map_option (live_zone dead) (Rc_DNSZone x)\<rparr>)
       (filter (\<lambda>x. \<not> dead (item_identity True True (Rc_Item x))) xs))"
| "live_payload dead GuardAccount (AccountBody p) = AccountBody (live_account dead p)"
| "live_payload dead GuardTasks (ScopedBody p) =
     ScopedBody (p\<lparr>Sc_Items := live_items dead (scoped_identity False p) (Sc_Items p)\<rparr>)"
| "live_payload dead GuardMail (ItemsBody xs) = ItemsBody (live_items dead (item_identity True False) xs)"
| "live_payload dead GuardFTPS (ItemsBody xs) = ItemsBody (live_items dead (item_identity False True) xs)"
| "live_payload dead GuardUsage (ScopedBody p) =
     ScopedBody (p\<lparr>Sc_Items := live_items dead (scoped_identity True p) (Sc_Items p)\<rparr>)"
| "live_payload dead GuardMigrate (ScopedBody p) =
     ScopedBody (p\<lparr>Sc_Items := live_items dead (scoped_identity False p) (Sc_Items p)\<rparr>)"
| "live_payload dead _ data = data"

definition live_request :: "(SiteIdentity \<Rightarrow> bool) \<Rightarrow> request \<Rightarrow> request" where
  "live_request dead req =
     (case classify_op (Rq_Op req) of
        None \<Rightarrow> req
      | Some cls \<Rightarrow> req\<lparr>Rq_Data := live_payload dead cls (Rq_Data req)\<rparr>)"

lemma wp_lift_op [wp_rules]: "wp m P Q s \<Longrightarrow> wp (lift_op m) P Q s"
  by (auto simp: wp_def lift_op_def split: prod.splits sum.splits)

section \<open>Contract of the registry\<close>

locale identity_guard =
  fixes rem :: "SiteIdentity \<Rightarrow> ('e, 's, bool) st_op"
    and look :: "int \<Rightarrow> ('e, 's, SiteIdentity) st_op"
    and dead :: "'s \<Rightarrow> SiteIdentity \<Rightarrow> bool"
    and same :: "'s \<Rightarrow> 's \<Rightarrow> bool"
  assumes rem_law: "wp (rem ident) (\<lambda>b s'. same s s' \<and> b = dead s ident) (same s) s"
    and look_law: "wp (look i) (\<lambda>_. same s) (same s) s"
    and same_refl: "same s s"
    and same_trans: "same s s' \<Longrightarrow> same s' s'' \<Longrightarrow> same s s''"
    and same_dead: "same s s' \<Longrightarrow> dead s' = dead s"
begin

text \<open>A specification relative to the first state carries over to a state with the same contents.\<close>

lemma shift:
  assumes "wp m (\<lambda>x s'. same s1 s' \<and> P x) (same s1) s1" and "same s s1"
  shows "wp m (\<lambda>x s'. same s s' \<and> P x) (same s) s1"
  by (rule wp_conseq [OF assms(1)]) (use assms(2) in \<open>auto intro: same_trans\<close>)

lemma wp_guardFilter:
  "wp (guardFilter rem identity xs)
     (\<lambda>p s'. same s s' \<and> fst p = filter (\<lambda>x. \<not> dead s (identity x)) xs \<and> snd p = map identity (fst p)) (same s) s"
proof (induction xs arbitrary: s)
  case (Cons x xs)
  have rest: "wp (guardFilter rem identity xs)
     (\<lambda>p s'. same s s' \<and> fst p = filter (\<lambda>x. \<not> dead s (identity x)) xs \<and> snd p = map identity (fst p)) (same s) s1"
    if "same s s1" for s1
    using shift [OF Cons.IH that] by (simp add: same_dead [OF that])
  show ?case
    unfolding guardFilter.simps
    by (intro wp_andthen wp_lift_op wp_conseq [OF rem_law] wp_conseq [OF rest])
      (auto intro!: wp_ret simp: split_def)
qed (simp add: wp_ret same_refl)

lemma wp_filter_sftp:
  "wp (filter_sftp rem p xs)
     (\<lambda>kept s'. same s s' \<and> kept = filter (\<lambda>x. \<not> (HasPrefix (Sf_RelativeRoot x) ''domains/'' \<and>
        dead s (sftp_identity p x))) xs) (same s) s"
proof (induction xs arbitrary: s)
  case (Cons x xs)
  have rest: "wp (filter_sftp rem p xs)
     (\<lambda>kept s'. same s s' \<and> kept = filter (\<lambda>x. \<not> (HasPrefix (Sf_RelativeRoot x) ''domains/'' \<and>
        dead s (sftp_identity p x))) xs) (same s) s1"
    if "same s s1" for s1
    using shift [OF Cons.IH that] by (simp add: same_dead [OF that])
  show ?case
    unfolding filter_sftp.simps
    by (intro wp_andthen wp_if wp_lift_op wp_conseq [OF rem_law] wp_ret wp_conseq [OF rest])
      (auto simp: same_refl)
qed (simp add: wp_ret same_refl)

lemma wp_dns_owner: "wp (dns_owner look missing p r) (\<lambda>_. same s) (same s) s"
  using look_law [of "Dr_OwnerSiteID r" s]
  by (auto simp: wp_def dns_owner_def same_refl split: prod.splits sum.splits)

lemma wp_filter_records:
  "wp (filter_records rem look missing p rs)
     (\<lambda>x s'. same s s' \<and> fst x = filter (\<lambda>r. \<not> dead s (dns_identity p r)) rs) (same s) s"
proof (induction rs arbitrary: s)
  case (Cons r rs)
  have rest: "wp (filter_records rem look missing p rs)
     (\<lambda>x s'. same s s' \<and> fst x = filter (\<lambda>r. \<not> dead s (dns_identity p r)) rs) (same s) s1"
    if "same s s1" for s1
    using shift [OF Cons.IH that] by (simp add: same_dead [OF that])
  have owner: "wp (dns_owner look missing p r) (\<lambda>_. same s) (same s) s1" if "same s s1" for s1
    by (rule wp_conseq [OF wp_dns_owner]) (use that same_trans in blast)+
  show ?case
    unfolding filter_records.simps
    by (intro wp_andthen wp_lift_op wp_conseq [OF rem_law] wp_if wp_conseq [OF owner] wp_conseq [OF rest])
      (auto intro!: wp_ret simp: split_def)
qed (simp add: wp_ret same_refl)

lemma wp_guard_zone:
  "wp (guard_zone rem look missing p) (\<lambda>x s'. same s s' \<and> fst x = live_zone (dead s) p) (same s) s"
  unfolding guard_zone_def live_zone_def
  by (intro wp_andthen wp_conseq [OF wp_filter_records]) (auto intro!: wp_ret simp: split_def)

lemma wp_nested_zones:
  "wp (guard_nested_zones rem look missing xs)
     (\<lambda>y s'. same s s' \<and>
        fst y = map (\<lambda>x. x\<lparr>Rc_DNSZone := map_option (live_zone (dead s)) (Rc_DNSZone x)\<rparr>) xs) (same s) s"
proof (induction xs arbitrary: s)
  case (Cons x xs)
  have rest: "wp (guard_nested_zones rem look missing xs)
     (\<lambda>y s'. same s s' \<and>
        fst y = map (\<lambda>x. x\<lparr>Rc_DNSZone := map_option (live_zone (dead s)) (Rc_DNSZone x)\<rparr>) xs) (same s) s1"
    if "same s s1" for s1
    using shift [OF Cons.IH that] by (simp add: same_dead [OF that])
  show ?case
    unfolding guard_nested_zones.simps
    by (intro wp_andthen wp_option wp_ret wp_conseq [OF wp_guard_zone])
      (auto intro!: wp_ret wp_andthen wp_conseq [OF rest] simp: split_def same_refl)
qed (simp add: wp_ret same_refl)

lemma wp_shifted:
  assumes "\<And>s. wp m (\<lambda>x s'. same s s' \<and> R (dead s) x) (same s) s" and "same s s1"
  shows "wp m (\<lambda>x s'. same s s' \<and> R (dead s) x) (same s) s1"
  using shift [OF assms] by (simp add: same_dead [OF assms(2)])

lemma wp_guardAccount:
  "wp (guardAccount rem req p)
     (\<lambda>x s'. same s s' \<and> Pr_Request x = req\<lparr>Rq_Data := AccountBody (live_account (dead s) p)\<rparr>) (same s) s"
proof -
  have tasks: "wp (guardFilter rem (account_identity p) (Ac_Tasks p))
     (\<lambda>x s'. same s s' \<and> fst x = filter (\<lambda>x. \<not> dead s (account_identity p x)) (Ac_Tasks p)) (same s) s1"
    if "same s s1" for s1
    by (rule wp_conseq [OF wp_shifted [OF wp_guardFilter that]]) auto
  have sftp: "wp (filter_sftp rem p (Ac_SFTPIdentities p))
     (\<lambda>kept s'. same s s' \<and> kept = filter (\<lambda>x. \<not> (HasPrefix (Sf_RelativeRoot x) ''domains/'' \<and>
        dead s (sftp_identity p x))) (Ac_SFTPIdentities p)) (same s) s1"
    if "same s s1" for s1
    using shift [OF wp_filter_sftp that] by (simp add: same_dead [OF that])
  show ?thesis
    unfolding guardAccount_def
    by (intro wp_andthen wp_conseq [OF wp_guardFilter])
      (auto intro!: wp_ret wp_andthen wp_conseq [OF tasks] wp_conseq [OF sftp] simp: split_def live_account_def)
qed

lemma wp_filtered:
  assumes "\<And>kept ids. kept = filter (\<lambda>x. \<not> dead s (identity x)) xs \<Longrightarrow> Pr_Request (f kept ids) = q"
  shows "wp (andthen (guardFilter rem identity xs) (\<lambda>(kept, ids). ret (f kept ids)))
     (\<lambda>p s'. same s s' \<and> Pr_Request p = q) (same s) s"
  by (intro wp_andthen wp_conseq [OF wp_guardFilter]) (auto intro!: wp_ret assms simp: split_def)

lemma wp_reconcile:
  "wp (andthen (guardFilter rem (\<lambda>x. item_identity True True (Rc_Item x)) sites) (\<lambda>(kept, ids).
      andthen (guard_nested_zones rem look missing kept) (\<lambda>(kept', zoneIDs). ret (f kept' (ids @ zoneIDs)))))
     (\<lambda>p s'. same s s' \<and> (\<exists>ids. p = f (map (\<lambda>x. x\<lparr>Rc_DNSZone := map_option (live_zone (dead s)) (Rc_DNSZone x)\<rparr>)
        (filter (\<lambda>x. \<not> dead s (item_identity True True (Rc_Item x))) sites)) ids)) (same s) s"
proof -
  have zones: "wp (guard_nested_zones rem look missing xs)
     (\<lambda>y s'. same s s' \<and>
        fst y = map (\<lambda>x. x\<lparr>Rc_DNSZone := map_option (live_zone (dead s)) (Rc_DNSZone x)\<rparr>) xs) (same s) s1"
    if "same s s1" for xs s1
    using shift [OF wp_nested_zones that] by (simp add: same_dead [OF that])
  show ?thesis
    by (intro wp_andthen wp_conseq [OF wp_guardFilter])
      (auto intro!: wp_ret wp_andthen wp_conseq [OF zones] simp: split_def)
qed

lemma wp_prepareSiteGuard:
  "wp (prepareSiteGuard rem look missing req)
     (\<lambda>p s'. same s s' \<and> Pr_Request p = live_request (dead s) req) (same s) s"
proof (cases "classify_op (Rq_Op req)")
  case None
  then show ?thesis by (simp add: prepareSiteGuard_def wp_fail same_refl)
next
  case (Some cls)
  have zone: "wp (andthen (guard_zone rem look missing p) (\<lambda>(p', ids).
        ret \<lparr>Pr_Request = req\<lparr>Rq_Data := ZoneBody p'\<rparr>, Pr_Identities = ids, Pr_Create = False\<rparr>))
      (\<lambda>x s'. same s s' \<and> Pr_Request x = req\<lparr>Rq_Data := ZoneBody (live_zone (dead s) p)\<rparr>) (same s) s" for p
    by (intro wp_andthen wp_conseq [OF wp_guard_zone]) (auto intro!: wp_ret simp: split_def)
  have "req\<lparr>Rq_Data := Rq_Data req\<rparr> = req" by (cases req) simp
  then have look: "wp (andthen (lift_op (look i)) (\<lambda>x. ret \<lparr>Pr_Request = req, Pr_Identities = [x], Pr_Create = False\<rparr>))
      (\<lambda>x s'. same s s' \<and> Pr_Request x = req\<lparr>Rq_Data := d\<rparr>) (same s) s" if "Rq_Data req = d" for i d
    using that by (intro wp_andthen wp_lift_op wp_conseq [OF look_law] wp_ret) auto
  show ?thesis
    using Some unfolding prepareSiteGuard_def live_request_def Let_def
    by (cases cls; cases "Rq_Data req")
      (auto simp: same_refl live_items_def intro!: wp_ret wp_fail wp_filtered zone look wp_guardAccount
        wp_conseq [OF wp_reconcile])
qed

end

text \<open>Leases: the work runs, if at all, in a state in which the lease holds.\<close>

locale leasing_guard = identity_guard rem look dead same
  for rem :: "SiteIdentity \<Rightarrow> ('e, 's, bool) st_op" and look and dead :: "'s \<Rightarrow> SiteIdentity \<Rightarrow> bool" and same +
  fixes withS withC :: "SiteIdentity list \<Rightarrow> (siteLease \<Rightarrow> ('e, 's, ('e, 'r) outcome) st_op) \<Rightarrow>
      ('e, 's, ('e, 'r) outcome) st_op"
    and leased :: "'s \<Rightarrow> SiteIdentity list \<Rightarrow> bool"
  assumes withS_law: "withS ids fn s = (Inr out, s') \<Longrightarrow> \<exists>lease s0. leased s0 ids \<and> fn lease s0 = (Inr out, s')"
    and withC_law: "withC ids fn s = (Inr out, s') \<Longrightarrow> \<exists>lease s0. leased s0 ids \<and> fn lease s0 = (Inr out, s')"
begin

lemma guarded_work_handles:
  assumes "guarded_work rem look missing handler req lease s = (Inr (Handled r), s')"
  shows "\<exists>s1. same s s1 \<and> handler (Some lease) (live_request (dead s) req) s1 = (r, s')"
  using assms wp_prepareSiteGuard [of missing req s]
  by (auto simp: guarded_work_def wp_def split: prod.splits sum.splits)

text \<open>
  A request is handled either without website intent, or under a lease with the request filtered
  again in the state the lease holds in.
\<close>

lemma dispatch_handles:
  assumes "dispatch rem look missing withS withC handler req s = (Handled r, s')"
  shows "(\<exists>s1. same s s1 \<and> handler None (live_request (dead s) req) s1 = (r, s')) \<or>
    (\<exists>lease ids s0 s1. ids \<noteq> [] \<and> leased s0 ids \<and> same s0 s1 \<and>
       handler (Some lease) (live_request (dead s0) req) s1 = (r, s'))"
proof -
  obtain prepared s1 where prep: "prepareSiteGuard rem look missing req s = (Inr prepared, s1)"
    using assms by (auto simp: dispatch_def split: prod.splits sum.splits)
  then have p: "same s s1" "Pr_Request prepared = live_request (dead s) req"
    using wp_prepareSiteGuard [of missing req s] by (auto simp: wp_def)
  show ?thesis
  proof (cases "Pr_Identities prepared = []")
    case True
    then show ?thesis using assms prep p by (auto simp: dispatch_def split: prod.splits)
  next
    case False
    then have run: "(if Pr_Create prepared then withC else withS) (Pr_Identities prepared)
        (guarded_work rem look missing handler req) s1 = (Inr (Handled r), s')"
      using assms prep by (auto simp: dispatch_def split: prod.splits sum.splits)
    obtain lease s0 where l: "leased s0 (Pr_Identities prepared)"
      "guarded_work rem look missing handler req lease s0 = (Inr (Handled r), s')"
    proof (cases "Pr_Create prepared")
      case True
      then have "withC (Pr_Identities prepared) (guarded_work rem look missing handler req) s1 = (Inr (Handled r), s')"
        using run by simp
      from withC_law [OF this] show ?thesis using that by blast
    next
      case False
      then have "withS (Pr_Identities prepared) (guarded_work rem look missing handler req) s1 = (Inr (Handled r), s')"
        using run by simp
      from withS_law [OF this] show ?thesis using that by blast
    qed
    obtain s2 where "same s0 s2" "handler (Some lease) (live_request (dead s0) req) s2 = (r, s')"
      using guarded_work_handles [OF l(2)] by (elim exE conjE)
    then show ?thesis using False l(1) by (intro disjI2 exI conjI)
  qed
qed

end

section \<open>The agent's registry\<close>

definition dead_identity :: "registry \<Rightarrow> SiteIdentity \<Rightarrow> bool" where
  "dead_identity reg ident =
     (if Id_SiteID ident > 0 then retired reg (Id_SiteID ident)
      else history_at reg (Reg_Hash reg (Id_Domain ident)))"

definition leased_sites :: "registry \<Rightarrow> SiteIdentity list \<Rightarrow> bool" where
  "leased_sites reg ids \<longleftrightarrow>
     (\<forall>ident \<in> set ids.
        if Id_SiteID ident = 0 then \<not> history_at reg (Reg_Hash reg (Id_Domain ident))
        else \<not> retired reg (Id_SiteID ident) \<and>
          active_at reg (Reg_Hash reg (Id_Domain ident)) = Id_SiteID ident)"

definition registry_dispatch :: "unicode_case \<Rightarrow> (siteLease option \<Rightarrow> request \<Rightarrow> registry \<Rightarrow> 'r \<times> registry) \<Rightarrow>
  request \<Rightarrow> registry \<Rightarrow> (reg_error, 'r) outcome \<times> registry" where
  "registry_dispatch uc handler =
     dispatch Removed LookupSite (\<lambda>e. e = NotExist) (WithSites uc None) (WithCreation uc None) handler"

lemma lease_ok_leased:
  assumes "lease_ok reg ident mode 0 0" and "mode = Existing \<or> mode = Create"
  shows "if Id_SiteID ident = 0 then \<not> history_at reg (Reg_Hash reg (Id_Domain ident))
    else \<not> retired reg (Id_SiteID ident) \<and> active_at reg (Reg_Hash reg (Id_Domain ident)) = Id_SiteID ident"
  using assms by (auto simp: lease_ok_def retired_def split: option.splits if_splits)

lemma withSites_leased:
  assumes "withSites uc None ids mode 0 0 fn reg = (Inr out, reg')" and "mode = Existing \<or> mode = Create"
  shows "\<exists>lease reg0. leased_sites reg0 ids \<and> fn lease reg0 = (Inr out, reg')"
proof -
  obtain lease reg0 where "\<forall>ident \<in> set ids. lease_ok reg0 ident mode 0 0" "fn lease reg0 = (Inr out, reg')"
    using withSites_work [OF assms(1)] by auto
  then show ?thesis using lease_ok_leased assms(2) unfolding leased_sites_def by blast
qed

interpretation registry_guard: leasing_guard Removed LookupSite dead_identity same_store
  "WithSites uc None" "WithCreation uc None" leased_sites for uc
proof unfold_locales
  show "wp (Removed ident) (\<lambda>b s'. same_store s s' \<and> b = dead_identity s ident) (same_store s) s" for ident s
    unfolding Removed_def dead_identity_def
    by (intro wp_rules)
      (auto simp: retired_def history_at_def same_store_fields intro: same_store_trans split: option.splits)
  show "wp (LookupSite i) (\<lambda>_. same_store s) (same_store s) s" for i s
    unfolding LookupSite_def by (intro wp_rules) auto
  show "same_store s s'' " if "same_store s s'" "same_store s' s''" for s s' s''
    using that by (rule same_store_trans)
  show "dead_identity s' = dead_identity s" if "same_store s s'" for s s'
    using same_store_views [OF that] same_store_fields [OF that] by (intro ext) (simp add: dead_identity_def)
qed (auto simp: WithSites_def WithCreation_def dest: withSites_leased)


text \<open>
  C26. An operation on one site whose removal has started is refused, for every handler: the
  dispatcher answers with a rejection.
\<close>

theorem registry_dispatch_refuses_retired:
  assumes "classify_op (Rq_Op req) = Some (GuardOne sub user create)" and "Rq_Data req = SiteBody p"
    and "It_SiteID p \<noteq> 0" and "retired reg (It_SiteID p)"
  shows "\<exists>e reg'. registry_dispatch uc handler req reg = (Rejected e, reg')"
proof -
  let ?id = "item_identity sub user p"
  let ?mode = "if create then Create else Existing"
  have prep: "prepareSiteGuard Removed LookupSite missing req reg =
      (Inr \<lparr>Pr_Request = req, Pr_Identities = [?id], Pr_Create = create\<rparr>, reg)" for missing
    using assms(1,2) by (simp add: prepareSiteGuard_def ret_def)
  have no_lease: "\<not> lease_ok reg0 ?id ?mode 0 0" if "extends reg reg0" for reg0
    using that assms(3,4) by (auto simp: lease_ok_def item_identity_def guardIdentity_def retired_def
        extends_def split: option.splits)
  have "\<exists>e reg'. withSites uc None [?id] ?mode 0 0 fn reg = (Inl e, reg')"
    for fn :: "siteLease \<Rightarrow> (reg_error, 'a) outcome reg_op"
  proof -
    obtain res reg' where run: "withSites uc None [?id] ?mode 0 0 fn reg = (res, reg')" by fastforce
    from withSites_work [OF run] no_lease show ?thesis using run by auto
  qed
  then obtain e reg' where "withSites uc None [?id] ?mode 0 0
      (guarded_work Removed LookupSite (\<lambda>e. e = NotExist) handler req) reg = (Inl e, reg')"
    by blast
  then show ?thesis
    using prep by (cases create) (simp_all add: registry_dispatch_def dispatch_def WithSites_def WithCreation_def)
qed

text \<open>
  The classification fails closed: an operation that is not listed is refused without running a
  handler and without touching the registry.
\<close>

theorem registry_dispatch_unclassified:
  assumes "classify_op (Rq_Op req) = None"
  shows "registry_dispatch uc handler req reg = (Rejected (Unclassified (Rq_Op req)), reg)"
  using assms by (simp add: registry_dispatch_def dispatch_def prepareSiteGuard_def fail_def)

section \<open>Examples\<close>

definition demo_request :: request where
  "demo_request = \<lparr>Rq_Op = ''write_file'', Rq_ID = ''r1'', Rq_Data = SiteBody
     \<lparr>It_SiteID = 5, It_SubscriptionID = 0, It_Username = ''alice'', It_Domain = ''example.com'', It_Body = []\<rparr>\<rparr>"

definition demo_handler :: "siteLease option \<Rightarrow> request \<Rightarrow> registry \<Rightarrow> string \<times> registry" where
  "demo_handler lease q reg = (case lease of None \<Rightarrow> ''no lease'' | Some _ \<Rightarrow> Rq_ID q, reg)"

lemma demo_dispatch:
  "fst (registry_dispatch ascii_case demo_handler demo_request demo_registry) = Handled ''r1''"
  by code_simp


theorem registry_dispatch_refuses_retired_witness:
  "\<exists>e reg'. registry_dispatch ascii_case demo_handler demo_request demo_marked = (Rejected e, reg')"
proof (rule registry_dispatch_refuses_retired)
  show "classify_op (Rq_Op demo_request) = Some (GuardOne False True False)" by code_simp
  show "Rq_Data demo_request = SiteBody
     \<lparr>It_SiteID = 5, It_SubscriptionID = 0, It_Username = ''alice'', It_Domain = ''example.com'', It_Body = []\<rparr>"
    by (simp add: demo_request_def)
qed (simp_all add: demo_results)

theorem registry_dispatch_unclassified_witness:
  "registry_dispatch ascii_case demo_handler (demo_request\<lparr>Rq_Op := ''format_disk''\<rparr>) demo_registry =
     (Rejected (Unclassified ''format_disk''), demo_registry)"
proof -
  have "classify_op ''format_disk'' = None" by code_simp
  then show ?thesis
    using registry_dispatch_unclassified [of "demo_request\<lparr>Rq_Op := ''format_disk''\<rparr>"] by simp
qed

end
