(* ===== verification/Ops_Store.thy ===== *)
theory Ops_Store
  imports Nak_Prelude
begin

text \<open>
  \<open>internal/control/operations\<close>: operations and their attempts, issues observed on resources, and
  their verification. The tables of the database are lists of rows in the state; one definition
  per method of \<open>Store\<close> (\<open>store.go\<close>, \<open>verification.go\<close>, \<open>conditions.go\<close>) runs its SQL statements on
  them as one transaction: an error value leaves the tables as they were, which is the rollback.
  Times are integers (nanoseconds), with the zero time as 0.
\<close>

section \<open>Rows\<close>

record Resource =
  Rs_Kind :: string
  Rs_ID :: int

definition Valid :: "Resource \<Rightarrow> bool" where
  "Valid r =
     (if Rs_Kind r = ''server'' then Rs_ID r = 0
      else if Rs_Kind r \<in> {''site'', ''subscription'', ''customer'', ''user''} then Rs_ID r > 0
      else False)"

definition Terminal :: "string \<Rightarrow> bool" where
  "Terminal s \<longleftrightarrow> s = ''succeeded'' \<or> s = ''failed'' \<or> s = ''cancelled''"

record Operation =
  Op_ID :: int
  Op_Key :: string
  Op_Kind :: string
  Op_Resource :: Resource
  Op_Title :: string
  Op_Trigger :: string
  Op_State :: string
  Op_IntentRevision :: int

record NewOperation =
  New_Key :: string
  New_Kind :: string
  New_Title :: string
  New_Trigger :: string
  New_Resource :: Resource
  New_IntentRevision :: int

record Attempt =
  At_ID :: int
  At_OperationID :: int
  At_Number :: int
  At_RiverJobID :: int
  At_State :: string
  At_ErrorCode :: string
  At_FinishedAt :: "int option"

record VerificationToken =
  Tok_IssueID :: int
  Tok_Generation :: int
  Tok_LatestEventID :: int
  Tok_IntentRevision :: int

record VerificationReceipt =
  Rcp_Token :: VerificationToken
  Rcp_IntentHash :: string
  Rcp_Source :: string
  Rcp_SourceID :: int
  Rcp_Checksum :: string
  Rcp_SizeBytes :: int
  Rcp_ObservedAt :: int
  Rcp_Summary :: string

record Issue =
  Is_ID :: int
  Is_Resource :: Resource
  Is_Kind :: string
  Is_Condition :: string
  Is_Severity :: string
  Is_Title :: string
  Is_Summary :: string
  Is_State :: string
  Is_Generation :: int
  Is_Occurrences :: int
  Is_LatestEventID :: int
  Is_IntentRevision :: int
  Is_OperationID :: int
  Is_ObservedAt :: int
  Is_AcknowledgedBy :: int
  Is_AcknowledgedAt :: "int option"
  Is_ResolvedAt :: "int option"
  Is_LastCheckAt :: "int option"
  Is_LastCheckStatus :: string
  Is_Verification :: "VerificationReceipt option"
  Is_PreviousIssueID :: int

record Observation =
  Ob_EventKey :: string
  Ob_Resource :: Resource
  Ob_Kind :: string
  Ob_Condition :: string
  Ob_Severity :: string
  Ob_Title :: string
  Ob_Summary :: string
  Ob_IntentRevision :: int
  Ob_OperationID :: int
  Ob_ObservedAt :: int

record Event =
  Ev_ID :: int
  Ev_Key :: string
  Ev_Resource :: Resource
  Ev_Kind :: string
  Ev_OperationID :: int
  Ev_IssueID :: "int option"
  Ev_Summary :: string

record ConditionSample =
  Cs_Resource :: Resource
  Cs_Kind :: string
  Cs_Condition :: string
  Cs_Signature :: string
  Cs_Unhealthy :: bool
  Cs_Severity :: string
  Cs_Title :: string
  Cs_Summary :: string
  Cs_IntentRevision :: int
  Cs_ObservedAt :: int

record ConditionRow =
  Cr_Resource :: Resource
  Cr_Kind :: string
  Cr_Condition :: string
  Cr_Signature :: string
  Cr_Unhealthy :: bool
  Cr_Generation :: int
  Cr_ObservedAt :: int

record Notification =
  No_ID :: int
  No_IssueID :: "int option"
  No_Resolved :: bool

text \<open>Ownership: users with roles, customers, resellers, subscriptions and sites.\<close>

record Ownership =
  Own_Users :: "(int \<times> string) list"
  Own_Customers :: "(int \<times> int \<times> int) list"
  Own_Resellers :: "(int \<times> int) list"
  Own_Subscriptions :: "(int \<times> int) list"
  Own_Sites :: "(int \<times> int) list"

record ops_db =
  Db_Events :: "Event list"
  Db_NextEvent :: int
  Db_Issues :: "Issue list"
  Db_NextIssue :: int
  Db_Operations :: "Operation list"
  Db_NextOperation :: int
  Db_Attempts :: "Attempt list"
  Db_NextAttempt :: int
  Db_Conditions :: "ConditionRow list"
  Db_Notifications :: "Notification list"
  Db_AcceptedBatches :: "(int \<times> int \<times> int) list"
  Db_Ownership :: Ownership

datatype ops_error = ErrNotFound | ErrConflict | ErrInvalid | ErrSQL

section \<open>Validation\<close>

definition validText :: "string \<Rightarrow> nat \<Rightarrow> bool" where
  "validText s n \<longleftrightarrow> TrimSpace s \<noteq> [] \<and> length s \<le> n \<and> CHR 0x00 \<notin> set s"

definition validate :: "Observation \<Rightarrow> ops_error option" where
  "validate ob =
     first_error
      [fail_if (\<not> Valid (Ob_Resource ob) \<or> \<not> validText (Ob_EventKey ob) 256 \<or> \<not> validText (Ob_Kind ob) 80 \<or>
         \<not> validText (Ob_Condition ob) 160 \<or> \<not> validText (Ob_Title ob) 200 \<or> length (Ob_Summary ob) > 2000 \<or>
         Ob_IntentRevision ob < 0 \<or> Ob_OperationID ob < 0 \<or> Ob_ObservedAt ob = 0) ErrInvalid,
       fail_if (Ob_Severity ob \<notin> {''info'', ''warning'', ''critical''}) ErrInvalid]"

section \<open>Issues\<close>

definition update_issue :: "int \<Rightarrow> (Issue \<Rightarrow> Issue) \<Rightarrow> ops_db \<Rightarrow> ops_db" where
  "update_issue i f db = db\<lparr>Db_Issues := map (\<lambda>x. if Is_ID x = i then f x else x) (Db_Issues db)\<rparr>"

definition find_issue :: "int \<Rightarrow> ops_db \<Rightarrow> Issue option" where
  "find_issue i db = find (\<lambda>x. Is_ID x = i) (Db_Issues db)"

definition same_condition :: "Resource \<Rightarrow> string \<Rightarrow> string \<Rightarrow> Issue \<Rightarrow> bool" where
  "same_condition r k c x \<longleftrightarrow> Is_Resource x = r \<and> Is_Kind x = k \<and> Is_Condition x = c"

text \<open>\<open>INSERT INTO operation_events ... ON CONFLICT(event_key) DO NOTHING RETURNING id\<close>.\<close>

definition insert_event :: "string \<Rightarrow> Resource \<Rightarrow> string \<Rightarrow> int \<Rightarrow> int option \<Rightarrow> string \<Rightarrow> ops_db \<Rightarrow> (int \<times> ops_db) option" where
  "insert_event key r kind op issue summary db =
     (if \<exists>e \<in> set (Db_Events db). Ev_Key e = key then None
      else Some (Db_NextEvent db,
        db\<lparr>Db_Events := Db_Events db @ [\<lparr>Ev_ID = Db_NextEvent db, Ev_Key = key, Ev_Resource = r,
             Ev_Kind = kind, Ev_OperationID = op, Ev_IssueID = issue, Ev_Summary = summary\<rparr>],
           Db_NextEvent := Db_NextEvent db + 1\<rparr>))"

definition link_event :: "int \<Rightarrow> int \<Rightarrow> ops_db \<Rightarrow> ops_db" where
  "link_event e i db =
     db\<lparr>Db_Events := map (\<lambda>x. if Ev_ID x = e then x\<lparr>Ev_IssueID := Some i\<rparr> else x) (Db_Events db)\<rparr>"

definition base_state :: "Issue \<Rightarrow> string" where
  "base_state x = (if Is_AcknowledgedAt x = None then ''open'' else ''acknowledged'')"

definition reobserve :: "Observation \<Rightarrow> int \<Rightarrow> Issue \<Rightarrow> Issue" where
  "reobserve ob eventID x =
     x\<lparr>Is_Severity := Ob_Severity ob, Is_Title := Ob_Title ob, Is_Summary := Ob_Summary ob,
       Is_Generation := Is_Generation x + 1, Is_Occurrences := Is_Occurrences x + 1,
       Is_LatestEventID := eventID, Is_IntentRevision := Ob_IntentRevision ob,
       Is_OperationID := (if Ob_OperationID ob = 0 then Is_OperationID x else Ob_OperationID ob),
       Is_ObservedAt := max (Is_ObservedAt x) (Ob_ObservedAt ob),
       Is_LastCheckStatus := ''unknown'', Is_State := base_state x\<rparr>"

definition new_issue :: "Observation \<Rightarrow> int \<Rightarrow> int \<Rightarrow> int \<Rightarrow> Issue" where
  "new_issue ob i eventID previous =
     \<lparr>Is_ID = i, Is_Resource = Ob_Resource ob, Is_Kind = Ob_Kind ob, Is_Condition = Ob_Condition ob,
      Is_Severity = Ob_Severity ob, Is_Title = Ob_Title ob, Is_Summary = Ob_Summary ob,
      Is_State = ''open'', Is_Generation = 1, Is_Occurrences = 1, Is_LatestEventID = eventID,
      Is_IntentRevision = Ob_IntentRevision ob, Is_OperationID = Ob_OperationID ob,
      Is_ObservedAt = Ob_ObservedAt ob, Is_AcknowledgedBy = 0, Is_AcknowledgedAt = None,
      Is_ResolvedAt = None, Is_LastCheckAt = None, Is_LastCheckStatus = ''unknown'',
      Is_Verification = None, Is_PreviousIssueID = previous\<rparr>"

definition open_issue :: "Resource \<Rightarrow> string \<Rightarrow> string \<Rightarrow> ops_db \<Rightarrow> Issue option" where
  "open_issue r k c db = find (\<lambda>x. same_condition r k c x \<and> Is_ResolvedAt x = None) (Db_Issues db)"

text \<open>The latest resolved issue of the same condition, 0 when there is none.\<close>

definition previous_issue :: "Resource \<Rightarrow> string \<Rightarrow> string \<Rightarrow> ops_db \<Rightarrow> int" where
  "previous_issue r k c db =
     foldr (\<lambda>x m. max (Is_ID x) m)
       (filter (\<lambda>x. same_condition r k c x \<and> Is_ResolvedAt x \<noteq> None) (Db_Issues db)) 0"

text \<open>
  An event that names an operation references it: a missing operation violates the foreign key.
\<close>

definition ObserveIssueTx :: "Observation \<Rightarrow> ops_db \<Rightarrow> ops_error + (Issue \<times> ops_db)" where
  "ObserveIssueTx ob db =
     (case validate ob of Some e \<Rightarrow> Inl e | None \<Rightarrow>
      case insert_event (Ob_EventKey ob) (Ob_Resource ob) ''issue.observed'' (Ob_OperationID ob) None
             (Ob_Summary ob) db of
        None \<Rightarrow>
          (case find (\<lambda>e. Ev_Key e = Ob_EventKey ob) (Db_Events db) of
             None \<Rightarrow> Inl ErrSQL
           | Some e \<Rightarrow>
               if Ev_Resource e \<noteq> Ob_Resource ob then Inl ErrConflict
               else case Ev_IssueID e of
                 None \<Rightarrow> Inl ErrConflict
               | Some i \<Rightarrow>
                   (case find_issue i db of
                      None \<Rightarrow> Inl ErrSQL
                    | Some x \<Rightarrow>
                        if Is_Kind x \<noteq> Ob_Kind ob \<or> Is_Condition x \<noteq> Ob_Condition ob then Inl ErrConflict
                        else Inr (x, db)))
      | Some (eventID, db1) \<Rightarrow>
          if Ob_OperationID ob \<noteq> 0 \<and> Ob_OperationID ob \<notin> Op_ID ` set (Db_Operations db) then Inl ErrSQL
          else
          (case open_issue (Ob_Resource ob) (Ob_Kind ob) (Ob_Condition ob) db1 of
             Some x \<Rightarrow>
               let x' = reobserve ob eventID x in
               Inr (x', link_event eventID (Is_ID x) (update_issue (Is_ID x) (reobserve ob eventID) db1))
           | None \<Rightarrow>
               let i = Db_NextIssue db1;
                   x = new_issue ob i eventID
                         (previous_issue (Ob_Resource ob) (Ob_Kind ob) (Ob_Condition ob) db1) in
               Inr (x, link_event eventID i
                 (db1\<lparr>Db_Issues := Db_Issues db1 @ [x], Db_NextIssue := i + 1\<rparr>))))"

section \<open>Scope\<close>

definition valid_role :: "string \<Rightarrow> bool" where
  "valid_role r \<longleftrightarrow> r = ''admin'' \<or> r = ''reseller'' \<or> r = ''client''"

text \<open>The customer owns the resource, and the viewer is the customer's login or its reseller's.\<close>

definition owned_by :: "Ownership \<Rightarrow> Resource \<Rightarrow> int \<Rightarrow> bool" where
  "owned_by own r customer \<longleftrightarrow>
     (Rs_Kind r = ''customer'' \<and> customer = Rs_ID r) \<or>
     (Rs_Kind r = ''subscription'' \<and> (Rs_ID r, customer) \<in> set (Own_Subscriptions own)) \<or>
     (Rs_Kind r = ''site'' \<and>
        (\<exists>s \<in> set (Own_Sites own). fst s = Rs_ID r \<and> (snd s, customer) \<in> set (Own_Subscriptions own)))"

definition resourcePredicate :: "Ownership \<Rightarrow> int \<Rightarrow> string \<Rightarrow> Resource \<Rightarrow> bool" where
  "resourcePredicate own user role r \<longleftrightarrow>
     (user, role) \<in> set (Own_Users own) \<and>
     ((Rs_Kind r = ''user'' \<and> Rs_ID r = user) \<or>
      (Rs_Kind r \<noteq> ''user'' \<and> role = ''admin'') \<or>
      (Rs_Kind r \<in> {''site'', ''subscription'', ''customer''} \<and>
        (\<exists>(customer, login, reseller) \<in> set (Own_Customers own).
           owned_by own r customer \<and>
           ((role = ''client'' \<and> login = user) \<or>
            (role = ''reseller'' \<and> (reseller, user) \<in> set (Own_Resellers own))))))"

definition CanView :: "Ownership \<Rightarrow> int \<Rightarrow> string \<Rightarrow> Resource \<Rightarrow> bool" where
  "CanView own user role r =
     (if \<not> valid_role role \<or> user \<le> 0 \<or> \<not> Valid r then False else resourcePredicate own user role r)"

definition add_event :: "string \<Rightarrow> Resource \<Rightarrow> string \<Rightarrow> int \<Rightarrow> int option \<Rightarrow> string \<Rightarrow> ops_db \<Rightarrow> ops_db" where
  "add_event key r kind op issue summary db =
     (case insert_event key r kind op issue summary db of None \<Rightarrow> db | Some (_, db') \<Rightarrow> db')"

definition acknowledged_row :: "int \<Rightarrow> int \<Rightarrow> Issue \<Rightarrow> Issue" where
  "acknowledged_row now user x =
     x\<lparr>Is_AcknowledgedBy := (if Is_AcknowledgedBy x = 0 then user else Is_AcknowledgedBy x),
       Is_AcknowledgedAt := (if Is_AcknowledgedAt x = None then Some now else Is_AcknowledgedAt x),
       Is_State := (if Is_State x = ''checking'' then Is_State x else ''acknowledged'')\<rparr>"

definition AcknowledgeIssue :: "int \<Rightarrow> int \<Rightarrow> string \<Rightarrow> int \<Rightarrow> ops_db \<Rightarrow> ops_error + ops_db" where
  "AcknowledgeIssue now user role i db =
     (if \<not> valid_role role \<or> user \<le> 0 then Inl ErrNotFound
      else case find_issue i db of
        None \<Rightarrow> Inl ErrNotFound
      | Some x \<Rightarrow>
          if Is_ResolvedAt x \<noteq> None \<or> \<not> resourcePredicate (Db_Ownership db) user role (Is_Resource x)
          then Inl ErrNotFound
          else
            Inr (add_event (''issue:'' @ Itoa i @ '':acknowledged'') (Is_Resource x)
                   ''issue.acknowledged'' 0 (Some i) ''Issue acknowledged; recovery is still required.''
                   (update_issue i (acknowledged_row now user) db)))"

section \<open>Operations and attempts\<close>

definition triggers :: "string list" where
  "triggers = [''manual'', ''scheduled'', ''reconciliation'', ''recovery'', ''system'']"

definition CreateOperation :: "NewOperation \<Rightarrow> ops_db \<Rightarrow> ops_error + (Operation \<times> ops_db)" where
  "CreateOperation new db =
     (if \<not> Valid (New_Resource new) \<or> \<not> validText (New_Key new) 256 \<or> \<not> validText (New_Kind new) 80 \<or>
         \<not> validText (New_Title new) 200 \<or> New_IntentRevision new < 0 \<or> New_Trigger new \<notin> set triggers
      then Inl ErrInvalid
      else case find (\<lambda>p. Op_Key p = New_Key new) (Db_Operations db) of
        Some p \<Rightarrow>
          if Op_Resource p \<noteq> New_Resource new \<or> Op_Kind p \<noteq> New_Kind new \<or>
             Op_IntentRevision p \<noteq> New_IntentRevision new
          then Inl ErrConflict else Inr (p, db)
      | None \<Rightarrow>
          let p = \<lparr>Op_ID = Db_NextOperation db, Op_Key = New_Key new, Op_Kind = New_Kind new,
                   Op_Resource = New_Resource new, Op_Title = New_Title new,
                   Op_Trigger = New_Trigger new, Op_State = ''queued'',
                   Op_IntentRevision = New_IntentRevision new\<rparr> in
          Inr (p, db\<lparr>Db_Operations := Db_Operations db @ [p],
                     Db_NextOperation := Db_NextOperation db + 1\<rparr>))"

definition attempts_of :: "int \<Rightarrow> ops_db \<Rightarrow> Attempt list" where
  "attempts_of op db = filter (\<lambda>a. At_OperationID a = op) (Db_Attempts db)"

definition set_operation_state :: "int \<Rightarrow> string \<Rightarrow> ops_db \<Rightarrow> ops_db" where
  "set_operation_state op st db =
     db\<lparr>Db_Operations := map (\<lambda>p. if Op_ID p = op then p\<lparr>Op_State := st\<rparr> else p) (Db_Operations db)\<rparr>"

text \<open>The unique constraint on a job's first execution makes a second insert an SQL error.\<close>

definition StartAttempt :: "int \<Rightarrow> int \<Rightarrow> ops_db \<Rightarrow> ops_error + (Attempt \<times> ops_db)" where
  "StartAttempt opID riverID db =
     (if opID \<le> 0 \<or> riverID \<le> 0 then Inl ErrInvalid
      else if opID \<notin> Op_ID ` set (Db_Operations db) then Inl ErrSQL
      else if \<exists>a \<in> set (attempts_of opID db). At_FinishedAt a = None then Inl ErrConflict
      else if riverID \<in> At_RiverJobID ` set (Db_Attempts db) then Inl ErrSQL
      else
        let a = \<lparr>At_ID = Db_NextAttempt db, At_OperationID = opID,
                 At_Number = foldr max (map At_Number (attempts_of opID db)) 0 + 1,
                 At_RiverJobID = riverID, At_State = ''running'', At_ErrorCode = [], At_FinishedAt = None\<rparr> in
        Inr (a, set_operation_state opID ''running''
          (db\<lparr>Db_Attempts := Db_Attempts db @ [a], Db_NextAttempt := Db_NextAttempt db + 1\<rparr>)))"

definition FinishAttempt :: "int \<Rightarrow> int \<Rightarrow> string \<Rightarrow> string \<Rightarrow> ops_db \<Rightarrow> ops_error + ops_db" where
  "FinishAttempt now i st code db =
     (if \<not> Terminal st \<or> length code > 80 then Inl ErrInvalid
      else case find (\<lambda>a. At_ID a = i) (Db_Attempts db) of
        None \<Rightarrow> Inl ErrSQL
      | Some a \<Rightarrow>
          if At_OperationID a \<notin> Op_ID ` set (Db_Operations db) then Inl ErrSQL
          else if Terminal (At_State a) then
            (if At_State a \<noteq> st \<or> At_ErrorCode a \<noteq> code then Inl ErrConflict else Inr db)
          else
            Inr (set_operation_state (At_OperationID a) st
              (db\<lparr>Db_Attempts := map (\<lambda>x. if At_ID x = i
                 then x\<lparr>At_State := st, At_ErrorCode := code, At_FinishedAt := Some now\<rparr> else x)
                 (Db_Attempts db)\<rparr>)))"

section \<open>Verification\<close>

definition IssueForUpdateTx :: "int \<Rightarrow> ops_db \<Rightarrow> ops_error + Issue" where
  "IssueForUpdateTx i db = (case find_issue i db of None \<Rightarrow> Inl ErrNotFound | Some x \<Rightarrow> Inr x)"

definition checking_row :: "int \<Rightarrow> int \<Rightarrow> Issue \<Rightarrow> Issue" where
  "checking_row now revision x =
     x\<lparr>Is_State := ''checking'', Is_LastCheckStatus := ''checking'', Is_LastCheckAt := Some now,
       Is_IntentRevision := revision\<rparr>"

definition SetCheckingTx :: "int \<Rightarrow> Issue \<Rightarrow> int \<Rightarrow> ops_db \<Rightarrow> ops_error + (VerificationToken \<times> ops_db)" where
  "SetCheckingTx now i revision db =
     (if revision < 0 then Inl ErrInvalid
      else if \<not> (\<exists>x \<in> set (Db_Issues db). Is_ID x = Is_ID i \<and> Is_Generation x = Is_Generation i \<and>
          Is_LatestEventID x = Is_LatestEventID i \<and> Is_ResolvedAt x = None) then Inl ErrConflict
      else Inr (\<lparr>Tok_IssueID = Is_ID i, Tok_Generation = Is_Generation i,
                 Tok_LatestEventID = Is_LatestEventID i, Tok_IntentRevision = revision\<rparr>,
        update_issue (Is_ID i) (checking_row now revision) db))"

definition hex_string :: "string \<Rightarrow> bool" where
  "hex_string s \<longleftrightarrow> list_all (\<lambda>c. is_digit c \<or> c \<in> set ''abcdefABCDEF'') s"

definition receipt_ok :: "int \<Rightarrow> VerificationReceipt \<Rightarrow> bool" where
  "receipt_ok now r \<longleftrightarrow>
     \<not> (Tok_IssueID (Rcp_Token r) \<le> 0 \<or> Tok_Generation (Rcp_Token r) \<le> 0 \<or>
        Tok_LatestEventID (Rcp_Token r) \<le> 0 \<or> length (Rcp_IntentHash r) \<noteq> 64 \<or> Rcp_ObservedAt r = 0 \<or>
        now - Rcp_ObservedAt r > 5 * 60 * 10 ^ 9 \<or> Rcp_ObservedAt r > now + 60 * 10 ^ 9 \<or>
        \<not> validText (Rcp_Summary r) 400) \<and>
     hex_string (Rcp_IntentHash r) \<and>
     (if Rcp_Source r = ''archive_checksum'' then
        Rcp_SourceID r > 0 \<and> Rcp_SizeBytes r > 0 \<and> length (Rcp_Checksum r) = 64 \<and> hex_string (Rcp_Checksum r)
      else if Rcp_Source r = ''smtp_acceptance'' then Rcp_SourceID r > 0
      else Rcp_Source r \<in> {''local_tls'', ''local_hosting'', ''mail_runtime'', ''webmail_https''})"

definition expectedSource :: "string \<Rightarrow> string list" where
  "expectedSource k =
     (if k = ''backup'' then [''archive_checksum'']
      else if k = ''tls'' then [''local_tls'']
      else if k = ''hosting'' then [''local_hosting'']
      else if k = ''mail'' then [''mail_runtime'', ''webmail_https'']
      else if k = ''notification_delivery'' then [''smtp_acceptance'']
      else [])"

text \<open>The receipt is for this occurrence of the issue under this intent, and not older than it.\<close>

definition token_fits :: "VerificationReceipt \<Rightarrow> Issue \<Rightarrow> bool" where
  "token_fits r x \<longleftrightarrow>
     Is_Generation x = Tok_Generation (Rcp_Token r) \<and> Is_LatestEventID x = Tok_LatestEventID (Rcp_Token r) \<and>
     Is_IntentRevision x = Tok_IntentRevision (Rcp_Token r) \<and> Is_ObservedAt x \<le> Rcp_ObservedAt r"

definition resolved_row :: "int \<Rightarrow> VerificationReceipt \<Rightarrow> Issue \<Rightarrow> Issue" where
  "resolved_row now r x =
     x\<lparr>Is_State := ''resolved'', Is_ResolvedAt := Some now, Is_Verification := Some r,
       Is_LastCheckStatus := ''verified'', Is_LastCheckAt := Some (Rcp_ObservedAt r)\<rparr>"

definition resolve_notifications :: "int \<Rightarrow> ops_db \<Rightarrow> ops_db" where
  "resolve_notifications i db =
     db\<lparr>Db_Notifications := map (\<lambda>n. if No_IssueID n = Some i then n\<lparr>No_Resolved := True\<rparr> else n)
       (Db_Notifications db)\<rparr>"

definition ResolveVerifiedTx :: "int \<Rightarrow> VerificationReceipt \<Rightarrow> string \<Rightarrow> int \<Rightarrow> ops_db \<Rightarrow> ops_error + ops_db" where
  "ResolveVerifiedTx now r currentHash currentRevision db =
     (if \<not> receipt_ok now r then Inl ErrInvalid
      else if Rcp_IntentHash r \<noteq> currentHash \<or> Tok_IntentRevision (Rcp_Token r) \<noteq> currentRevision
      then Inl ErrConflict
      else case IssueForUpdateTx (Tok_IssueID (Rcp_Token r)) db of
        Inl e \<Rightarrow> Inl e
      | Inr i \<Rightarrow>
          if \<not> token_fits r i then Inl ErrConflict
          else if Rcp_Source r \<notin> set (expectedSource (Is_Kind i)) then Inl ErrInvalid
          else if Rcp_Source r = ''smtp_acceptance'' \<and>
            (Rs_Kind (Is_Resource i) \<noteq> ''user'' \<or>
             (Rcp_SourceID r, Rs_ID (Is_Resource i), Rcp_ObservedAt r) \<notin> set (Db_AcceptedBatches db))
          then Inl ErrInvalid
          else if Is_ResolvedAt i \<noteq> None then Inr db
          else
            Inr (add_event (''issue:'' @ Itoa (Is_ID i) @ '':verified:'' @ Itoa (Is_Generation i) @
                   '':'' @ Itoa (Is_LatestEventID i)) (Is_Resource i) ''issue.resolved''
                   (Is_OperationID i) (Some (Is_ID i)) (Rcp_Summary r)
                   (resolve_notifications (Is_ID i) (update_issue (Is_ID i) (resolved_row now r) db))))"

definition reopened_row :: "int \<Rightarrow> Issue \<Rightarrow> Issue" where
  "reopened_row now x =
     x\<lparr>Is_State := base_state x, Is_LastCheckStatus := ''unknown'', Is_LastCheckAt := Some now\<rparr>"

definition VerificationFailedTx :: "int \<Rightarrow> VerificationToken \<Rightarrow> ops_db \<Rightarrow> ops_error + ops_db" where
  "VerificationFailedTx now t db =
     (if \<not> (\<exists>x \<in> set (Db_Issues db). Is_ID x = Tok_IssueID t \<and> Is_Generation x = Tok_Generation t \<and>
          Is_LatestEventID x = Tok_LatestEventID t \<and> Is_IntentRevision x = Tok_IntentRevision t \<and>
          Is_ResolvedAt x = None) then Inl ErrConflict
      else Inr (update_issue (Tok_IssueID t) (reopened_row now) db))"

section \<open>Conditions\<close>

text \<open>A negative intent revision violates the check constraint of the issues table.\<close>

definition same_row :: "ConditionSample \<Rightarrow> ConditionRow \<Rightarrow> bool" where
  "same_row c x \<longleftrightarrow> Cr_Resource x = Cs_Resource c \<and> Cr_Kind x = Cs_Kind c \<and> Cr_Condition x = Cs_Condition c"

definition record_sample :: "ConditionSample \<Rightarrow> ops_db \<Rightarrow> int \<times> ops_db" where
  "record_sample c db =
     (case find (same_row c) (Db_Conditions db) of
        None \<Rightarrow>
          (1, db\<lparr>Db_Conditions := Db_Conditions db @ [\<lparr>Cr_Resource = Cs_Resource c, Cr_Kind = Cs_Kind c,
             Cr_Condition = Cs_Condition c, Cr_Signature = Cs_Signature c, Cr_Unhealthy = Cs_Unhealthy c,
             Cr_Generation = 1, Cr_ObservedAt = Cs_ObservedAt c\<rparr>]\<rparr>)
      | Some row \<Rightarrow>
          let g = Cr_Generation row + (if Cr_Signature row \<noteq> Cs_Signature c \<or>
                    Cr_Unhealthy row \<noteq> Cs_Unhealthy c then 1 else 0) in
          (g, db\<lparr>Db_Conditions := map (\<lambda>x. if same_row c x then x\<lparr>Cr_Generation := g,
             Cr_Signature := Cs_Signature c, Cr_Unhealthy := Cs_Unhealthy c,
             Cr_ObservedAt := Cs_ObservedAt c\<rparr> else x) (Db_Conditions db)\<rparr>))"

definition condition_key :: "ConditionSample \<Rightarrow> int \<Rightarrow> string" where
  "condition_key c g =
     ''condition:'' @ Rs_Kind (Cs_Resource c) @ '':'' @ Itoa (Rs_ID (Cs_Resource c)) @ '':'' @ Cs_Kind c @
     '':'' @ Cs_Condition c @ '':'' @ Itoa g @ '':'' @ Cs_Signature c"

definition condition_observation :: "ConditionSample \<Rightarrow> string \<Rightarrow> Observation" where
  "condition_observation c key =
     \<lparr>Ob_EventKey = key, Ob_Resource = Cs_Resource c, Ob_Kind = Cs_Kind c,
      Ob_Condition = Cs_Condition c, Ob_Severity = Cs_Severity c, Ob_Title = Cs_Title c,
      Ob_Summary = Cs_Summary c, Ob_IntentRevision = Cs_IntentRevision c,
      Ob_OperationID = 0, Ob_ObservedAt = Cs_ObservedAt c\<rparr>"

definition touched_row :: "int \<Rightarrow> Issue \<Rightarrow> Issue" where
  "touched_row observed x = x\<lparr>Is_ObservedAt := max (Is_ObservedAt x) observed\<rparr>"

definition changed_row :: "int \<Rightarrow> int \<Rightarrow> Issue \<Rightarrow> Issue" where
  "changed_row eventID revision x =
     x\<lparr>Is_Generation := Is_Generation x + 1, Is_LatestEventID := eventID, Is_IntentRevision := revision,
       Is_LastCheckStatus := ''unknown''\<rparr>"

definition ObserveConditionTx :: "ConditionSample \<Rightarrow> ops_db \<Rightarrow> ops_error + ops_db" where
  "ObserveConditionTx c db =
     (if \<not> Valid (Cs_Resource c) \<or> \<not> validText (Cs_Kind c) 80 \<or> \<not> validText (Cs_Condition c) 160 \<or>
         \<not> validText (Cs_Signature c) 200 \<or> Cs_ObservedAt c = 0 then Inl ErrInvalid
      else case record_sample c db of (g, db1) \<Rightarrow>
        let key = condition_key c g in
        if Cs_Unhealthy c then
          (case ObserveIssueTx (condition_observation c key) db1 of
             Inl e \<Rightarrow> Inl e
           | Inr (i, db2) \<Rightarrow> Inr (update_issue (Is_ID i) (touched_row (Cs_ObservedAt c)) db2))
        else
          (case open_issue (Cs_Resource c) (Cs_Kind c) (Cs_Condition c) db1 of
             None \<Rightarrow> Inr db1
           | Some i \<Rightarrow>
               (case insert_event key (Cs_Resource c) ''condition.changed'' 0 (Some (Is_ID i))
                    ''Resource state changed; recovery verification is required'' db1 of
                  None \<Rightarrow> Inr db1
                | Some (eventID, db2) \<Rightarrow>
                    if Cs_IntentRevision c < 0 then Inl ErrSQL
                    else Inr (update_issue (Is_ID i) (changed_row eventID (Cs_IntentRevision c)) db2))))"

end
