(* ===== verification/Ops_Safety.thy ===== *)
theory Ops_Safety
  imports Ops_Store
begin

text \<open>
  Invariants of the operations store: one open issue per condition, issues resolved only by a
  fresh receipt for their latest occurrence, duplicate events without effect, and attempts that
  are numbered consecutively with at most one unfinished.
\<close>

section \<open>Finding issues\<close>

lemma find_issue_update:
  assumes "\<And>x. Is_ID (f x) = Is_ID x"
  shows "find_issue j (update_issue i f db) =
    (if j = i then map_option f (find_issue i db) else find_issue j db)"
proof -
  have "find (\<lambda>x. Is_ID x = j) (map (\<lambda>x. if Is_ID x = i then f x else x) xs) =
    (if j = i then map_option f (find (\<lambda>x. Is_ID x = i) xs) else find (\<lambda>x. Is_ID x = j) xs)" for xs
    by (induction xs) (auto simp: assms)
  then show ?thesis by (simp add: find_issue_def update_issue_def)
qed

lemma find_issue_append:
  "find_issue j (db\<lparr>Db_Issues := Db_Issues db @ [x], Db_NextIssue := n\<rparr>) =
    (case find_issue j db of Some y \<Rightarrow> Some y | None \<Rightarrow> if Is_ID x = j then Some x else None)"
proof -
  have "find P (xs @ [x]) = (case find P xs of Some y \<Rightarrow> Some y | None \<Rightarrow> if P x then Some x else None)"
    for P and xs :: "Issue list"
    by (induction xs) auto
  then show ?thesis by (simp add: find_issue_def)
qed

lemma find_issue_other [simp]:
  "find_issue j (link_event e i db) = find_issue j db"
  "find_issue j (set_operation_state p st db) = find_issue j db"
  "find_issue j (db\<lparr>Db_Attempts := as, Db_NextAttempt := n\<rparr>) = find_issue j db"
  "find_issue j (db\<lparr>Db_Attempts := as\<rparr>) = find_issue j db"
  "find_issue j (db\<lparr>Db_Operations := ps, Db_NextOperation := n\<rparr>) = find_issue j db"
  "find_issue j (db\<lparr>Db_Notifications := ns\<rparr>) = find_issue j db"
  "find_issue j (snd (record_sample c db)) = find_issue j db"
  by (simp_all add: find_issue_def link_event_def set_operation_state_def record_sample_def Let_def
      split: option.splits)

lemma insert_event_Some:
  assumes "insert_event key r kind op issue summary db = Some (e, db')"
  shows "e = Db_NextEvent db" "find_issue j db' = find_issue j db" "Db_Issues db' = Db_Issues db"
    "Db_NextIssue db' = Db_NextIssue db" "Db_Attempts db' = Db_Attempts db"
    "Db_NextEvent db' = Db_NextEvent db + 1" "Db_NextAttempt db' = Db_NextAttempt db"
    "key \<notin> Ev_Key ` set (Db_Events db)"
    "Db_Events db' = Db_Events db @ [\<lparr>Ev_ID = Db_NextEvent db, Ev_Key = key, Ev_Resource = r,
             Ev_Kind = kind, Ev_OperationID = op, Ev_IssueID = issue, Ev_Summary = summary\<rparr>]"
  using assms by (auto simp: insert_event_def find_issue_def split: if_splits)

lemma open_issueD:
  assumes "open_issue r k c db = Some x"
  shows "x \<in> set (Db_Issues db)" "same_condition r k c x" "Is_ResolvedAt x = None"
  using assms by (auto simp: open_issue_def find_Some_iff)

lemma reobserve_simps [simp]:
  "Is_ID (reobserve ob e x) = Is_ID x" "Is_Generation (reobserve ob e x) = Is_Generation x + 1"
  "Is_ResolvedAt (reobserve ob e x) = Is_ResolvedAt x" "Is_Resource (reobserve ob e x) = Is_Resource x"
  "Is_Kind (reobserve ob e x) = Is_Kind x" "Is_Condition (reobserve ob e x) = Is_Condition x"
  "Is_LatestEventID (reobserve ob e x) = e"
  by (simp_all add: reobserve_def)

section \<open>Transitions\<close>

inductive ops_step :: "ops_db \<Rightarrow> ops_db \<Rightarrow> bool" where
  observe: "ObserveIssueTx ob db = Inr (i, db') \<Longrightarrow> ops_step db db'"
| acknowledge: "AcknowledgeIssue now user role i db = Inr db' \<Longrightarrow> ops_step db db'"
| create: "CreateOperation new db = Inr (p, db') \<Longrightarrow> ops_step db db'"
| start: "StartAttempt op river db = Inr (a, db') \<Longrightarrow> ops_step db db'"
| finish: "FinishAttempt now i st code db = Inr db' \<Longrightarrow> ops_step db db'"
| begin_check: "SetCheckingTx now i revision db = Inr (t, db') \<Longrightarrow> ops_step db db'"
| resolve: "ResolveVerifiedTx now r h revision db = Inr db' \<Longrightarrow> ops_step db db'"
| check_failed: "VerificationFailedTx now t db = Inr db' \<Longrightarrow> ops_step db db'"
| condition: "ObserveConditionTx c db = Inr db' \<Longrightarrow> ops_step db db'"

inductive_cases ops_stepE: "ops_step db db'"

text \<open>Issues keep existing, with a generation that never falls; \<open>stay\<close> holds of unresolved ones.\<close>

definition issues_kept :: "bool \<Rightarrow> ops_db \<Rightarrow> ops_db \<Rightarrow> bool" where
  "issues_kept stay db db' \<longleftrightarrow>
     (\<forall>j x. find_issue j db = Some x \<longrightarrow>
        (\<exists>x'. find_issue j db' = Some x' \<and> Is_Generation x \<le> Is_Generation x' \<and>
           (stay \<longrightarrow> Is_ResolvedAt x = None \<longrightarrow> Is_ResolvedAt x' = None)))"

lemma issues_kept_refl [simp]: "issues_kept stay db db"
  by (simp add: issues_kept_def)

lemma issues_kept_trans: "issues_kept st a b \<Longrightarrow> issues_kept st b c \<Longrightarrow> issues_kept st a c"
  unfolding issues_kept_def by (meson order_trans)

lemma issues_kept_same: "(\<And>j. find_issue j db' = find_issue j db) \<Longrightarrow> issues_kept stay db db'"
  by (simp add: issues_kept_def)

lemma issues_kept_update:
  assumes "\<And>x. Is_ID (f x) = Is_ID x" and "\<And>x. Is_Generation x \<le> Is_Generation (f x)"
    and "\<And>x. stay \<Longrightarrow> Is_ResolvedAt x = None \<Longrightarrow> Is_ResolvedAt (f x) = None"
  shows "issues_kept stay db (update_issue i f db)"
  using assms by (auto simp: issues_kept_def find_issue_update)

lemma issues_kept_insert:
  "insert_event key r kind op issue summary db = Some (e, db') \<Longrightarrow> issues_kept stay db db'"
  by (rule issues_kept_same) (rule insert_event_Some)

lemma issues_kept_append:
  "issues_kept stay db (db\<lparr>Db_Issues := Db_Issues db @ [x], Db_NextIssue := n\<rparr>)"
  by (auto simp: issues_kept_def find_issue_append)

lemma issues_kept_link: "issues_kept stay db db' \<Longrightarrow> issues_kept stay db (link_event e i db')"
  by (simp add: issues_kept_def)

abbreviation insert_observation :: "Observation \<Rightarrow> ops_db \<Rightarrow> (int \<times> ops_db) option" where
  "insert_observation ob db \<equiv>
     insert_event (Ob_EventKey ob) (Ob_Resource ob) ''issue.observed'' (Ob_OperationID ob) None (Ob_Summary ob) db"

lemma ObserveIssueTx_cases:
  assumes "ObserveIssueTx ob db = Inr (i, db')"
  obtains (duplicate) e where "db' = db" "e \<in> set (Db_Events db)" "Ev_Key e = Ob_EventKey ob" "i \<in> set (Db_Issues db)"
  | (again) e db1 x where "validate ob = None" "insert_observation ob db = Some (e, db1)"
      "open_issue (Ob_Resource ob) (Ob_Kind ob) (Ob_Condition ob) db1 = Some x" "i = reobserve ob e x"
      "db' = link_event e (Is_ID x) (update_issue (Is_ID x) (reobserve ob e) db1)"
  | (fresh) e db1 previous where "validate ob = None" "insert_observation ob db = Some (e, db1)"
      "open_issue (Ob_Resource ob) (Ob_Kind ob) (Ob_Condition ob) db1 = None"
      "i = new_issue ob (Db_NextIssue db1) e previous"
      "db' = link_event e (Db_NextIssue db1)
         (db1\<lparr>Db_Issues := Db_Issues db1 @ [i], Db_NextIssue := Db_NextIssue db1 + 1\<rparr>)"
proof (cases "insert_observation ob db")
  case None
  obtain e where e: "find (\<lambda>e. Ev_Key e = Ob_EventKey ob) (Db_Events db) = Some e"
    using assms None by (cases "find (\<lambda>e. Ev_Key e = Ob_EventKey ob) (Db_Events db)")
      (simp_all add: ObserveIssueTx_def split: option.splits)
  obtain j where j: "Ev_IssueID e = Some j"
    using assms None e by (cases "Ev_IssueID e") (simp_all add: ObserveIssueTx_def split: option.splits if_splits)
  have "find_issue j db = Some i \<and> db' = db"
    using assms None e j by (cases "find_issue j db")
      (simp_all add: ObserveIssueTx_def split: option.splits if_splits)
  then have "db' = db" "i \<in> set (Db_Issues db)" by (auto simp: find_issue_def find_Some_iff)
  moreover have "e \<in> set (Db_Events db)" "Ev_Key e = Ob_EventKey ob" using e by (auto simp: find_Some_iff)
  ultimately show ?thesis using duplicate by blast
next
  case (Some p)
  obtain e db1 where p: "p = (e, db1)" by fastforce
  have ok: "validate ob = None" using assms by (auto simp: ObserveIssueTx_def split: option.splits)
  show ?thesis
  proof (cases "open_issue (Ob_Resource ob) (Ob_Kind ob) (Ob_Condition ob) db1")
    case None
    then show ?thesis using fresh [of e db1] assms Some p ok
      by (simp add: ObserveIssueTx_def Let_def split: if_split_asm) blast
  next
    case (Some x)
    then show ?thesis
      using again [of e db1 x] assms \<open>insert_observation ob db = Some p\<close> p ok
      by (simp add: ObserveIssueTx_def Let_def split: if_split_asm)
  qed
qed

lemma ObserveIssueTx_kept:
  assumes "ObserveIssueTx ob db = Inr (i, db')"
  shows "issues_kept stay db db'"
  using assms
proof (cases rule: ObserveIssueTx_cases)
  case (again e db1 x)
  have "issues_kept stay db1 (update_issue (Is_ID x) (reobserve ob e) db1)"
    by (rule issues_kept_update) auto
  then show ?thesis using again issues_kept_insert issues_kept_trans by (blast intro: issues_kept_link)
next
  case fresh
  then show ?thesis
    using issues_kept_insert issues_kept_append issues_kept_trans by (blast intro: issues_kept_link)
qed simp

lemma row_simps [simp]:
  "Is_ID (acknowledged_row now user x) = Is_ID x" "Is_ID (checking_row now rv x) = Is_ID x"
  "Is_ID (resolved_row now r x) = Is_ID x" "Is_ID (reopened_row now x) = Is_ID x"
  "Is_ID (touched_row t x) = Is_ID x" "Is_ID (changed_row e rv x) = Is_ID x"
  "Is_Generation (acknowledged_row now user x) = Is_Generation x"
  "Is_Generation (checking_row now rv x) = Is_Generation x"
  "Is_Generation (resolved_row now r x) = Is_Generation x"
  "Is_Generation (reopened_row now x) = Is_Generation x"
  "Is_Generation (touched_row t x) = Is_Generation x"
  "Is_Generation (changed_row e rv x) = Is_Generation x + 1"
  "Is_ResolvedAt (acknowledged_row now user x) = Is_ResolvedAt x"
  "Is_ResolvedAt (checking_row now rv x) = Is_ResolvedAt x"
  "Is_ResolvedAt (resolved_row now r x) = Some now"
  "Is_ResolvedAt (reopened_row now x) = Is_ResolvedAt x"
  "Is_ResolvedAt (touched_row t x) = Is_ResolvedAt x"
  "Is_ResolvedAt (changed_row e rv x) = Is_ResolvedAt x"
  by (simp_all add: acknowledged_row_def checking_row_def resolved_row_def reopened_row_def
      touched_row_def changed_row_def)

lemma issues_kept_add_event: "issues_kept stay db db1 \<Longrightarrow> issues_kept stay db (add_event k r kd op i sm db1)"
  unfolding add_event_def by (auto split: option.split intro: issues_kept_trans issues_kept_insert)

lemma AcknowledgeIssue_kept:
  "AcknowledgeIssue now user role i db = Inr db' \<Longrightarrow> issues_kept stay db db'"
  unfolding AcknowledgeIssue_def
  by (auto split: if_split_asm option.split_asm intro!: issues_kept_add_event issues_kept_update)

lemma attempts_kept:
  "CreateOperation new db = Inr (p, db') \<Longrightarrow> issues_kept stay db db'"
  "StartAttempt op river db = Inr (a, db') \<Longrightarrow> issues_kept stay db db'"
  "FinishAttempt now i st code db = Inr db' \<Longrightarrow> issues_kept stay db db'"
  unfolding CreateOperation_def StartAttempt_def FinishAttempt_def Let_def
  by (auto split: if_split_asm option.split_asm intro!: issues_kept_same)

lemma checking_kept:
  "SetCheckingTx now i revision db = Inr (t, db') \<Longrightarrow> issues_kept stay db db'"
  "VerificationFailedTx now tok db = Inr db' \<Longrightarrow> issues_kept stay db db'"
  unfolding SetCheckingTx_def VerificationFailedTx_def
  by (auto split: if_split_asm intro!: issues_kept_update)

lemma ObserveConditionTx_cases:
  assumes "ObserveConditionTx c db = Inr db'"
  obtains (unhealthy) g db1 i db2 where "record_sample c db = (g, db1)"
      "ObserveIssueTx (condition_observation c (condition_key c g)) db1 = Inr (i, db2)"
      "db' = update_issue (Is_ID i) (touched_row (Cs_ObservedAt c)) db2"
  | (quiet) g db1 where "record_sample c db = (g, db1)" "db' = db1"
  | (changed) g db1 i e db2 where "record_sample c db = (g, db1)"
      "open_issue (Cs_Resource c) (Cs_Kind c) (Cs_Condition c) db1 = Some i"
      "insert_event (condition_key c g) (Cs_Resource c) ''condition.changed'' 0 (Some (Is_ID i))
         ''Resource state changed; recovery verification is required'' db1 = Some (e, db2)"
      "db' = update_issue (Is_ID i) (changed_row e (Cs_IntentRevision c)) db2"
proof -
  obtain g db1 where rec: "record_sample c db = (g, db1)" by fastforce
  show ?thesis
    using assms rec unfolding ObserveConditionTx_def Let_def
    by (auto split: if_split_asm sum.split_asm option.split_asm
        intro: unhealthy [OF rec] quiet [OF rec] changed [OF rec])
qed

lemma ObserveConditionTx_kept:
  assumes "ObserveConditionTx c db = Inr db'"
  shows "issues_kept stay db db'"
proof -
  have sample: "issues_kept stay db db1" if "record_sample c db = (g, db1)" for g db1
    using that find_issue_other(7) [of _ c db] by (intro issues_kept_same) simp
  from assms show ?thesis
  proof (cases rule: ObserveConditionTx_cases)
    case (unhealthy g db1 i db2)
    have "issues_kept stay db2 (update_issue (Is_ID i) (touched_row (Cs_ObservedAt c)) db2)"
      by (rule issues_kept_update) auto
    with issues_kept_trans [OF sample [OF unhealthy(1)] ObserveIssueTx_kept [OF unhealthy(2)]]
    show ?thesis unfolding unhealthy(3) by (rule issues_kept_trans)
  next
    case (changed g db1 i e db2)
    have "issues_kept stay db2 (update_issue (Is_ID i) (changed_row e (Cs_IntentRevision c)) db2)"
      by (rule issues_kept_update) auto
    with issues_kept_trans [OF sample [OF changed(1)] issues_kept_insert [OF changed(3)]]
    show ?thesis unfolding changed(4) by (rule issues_kept_trans)
  qed (use sample in blast)
qed

lemma ResolveVerifiedTx_cases:
  assumes "ResolveVerifiedTx now r h revision db = Inr db'"
  obtains (again) "db' = db"
  | (resolved) i where "find_issue (Tok_IssueID (Rcp_Token r)) db = Some i" "token_fits r i" "receipt_ok now r"
      "Rcp_IntentHash r = h" "Tok_IntentRevision (Rcp_Token r) = revision"
      "Rcp_Source r \<in> set (expectedSource (Is_Kind i))" "Is_ResolvedAt i = None"
      "db' = add_event (''issue:'' @ Itoa (Is_ID i) @ '':verified:'' @ Itoa (Is_Generation i) @
         '':'' @ Itoa (Is_LatestEventID i)) (Is_Resource i) ''issue.resolved''
         (Is_OperationID i) (Some (Is_ID i)) (Rcp_Summary r)
         (resolve_notifications (Is_ID i) (update_issue (Is_ID i) (resolved_row now r) db))"
  using assms unfolding ResolveVerifiedTx_def IssueForUpdateTx_def
  by (cases "find_issue (Tok_IssueID (Rcp_Token r)) db") (auto split: if_split_asm)

lemma find_issue_resolve [simp]: "find_issue j (resolve_notifications i db) = find_issue j db"
  by (simp add: resolve_notifications_def)

lemma find_issue_add_event [simp]: "find_issue j (add_event k r kd op i sm db) = find_issue j db"
  unfolding add_event_def by (auto split: option.split simp: insert_event_Some)

lemma find_issue_ID: "find_issue j db = Some x \<Longrightarrow> Is_ID x = j \<and> x \<in> set (Db_Issues db)"
  by (auto simp: find_issue_def find_Some_iff)

lemma ResolveVerifiedTx_kept:
  assumes "ResolveVerifiedTx now r h revision db = Inr db'"
  shows "issues_kept False db db'"
  using assms
proof (cases rule: ResolveVerifiedTx_cases)
  case (resolved i)
  have "issues_kept False db (update_issue (Is_ID i) (resolved_row now r) db)"
    by (rule issues_kept_update) auto
  then show ?thesis unfolding resolved(8) by (auto simp: issues_kept_def)
qed simp

lemma ops_step_kept:
  assumes "ops_step db db'"
  shows "issues_kept True db db' \<or>
    (\<exists>now r h revision. ResolveVerifiedTx now r h revision db = Inr db' \<and> issues_kept False db db')"
  using assms
  by (cases rule: ops_step.cases)
    (blast intro: ObserveIssueTx_kept AcknowledgeIssue_kept attempts_kept checking_kept
      ObserveConditionTx_kept ResolveVerifiedTx_kept)+

lemma issues_kept_weaken: "issues_kept True db db' \<Longrightarrow> issues_kept False db db'"
  unfolding issues_kept_def by blast

lemma ops_steps_kept: "ops_step\<^sup>*\<^sup>* db db' \<Longrightarrow> issues_kept False db db'"
  by (induction rule: rtranclp_induct) (auto dest!: ops_step_kept intro: issues_kept_trans issues_kept_weaken)

section \<open>Resolution\<close>

text \<open>
  C3. An issue is resolved only by verification: if a step of the store resolves an open issue,
  the step is \<open>ResolveVerifiedTx\<close> with a receipt that is well formed and recent, carries the hash and
  revision of the current intent, was produced for exactly this issue's latest occurrence and
  revision, is not older than the last observation and comes from a probe of the right kind.
  Acknowledging, finishing a worker or a condition that turns healthy never resolves an issue.
\<close>

theorem issue_resolved_only_by_receipt:
  assumes "ops_step db db'" and "find_issue i db = Some x" and "Is_ResolvedAt x = None"
    and "find_issue i db' = Some x'" and "Is_ResolvedAt x' \<noteq> None"
  shows "\<exists>now r h revision. ResolveVerifiedTx now r h revision db = Inr db' \<and> receipt_ok now r \<and>
    Tok_IssueID (Rcp_Token r) = i \<and> token_fits r x \<and> Rcp_IntentHash r = h \<and>
    Tok_IntentRevision (Rcp_Token r) = revision \<and> Rcp_Source r \<in> set (expectedSource (Is_Kind x)) \<and>
    Is_Verification x' = Some r"
proof -
  have "\<not> issues_kept True db db'" using assms(2-5) unfolding issues_kept_def by fastforce
  then obtain now r h revision where res: "ResolveVerifiedTx now r h revision db = Inr db'"
    using ops_step_kept [OF assms(1)] by blast
  from res show ?thesis
  proof (cases rule: ResolveVerifiedTx_cases)
    case again
    then show ?thesis using assms(2-5) by simp
  next
    case (resolved y)
    have "Is_ID y = Tok_IssueID (Rcp_Token r)" using find_issue_ID [OF resolved(1)] by simp
    then have "i = Tok_IssueID (Rcp_Token r)" "x' = resolved_row now r y"
      using assms(2-5) resolved(1) unfolding resolved(8)
      by (auto simp: find_issue_update split: if_split_asm)
    then show ?thesis
      using res resolved assms(2) by (auto simp: resolved_row_def)
  qed
qed

text \<open>
  C8. Fencing: once an issue has moved past a token's generation, a receipt with that token is
  refused with a conflict or as invalid in every later state, whatever it claims.
\<close>

theorem stale_receipt_refused:
  assumes "find_issue i db = Some x" and "Tok_Generation (Rcp_Token r) < Is_Generation x"
    and "Tok_IssueID (Rcp_Token r) = i" and "ops_step\<^sup>*\<^sup>* db db'"
  shows "ResolveVerifiedTx now r h revision db' \<in> {Inl ErrInvalid, Inl ErrConflict}"
proof -
  obtain x' where "find_issue i db' = Some x'" "Is_Generation x \<le> Is_Generation x'"
    using ops_steps_kept [OF assms(4)] assms(1) by (auto simp: issues_kept_def)
  then show ?thesis
    using assms(2,3) by (auto simp: ResolveVerifiedTx_def IssueForUpdateTx_def token_fits_def)
qed

section \<open>One open issue per condition\<close>

definition row_ok :: "Issue \<Rightarrow> bool" where
  "row_ok x \<longleftrightarrow> (Is_ResolvedAt x \<noteq> None) = (Is_State x = ''resolved'')"

definition issues_ok :: "ops_db \<Rightarrow> bool" where
  "issues_ok db \<longleftrightarrow>
     distinct (map Is_ID (Db_Issues db)) \<and>
     (\<forall>x \<in> set (Db_Issues db). Is_ID x < Db_NextIssue db \<and> row_ok x) \<and>
     (\<forall>x \<in> set (Db_Issues db). \<forall>y \<in> set (Db_Issues db).
        Is_ResolvedAt x = None \<longrightarrow> Is_ResolvedAt y = None \<longrightarrow>
        same_condition (Is_Resource y) (Is_Kind y) (Is_Condition y) x \<longrightarrow> Is_ID x = Is_ID y)"

lemma issues_okD:
  assumes "issues_ok db"
  shows "distinct (map Is_ID (Db_Issues db))"
    and "x \<in> set (Db_Issues db) \<Longrightarrow> Is_ID x < Db_NextIssue db" and "x \<in> set (Db_Issues db) \<Longrightarrow> row_ok x"
    and "x \<in> set (Db_Issues db) \<Longrightarrow> y \<in> set (Db_Issues db) \<Longrightarrow> Is_ResolvedAt x = None \<Longrightarrow> Is_ResolvedAt y = None \<Longrightarrow>
      same_condition (Is_Resource y) (Is_Kind y) (Is_Condition y) x \<Longrightarrow> Is_ID x = Is_ID y"
  using assms by (simp_all add: issues_ok_def)

lemma issues_okI:
  assumes "distinct (map Is_ID (Db_Issues db))" and "\<And>x. x \<in> set (Db_Issues db) \<Longrightarrow> Is_ID x < Db_NextIssue db"
    and "\<And>x. x \<in> set (Db_Issues db) \<Longrightarrow> row_ok x"
    and "\<And>x y. x \<in> set (Db_Issues db) \<Longrightarrow> y \<in> set (Db_Issues db) \<Longrightarrow> Is_ResolvedAt x = None \<Longrightarrow>
      Is_ResolvedAt y = None \<Longrightarrow> same_condition (Is_Resource y) (Is_Kind y) (Is_Condition y) x \<Longrightarrow> Is_ID x = Is_ID y"
  shows "issues_ok db"
  using assms by (simp add: issues_ok_def)

lemma issues_ok_cong:
  "Db_Issues db' = Db_Issues db \<Longrightarrow> Db_NextIssue db' = Db_NextIssue db \<Longrightarrow> issues_ok db' = issues_ok db"
  by (simp add: issues_ok_def)

lemma issues_tables [simp]:
  "Db_Issues (link_event e i db) = Db_Issues db" "Db_NextIssue (link_event e i db) = Db_NextIssue db"
  "Db_Issues (set_operation_state p st db) = Db_Issues db"
  "Db_NextIssue (set_operation_state p st db) = Db_NextIssue db"
  "Db_Issues (snd (record_sample c db)) = Db_Issues db"
  "Db_NextIssue (snd (record_sample c db)) = Db_NextIssue db"
  "Db_Issues (resolve_notifications i db) = Db_Issues db"
  "Db_NextIssue (resolve_notifications i db) = Db_NextIssue db"
  "Db_Issues (add_event k r kd op iss sm db) = Db_Issues db"
  "Db_NextIssue (add_event k r kd op iss sm db) = Db_NextIssue db"
  by (auto simp: link_event_def set_operation_state_def record_sample_def resolve_notifications_def
      add_event_def Let_def insert_event_Some split: option.splits)

lemma unique_row:
  "issues_ok db \<Longrightarrow> x \<in> set (Db_Issues db) \<Longrightarrow> y \<in> set (Db_Issues db) \<Longrightarrow> Is_ID x = Is_ID y \<Longrightarrow> x = y"
  by (auto simp: issues_ok_def distinct_map dest: inj_onD)

lemma find_issue_member:
  assumes "issues_ok db" and "y \<in> set (Db_Issues db)"
  shows "find_issue (Is_ID y) db = Some y"
proof (cases "find_issue (Is_ID y) db")
  case None
  then have "\<forall>x. x \<in> set (Db_Issues db) \<longrightarrow> Is_ID x \<noteq> Is_ID y" by (simp add: find_issue_def find_None_iff)
  then show ?thesis using assms(2) by blast
next
  case (Some z)
  then show ?thesis using unique_row [OF assms(1) _ assms(2)] find_issue_ID [OF Some] by simp
qed

text \<open>An update of one row that keeps the identity of its condition and does not reopen it.\<close>

lemma issues_ok_update:
  assumes "issues_ok db"
    and keeps: "\<And>x. Is_ID (f x) = Is_ID x \<and> Is_Resource (f x) = Is_Resource x \<and> Is_Kind (f x) = Is_Kind x \<and>
      Is_Condition (f x) = Is_Condition x \<and> (Is_ResolvedAt (f x) = None \<longrightarrow> Is_ResolvedAt x = None)"
    and row: "\<And>x. x \<in> set (Db_Issues db) \<Longrightarrow> Is_ID x = i \<Longrightarrow> row_ok x \<Longrightarrow> row_ok (f x)"
  shows "issues_ok (update_issue i f db)"
proof -
  let ?g = "\<lambda>x. if Is_ID x = i then f x else x"
  have g: "Is_ID (?g x) = Is_ID x" "Is_Resource (?g x) = Is_Resource x" "Is_Kind (?g x) = Is_Kind x"
    "Is_Condition (?g x) = Is_Condition x" "Is_ResolvedAt (?g x) = None \<Longrightarrow> Is_ResolvedAt x = None" for x
    using keeps [of x] by (auto split: if_splits)
  have ids: "map Is_ID (map ?g xs) = map Is_ID xs" for xs using g(1) by simp
  have set: "set (Db_Issues (update_issue i f db)) = ?g ` set (Db_Issues db)"
    by (simp add: update_issue_def)
  show ?thesis
  proof (rule issues_okI)
    show "distinct (map Is_ID (Db_Issues (update_issue i f db)))"
      using issues_okD(1) [OF assms(1)] ids [of "Db_Issues db"]
      by (simp only: update_issue_def ops_db.simps ops_db.update_convs) (simp del: map_map)
  next
    fix x assume "x \<in> set (Db_Issues (update_issue i f db))"
    then obtain x0 where x0: "x0 \<in> set (Db_Issues db)" "x = ?g x0" unfolding set by blast
    show "Is_ID x < Db_NextIssue (update_issue i f db)"
      unfolding x0(2) g(1) using issues_okD(2) [OF assms(1) x0(1)] by (simp add: update_issue_def)
    show "row_ok x" using issues_okD(3) [OF assms(1) x0(1)] row [OF x0(1)] x0(2) by auto
  next
    fix x y assume "x \<in> set (Db_Issues (update_issue i f db))" "y \<in> set (Db_Issues (update_issue i f db))"
    then obtain x0 y0 where x0: "x0 \<in> set (Db_Issues db)" "x = ?g x0" and y0: "y0 \<in> set (Db_Issues db)" "y = ?g y0"
      unfolding set by blast
    assume "Is_ResolvedAt x = None" "Is_ResolvedAt y = None"
      and same: "same_condition (Is_Resource y) (Is_Kind y) (Is_Condition y) x"
    then have "Is_ResolvedAt x0 = None" "Is_ResolvedAt y0 = None" using g(5) x0(2) y0(2) by blast+
    moreover have "same_condition (Is_Resource y0) (Is_Kind y0) (Is_Condition y0) x0"
      using same unfolding x0(2) y0(2) same_condition_def g(2-4) .
    ultimately show "Is_ID x = Is_ID y"
      unfolding x0(2) y0(2) g(1) using issues_okD(4) [OF assms(1) x0(1) y0(1)] by blast
  qed
qed

lemma issues_ok_event:
  "insert_event key r kind op issue summary db = Some (e, db') \<Longrightarrow> issues_ok db \<Longrightarrow> issues_ok db'"
  using issues_ok_cong insert_event_Some(3,4) by blast

lemma open_issue_None:
  "open_issue r k c db = None \<longleftrightarrow>
     (\<forall>x \<in> set (Db_Issues db). same_condition r k c x \<longrightarrow> Is_ResolvedAt x \<noteq> None)"
  by (auto simp: open_issue_def find_None_iff)

lemma issues_ok_append:
  assumes "issues_ok db" and "open_issue (Ob_Resource ob) (Ob_Kind ob) (Ob_Condition ob) db = None"
  shows "issues_ok (db\<lparr>Db_Issues := Db_Issues db @ [new_issue ob (Db_NextIssue db) e previous],
     Db_NextIssue := Db_NextIssue db + 1\<rparr>)"
proof -
  let ?x = "new_issue ob (Db_NextIssue db) e previous"
  have x: "Is_ID ?x = Db_NextIssue db" "row_ok ?x" "Is_Resource ?x = Ob_Resource ob" "Is_Kind ?x = Ob_Kind ob"
    "Is_Condition ?x = Ob_Condition ob"
    by (simp_all add: new_issue_def row_ok_def)
  have old: "Is_ResolvedAt y \<noteq> None" if "y \<in> set (Db_Issues db)"
    "same_condition (Ob_Resource ob) (Ob_Kind ob) (Ob_Condition ob) y" for y
    using assms(2) that by (simp add: open_issue_None)
  have sym: "same_condition (Is_Resource a) (Is_Kind a) (Is_Condition a) b \<longleftrightarrow>
      same_condition (Is_Resource b) (Is_Kind b) (Is_Condition b) a" for a b
    by (auto simp: same_condition_def)
  have fresh: "Db_NextIssue db \<notin> Is_ID ` set (Db_Issues db)"
    using issues_okD(2) [OF assms(1)] by force
  have uniq: "Is_ID a = Is_ID b"
    if "a \<in> set (Db_Issues db @ [?x])" "b \<in> set (Db_Issues db @ [?x])" "Is_ResolvedAt a = None"
      "Is_ResolvedAt b = None" "same_condition (Is_Resource b) (Is_Kind b) (Is_Condition b) a" for a b
  proof (cases "a = ?x \<or> b = ?x")
    case True
    then show ?thesis
      using that old [of a] old [of b] x(3-5) sym [of a b] by (auto simp: same_condition_def)
  next
    case False
    then show ?thesis using that issues_okD(4) [OF assms(1), of a b] by simp
  qed
  show ?thesis
  proof (rule issues_okI)
    show "distinct (map Is_ID (Db_Issues (db\<lparr>Db_Issues := Db_Issues db @ [?x], Db_NextIssue := Db_NextIssue db + 1\<rparr>)))"
      using issues_okD(1) [OF assms(1)] fresh x(1) by simp
  next
    fix y assume "y \<in> set (Db_Issues (db\<lparr>Db_Issues := Db_Issues db @ [?x], Db_NextIssue := Db_NextIssue db + 1\<rparr>))"
    then consider "y \<in> set (Db_Issues db)" | "y = ?x" by auto
    then show "Is_ID y < Db_NextIssue (db\<lparr>Db_Issues := Db_Issues db @ [?x], Db_NextIssue := Db_NextIssue db + 1\<rparr>)"
      "row_ok y"
      using issues_okD(2,3) [OF assms(1), of y] x(1,2) by (cases, simp_all)+
  next
    fix a b
    assume "a \<in> set (Db_Issues (db\<lparr>Db_Issues := Db_Issues db @ [?x], Db_NextIssue := Db_NextIssue db + 1\<rparr>))"
      "b \<in> set (Db_Issues (db\<lparr>Db_Issues := Db_Issues db @ [?x], Db_NextIssue := Db_NextIssue db + 1\<rparr>))"
      "Is_ResolvedAt a = None" "Is_ResolvedAt b = None"
      "same_condition (Is_Resource b) (Is_Kind b) (Is_Condition b) a"
    then show "Is_ID a = Is_ID b" by (intro uniq) simp_all
  qed
qed

lemma row_ok_simps [simp]:
  "row_ok x \<Longrightarrow> Is_ResolvedAt x = None \<Longrightarrow> row_ok (reobserve ob e x)"
  "Is_ResolvedAt x = None \<Longrightarrow> row_ok x \<Longrightarrow> row_ok (acknowledged_row now user x)"
  "Is_ResolvedAt x = None \<Longrightarrow> row_ok (checking_row now rv x)" "row_ok (resolved_row now r x)"
  "Is_ResolvedAt x = None \<Longrightarrow> row_ok (reopened_row now x)"
  "row_ok (touched_row t x) = row_ok x" "row_ok (changed_row e rv x) = row_ok x"
  by (auto simp: row_ok_def reobserve_def base_state_def acknowledged_row_def checking_row_def
      resolved_row_def reopened_row_def touched_row_def changed_row_def)

lemma row_keeps [simp]:
  "Is_Resource (acknowledged_row now user x) = Is_Resource x" "Is_Kind (acknowledged_row now user x) = Is_Kind x"
  "Is_Condition (acknowledged_row now user x) = Is_Condition x"
  "Is_Resource (checking_row now rv x) = Is_Resource x" "Is_Kind (checking_row now rv x) = Is_Kind x"
  "Is_Condition (checking_row now rv x) = Is_Condition x"
  "Is_Resource (resolved_row now r x) = Is_Resource x" "Is_Kind (resolved_row now r x) = Is_Kind x"
  "Is_Condition (resolved_row now r x) = Is_Condition x"
  "Is_Resource (reopened_row now x) = Is_Resource x" "Is_Kind (reopened_row now x) = Is_Kind x"
  "Is_Condition (reopened_row now x) = Is_Condition x"
  "Is_Resource (touched_row t x) = Is_Resource x" "Is_Kind (touched_row t x) = Is_Kind x"
  "Is_Condition (touched_row t x) = Is_Condition x"
  "Is_Resource (changed_row e rv x) = Is_Resource x" "Is_Kind (changed_row e rv x) = Is_Kind x"
  "Is_Condition (changed_row e rv x) = Is_Condition x"
  by (simp_all add: acknowledged_row_def checking_row_def resolved_row_def reopened_row_def
      touched_row_def changed_row_def)

text \<open>The row that an operation found unresolved is the only one with its id.\<close>

lemma issues_ok_update_open:
  assumes "issues_ok db" and "x \<in> set (Db_Issues db)" and "Is_ResolvedAt x = None"
    and "\<And>y. Is_ID (f y) = Is_ID y \<and> Is_Resource (f y) = Is_Resource y \<and> Is_Kind (f y) = Is_Kind y \<and>
      Is_Condition (f y) = Is_Condition y \<and> (Is_ResolvedAt (f y) = None \<longrightarrow> Is_ResolvedAt y = None)"
    and "row_ok x \<Longrightarrow> row_ok (f x)"
  shows "issues_ok (update_issue (Is_ID x) f db)"
  using assms(1,4) by (rule issues_ok_update) (use assms(1,2,5) unique_row in blast)

lemma ObserveIssueTx_ok:
  assumes "ObserveIssueTx ob db = Inr (i, db')" and "issues_ok db"
  shows "issues_ok db'"
  using assms(1)
proof (cases rule: ObserveIssueTx_cases)
  case (again e db1 x)
  have "issues_ok db1" using issues_ok_event again(2) assms(2) by blast
  then have "issues_ok (update_issue (Is_ID x) (reobserve ob e) db1)"
    using open_issueD [OF again(3)] by (intro issues_ok_update_open) auto
  then show ?thesis using issues_ok_cong again(5) by (metis issues_tables(1,2))
next
  case (fresh e db1 previous)
  have "issues_ok db1" using issues_ok_event fresh(2) assms(2) by blast
  then show ?thesis
    using issues_ok_append [of db1 ob e previous] fresh issues_ok_cong by (metis issues_tables(1,2))
qed (use assms(2) in simp)

lemma issues_ok_add_event: "issues_ok db \<Longrightarrow> issues_ok (add_event k r kd op i sm db)"
  by (simp add: issues_ok_cong [of "add_event k r kd op i sm db" db])

lemma AcknowledgeIssue_ok:
  assumes "AcknowledgeIssue now user role i db = Inr db'" and "issues_ok db"
  shows "issues_ok db'"
proof -
  obtain x where x: "find_issue i db = Some x" "Is_ResolvedAt x = None"
    "db' = add_event (''issue:'' @ Itoa i @ '':acknowledged'') (Is_Resource x) ''issue.acknowledged'' 0 (Some i)
       ''Issue acknowledged; recovery is still required.'' (update_issue i (acknowledged_row now user) db)"
    using assms(1) unfolding AcknowledgeIssue_def
    by (cases "find_issue i db") (auto split: if_split_asm)
  have "issues_ok (update_issue (Is_ID x) (acknowledged_row now user) db)"
    using x(2) find_issue_ID [OF x(1)] by (intro issues_ok_update_open [OF assms(2)]) auto
  then show ?thesis using find_issue_ID [OF x(1)] x(3) issues_ok_add_event by simp
qed

lemma checking_ok:
  "SetCheckingTx now i revision db = Inr (t, db') \<Longrightarrow> issues_ok db \<Longrightarrow> issues_ok db'"
  "VerificationFailedTx now tok db = Inr db' \<Longrightarrow> issues_ok db \<Longrightarrow> issues_ok db'"
proof -
  assume run: "SetCheckingTx now i revision db = Inr (t, db')" and ok: "issues_ok db"
  then obtain x where "x \<in> set (Db_Issues db)" "Is_ID x = Is_ID i" "Is_ResolvedAt x = None"
      "db' = update_issue (Is_ID i) (checking_row now revision) db"
    unfolding SetCheckingTx_def by (auto split: if_split_asm)
  then show "issues_ok db'" using issues_ok_update_open [OF ok, of x "checking_row now revision"] by simp
next
  assume run: "VerificationFailedTx now tok db = Inr db'" and ok: "issues_ok db"
  then obtain x where "x \<in> set (Db_Issues db)" "Is_ID x = Tok_IssueID tok" "Is_ResolvedAt x = None"
      "db' = update_issue (Tok_IssueID tok) (reopened_row now) db"
    unfolding VerificationFailedTx_def by (auto split: if_split_asm)
  then show "issues_ok db'" using issues_ok_update_open [OF ok, of x "reopened_row now"] by simp
qed

lemma ResolveVerifiedTx_ok:
  assumes "ResolveVerifiedTx now r h revision db = Inr db'" and "issues_ok db"
  shows "issues_ok db'"
  using assms(1)
proof (cases rule: ResolveVerifiedTx_cases)
  case (resolved i)
  have "issues_ok (update_issue (Is_ID i) (resolved_row now r) db)"
    using resolved(7) find_issue_ID [OF resolved(1)] by (intro issues_ok_update_open [OF assms(2)]) auto
  then show ?thesis unfolding resolved(8)
    by (intro issues_ok_add_event) (simp add: issues_ok_cong [of "resolve_notifications _ _"])
qed (use assms(2) in simp)

lemma ObserveConditionTx_ok:
  assumes "ObserveConditionTx c db = Inr db'" and "issues_ok db"
  shows "issues_ok db'"
proof -
  have sample: "issues_ok db1" if "record_sample c db = (g, db1)" for g db1
    using that assms(2) issues_tables(5,6) [of c db] by (simp add: issues_ok_cong [of db1 db])
  from assms(1) show ?thesis
  proof (cases rule: ObserveConditionTx_cases)
    case (unhealthy g db1 i db2)
    then have "issues_ok db2" using ObserveIssueTx_ok sample by blast
    then show ?thesis unfolding unhealthy(3) by (rule issues_ok_update) auto
  next
    case (changed g db1 i e db2)
    then have "issues_ok db2" using issues_ok_event sample by blast
    then show ?thesis unfolding changed(4) by (rule issues_ok_update) auto
  qed (use sample in blast)
qed

lemma attempts_issues_ok:
  "CreateOperation new db = Inr (p, db') \<Longrightarrow> issues_ok db \<Longrightarrow> issues_ok db'"
  "StartAttempt op river db = Inr (a, db') \<Longrightarrow> issues_ok db \<Longrightarrow> issues_ok db'"
  "FinishAttempt now i st code db = Inr db' \<Longrightarrow> issues_ok db \<Longrightarrow> issues_ok db'"
  unfolding CreateOperation_def StartAttempt_def FinishAttempt_def Let_def
  by (auto split: if_split_asm option.split_asm simp: issues_ok_def)

lemma ops_step_issues_ok: "ops_step db db' \<Longrightarrow> issues_ok db \<Longrightarrow> issues_ok db'"
  by (cases rule: ops_step.cases)
    (blast intro: ObserveIssueTx_ok AcknowledgeIssue_ok attempts_issues_ok checking_ok
      ObserveConditionTx_ok ResolveVerifiedTx_ok)+

text \<open>
  C9. In every state reachable from one with well-formed issues, at most one issue per resource,
  kind and condition is unresolved, ids are unique, and an issue is in state \<open>resolved\<close> exactly when
  its resolution time is set.
\<close>

theorem ops_issues_invariant:
  assumes "ops_step\<^sup>*\<^sup>* db db'" and "issues_ok db"
  shows "issues_ok db'"
  using assms by (induction rule: rtranclp_induct) (auto intro: ops_step_issues_ok)

section \<open>Repeated events\<close>

lemma find_link:
  "find (\<lambda>x. Ev_Key x = key) (map (\<lambda>x. if Ev_ID x = e then x\<lparr>Ev_IssueID := Some i\<rparr> else x) xs) =
   map_option (\<lambda>x. if Ev_ID x = e then x\<lparr>Ev_IssueID := Some i\<rparr> else x) (find (\<lambda>x. Ev_Key x = key) xs)"
  by (induction xs) auto

lemma find_fresh_key:
  "key \<notin> Ev_Key ` set xs \<Longrightarrow> Ev_Key y = key \<Longrightarrow> find (\<lambda>x. Ev_Key x = key) (xs @ [y]) = Some y"
  by (induction xs) auto

definition observation_event :: "Observation \<Rightarrow> int \<Rightarrow> int \<Rightarrow> Event" where
  "observation_event ob e i =
     \<lparr>Ev_ID = e, Ev_Key = Ob_EventKey ob, Ev_Resource = Ob_Resource ob, Ev_Kind = ''issue.observed'',
      Ev_OperationID = Ob_OperationID ob, Ev_IssueID = Some i, Ev_Summary = Ob_Summary ob\<rparr>"

text \<open>After the insert, the event is found by its key and leads to the issue.\<close>

lemma observed_event:
  assumes "insert_observation ob db = Some (e, db1)" and "Db_Events db2 = Db_Events db1"
  shows "find (\<lambda>x. Ev_Key x = Ob_EventKey ob) (Db_Events (link_event e i db2)) =
    Some (observation_event ob e i)"
  using insert_event_Some [OF assms(1)] assms(2)
  by (simp add: link_event_def find_link find_fresh_key observation_event_def del: map_append)

lemma ObserveIssueTx_seen:
  assumes "validate ob = None"
    and "find (\<lambda>x. Ev_Key x = Ob_EventKey ob) (Db_Events db) = Some ev" and "Ev_Resource ev = Ob_Resource ob"
    and "Ev_IssueID ev = Some j" and "find_issue j db = Some x"
    and "Is_Kind x = Ob_Kind ob" and "Is_Condition x = Ob_Condition ob"
  shows "ObserveIssueTx ob db = Inr (x, db)"
proof -
  have "insert_observation ob db = None"
    using assms(2) by (auto simp: insert_event_def find_Some_iff)
  then show ?thesis using assms by (simp add: ObserveIssueTx_def)
qed

text \<open>
  A source event counts once: observing the same event again succeeds, returns the same issue
  as it is stored and changes nothing, so retries of a reporter never add an occurrence.
\<close>

theorem ObserveIssueTx_idempotent:
  assumes "ObserveIssueTx ob db = Inr (x, db')" and "issues_ok db"
  shows "\<exists>x'. ObserveIssueTx ob db' = Inr (x', db') \<and> Is_ID x' = Is_ID x"
  using assms(1)
proof (cases rule: ObserveIssueTx_cases)
  case duplicate
  then show ?thesis using assms(1) by auto
next
  case (again e db1 y)
  let ?db2 = "update_issue (Is_ID y) (reobserve ob e) db1"
  have ok1: "issues_ok db1" using issues_ok_event again(2) assms(2) by blast
  have y: "y \<in> set (Db_Issues db1)" "same_condition (Ob_Resource ob) (Ob_Kind ob) (Ob_Condition ob) y"
    using open_issueD [OF again(3)] by auto
  have "find_issue (Is_ID y) db1 = Some y"
    using ok1 y(1) by (rule find_issue_member)
  then have "find_issue (Is_ID y) db' = Some (reobserve ob e y)"
    by (simp add: again(5) find_issue_update)
  then have "ObserveIssueTx ob db' = Inr (reobserve ob e y, db')"
    using observed_event [OF again(2), of ?db2 "Is_ID y"] y(2) again(1,5)
    by (intro ObserveIssueTx_seen [where j = "Is_ID y" and ev = "observation_event ob e (Is_ID y)"])
      (simp_all add: update_issue_def same_condition_def observation_event_def)
  then show ?thesis using again(4) by simp
next
  case (fresh e db1 previous)
  let ?db2 = "db1\<lparr>Db_Issues := Db_Issues db1 @ [x], Db_NextIssue := Db_NextIssue db1 + 1\<rparr>"
  have ok1: "issues_ok db1" using issues_ok_event fresh(2) assms(2) by blast
  have "find_issue (Db_NextIssue db1) db1 = None"
    using issues_okD(2) [OF ok1] by (force simp: find_issue_def find_None_iff)
  then have "find_issue (Db_NextIssue db1) db' = Some x"
    by (simp add: fresh(5) find_issue_append fresh(4) new_issue_def)
  then have "ObserveIssueTx ob db' = Inr (x, db')"
    using observed_event [OF fresh(2), of ?db2 "Db_NextIssue db1"] fresh(1,5)
    by (intro ObserveIssueTx_seen [where j = "Db_NextIssue db1" and ev = "observation_event ob e (Db_NextIssue db1)"])
      (simp_all add: fresh(4) new_issue_def observation_event_def)
  then show ?thesis by simp
qed

section \<open>Attempts\<close>

definition attempt_ok :: "Attempt \<Rightarrow> bool" where
  "attempt_ok a \<longleftrightarrow> (At_FinishedAt a \<noteq> None) = Terminal (At_State a)"

definition unfinished :: "int \<Rightarrow> ops_db \<Rightarrow> Attempt list" where
  "unfinished op db = filter (\<lambda>a. At_FinishedAt a = None) (attempts_of op db)"

definition attempts_ok :: "ops_db \<Rightarrow> bool" where
  "attempts_ok db \<longleftrightarrow>
     distinct (map At_ID (Db_Attempts db)) \<and>
     (\<forall>a \<in> set (Db_Attempts db). At_ID a < Db_NextAttempt db \<and> attempt_ok a) \<and>
     (\<forall>op. map At_Number (attempts_of op db) = map int [1..<Suc (length (attempts_of op db))] \<and>
        length (unfinished op db) \<le> 1)"

lemma attempts_okD:
  assumes "attempts_ok db"
  shows "distinct (map At_ID (Db_Attempts db))"
    and "a \<in> set (Db_Attempts db) \<Longrightarrow> At_ID a < Db_NextAttempt db"
    and "a \<in> set (Db_Attempts db) \<Longrightarrow> attempt_ok a"
    and "map At_Number (attempts_of op db) = map int [1..<Suc (length (attempts_of op db))]"
    and "length (unfinished op db) \<le> 1"
  using assms unfolding attempts_ok_def by blast+

lemma attempts_ok_cong:
  "Db_Attempts db' = Db_Attempts db \<Longrightarrow> Db_NextAttempt db' = Db_NextAttempt db \<Longrightarrow> attempts_ok db' = attempts_ok db"
  by (simp add: attempts_ok_def attempts_of_def unfinished_def)

lemma foldr_max_upto: "foldr max (map int [1..<Suc n]) 0 = int n"
proof -
  have "foldr max (map int [1..<Suc n]) z = max (int n) z" if "z \<ge> 0" for z
    using that by (induction n arbitrary: z) auto
  then show ?thesis by simp
qed

lemma StartAttempt_Inr:
  assumes "StartAttempt op river db = Inr (a, db')"
  shows "Db_Attempts db' = Db_Attempts db @ [a]" "Db_NextAttempt db' = Db_NextAttempt db + 1"
    "At_ID a = Db_NextAttempt db" "At_OperationID a = op" "At_FinishedAt a = None" "At_State a = ''running''"
    "At_Number a = foldr max (map At_Number (attempts_of op db)) 0 + 1" "unfinished op db = []"
  using assms by (auto simp: StartAttempt_def Let_def set_operation_state_def unfinished_def filter_empty_conv
      split: if_split_asm)

lemma StartAttempt_attempts:
  assumes "StartAttempt op river db = Inr (a, db')" and "attempts_ok db"
  shows "attempts_ok db'"
proof -
  note run = StartAttempt_Inr [OF assms(1)] and ok = attempts_okD [OF assms(2)]
  have number: "At_Number a = int (Suc (length (attempts_of op db)))"
    unfolding run(7) ok(4) foldr_max_upto by simp
  have here: "attempts_of p db' = attempts_of p db @ (if p = op then [a] else [])" for p
    using run(1,4) by (auto simp: attempts_of_def)
  have "Db_NextAttempt db \<notin> At_ID ` set (Db_Attempts db)" using ok(2) by force
  then have 1: "distinct (map At_ID (Db_Attempts db'))" using run(1,3) ok(1) by simp
  have "attempt_ok a" by (simp add: attempt_ok_def run(5,6) Terminal_def)
  then have 2: "\<forall>x \<in> set (Db_Attempts db'). At_ID x < Db_NextAttempt db' \<and> attempt_ok x"
    using ok(2,3) run(1,2,3) by fastforce
  have 3: "map At_Number (attempts_of p db') = map int [1..<Suc (length (attempts_of p db'))]" for p
    using ok(4) [of p] number by (simp add: here)
  have 4: "length (unfinished p db') \<le> 1" for p
    using run(5,8) ok(5) [of p] by (auto simp: unfinished_def here)
  show ?thesis using 1 2 3 4 unfolding attempts_ok_def by blast
qed

definition finished_row :: "int \<Rightarrow> string \<Rightarrow> string \<Rightarrow> Attempt \<Rightarrow> Attempt" where
  "finished_row now st code a = a\<lparr>At_State := st, At_ErrorCode := code, At_FinishedAt := Some now\<rparr>"

lemma finished_row_simps [simp]:
  "At_ID (finished_row now st code a) = At_ID a" "At_OperationID (finished_row now st code a) = At_OperationID a"
  "At_Number (finished_row now st code a) = At_Number a" "At_FinishedAt (finished_row now st code a) = Some now"
  "At_State (finished_row now st code a) = st"
  by (simp_all add: finished_row_def)

lemma FinishAttempt_cases:
  assumes "FinishAttempt now i st code db = Inr db'"
  obtains (again) "db' = db"
  | (finished) a where "a \<in> set (Db_Attempts db)" "At_ID a = i" "\<not> Terminal (At_State a)" "Terminal st"
      "Db_Attempts db' = map (\<lambda>x. if At_ID x = i then finished_row now st code x else x) (Db_Attempts db)"
      "Db_NextAttempt db' = Db_NextAttempt db"
proof -
  obtain a where a: "find (\<lambda>a. At_ID a = i) (Db_Attempts db) = Some a"
    using assms by (auto simp: FinishAttempt_def split: if_split_asm option.split_asm)
  then have here: "a \<in> set (Db_Attempts db)" "At_ID a = i" by (auto simp: find_Some_iff)
  show ?thesis
    using assms again finished [OF here] unfolding FinishAttempt_def a option.case
    by (auto simp: set_operation_state_def finished_row_def split: if_split_asm)
qed

lemma filter_update_length:
  assumes "\<And>x. P (f x) \<Longrightarrow> P x"
  shows "length (filter P (map (\<lambda>x. if Q x then f x else x) xs)) \<le> length (filter P xs)"
  by (induction xs) (auto dest: assms)

lemma attempts_of_update:
  assumes "Db_Attempts db' = map (\<lambda>x. if At_ID x = i then finished_row now st code x else x) (Db_Attempts db)"
  shows "attempts_of p db' = map (\<lambda>x. if At_ID x = i then finished_row now st code x else x) (attempts_of p db)"
proof -
  have "filter (\<lambda>a. At_OperationID a = p) (map (\<lambda>x. if At_ID x = i then finished_row now st code x else x) xs) =
    map (\<lambda>x. if At_ID x = i then finished_row now st code x else x) (filter (\<lambda>a. At_OperationID a = p) xs)" for xs
    by (induction xs) auto
  then show ?thesis by (simp add: attempts_of_def assms)
qed

lemma FinishAttempt_attempts:
  assumes "FinishAttempt now i st code db = Inr db'" and "attempts_ok db"
  shows "attempts_ok db'"
  using assms(1)
proof (cases rule: FinishAttempt_cases)
  case (finished a)
  note ok = attempts_okD [OF assms(2)] and upd = attempts_of_update [OF finished(5)]
  let ?f = "\<lambda>x. if At_ID x = i then finished_row now st code x else x"
  have keep: "At_ID (?f x) = At_ID x" "At_Number (?f x) = At_Number x" for x by simp_all
  have 1: "distinct (map At_ID (Db_Attempts db'))"
    using ok(1) by (simp add: finished(5) comp_def keep cong: map_cong)
  have "attempt_ok (finished_row now st code x)" for x using finished(4) by (simp add: attempt_ok_def)
  then have 2: "\<forall>x \<in> set (Db_Attempts db'). At_ID x < Db_NextAttempt db' \<and> attempt_ok x"
    using ok(2,3) finished(5,6) by auto
  have numbers: "map At_Number (attempts_of p db') = map At_Number (attempts_of p db)" for p
    by (simp add: upd comp_def keep)
  have count: "length (attempts_of p db') = length (attempts_of p db)" for p by (simp add: upd)
  have 3: "map At_Number (attempts_of p db') = map int [1..<Suc (length (attempts_of p db'))]" for p
    unfolding numbers count by (rule ok(4))
  have "length (unfinished p db') \<le> length (unfinished p db)" for p
    unfolding unfinished_def upd by (rule filter_update_length) simp
  then have 4: "length (unfinished p db') \<le> 1" for p using ok(5) [of p] by (rule order_trans)
  show ?thesis using 1 2 3 4 unfolding attempts_ok_def by blast
qed (use assms(2) in simp)

text \<open>Every other transition leaves the attempts alone.\<close>

lemma attempts_tables [simp]:
  "Db_Attempts (link_event e i db) = Db_Attempts db" "Db_NextAttempt (link_event e i db) = Db_NextAttempt db"
  "Db_Attempts (update_issue i f db) = Db_Attempts db" "Db_NextAttempt (update_issue i f db) = Db_NextAttempt db"
  "Db_Attempts (snd (record_sample c db)) = Db_Attempts db"
  "Db_NextAttempt (snd (record_sample c db)) = Db_NextAttempt db"
  "Db_Attempts (resolve_notifications i db) = Db_Attempts db"
  "Db_NextAttempt (resolve_notifications i db) = Db_NextAttempt db"
  "Db_Attempts (add_event k r kd op iss sm db) = Db_Attempts db"
  "Db_NextAttempt (add_event k r kd op iss sm db) = Db_NextAttempt db"
  by (auto simp: link_event_def update_issue_def record_sample_def resolve_notifications_def
      add_event_def Let_def insert_event_Some split: option.splits)

definition same_attempts :: "ops_db \<Rightarrow> ops_db \<Rightarrow> bool" where
  "same_attempts db db' \<longleftrightarrow> Db_Attempts db' = Db_Attempts db \<and> Db_NextAttempt db' = Db_NextAttempt db"

lemma ObserveIssueTx_attempts:
  assumes "ObserveIssueTx ob db = Inr (i, db')"
  shows "same_attempts db db'"
  using assms by (cases rule: ObserveIssueTx_cases) (simp_all add: same_attempts_def insert_event_Some)

lemma ObserveConditionTx_attempts:
  assumes "ObserveConditionTx c db = Inr db'"
  shows "same_attempts db db'"
proof -
  have sample: "same_attempts db db1" if "record_sample c db = (g, db1)" for g db1
    using that attempts_tables(5,6) [of c db] by (simp add: same_attempts_def)
  from assms show ?thesis
  proof (cases rule: ObserveConditionTx_cases)
    case (unhealthy g db1 i db2)
    then show ?thesis using sample [OF unhealthy(1)] ObserveIssueTx_attempts [OF unhealthy(2)]
      by (simp add: same_attempts_def)
  next
    case (changed g db1 i e db2)
    then show ?thesis using sample [OF changed(1)] by (simp add: same_attempts_def insert_event_Some)
  qed (use sample in blast)
qed

lemma other_attempts:
  "AcknowledgeIssue now user role i db = Inr db' \<Longrightarrow> same_attempts db db'"
  "CreateOperation new db = Inr (p, db') \<Longrightarrow> same_attempts db db'"
  "SetCheckingTx now x revision db = Inr (t, db') \<Longrightarrow> same_attempts db db'"
  "VerificationFailedTx now tok db = Inr db' \<Longrightarrow> same_attempts db db'"
  "ResolveVerifiedTx now r h revision db = Inr db' \<Longrightarrow> same_attempts db db'"
  unfolding AcknowledgeIssue_def CreateOperation_def SetCheckingTx_def VerificationFailedTx_def
    ResolveVerifiedTx_def same_attempts_def Let_def
  by (auto split: if_split_asm option.split_asm sum.split_asm)

lemma ops_step_attempts:
  assumes "ops_step db db'"
  obtains (same) "same_attempts db db'"
  | (start) op river a where "StartAttempt op river db = Inr (a, db')"
  | (finish) now i st code where "FinishAttempt now i st code db = Inr db'"
  using assms
proof (cases rule: ops_step.cases)
  case observe
  then show ?thesis by (rule same [OF ObserveIssueTx_attempts])
next
  case condition
  then show ?thesis by (rule same [OF ObserveConditionTx_attempts])
qed (blast intro: same other_attempts start finish)+

lemma ops_step_attempts_ok:
  assumes "ops_step db db'" and "attempts_ok db"
  shows "attempts_ok db'"
  using assms(1)
proof (cases rule: ops_step_attempts)
  case same
  then show ?thesis using attempts_ok_cong [of db' db] assms(2) by (simp add: same_attempts_def)
qed (use assms(2) StartAttempt_attempts FinishAttempt_attempts in blast)+

text \<open>A finished attempt keeps its row.\<close>

lemma ops_step_finished:
  assumes "ops_step db db'" and "attempts_ok db" and "a \<in> set (Db_Attempts db)" and "At_FinishedAt a \<noteq> None"
  shows "a \<in> set (Db_Attempts db')"
  using assms(1)
proof (cases rule: ops_step_attempts)
  case (start op river b)
  then show ?thesis using StartAttempt_Inr(1) [OF start] assms(3) by simp
next
  case (finish now i st code)
  from finish show ?thesis
  proof (cases rule: FinishAttempt_cases)
    case (finished b)
    have "At_ID a \<noteq> i"
    proof
      assume "At_ID a = i"
      then have "a = b" using attempts_okD(1) [OF assms(2)] assms(3) finished(1,2) by (metis distinct_map inj_onD)
      then show False using finished(3) attempts_okD(3) [OF assms(2,3)] assms(4) by (simp add: attempt_ok_def)
    qed
    then show ?thesis using finished(5) assms(3) by force
  qed (use assms(3) in simp)
qed (use assms(3) in \<open>simp add: same_attempts_def\<close>)

text \<open>
  C10. Attempts are a history: in every reachable state the attempts of an operation are numbered
  1, 2, 3, ... in the order they started, at most one is unfinished, an attempt is finished exactly
  when its state is terminal, and the row of a finished attempt is never changed or removed.
\<close>

theorem attempts_history:
  assumes "ops_step\<^sup>*\<^sup>* db db'" and "attempts_ok db"
  shows "attempts_ok db' \<and> {a \<in> set (Db_Attempts db). At_FinishedAt a \<noteq> None} \<subseteq> set (Db_Attempts db')"
  using assms
proof (induction rule: rtranclp_induct)
  case (step db1 db2)
  then show ?case using ops_step_attempts_ok ops_step_finished by blast
qed auto

section \<open>Visibility\<close>

definition ownership_ok :: "Ownership \<Rightarrow> bool" where
  "ownership_ok own \<longleftrightarrow>
     distinct (map fst (Own_Customers own)) \<and> distinct (map fst (Own_Resellers own)) \<and>
     distinct (map fst (Own_Subscriptions own)) \<and> distinct (map fst (Own_Sites own))"

lemma distinct_fst_unique: "distinct (map fst xs) \<Longrightarrow> (a, b) \<in> set xs \<Longrightarrow> (a, c) \<in> set xs \<Longrightarrow> b = c"
  by (metis eq_key_imp_eq_value)

lemma owned_by_unique:
  assumes "ownership_ok own" and "owned_by own r c" and "owned_by own r d"
  shows "c = d"
proof -
  have keys: "distinct (map fst (Own_Subscriptions own))" "distinct (map fst (Own_Sites own))"
    using assms(1) by (simp_all add: ownership_ok_def)
  consider "Rs_Kind r = ''customer''" | "Rs_Kind r = ''subscription''" | "Rs_Kind r = ''site''"
    using assms(2) by (auto simp: owned_by_def)
  then show ?thesis
  proof cases
    case 3
    obtain s t where "(Rs_ID r, s) \<in> set (Own_Sites own)" "(s, c) \<in> set (Own_Subscriptions own)"
      "(Rs_ID r, t) \<in> set (Own_Sites own)" "(t, d) \<in> set (Own_Subscriptions own)"
      using assms(2,3) 3 by (auto simp: owned_by_def)
    then show ?thesis using distinct_fst_unique keys by metis
  qed (use assms(2,3) distinct_fst_unique [OF keys(1)] in \<open>auto simp: owned_by_def\<close>)
qed

lemma tenant_view:
  assumes "CanView own u role r" and "role \<noteq> ''admin''" and "Rs_Kind r \<noteq> ''user''"
  obtains c l s where "(c, l, s) \<in> set (Own_Customers own)" "owned_by own r c"
    "role = ''client'' \<and> l = u \<or> role = ''reseller'' \<and> (s, u) \<in> set (Own_Resellers own)"
  using assms unfolding CanView_def resourcePredicate_def by (auto split: if_split_asm)

text \<open>
  C27. Tenants are isolated: with the keys of the ownership tables unique, two clients (or two
  resellers) that can both see a resource are the same user, and who is not an administrator can
  never see the server or another user's own records.
\<close>

theorem CanView_isolates:
  assumes "ownership_ok own" and "CanView own u role r" and "role \<noteq> ''admin''"
  shows "Rs_Kind r \<noteq> ''server'' \<and> (\<forall>v. CanView own v role r \<longrightarrow> v = u)"
proof (intro conjI allI impI)
  show "Rs_Kind r \<noteq> ''server''"
    using assms(2,3) by (auto simp: CanView_def resourcePredicate_def split: if_split_asm)
  fix v assume also_v: "CanView own v role r"
  show "v = u"
  proof (cases "Rs_Kind r = ''user''")
    case True
    then show ?thesis
      using assms(2) also_v by (auto simp: CanView_def resourcePredicate_def split: if_split_asm)
  next
    case False
    obtain c l s where c: "(c, l, s) \<in> set (Own_Customers own)" "owned_by own r c"
      "role = ''client'' \<and> l = u \<or> role = ''reseller'' \<and> (s, u) \<in> set (Own_Resellers own)"
      using tenant_view [OF assms(2,3) False] .
    obtain c' l' s' where c': "(c', l', s') \<in> set (Own_Customers own)" "owned_by own r c'"
      "role = ''client'' \<and> l' = v \<or> role = ''reseller'' \<and> (s', v) \<in> set (Own_Resellers own)"
      using tenant_view [OF also_v assms(3) False] .
    have "c = c'" using owned_by_unique assms(1) c(2) c'(2) by blast
    then have "(l, s) = (l', s')"
      using distinct_fst_unique c(1) c'(1) assms(1) unfolding ownership_ok_def by metis
    then show ?thesis
      using c(3) c'(3) assms(1) distinct_fst_unique [of "Own_Resellers own" s v u] by (auto simp: ownership_ok_def)
  qed
qed

section \<open>A concrete store\<close>

definition demo_ownership :: Ownership where
  "demo_ownership = \<lparr>Own_Users = [(1, ''admin''), (2, ''client''), (3, ''reseller''), (4, ''client'')],
     Own_Customers = [(10, 2, 20), (11, 4, 20)], Own_Resellers = [(20, 3)],
     Own_Subscriptions = [(30, 10), (31, 11)], Own_Sites = [(40, 30), (41, 31)]\<rparr>"

definition demo_observation :: Observation where
  "demo_observation = \<lparr>Ob_EventKey = ''job:9:failed'', Ob_Resource = \<lparr>Rs_Kind = ''site'', Rs_ID = 40\<rparr>,
     Ob_Kind = ''tls'', Ob_Condition = ''expiring'', Ob_Severity = ''warning'', Ob_Title = ''Certificate'',
     Ob_Summary = ''renewal failed'', Ob_IntentRevision = 3, Ob_OperationID = 0, Ob_ObservedAt = 1000\<rparr>"

definition demo_attempt :: Attempt where
  "demo_attempt = \<lparr>At_ID = 1, At_OperationID = 1, At_Number = 1, At_RiverJobID = 70, At_State = ''failed'',
     At_ErrorCode = ''timeout'', At_FinishedAt = Some 900\<rparr>"

definition demo_operation :: Operation where
  "demo_operation = \<lparr>Op_ID = 1, Op_Key = ''renew:40'', Op_Kind = ''tls'',
     Op_Resource = \<lparr>Rs_Kind = ''site'', Rs_ID = 40\<rparr>, Op_Title = ''Renew'', Op_Trigger = ''scheduled'',
     Op_State = ''failed'', Op_IntentRevision = 3\<rparr>"

definition demo_issue :: Issue where
  "demo_issue = new_issue demo_observation 1 5 0"

definition demo_db :: ops_db where
  "demo_db = \<lparr>Db_Events = [], Db_NextEvent = 6, Db_Issues = [demo_issue], Db_NextIssue = 2,
     Db_Operations = [demo_operation], Db_NextOperation = 2, Db_Attempts = [demo_attempt], Db_NextAttempt = 2,
     Db_Conditions = [], Db_Notifications = [], Db_AcceptedBatches = [], Db_Ownership = demo_ownership\<rparr>"

definition demo_receipt :: VerificationReceipt where
  "demo_receipt = \<lparr>Rcp_Token = \<lparr>Tok_IssueID = 1, Tok_Generation = 1, Tok_LatestEventID = 5, Tok_IntentRevision = 3\<rparr>,
     Rcp_IntentHash = replicate 64 CHR ''0'', Rcp_Source = ''local_tls'', Rcp_SourceID = 0, Rcp_Checksum = [],
     Rcp_SizeBytes = 0, Rcp_ObservedAt = 2000, Rcp_Summary = ''certificate served''\<rparr>"

definition demo_resolved :: ops_db where
  "demo_resolved = add_event (''issue:'' @ Itoa 1 @ '':verified:'' @ Itoa 1 @ '':'' @ Itoa 5)
     \<lparr>Rs_Kind = ''site'', Rs_ID = 40\<rparr> ''issue.resolved'' 0 (Some 1) ''certificate served''
     (resolve_notifications 1 (update_issue 1 (resolved_row 2500 demo_receipt) demo_db))"

text \<open>The same condition again: the event row is inserted and linked to the issue.\<close>

definition demo_inserted :: ops_db where
  "demo_inserted = demo_db\<lparr>Db_Events := [\<lparr>Ev_ID = 6, Ev_Key = ''job:9:failed'',
     Ev_Resource = \<lparr>Rs_Kind = ''site'', Rs_ID = 40\<rparr>, Ev_Kind = ''issue.observed'', Ev_OperationID = 0,
     Ev_IssueID = None, Ev_Summary = ''renewal failed''\<rparr>], Db_NextEvent := 7\<rparr>"

definition demo_reobserved :: ops_db where
  "demo_reobserved = link_event 6 1 (update_issue 1 (reobserve demo_observation 6) demo_inserted)"

lemma demo_simps:
  "find_issue 1 demo_db = Some demo_issue" "Is_ResolvedAt demo_issue = None" "Is_ID demo_issue = 1"
  "Is_Generation demo_issue = 1"
  by (simp_all add: demo_db_def demo_issue_def new_issue_def find_issue_def)

lemma demo_valid: "validate demo_observation = None" "receipt_ok 2500 demo_receipt"
  by code_simp+

lemma demo_resolves: "ResolveVerifiedTx 2500 demo_receipt (replicate 64 CHR ''0'') 3 demo_db = Inr demo_resolved"
proof -
  have "token_fits demo_receipt demo_issue"
    by (simp add: token_fits_def demo_receipt_def demo_issue_def new_issue_def demo_observation_def)
  moreover have "expectedSource (Is_Kind demo_issue) = [''local_tls'']"
    by (simp add: expectedSource_def demo_issue_def new_issue_def demo_observation_def)
  moreover have "Is_Resource demo_issue = \<lparr>Rs_Kind = ''site'', Rs_ID = 40\<rparr>" "Is_LatestEventID demo_issue = 5"
    "Is_OperationID demo_issue = 0"
    by (simp_all add: demo_issue_def new_issue_def demo_observation_def)
  moreover have "Tok_IssueID (Rcp_Token demo_receipt) = 1" "Rcp_IntentHash demo_receipt = replicate 64 CHR ''0''"
    "Tok_IntentRevision (Rcp_Token demo_receipt) = 3" "Rcp_Source demo_receipt = ''local_tls''"
    "Rcp_Summary demo_receipt = ''certificate served''"
    by (simp_all add: demo_receipt_def)
  ultimately show ?thesis
    by (simp add: ResolveVerifiedTx_def IssueForUpdateTx_def demo_simps demo_valid demo_resolved_def)
qed

lemma demo_reobserves:
  "ObserveIssueTx demo_observation demo_db = Inr (reobserve demo_observation 6 demo_issue, demo_reobserved)"
proof -
  have "insert_observation demo_observation demo_db = Some (6, demo_inserted)"
    by (simp add: insert_event_def demo_inserted_def demo_db_def demo_observation_def)
  moreover have "open_issue (Ob_Resource demo_observation) (Ob_Kind demo_observation) (Ob_Condition demo_observation)
      demo_inserted = Some demo_issue"
    by (simp add: open_issue_def same_condition_def demo_inserted_def demo_db_def demo_issue_def new_issue_def)
  moreover have "Ob_OperationID demo_observation = 0" by (simp add: demo_observation_def)
  ultimately show ?thesis
    by (simp add: ObserveIssueTx_def demo_valid demo_simps demo_reobserved_def)
qed

theorem issue_resolved_only_by_receipt_witness:
  "ops_step demo_db demo_resolved \<and>
   (\<exists>now r h revision. ResolveVerifiedTx now r h revision demo_db = Inr demo_resolved \<and> receipt_ok now r \<and>
    Tok_IssueID (Rcp_Token r) = 1 \<and> token_fits r demo_issue \<and> Rcp_IntentHash r = h \<and>
    Tok_IntentRevision (Rcp_Token r) = revision \<and> Rcp_Source r \<in> set (expectedSource (Is_Kind demo_issue)) \<and>
    Is_Verification (resolved_row 2500 demo_receipt demo_issue) = Some r)"
proof -
  have "find_issue 1 demo_resolved = Some (resolved_row 2500 demo_receipt demo_issue)"
    by (simp add: demo_resolved_def find_issue_update demo_simps)
  then show ?thesis
    using issue_resolved_only_by_receipt [OF ops_step.resolve [OF demo_resolves] demo_simps(1,2)]
      ops_step.resolve [OF demo_resolves] by simp
qed

theorem stale_receipt_refused_witness:
  "Is_Generation (reobserve demo_observation 6 demo_issue) = 2 \<and>
   ResolveVerifiedTx 2500 demo_receipt (replicate 64 CHR ''0'') 3 demo_reobserved \<in> {Inl ErrInvalid, Inl ErrConflict}"
proof -
  have "find_issue 1 demo_reobserved = Some (reobserve demo_observation 6 demo_issue)"
    by (simp add: demo_reobserved_def find_issue_update) (simp add: find_issue_def demo_inserted_def demo_db_def demo_simps)
  then show ?thesis
    using stale_receipt_refused [of 1 demo_reobserved _ demo_receipt demo_reobserved 2500 "replicate 64 CHR ''0''" 3]
    by (simp add: demo_receipt_def demo_simps)
qed

lemma demo_issues_ok: "issues_ok demo_db"
  by (simp add: issues_ok_def demo_db_def demo_issue_def new_issue_def row_ok_def)

theorem ops_issues_invariant_witness: "ops_step\<^sup>*\<^sup>* demo_db demo_resolved \<and> issues_ok demo_resolved"
  using ops_issues_invariant [of demo_db demo_resolved] demo_issues_ok ops_step.resolve [OF demo_resolves]
  by blast

theorem ObserveIssueTx_idempotent_witness:
  "\<exists>x'. ObserveIssueTx demo_observation demo_reobserved = Inr (x', demo_reobserved) \<and> Is_ID x' = 1"
  using ObserveIssueTx_idempotent [OF demo_reobserves demo_issues_ok] by (simp add: demo_simps)

theorem attempts_history_witness:
  "attempts_ok demo_db \<and> attempts_ok demo_resolved \<and> demo_attempt \<in> set (Db_Attempts demo_resolved)"
proof -
  have here: "attempts_of op demo_db = (if op = 1 then [demo_attempt] else [])" for op
    by (simp add: attempts_of_def demo_db_def demo_attempt_def)
  have ok: "attempts_ok demo_db"
    unfolding attempts_ok_def unfinished_def here
    by (simp add: demo_db_def demo_attempt_def attempt_ok_def Terminal_def)
  have "demo_attempt \<in> {a \<in> set (Db_Attempts demo_db). At_FinishedAt a \<noteq> None}"
    by (simp add: demo_db_def demo_attempt_def)
  then show ?thesis
    using attempts_history [of demo_db demo_resolved] ok ops_step.resolve [OF demo_resolves] by blast
qed

theorem CanView_isolates_witness:
  "CanView demo_ownership 2 ''client'' \<lparr>Rs_Kind = ''site'', Rs_ID = 40\<rparr> \<and>
   \<not> CanView demo_ownership 4 ''client'' \<lparr>Rs_Kind = ''site'', Rs_ID = 40\<rparr>"
proof -
  have ok: "ownership_ok demo_ownership" by (simp add: ownership_ok_def demo_ownership_def)
  have own: "CanView demo_ownership 2 ''client'' \<lparr>Rs_Kind = ''site'', Rs_ID = 40\<rparr>"
    by (simp add: CanView_def valid_role_def Valid_def resourcePredicate_def owned_by_def demo_ownership_def)
  have "''client'' \<noteq> ''admin''" by simp
  then have "CanView demo_ownership 4 ''client'' \<lparr>Rs_Kind = ''site'', Rs_ID = 40\<rparr> \<longrightarrow> (4::int) = 2"
    by (rule CanView_isolates [OF ok own, THEN conjunct2, THEN spec])
  then have "\<not> CanView demo_ownership 4 ''client'' \<lparr>Rs_Kind = ''site'', Rs_ID = 40\<rparr>" by simp
  then show ?thesis using own by blast
qed

end
