(* ===== verification/Dns_Record.thy ===== *)
theory Dns_Record
  imports Site_Request Nak_Net
begin

text \<open>
  DNS records of \<open>internal/control/dnstemplate\<close>: normalisation and validation of one record
  (\<open>normalizeRecord\<close> in \<open>validation.go\<close>), the consistency check of a set of records
  (\<open>validateDNSRecordSet\<close>) and the comparisons of records (\<open>manager.go\<close>). Where the code ranges over
  a map, the order is the parameter \<open>mo\<close>.
\<close>

section \<open>Records\<close>

record DNSRecord =
  Dr_ID :: int
  Dr_ZoneID :: int
  Dr_OwnerSiteID :: int
  Dr_Host :: string
  Dr_Type :: string
  Dr_Value :: string
  Dr_Priority :: int
  Dr_Weight :: int
  Dr_Port :: int
  Dr_TTL :: int
  Dr_Origin :: string
  Dr_TemplateRecordKey :: string
  Dr_TemplateRevision :: int
  Dr_LocallyModified :: bool

definition zero_record :: DNSRecord where
  "zero_record = \<lparr>Dr_ID = 0, Dr_ZoneID = 0, Dr_OwnerSiteID = 0, Dr_Host = [], Dr_Type = [], Dr_Value = [],
     Dr_Priority = 0, Dr_Weight = 0, Dr_Port = 0, Dr_TTL = 0, Dr_Origin = [], Dr_TemplateRecordKey = [],
     Dr_TemplateRevision = 0, Dr_LocallyModified = False\<rparr>"

datatype dns_error =
    TTLOutOfRange
  | HostInvalid
  | ValueControlChars
  | HostNotDomain site_error
  | NotIPv4
  | NotIPv6
  | CNAMEAtApex
  | TargetBlank string
  | TargetInvalid string site_error
  | MXPriorityInvalid
  | TXTLength
  | SRVOwnerInvalid
  | SRVFieldsInvalid
  | CAAFormat
  | CAAFlags
  | DSFormat
  | DSKeyTagOrAlgorithm
  | DSDigestLength
  | UnsupportedType string
  | DuplicateRecord string string
  | SPFNotUnique string
  | CNAMENotAlone string

section \<open>One record\<close>

definition word_char :: "char \<Rightarrow> bool" where
  "word_char c \<longleftrightarrow> alnum c \<or> c = CHR ''_''"

definition dnsOwnerRE :: rexp where
  "dnsOwnerRE =
     Alt (Chr CHR ''@'')
      (Seq (Cls word_char)
        (Opt (Seq (Star (Cls (\<lambda>c. word_char c \<or> c = CHR ''.'' \<or> c = CHR ''-'')))
          (Cls (\<lambda>c. word_char c \<or> c = CHR ''-'')))))"

text \<open>The class \<open>\s\<close> of Go's regular expressions.\<close>

definition re_space :: "char \<Rightarrow> bool" where
  "re_space c \<longleftrightarrow> byte c \<in> {9, 10, 12, 13, 32}"

definition caaValueRE :: rexp where
  "caaValueRE =
     Seq (Rep (Cls is_digit) 1 3) (Seq (Plus (Cls re_space))
      (Seq (Alt (Lit ''issue'') (Alt (Lit ''issuewild'') (Lit ''iodef''))) (Seq (Plus (Cls re_space))
       (Seq (Chr CHR 0x22) (Seq (Plus (Cls (\<lambda>c. byte c \<notin> {34, 13, 10}))) (Chr CHR 0x22))))))"

definition dsValueRE :: rexp where
  "dsValueRE =
     Seq (Rep (Cls is_digit) 1 5) (Seq (Plus (Cls re_space))
      (Seq (Rep (Cls is_digit) 1 3) (Seq (Plus (Cls re_space))
       (Seq (Rep (Cls is_digit) 1 3) (Seq (Plus (Cls re_space)) (Plus (Cls is_hex)))))))"

text \<open>The submatches of \<open>dsValueRE\<close> are the parts between runs of spaces.\<close>

definition space_fields :: "string \<Rightarrow> string list" where
  "space_fields s =
     filter (\<lambda>f. f \<noteq> []) (Split (map (\<lambda>c. if re_space c then CHR '' '' else c) s) CHR '' '')"

definition clearRecordFields :: "DNSRecord \<Rightarrow> DNSRecord" where
  "clearRecordFields r = r\<lparr>Dr_Priority := 0, Dr_Weight := 0, Dr_Port := 0\<rparr>"

definition canonicalTarget :: "unicode_case \<Rightarrow> string \<Rightarrow> string" where
  "canonicalTarget uc v = TrimSuffix (ToLower uc (TrimSpace v)) ''.''"

definition validateTarget :: "unicode_case \<Rightarrow> string \<Rightarrow> string \<Rightarrow> dns_error option" where
  "validateTarget uc ty v =
     (let target = canonicalTarget uc v in
      if target = [] then Some (TargetBlank ty) else map_option (TargetInvalid ty) (ValidateDomain target))"

definition validSRVOwner :: "unicode_case \<Rightarrow> string \<Rightarrow> bool" where
  "validSRVOwner uc host =
     (let labels = Split (ToLower uc (TrimSpace host)) CHR ''.'' in
      length labels \<ge> 2 \<and> length (labels ! 0) > 1 \<and> length (labels ! 1) > 1 \<and>
      HasPrefix (labels ! 0) ''_'' \<and> HasPrefix (labels ! 1) ''_'')"

definition validDNSOwnerLabels :: "string \<Rightarrow> bool" where
  "validDNSOwnerLabels host =
     (if host = ''@'' then True
      else list_all (\<lambda>l. l \<noteq> [] \<and> length l \<le> 63 \<and> hd l \<noteq> CHR ''-'' \<and> last l \<noteq> CHR ''-'')
        (Split host CHR ''.''))"

definition ds_digest_length :: "int \<Rightarrow> nat" where
  "ds_digest_length t = (if t = 1 then 40 else if t = 2 then 64 else if t = 4 then 96 else 0)"

definition port_range :: "int \<Rightarrow> int \<Rightarrow> bool" where
  "port_range low v \<longleftrightarrow> low \<le> v \<and> v \<le> 65535"

text \<open>The cases of the switch on the record type that check the value and clear the numbers.\<close>

definition ds_error :: "string \<Rightarrow> dns_error option" where
  "ds_error v =
     (if \<not> MatchString dsValueRE v then Some DSFormat
      else
        let m = space_fields v; keyTag = int (dec_value (m ! 0)); algorithm = int (dec_value (m ! 1));
            digestType = int (dec_value (m ! 2)) in
        if keyTag > 65535 \<or> algorithm < 1 \<or> algorithm > 255 then Some DSKeyTagOrAlgorithm
        else if ds_digest_length digestType = 0 \<or> length (m ! 3) \<noteq> ds_digest_length digestType
        then Some DSDigestLength
        else None)"

definition value_error :: "string \<Rightarrow> string \<Rightarrow> dns_error option" where
  "value_error ty v =
     (if ty = ''A'' then
        (case ParseIP v of None \<Rightarrow> Some NotIPv4 | Some ip \<Rightarrow> fail_if (To4 ip = None) NotIPv4)
      else if ty = ''AAAA'' then
        (case ParseIP v of None \<Rightarrow> Some NotIPv6 | Some ip \<Rightarrow> fail_if (To4 ip \<noteq> None) NotIPv6)
      else if ty = ''TXT'' then fail_if (v = [] \<or> length v > 4096) TXTLength
      else if ty = ''CAA'' then
        first_error [fail_if (\<not> MatchString caaValueRE v) CAAFormat,
          fail_if (dec_value (takeWhile is_digit v) > 255) CAAFlags]
      else ds_error v)"

definition value_types :: "string list" where
  "value_types = [''A'', ''AAAA'', ''TXT'', ''CAA'', ''DS'']"

text \<open>The cases that name another host.\<close>

definition target_error :: "unicode_case \<Rightarrow> DNSRecord \<Rightarrow> dns_error option" where
  "target_error uc r =
     (if Dr_Type r = ''CNAME'' then
        first_error [fail_if (Dr_Host r = ''@'') CNAMEAtApex, validateTarget uc ''CNAME'' (Dr_Value r)]
      else if Dr_Type r = ''MX'' then
        first_error [validateTarget uc ''MX'' (Dr_Value r), fail_if (\<not> port_range 0 (Dr_Priority r)) MXPriorityInvalid]
      else if Dr_Type r = ''NS'' then validateTarget uc ''NS'' (Dr_Value r)
      else
        first_error [fail_if (\<not> validSRVOwner uc (Dr_Host r)) SRVOwnerInvalid,
          fail_if (\<not> port_range 0 (Dr_Priority r) \<or> \<not> port_range 0 (Dr_Weight r) \<or> \<not> port_range 1 (Dr_Port r))
            SRVFieldsInvalid,
          validateTarget uc ''SRV'' (Dr_Value r)])"

definition target_fields :: "DNSRecord \<Rightarrow> DNSRecord" where
  "target_fields r =
     (if Dr_Type r = ''MX'' then r\<lparr>Dr_Weight := 0, Dr_Port := 0\<rparr>
      else if Dr_Type r = ''SRV'' then r
      else clearRecordFields r)"

definition target_types :: "string list" where
  "target_types = [''CNAME'', ''MX'', ''NS'', ''SRV'']"

definition normalize_data :: "unicode_case \<Rightarrow> DNSRecord \<Rightarrow> dns_error + DNSRecord" where
  "normalize_data uc r =
     (if Dr_Type r \<in> set value_types then
        (case value_error (Dr_Type r) (Dr_Value r) of Some e \<Rightarrow> Inl e | None \<Rightarrow> Inr (clearRecordFields r))
      else if Dr_Type r \<in> set target_types then
        (case target_error uc r of Some e \<Rightarrow> Inl e
         | None \<Rightarrow> Inr (target_fields (r\<lparr>Dr_Value := canonicalTarget uc (Dr_Value r)\<rparr>)))
      else Inl (UnsupportedType (Dr_Type r)))"

definition normalize_shape :: "unicode_case \<Rightarrow> DNSRecord \<Rightarrow> DNSRecord" where
  "normalize_shape uc r =
     (let host = ToLower uc (TrimSpace (Dr_Host r)) in
      r\<lparr>Dr_Host := (if host = [] then ''@'' else host), Dr_Type := ToUpper uc (TrimSpace (Dr_Type r)),
        Dr_Value := TrimSpace (Dr_Value r), Dr_TTL := (if Dr_TTL r = 0 then 3600 else Dr_TTL r)\<rparr>)"

definition normalizeRecord :: "unicode_case \<Rightarrow> string \<Rightarrow> DNSRecord \<Rightarrow> dns_error + DNSRecord" where
  "normalizeRecord uc domain raw =
     (let r = normalize_shape uc raw in
      if Dr_TTL r < 60 \<or> Dr_TTL r > 86400 then Inl TTLOutOfRange
      else if length (Dr_Host r) > 253 \<or> \<not> MatchString dnsOwnerRE (Dr_Host r) \<or>
          \<not> validDNSOwnerLabels (Dr_Host r) \<or> ContainsAny (Dr_Host r) [CHR 0x0D, CHR 0x0A, CHR 0x00, CHR '' '', CHR 0x09]
      then Inl HostInvalid
      else if ContainsAny (Dr_Value r) [CHR 0x0D, CHR 0x0A, CHR 0x00] then Inl ValueControlChars
      else
        (case (if Dr_Host r \<noteq> ''@'' \<and> \<not> Contains (Dr_Host r) ''_''
               then ValidateDomain (Dr_Host r @ ''.'' @ domain) else None) of
           Some e \<Rightarrow> Inl (HostNotDomain e)
         | None \<Rightarrow> normalize_data uc r))"

section \<open>Sets of records\<close>

record ownerState =
  Os_total :: int
  Os_cnames :: int
  Os_spf :: int

definition set_host :: "unicode_case \<Rightarrow> DNSRecord \<Rightarrow> string" where
  "set_host uc r = ToLower uc (TrimSpace (Dr_Host r))"

definition set_type :: "unicode_case \<Rightarrow> DNSRecord \<Rightarrow> string" where
  "set_type uc r = ToUpper uc (TrimSpace (Dr_Type r))"

definition is_spf :: "unicode_case \<Rightarrow> DNSRecord \<Rightarrow> bool" where
  "is_spf uc r \<longleftrightarrow> set_type uc r = ''TXT'' \<and> HasPrefix (ToLower uc (TrimSpace (Dr_Value r))) ''v=spf1''"

definition count_owner :: "unicode_case \<Rightarrow> (string \<Rightarrow> ownerState) \<Rightarrow> DNSRecord \<Rightarrow> string \<Rightarrow> ownerState" where
  "count_owner uc owners r =
     (let host = set_host uc r; st = owners host in
      owners(host := \<lparr>Os_total = Os_total st + 1,
        Os_cnames = Os_cnames st + (if set_type uc r = ''CNAME'' then 1 else 0),
        Os_spf = Os_spf st + (if is_spf uc r then 1 else 0)\<rparr>))"

definition set_value :: "unicode_case \<Rightarrow> DNSRecord \<Rightarrow> string" where
  "set_value uc r =
     (let v = TrimSpace (Dr_Value r) in
      if set_type uc r \<in> {''CNAME'', ''MX'', ''NS'', ''SRV''} then canonicalTarget uc v else v)"

definition record_identity :: "unicode_case \<Rightarrow> DNSRecord \<Rightarrow> string" where
  "record_identity uc r =
     Join [set_host uc r, set_type uc r, set_value uc r, Itoa (Dr_Priority r), Itoa (Dr_Weight r), Itoa (Dr_Port r)]
       [CHR 0x00]"

text \<open>The first loop: the owners counted so far and the identities seen.\<close>

fun scan_records :: "unicode_case \<Rightarrow> (string \<Rightarrow> ownerState) \<Rightarrow> string list \<Rightarrow> DNSRecord list \<Rightarrow>
    dns_error + (string \<Rightarrow> ownerState)" where
  "scan_records uc owners seen [] = Inr owners"
| "scan_records uc owners seen (r # rs) =
     (if record_identity uc r \<in> set seen then Inl (DuplicateRecord (set_type uc r) (set_host uc r))
      else scan_records uc (count_owner uc owners r) (record_identity uc r # seen) rs)"

definition no_owner :: "string \<Rightarrow> ownerState" where
  "no_owner host = \<lparr>Os_total = 0, Os_cnames = 0, Os_spf = 0\<rparr>"

definition owner_error :: "(string \<Rightarrow> ownerState) \<Rightarrow> string \<Rightarrow> dns_error option" where
  "owner_error owners host =
     (if Os_spf (owners host) > 1 then Some (SPFNotUnique host)
      else if Os_cnames (owners host) > 0 \<and> Os_total (owners host) \<noteq> 1 then Some (CNAMENotAlone host)
      else None)"

definition validateDNSRecordSet :: "(string list \<Rightarrow> string list) \<Rightarrow> unicode_case \<Rightarrow> DNSRecord list \<Rightarrow> dns_error option" where
  "validateDNSRecordSet mo uc rs =
     (case scan_records uc no_owner [] rs of
        Inl e \<Rightarrow> Some e
      | Inr owners \<Rightarrow> first_error (map (owner_error owners) (mo (remdups (map (set_host uc) rs)))))"

section \<open>Comparisons\<close>

definition recordsSameRData :: "unicode_case \<Rightarrow> DNSRecord \<Rightarrow> DNSRecord \<Rightarrow> bool" where
  "recordsSameRData uc l r \<longleftrightarrow>
     EqualFold uc (Dr_Host l) (Dr_Host r) \<and> Dr_Type l = Dr_Type r \<and>
     (if Dr_Type l \<noteq> ''TXT'' then EqualFold uc (TrimSuffix (Dr_Value l) ''.'') (TrimSuffix (Dr_Value r) ''.'')
      else Dr_Value l = Dr_Value r) \<and>
     Dr_Priority l = Dr_Priority r \<and> Dr_Weight l = Dr_Weight r \<and> Dr_Port l = Dr_Port r"

definition recordsEqual :: "unicode_case \<Rightarrow> DNSRecord \<Rightarrow> DNSRecord \<Rightarrow> bool" where
  "recordsEqual uc l r \<longleftrightarrow> recordsSameRData uc l r \<and> Dr_TTL l = Dr_TTL r"

section \<open>What a normalised record looks like\<close>

definition in_bounds :: "DNSRecord \<Rightarrow> bool" where
  "in_bounds r \<longleftrightarrow>
     60 \<le> Dr_TTL r \<and> Dr_TTL r \<le> 86400 \<and> port_range 0 (Dr_Priority r) \<and> port_range 0 (Dr_Weight r) \<and>
     port_range 0 (Dr_Port r)"

lemma field_updates [simp]:
  "Dr_Host (clearRecordFields r) = Dr_Host r" "Dr_Type (clearRecordFields r) = Dr_Type r"
  "Dr_Value (clearRecordFields r) = Dr_Value r" "Dr_TTL (clearRecordFields r) = Dr_TTL r"
  "clearRecordFields (clearRecordFields r) = clearRecordFields r"
  "Dr_Host (target_fields r) = Dr_Host r" "Dr_Type (target_fields r) = Dr_Type r"
  "Dr_Value (target_fields r) = Dr_Value r" "Dr_TTL (target_fields r) = Dr_TTL r"
  "target_fields (target_fields r) = target_fields r"
  by (simp_all add: clearRecordFields_def target_fields_def)

lemma validateTarget_None:
  "validateTarget uc ty v = None \<longleftrightarrow> ValidateDomain (canonicalTarget uc v) = None"
  by (auto simp: validateTarget_def Let_def ValidateDomain_None_iff)

lemma target_error_None:
  assumes "target_error uc r = None" and "Dr_Type r \<in> set target_types"
  shows "ValidateDomain (canonicalTarget uc (Dr_Value r)) = None" "Dr_Type r = ''CNAME'' \<Longrightarrow> Dr_Host r \<noteq> ''@''"
    "port_range 0 (Dr_Priority (target_fields r))" "port_range 0 (Dr_Weight (target_fields r))"
    "port_range 0 (Dr_Port (target_fields r))"
  using assms unfolding target_error_def target_types_def
  by (auto simp: first_error_None validateTarget_None target_fields_def clearRecordFields_def port_range_def
      simp del: first_error.simps split: if_split_asm)

text \<open>\<open>normalize_data\<close> changes the value and the numbers only.\<close>

lemma normalize_data_cases:
  assumes "normalize_data uc r = Inr r'"
  obtains (plain) "Dr_Type r \<in> set value_types" "value_error (Dr_Type r) (Dr_Value r) = None" "r' = clearRecordFields r"
  | (target) "Dr_Type r \<in> set target_types" "Dr_Type r \<notin> set value_types" "target_error uc r = None"
      "r' = target_fields (r\<lparr>Dr_Value := canonicalTarget uc (Dr_Value r)\<rparr>)"
  using assms unfolding normalize_data_def by (auto split: if_split_asm option.split_asm)

lemma target_fields_value: "target_fields (r\<lparr>Dr_Value := v\<rparr>) = (target_fields r)\<lparr>Dr_Value := v\<rparr>"
  by (simp add: target_fields_def clearRecordFields_def)

lemma normalize_data_result:
  assumes "normalize_data uc r = Inr r'"
  shows "Dr_Host r' = Dr_Host r" "Dr_Type r' = Dr_Type r" "Dr_TTL r' = Dr_TTL r"
    "Dr_Type r \<in> set (value_types @ target_types)"
    "port_range 0 (Dr_Priority r')" "port_range 0 (Dr_Weight r')" "port_range 0 (Dr_Port r')"
    "Dr_Value r' = Dr_Value r \<or>
       Dr_Value r' = canonicalTarget uc (Dr_Value r) \<and> ValidateDomain (Dr_Value r') = None"
    "Dr_Type r = ''CNAME'' \<Longrightarrow> Dr_Host r \<noteq> ''@''"
proof -
  have "Dr_Host r' = Dr_Host r \<and> Dr_Type r' = Dr_Type r \<and> Dr_TTL r' = Dr_TTL r \<and>
    Dr_Type r \<in> set (value_types @ target_types) \<and>
    port_range 0 (Dr_Priority r') \<and> port_range 0 (Dr_Weight r') \<and> port_range 0 (Dr_Port r') \<and>
    (Dr_Value r' = Dr_Value r \<or>
       Dr_Value r' = canonicalTarget uc (Dr_Value r) \<and> ValidateDomain (Dr_Value r') = None) \<and>
    (Dr_Type r = ''CNAME'' \<longrightarrow> Dr_Host r \<noteq> ''@'')"
    using assms
  proof (cases rule: normalize_data_cases)
    case plain
    then show ?thesis by (auto simp: clearRecordFields_def port_range_def value_types_def)
  next
    case target
    then show ?thesis
      using target_error_None [OF target(3,1)] by (simp add: target_fields_value)
  qed
  then show "Dr_Host r' = Dr_Host r" "Dr_Type r' = Dr_Type r" "Dr_TTL r' = Dr_TTL r"
    "Dr_Type r \<in> set (value_types @ target_types)"
    "port_range 0 (Dr_Priority r')" "port_range 0 (Dr_Weight r')" "port_range 0 (Dr_Port r')"
    "Dr_Value r' = Dr_Value r \<or>
       Dr_Value r' = canonicalTarget uc (Dr_Value r) \<and> ValidateDomain (Dr_Value r') = None"
    "Dr_Type r = ''CNAME'' \<Longrightarrow> Dr_Host r \<noteq> ''@''"
    by blast+
qed

lemma normalizeRecord_Inr:
  assumes "normalizeRecord uc domain raw = Inr r'"
  obtains r where "r = normalize_shape uc raw" "60 \<le> Dr_TTL r" "Dr_TTL r \<le> 86400" "length (Dr_Host r) \<le> 253"
    "MatchString dnsOwnerRE (Dr_Host r)" "validDNSOwnerLabels (Dr_Host r)"
    "\<not> ContainsAny (Dr_Host r) [CHR 0x0D, CHR 0x0A, CHR 0x00, CHR '' '', CHR 0x09]"
    "\<not> ContainsAny (Dr_Value r) [CHR 0x0D, CHR 0x0A, CHR 0x00]"
    "Dr_Host r \<noteq> ''@'' \<Longrightarrow> \<not> Contains (Dr_Host r) ''_'' \<Longrightarrow> ValidateDomain (Dr_Host r @ ''.'' @ domain) = None"
    "normalize_data uc r = Inr r'"
  using assms unfolding normalizeRecord_def Let_def
  by (auto split: if_split_asm option.split_asm)

lemma normalize_shape_simps [simp]:
  "Dr_Value (normalize_shape uc r) = TrimSpace (Dr_Value r)"
  "Dr_Type (normalize_shape uc r) = ToUpper uc (TrimSpace (Dr_Type r))"
  by (simp_all add: normalize_shape_def Let_def)

lemma ValidateDomain_no_NUL: "ValidateDomain d = None \<Longrightarrow> c \<in> {CHR 0x00, CHR 0x0A, CHR 0x0D} \<Longrightarrow> c \<notin> set d"
  using ValidateDomain_chars [of d]
  by (auto simp: list_all_iff domain_char_cases is_lower_def is_digit_def byte_def)

text \<open>
  C40. Every record that \<open>normalizeRecord\<close> accepts is publishable: its TTL is between 60 and 86400
  seconds, priority, weight and port fit in 16 bits, the type is one the server supports, a CNAME
  is not at the apex, and neither host nor value contains a line break or NUL byte, so a record can
  never add a line to the zone file.
\<close>

theorem normalizeRecord_publishable:
  assumes "normalizeRecord uc domain raw = Inr r"
  shows "in_bounds r \<and> Dr_Type r \<in> set (value_types @ target_types) \<and> (Dr_Type r = ''CNAME'' \<longrightarrow> Dr_Host r \<noteq> ''@'') \<and>
    set (Dr_Host r @ Dr_Value r) \<inter> {CHR 0x00, CHR 0x0A, CHR 0x0D} = {}"
proof -
  obtain s where s: "60 \<le> Dr_TTL s" "Dr_TTL s \<le> 86400"
      "\<not> ContainsAny (Dr_Host s) [CHR 0x0D, CHR 0x0A, CHR 0x00, CHR '' '', CHR 0x09]"
      "\<not> ContainsAny (Dr_Value s) [CHR 0x0D, CHR 0x0A, CHR 0x00]" "normalize_data uc s = Inr r"
    using normalizeRecord_Inr [OF assms] by blast
  note res = normalize_data_result [OF s(5)]
  have "set (Dr_Host r) \<inter> {CHR 0x00, CHR 0x0A, CHR 0x0D} = {}"
    using s(3) res(1) by (auto simp: ContainsAny_iff)
  moreover have "set (Dr_Value r) \<inter> {CHR 0x00, CHR 0x0A, CHR 0x0D} = {}"
    using res(8) s(4) ValidateDomain_no_NUL [of "Dr_Value r"] by (auto simp: ContainsAny_iff)
  moreover have "in_bounds r" using s(1,2) res(3,5-7) by (simp add: in_bounds_def)
  ultimately show ?thesis using res(1,2,4,9) by auto
qed

section \<open>Normalising twice\<close>

text \<open>What the code relies on of the case tables: their results hold no letter of the other case.\<close>

definition case_laws :: "unicode_case \<Rightarrow> bool" where
  "case_laws uc \<longleftrightarrow>
     (\<forall>s. list_all (\<lambda>c. \<not> is_upper c) (uc_lower uc s)) \<and> (\<forall>s. list_all (\<lambda>c. \<not> is_lower c) (uc_upper uc s))"

definition ascii_tables :: unicode_case where
  "ascii_tables = \<lparr>uc_lower = map lower_char, uc_upper = map upper_char, uc_fold = (=)\<rparr>"

lemma ascii_tables_laws: "case_laws ascii_tables"
  by (simp add: case_laws_def ascii_tables_def list_all_iff)

lemma ToLower_no_upper: "case_laws uc \<Longrightarrow> list_all (\<lambda>c. \<not> is_upper c) (ToLower uc s)"
  by (auto simp: case_laws_def ToLower_def list_all_iff)

lemma owner_chars:
  assumes "MatchString dnsOwnerRE h"
  shows "list_all (\<lambda>c. is_ascii c \<and> \<not> ascii_space c) h"
proof -
  have "re_chars dnsOwnerRE c \<Longrightarrow> is_ascii c \<and> \<not> ascii_space c" for c
    by (auto simp: dnsOwnerRE_def word_char_def alnum_def is_ascii_def ascii_space_def is_lower_def is_upper_def
        is_digit_def byte_def)
  then show ?thesis using MatchString_chars [OF assms] by (auto simp: list_all_iff)
qed

lemma plain_ends_all: "list_all (\<lambda>c. is_ascii c \<and> \<not> ascii_space c) h \<Longrightarrow> plain_ends h"
  unfolding plain_ends_def list_all_iff by (meson hd_in_set last_in_set)

lemma canonicalTarget_id:
  assumes "ValidateDomain d = None"
  shows "canonicalTarget uc d = d" "TrimSpace d = d"
proof -
  have chars: "list_all domain_char d" using assms by (rule ValidateDomain_chars)
  then have low: "list_all (\<lambda>c. is_ascii c \<and> \<not> is_upper c) d"
    using domain_char_plain by (auto simp: list_all_iff)
  show trim: "TrimSpace d = d" using chars by (simp add: TrimSpace_plain plain_ends_domain)
  show "canonicalTarget uc d = d"
    using ValidateDomain_no_trailing_dot [OF assms] by (simp add: canonicalTarget_def trim ToLower_id low TrimSuffix_def)
qed

lemma supported_types_fixed:
  assumes "t \<in> set (value_types @ target_types)"
  shows "TrimSpace t = t" "ToUpper uc t = t"
proof -
  have "list_all (\<lambda>t. plain_ends t \<and> list_all (\<lambda>c. is_ascii c \<and> \<not> is_lower c) t) (value_types @ target_types)"
    by code_simp
  then have "plain_ends t" "list_all (\<lambda>c. is_ascii c \<and> \<not> is_lower c) t" using assms by (auto simp: list_all_iff)
  then show "TrimSpace t = t" "ToUpper uc t = t" by (simp_all add: TrimSpace_plain ToUpper_id)
qed

text \<open>A second run of \<open>normalize_data\<close> changes nothing.\<close>

lemma target_error_again:
  assumes "target_error uc r = None" and "Dr_Type r \<in> set target_types"
  shows "target_error uc (target_fields (r\<lparr>Dr_Value := canonicalTarget uc (Dr_Value r)\<rparr>)) = None"
proof -
  have "canonicalTarget uc (canonicalTarget uc (Dr_Value r)) = canonicalTarget uc (Dr_Value r)"
    using target_error_None(1) [OF assms] by (rule canonicalTarget_id)
  then show ?thesis
    using assms unfolding target_error_def target_types_def
    by (auto simp: first_error_None validateTarget_None target_fields_def clearRecordFields_def
        simp del: first_error.simps)
qed

lemma normalize_data_again:
  assumes "normalize_data uc r = Inr r'"
  shows "normalize_data uc r' = Inr r'"
  using assms
proof (cases rule: normalize_data_cases)
  case target
  have "canonicalTarget uc (Dr_Value r') = Dr_Value r'"
    using canonicalTarget_id(1) [OF target_error_None(1) [OF target(3,1)]] target(4) by simp
  moreover have "target_fields r' = r'" using target(4) by simp
  ultimately show ?thesis
    using target target_error_again [OF target(3,1)] by (simp add: normalize_data_def target_fields_value)
qed (simp add: normalize_data_def)

text \<open>
  Normalising is idempotent: a normalised record is accepted again and does not change, so
  records read back from the database compare equal to the template they came from.
\<close>

theorem normalizeRecord_idempotent:
  assumes "normalizeRecord uc domain raw = Inr r" and "case_laws uc"
  shows "normalizeRecord uc domain r = Inr r"
proof -
  obtain s where s: "s = normalize_shape uc raw" "60 \<le> Dr_TTL s" "Dr_TTL s \<le> 86400" "length (Dr_Host s) \<le> 253"
      "MatchString dnsOwnerRE (Dr_Host s)" "validDNSOwnerLabels (Dr_Host s)"
      "\<not> ContainsAny (Dr_Host s) [CHR 0x0D, CHR 0x0A, CHR 0x00, CHR '' '', CHR 0x09]"
      "\<not> ContainsAny (Dr_Value s) [CHR 0x0D, CHR 0x0A, CHR 0x00]"
      "Dr_Host s \<noteq> ''@'' \<Longrightarrow> \<not> Contains (Dr_Host s) ''_'' \<Longrightarrow> ValidateDomain (Dr_Host s @ ''.'' @ domain) = None"
      "normalize_data uc s = Inr r"
    using normalizeRecord_Inr [OF assms(1)] by blast
  note res = normalize_data_result [OF s(10)]
  have "list_all (\<lambda>c. is_ascii c \<and> \<not> is_upper c) (Dr_Host s)"
    using owner_chars [OF s(5)] ToLower_no_upper [OF assms(2), of "TrimSpace (Dr_Host raw)"]
    unfolding s(1) normalize_shape_def Let_def by (auto simp: list_all_iff is_upper_def byte_def)
  then have host: "ToLower uc (TrimSpace (Dr_Host r)) = Dr_Host r"
    using TrimSpace_plain [OF plain_ends_all [OF owner_chars [OF s(5)]]] res(1) by (simp add: ToLower_id)
  have ne: "Dr_Host r \<noteq> []" using res(1) s(1) by (simp add: normalize_shape_def Let_def)
  have val: "TrimSpace (Dr_Value r) = Dr_Value r" using res(8) s(1) canonicalTarget_id(2) by auto
  have "normalize_shape uc r = r"
    using host ne val supported_types_fixed [OF res(4)] res(2,3) s(2)
    by (simp add: normalize_shape_def Let_def)
  moreover have "\<not> ContainsAny (Dr_Value r) [CHR 0x0D, CHR 0x0A, CHR 0x00]"
    using res(8) s(8) ValidateDomain_no_NUL [of "Dr_Value r"] by (auto simp: ContainsAny_iff)
  ultimately show ?thesis
    using s(2-7,9) res(1,3) normalize_data_again [OF s(10)] by (simp add: normalizeRecord_def)
qed

section \<open>Record sets\<close>

definition rdata :: "unicode_case \<Rightarrow> DNSRecord \<Rightarrow> string \<times> string \<times> string \<times> int \<times> int \<times> int" where
  "rdata uc r = (set_host uc r, set_type uc r, set_value uc r, Dr_Priority r, Dr_Weight r, Dr_Port r)"

definition no_NUL :: "unicode_case \<Rightarrow> DNSRecord \<Rightarrow> bool" where
  "no_NUL uc r \<longleftrightarrow> CHR 0x00 \<notin> set (set_host uc r @ set_type uc r @ set_value uc r)"

lemma Itoa_no_NUL: "CHR 0x00 \<notin> set (Itoa i)"
  using Itoa_digits [of i] by (auto simp: list_all_iff is_digit_def byte_def)

text \<open>The separator makes the identity string an injective encoding.\<close>

lemma record_identity_inject:
  assumes "no_NUL uc r" and "no_NUL uc s"
  shows "record_identity uc r = record_identity uc s \<longleftrightarrow> rdata uc r = rdata uc s"
proof
  let ?parts = "\<lambda>r. [set_host uc r, set_type uc r, set_value uc r, Itoa (Dr_Priority r), Itoa (Dr_Weight r), Itoa (Dr_Port r)]"
  have split: "Split (record_identity uc r) CHR 0x00 = ?parts r" if "no_NUL uc r" for r
    unfolding record_identity_def using that by (intro Split_Join) (auto simp: no_NUL_def Itoa_no_NUL)
  assume "record_identity uc r = record_identity uc s"
  then have "?parts r = ?parts s" using split assms by metis
  then show "rdata uc r = rdata uc s" by (simp add: rdata_def Itoa_inject)
qed (simp add: rdata_def record_identity_def)

definition at_host :: "unicode_case \<Rightarrow> string \<Rightarrow> DNSRecord list \<Rightarrow> DNSRecord list" where
  "at_host uc h rs = filter (\<lambda>r. set_host uc r = h) rs"

lemma count_owner_simps:
  "Os_total (count_owner uc owners r h) = Os_total (owners h) + (if set_host uc r = h then 1 else 0)"
  "Os_cnames (count_owner uc owners r h) =
     Os_cnames (owners h) + (if set_host uc r = h \<and> set_type uc r = ''CNAME'' then 1 else 0)"
  "Os_spf (count_owner uc owners r h) = Os_spf (owners h) + (if set_host uc r = h \<and> is_spf uc r then 1 else 0)"
  by (simp_all add: count_owner_def Let_def)

lemma scan_records_result:
  "(\<exists>e. scan_records uc owners seen rs = Inl e) \<longleftrightarrow>
     \<not> (distinct (map (record_identity uc) rs) \<and> set (map (record_identity uc) rs) \<inter> set seen = {})"
  by (induction uc owners seen rs rule: scan_records.induct) auto

lemma scan_records_counts:
  assumes "scan_records uc owners seen rs = Inr owners'"
  shows "Os_total (owners' h) = Os_total (owners h) + int (length (at_host uc h rs)) \<and>
    Os_cnames (owners' h) = Os_cnames (owners h) + int (length (filter (\<lambda>r. set_type uc r = ''CNAME'') (at_host uc h rs))) \<and>
    Os_spf (owners' h) = Os_spf (owners h) + int (length (filter (is_spf uc) (at_host uc h rs)))"
  using assms
  by (induction uc owners seen rs rule: scan_records.induct)
    (auto simp: at_host_def count_owner_simps split: if_split_asm)

lemma first_error_map_None: "first_error (map f xs) = None \<longleftrightarrow> (\<forall>x \<in> set xs. f x = None)"
  by (simp add: first_error_None list_all_iff)

lemma sole_member:
  "(0 < length (filter P xs) \<longrightarrow> length xs = 1) \<longleftrightarrow> (\<forall>r \<in> set xs. P r \<longrightarrow> xs = [r])"
proof
  assume L: "0 < length (filter P xs) \<longrightarrow> length xs = 1"
  show "\<forall>r \<in> set xs. P r \<longrightarrow> xs = [r]"
  proof (intro ballI impI)
    fix r assume "r \<in> set xs" "P r"
    then have "filter P xs \<noteq> []" by (auto simp: filter_empty_conv)
    then show "xs = [r]" using L \<open>r \<in> set xs\<close> by (auto simp: length_Suc_conv)
  qed
next
  assume "\<forall>r \<in> set xs. P r \<longrightarrow> xs = [r]"
  then show "0 < length (filter P xs) \<longrightarrow> length xs = 1" by (fastforce simp: filter_empty_conv)
qed

text \<open>
  C35. \<open>validateDNSRecordSet\<close> accepts exactly the consistent sets, in whatever order Go ranges over
  the owners: no record occurs twice (comparing host, type, value with canonical targets, priority,
  weight and port), no owner has two SPF policies, and a CNAME is the only record of its owner.
\<close>

theorem validateDNSRecordSet_iff:
  assumes "map_order mo" and "\<forall>r \<in> set rs. no_NUL uc r"
  shows "validateDNSRecordSet mo uc rs = None \<longleftrightarrow>
    distinct (map (rdata uc) rs) \<and>
    (\<forall>r \<in> set rs. length (filter (is_spf uc) (at_host uc (set_host uc r) rs)) \<le> 1 \<and>
       (set_type uc r = ''CNAME'' \<longrightarrow> at_host uc (set_host uc r) rs = [r]))"
proof -
  have keys: "set (mo (remdups (map (set_host uc) rs))) = set_host uc ` set rs"
    using assms(1) by (simp add: map_order_def)
  have dist: "distinct (map (record_identity uc) rs) \<longleftrightarrow> distinct (map (rdata uc) rs)"
    using assms(2) record_identity_inject by (auto simp: distinct_map inj_on_def)
  have cname: "(0 < length (filter (\<lambda>r. set_type uc r = ''CNAME'') (at_host uc h rs)) \<longrightarrow> length (at_host uc h rs) = 1)
      \<longleftrightarrow> (\<forall>r \<in> set rs. set_host uc r = h \<longrightarrow> set_type uc r = ''CNAME'' \<longrightarrow> at_host uc h rs = [r])" for h
    unfolding sole_member by (auto simp: at_host_def)
  show ?thesis
  proof (cases "scan_records uc no_owner [] rs")
    case (Inl e)
    then show ?thesis
      using scan_records_result [of uc no_owner "[]" rs] dist by (auto simp: validateDNSRecordSet_def)
  next
    case (Inr owners)
    then have d: "distinct (map (rdata uc) rs)"
      using scan_records_result [of uc no_owner "[]" rs] dist by auto
    have "owner_error owners h = None \<longleftrightarrow>
        length (filter (is_spf uc) (at_host uc h rs)) \<le> 1 \<and>
        (0 < length (filter (\<lambda>r. set_type uc r = ''CNAME'') (at_host uc h rs)) \<longrightarrow> length (at_host uc h rs) = 1)" for h
      using scan_records_counts [OF Inr, of h] by (auto simp: owner_error_def no_owner_def)
    then show ?thesis
      using d Inr by (simp only: validateDNSRecordSet_def sum.case first_error_map_None keys cname) blast
  qed
qed

section \<open>Examples\<close>

definition demo_mx :: DNSRecord where
  "demo_mx = zero_record\<lparr>Dr_Host := '' @'', Dr_Type := ''mx'', Dr_Value := ''Mail.Example.com.'', Dr_Priority := 10\<rparr>"

definition demo_mx_normal :: DNSRecord where
  "demo_mx_normal = zero_record\<lparr>Dr_Host := ''@'', Dr_Type := ''MX'', Dr_Value := ''mail.example.com'',
     Dr_Priority := 10, Dr_TTL := 3600\<rparr>"

lemma demo_mx_normalizes: "normalizeRecord ascii_tables ''example.com'' demo_mx = Inr demo_mx_normal"
  by code_simp

theorem normalizeRecord_publishable_witness:
  "in_bounds demo_mx_normal \<and> Dr_Type demo_mx_normal \<in> set (value_types @ target_types)"
  using normalizeRecord_publishable [OF demo_mx_normalizes] by simp

theorem normalizeRecord_idempotent_witness:
  "normalizeRecord ascii_tables ''example.com'' demo_mx_normal = Inr demo_mx_normal"
  using normalizeRecord_idempotent [OF demo_mx_normalizes ascii_tables_laws] .

theorem validateDNSRecordSet_iff_witness:
  "validateDNSRecordSet (\<lambda>ks. ks) ascii_tables [demo_mx_normal] = None \<and>
   validateDNSRecordSet (\<lambda>ks. ks) ascii_tables [demo_mx_normal, demo_mx_normal] \<noteq> None"
proof -
  have mo: "map_order (\<lambda>ks. ks)" by (simp add: map_order_def)
  have nul: "no_NUL ascii_tables demo_mx_normal" by code_simp
  have facts: "length (filter (is_spf ascii_tables) (at_host ascii_tables (set_host ascii_tables demo_mx_normal) [demo_mx_normal])) \<le> 1"
    "set_type ascii_tables demo_mx_normal \<noteq> ''CNAME''" by code_simp+
  show ?thesis
    using validateDNSRecordSet_iff [OF mo, of "[demo_mx_normal]" ascii_tables]
      validateDNSRecordSet_iff [OF mo, of "[demo_mx_normal, demo_mx_normal]" ascii_tables] nul facts by simp
qed

end
