(* ===== verification/Dns_Template.thy ===== *)
theory Dns_Template
  imports Dns_Record
begin

text \<open>
  DNS templates (\<open>internal/control/dnstemplate/validation.go\<close>, \<open>provider_defaults.go\<close> and
  \<open>expandSOA\<close>, \<open>nextDNSSerial\<close> of \<open>manager.go\<close>): placeholders and their expansion, the checks of a
  template record, of a whole revision and of SOA settings, the provider's nameservers, and zone
  serials. A placeholder is a tag \<open><...>\<close>; all the substitutions of the code are instances of
  \<open>subst_tags\<close>, which replaces the tags a function knows and copies everything else.
\<close>

section \<open>Tags\<close>

function subst_tags :: "(string \<Rightarrow> string option) \<Rightarrow> string \<Rightarrow> string" where
  "subst_tags f [] = []"
| "subst_tags f (c # cs) =
     (if c = CHR ''<'' \<and> CHR ''>'' \<in> set cs then
        (case f (takeWhile (\<lambda>d. d \<noteq> CHR ''>'') cs) of
           Some r \<Rightarrow> r @ subst_tags f (tl (dropWhile (\<lambda>d. d \<noteq> CHR ''>'') cs))
         | None \<Rightarrow> c # subst_tags f cs)
      else c # subst_tags f cs)"
  by pat_completeness auto
termination
proof (relation "measure (\<lambda>(f, s). length s)")
  fix f :: "string \<Rightarrow> string option" and c cs r
  have "length (tl (dropWhile (\<lambda>d. d \<noteq> CHR ''>'') cs)) \<le> length cs"
    using length_dropWhile_le [of "\<lambda>d. d \<noteq> CHR ''>''" cs] by simp
  then show "((f, tl (dropWhile (\<lambda>d. d \<noteq> CHR ''>'') cs)), f, c # cs) \<in> measure (\<lambda>(f, s). length s)"
    by simp
qed simp_all

text \<open>\<open>strings.ReplaceAll\<close> with a non-empty old string.\<close>

function ReplaceAll :: "string \<Rightarrow> string \<Rightarrow> string \<Rightarrow> string" where
  "ReplaceAll old new s =
     (if s = [] \<or> old = [] then s
      else if HasPrefix s old then new @ ReplaceAll old new (drop (length old) s)
      else hd s # ReplaceAll old new (tl s))"
  by pat_completeness auto
termination
  by (relation "measure (\<lambda>(old, new, s). length s)") auto

declare ReplaceAll.simps [simp del]

definition name_char :: "char \<Rightarrow> bool" where
  "name_char c \<longleftrightarrow> is_lower c \<or> is_digit c \<or> c = CHR ''_'' \<or> c = CHR ''-''"

definition ip_tag :: rexp where
  "ip_tag = Seq (Lit ''ip.'') (Plus (Cls name_char))"

definition ipv6_tag :: rexp where
  "ipv6_tag = Seq (Lit ''ipv6.'') (Plus (Cls name_char))"

text \<open>The body of \<open>templatePlaceholderRE\<close>.\<close>

definition placeholder :: rexp where
  "placeholder = Alt (Lit ''domain'') (Alt (Lit ''subdomain'') (Alt (Lit ''hostname'') (Alt ip_tag ipv6_tag)))"

text \<open>\<open>ReplaceAllString\<close> of the expression \<open><r>\<close>, where \<open>r\<close> matches no angle bracket.\<close>

definition replace_re :: "rexp \<Rightarrow> string \<Rightarrow> string \<Rightarrow> string" where
  "replace_re r new s = subst_tags (\<lambda>t. if MatchString r t then Some new else None) s"

record expansionContext =
  Ex_domain :: string
  Ex_subdomain :: string
  Ex_hostname :: string
  Ex_ipv4 :: string
  Ex_ipv6 :: string

datatype template_error =
    RecordKeyInvalid
  | ScopeInvalid
  | FieldBlankOrControl
  | HostPlaceholder
  | ValuePlaceholder
  | NotValidForScope
  | RecordInvalid dns_error
  | InRecord string template_error
  | KeyDuplicated string
  | ExpandFailed string dns_error
  | SetInvalid dns_error
  | ParentZoneConflict dns_error
  | PlaceholderUnsupported
  | DomainInvalid site_error
  | NameserverInvalid template_error
  | MailboxInvalid template_error
  | SerialFormatInvalid
  | SOAValueRange string
  | NameserversNotDistinct
  | SerialExhausted
  | SerialOutOfRange

definition validatePlaceholders :: "string \<Rightarrow> template_error option" where
  "validatePlaceholders v = fail_if (ContainsAny (replace_re placeholder [] v) ''<>'') PlaceholderUnsupported"

definition replacements :: "expansionContext \<Rightarrow> string \<Rightarrow> string" where
  "replacements c k =
     (if k = ''<domain>'' then Ex_domain c else if k = ''<subdomain>'' then Ex_subdomain c else Ex_hostname c)"

definition replacement_keys :: "string list" where
  "replacement_keys = [''<domain>'', ''<subdomain>'', ''<hostname>'']"

definition expandPlaceholders :: "(string list \<Rightarrow> string list) \<Rightarrow> string \<Rightarrow> expansionContext \<Rightarrow> string" where
  "expandPlaceholders mo v c =
     replace_re ipv6_tag (Ex_ipv6 c) (replace_re ip_tag (Ex_ipv4 c)
       (foldl (\<lambda>s k. ReplaceAll k (replacements c k) s) v (mo replacement_keys)))"

section \<open>Template records\<close>

record DNSTemplateRecord =
  Tr_ID :: int
  Tr_StableKey :: string
  Tr_Scope :: string
  Tr_HostTemplate :: string
  Tr_Type :: string
  Tr_ValueTemplate :: string
  Tr_Priority :: int
  Tr_Weight :: int
  Tr_Port :: int
  Tr_TTL :: int

definition templateRecordKeyRE :: rexp where
  "templateRecordKeyRE =
     Seq (Cls alnum) (Rep (Cls (\<lambda>c. alnum c \<or> c = CHR ''_'' \<or> c = CHR ''.'' \<or> c = CHR ''-'')) 0 95)"

text \<open>\<open>Inr None\<close> is the code's \<open>omit\<close>.\<close>

definition expanded_host :: "expansionContext \<Rightarrow> string \<Rightarrow> string" where
  "expanded_host c host =
     (if Ex_subdomain c \<noteq> [] then
        (if host = ''@'' then Ex_subdomain c
         else if host \<noteq> Ex_subdomain c \<and> \<not> HasSuffix host (''.'' @ Ex_subdomain c)
         then host @ ''.'' @ Ex_subdomain c
         else host)
      else host)"

definition expandTemplateRecord :: "(string list \<Rightarrow> string list) \<Rightarrow> unicode_case \<Rightarrow> DNSTemplateRecord \<Rightarrow>
    expansionContext \<Rightarrow> dns_error + DNSRecord option" where
  "expandTemplateRecord mo uc tr c =
     (if Tr_Scope tr = ''root'' \<and> Ex_subdomain c \<noteq> [] then Inr None
      else if Tr_Scope tr = ''subdomain'' \<and> Ex_subdomain c = [] then Inr None
      else
        let host = expanded_host c (expandPlaceholders mo (Tr_HostTemplate tr) c);
            v = expandPlaceholders mo (Tr_ValueTemplate tr) c in
        if Contains (Tr_ValueTemplate tr) ''<ipv6.'' \<and> Ex_ipv6 c = [] then Inr None
        else
          (case normalizeRecord uc (Ex_domain c)
              (zero_record\<lparr>Dr_Host := host, Dr_Type := Tr_Type tr, Dr_Value := v, Dr_Priority := Tr_Priority tr,
                 Dr_Weight := Tr_Weight tr, Dr_Port := Tr_Port tr, Dr_TTL := Tr_TTL tr, Dr_Origin := ''template'',
                 Dr_TemplateRecordKey := Tr_StableKey tr\<rparr>) of
             Inl e \<Rightarrow> Inl e
           | Inr r \<Rightarrow> Inr (Some r)))"

definition root_sample :: expansionContext where
  "root_sample = \<lparr>Ex_domain = ''example.test'', Ex_subdomain = [], Ex_hostname = ''panel.example.test'',
     Ex_ipv4 = ''192.0.2.10'', Ex_ipv6 = ''2001:db8::10''\<rparr>"

definition subdomain_sample :: expansionContext where
  "subdomain_sample = root_sample\<lparr>Ex_subdomain := ''shop''\<rparr>"

definition template_shape :: "unicode_case \<Rightarrow> DNSTemplateRecord \<Rightarrow> DNSTemplateRecord" where
  "template_shape uc tr =
     (let scope = ToLower uc (TrimSpace (Tr_Scope tr)) in
      tr\<lparr>Tr_StableKey := TrimSpace (Tr_StableKey tr), Tr_Scope := (if scope = [] then ''all'' else scope),
        Tr_HostTemplate := ToLower uc (TrimSpace (Tr_HostTemplate tr)),
        Tr_Type := ToUpper uc (TrimSpace (Tr_Type tr)), Tr_ValueTemplate := TrimSpace (Tr_ValueTemplate tr),
        Tr_TTL := (if Tr_TTL tr = 0 then 3600 else Tr_TTL tr)\<rparr>)"

definition sample_error :: "(string list \<Rightarrow> string list) \<Rightarrow> unicode_case \<Rightarrow> DNSTemplateRecord \<Rightarrow>
    expansionContext \<Rightarrow> template_error option" where
  "sample_error mo uc tr c =
     (case expandTemplateRecord mo uc tr c of
        Inl e \<Rightarrow> Some (RecordInvalid e)
      | Inr None \<Rightarrow> Some NotValidForScope
      | Inr (Some r) \<Rightarrow>
          (case normalizeRecord uc (Ex_domain c) r of Inl e \<Rightarrow> Some (RecordInvalid e) | Inr _ \<Rightarrow> None))"

definition sample_contexts :: "string \<Rightarrow> expansionContext list" where
  "sample_contexts scope =
     (if scope = ''subdomain'' then [] else [root_sample]) @
     (if scope = ''all'' \<or> scope = ''subdomain'' then [subdomain_sample] else [])"

definition validateTemplateRecord :: "(string list \<Rightarrow> string list) \<Rightarrow> unicode_case \<Rightarrow> DNSTemplateRecord \<Rightarrow>
    template_error + DNSTemplateRecord" where
  "validateTemplateRecord mo uc raw =
     (let tr = template_shape uc raw in
      case first_error
        ([fail_if (\<not> MatchString templateRecordKeyRE (Tr_StableKey tr)) RecordKeyInvalid,
          fail_if (Tr_Scope tr \<notin> {''all'', ''root'', ''subdomain''}) ScopeInvalid,
          fail_if (\<exists>v \<in> {Tr_HostTemplate tr, Tr_ValueTemplate tr}.
            v = [] \<or> ContainsAny v [CHR 0x0D, CHR 0x0A, CHR 0x00]) FieldBlankOrControl,
          map_option (\<lambda>_. HostPlaceholder) (validatePlaceholders (Tr_HostTemplate tr)),
          map_option (\<lambda>_. ValuePlaceholder) (validatePlaceholders (Tr_ValueTemplate tr))] @
         map (sample_error mo uc tr) (sample_contexts (Tr_Scope tr))) of
        Some e \<Rightarrow> Inl e
      | None \<Rightarrow> Inr tr)"

section \<open>Revisions\<close>

record DNSSOASettings =
  So_PrimaryNameserver :: string
  So_ResponsibleMailbox :: string
  So_SerialFormat :: string
  So_DefaultTTL :: int
  So_RefreshSeconds :: int
  So_RetrySeconds :: int
  So_ExpireSeconds :: int
  So_MinimumTTL :: int

record DNSTemplateRevision =
  Rv_ID :: int
  Rv_Revision :: int
  Rv_SOA :: DNSSOASettings
  Rv_ZoneStatus :: string
  Rv_SubdomainPolicy :: string
  Rv_TransferCIDRs :: "string list"
  Rv_Records :: "DNSTemplateRecord list"
  Rv_OptimisticRevision :: int

fun normalize_all :: "(string list \<Rightarrow> string list) \<Rightarrow> unicode_case \<Rightarrow> string list \<Rightarrow> DNSTemplateRecord list \<Rightarrow>
    template_error + DNSTemplateRecord list" where
  "normalize_all mo uc seen [] = Inr []"
| "normalize_all mo uc seen (tr # trs) =
     (case validateTemplateRecord mo uc tr of
        Inl e \<Rightarrow> Inl (InRecord (Tr_StableKey tr) e)
      | Inr n \<Rightarrow>
          if Tr_StableKey n \<in> set seen then Inl (KeyDuplicated (Tr_StableKey n))
          else (case normalize_all mo uc (Tr_StableKey n # seen) trs of Inl e \<Rightarrow> Inl e | Inr ns \<Rightarrow> Inr (n # ns)))"

fun expand_all :: "(string list \<Rightarrow> string list) \<Rightarrow> unicode_case \<Rightarrow> expansionContext \<Rightarrow> DNSTemplateRecord list \<Rightarrow>
    template_error + DNSRecord list" where
  "expand_all mo uc c [] = Inr []"
| "expand_all mo uc c (tr # trs) =
     (case expandTemplateRecord mo uc tr c of
        Inl e \<Rightarrow> Inl (ExpandFailed (Tr_StableKey tr) e)
      | Inr got \<Rightarrow>
          (case expand_all mo uc c trs of
             Inl e \<Rightarrow> Inl e
           | Inr rs \<Rightarrow> Inr (case got of None \<Rightarrow> rs | Some r \<Rightarrow> r # rs)))"

definition appendMissingSystemSampleRecords :: "unicode_case \<Rightarrow> DNSRecord list \<Rightarrow> expansionContext \<Rightarrow> DNSRecord list" where
  "appendMissingSystemSampleRecords uc rs c =
     foldl (\<lambda>acc wanted. if \<exists>r \<in> set acc. recordsSameRData uc r wanted then acc else acc @ [wanted]) rs
       [zero_record\<lparr>Dr_Host := ''@'', Dr_Type := ''NS'', Dr_Value := ''ns1.'' @ Ex_domain c, Dr_TTL := 3600\<rparr>,
        zero_record\<lparr>Dr_Host := ''ns1'', Dr_Type := ''A'', Dr_Value := Ex_ipv4 c, Dr_TTL := 3600\<rparr>,
        zero_record\<lparr>Dr_Host := ''webmail'', Dr_Type := ''A'', Dr_Value := Ex_ipv4 c, Dr_TTL := 3600\<rparr>]"

definition sample_set :: "(string list \<Rightarrow> string list) \<Rightarrow> unicode_case \<Rightarrow> DNSTemplateRecord list \<Rightarrow> expansionContext \<Rightarrow>
    template_error + DNSRecord list" where
  "sample_set mo uc trs c =
     (case expand_all mo uc c trs of
        Inl e \<Rightarrow> Inl e
      | Inr rs \<Rightarrow>
          let rs' = (if Ex_subdomain c = [] then appendMissingSystemSampleRecords uc rs c else rs) in
          (case validateDNSRecordSet mo uc rs' of Some e \<Rightarrow> Inl (SetInvalid e) | None \<Rightarrow> Inr rs'))"

definition validateTemplateRevision :: "(string list \<Rightarrow> string list) \<Rightarrow> unicode_case \<Rightarrow> DNSTemplateRevision \<Rightarrow>
    template_error option" where
  "validateTemplateRevision mo uc t =
     (case normalize_all mo uc [] (Rv_Records t) of
        Inl e \<Rightarrow> Some e
      | Inr trs \<Rightarrow>
          (case sample_set mo uc trs root_sample of
             Inl e \<Rightarrow> Some e
           | Inr rs1 \<Rightarrow>
               (case sample_set mo uc trs subdomain_sample of
                  Inl e \<Rightarrow> Some e
                | Inr rs2 \<Rightarrow> map_option ParentZoneConflict (validateDNSRecordSet mo uc (rs1 @ rs2)))))"

definition validateTemplateDomain :: "(string list \<Rightarrow> string list) \<Rightarrow> string \<Rightarrow> template_error option" where
  "validateTemplateDomain mo v =
     (case validatePlaceholders v of
        Some e \<Rightarrow> Some e
      | None \<Rightarrow> map_option DomainInvalid
          (ValidateDomain (TrimSuffix (expandPlaceholders mo (TrimSpace v) subdomain_sample) ''.'')))"

definition validateSOA :: "(string list \<Rightarrow> string list) \<Rightarrow> DNSSOASettings \<Rightarrow> template_error option" where
  "validateSOA mo s =
     first_error
      ([map_option NameserverInvalid (validateTemplateDomain mo (So_PrimaryNameserver s)),
        map_option MailboxInvalid (validateTemplateDomain mo (So_ResponsibleMailbox s)),
        fail_if (So_SerialFormat s \<noteq> ''unix'' \<and> So_SerialFormat s \<noteq> ''date-counter'') SerialFormatInvalid] @
       map (\<lambda>(name, v, low, high). fail_if (v < low \<or> v > high) (SOAValueRange name))
        [(''default TTL'', So_DefaultTTL s, 60, 86400), (''refresh'', So_RefreshSeconds s, 300, 86400),
         (''retry'', So_RetrySeconds s, 60, 86400), (''expire'', So_ExpireSeconds s, 86400, 2419200),
         (''minimum TTL'', So_MinimumTTL s, 60, 86400)])"

definition expandSOA :: "(string list \<Rightarrow> string list) \<Rightarrow> DNSSOASettings \<Rightarrow> string \<Rightarrow> string \<Rightarrow> DNSSOASettings" where
  "expandSOA mo s domain hostname =
     (let c = \<lparr>Ex_domain = domain, Ex_subdomain = [], Ex_hostname = hostname, Ex_ipv4 = [], Ex_ipv6 = []\<rparr> in
      s\<lparr>So_PrimaryNameserver := expandPlaceholders mo (So_PrimaryNameserver s) c,
        So_ResponsibleMailbox := expandPlaceholders mo (So_ResponsibleMailbox s) c\<rparr>)"

section \<open>Provider nameservers\<close>

record DNSProviderDefaults =
  Pd_PrimaryNameserver :: string
  Pd_SecondaryNameserver :: string

definition ns_record :: "string \<Rightarrow> string \<Rightarrow> DNSTemplateRecord" where
  "ns_record key v = \<lparr>Tr_ID = 0, Tr_StableKey = key, Tr_Scope = ''root'', Tr_HostTemplate = ''@'', Tr_Type = ''NS'',
     Tr_ValueTemplate = v, Tr_Priority = 0, Tr_Weight = 0, Tr_Port = 0, Tr_TTL = 3600\<rparr>"

definition root_ns :: "DNSTemplateRecord \<Rightarrow> bool" where
  "root_ns tr \<longleftrightarrow> Tr_Type tr = ''NS'' \<and> Tr_HostTemplate tr = ''@'' \<and> Tr_Scope tr \<noteq> ''subdomain''"

definition nameserver_name :: "unicode_case \<Rightarrow> string \<Rightarrow> string" where
  "nameserver_name uc v = ToLower uc (TrimSuffix (TrimSpace v) ''.'')"

definition withProviderDefaults :: "(string list \<Rightarrow> string list) \<Rightarrow> unicode_case \<Rightarrow> DNSTemplateRevision \<Rightarrow>
    DNSProviderDefaults \<Rightarrow> template_error + DNSTemplateRevision" where
  "withProviderDefaults mo uc t input =
     (let p = nameserver_name uc (Pd_PrimaryNameserver input); q = nameserver_name uc (Pd_SecondaryNameserver input) in
      if ValidateDomain p \<noteq> None \<or> ValidateDomain q \<noteq> None \<or> p = q then Inl NameserversNotDistinct
      else
        let kept = filter (\<lambda>tr. \<not> root_ns tr \<and>
              \<not> (Tr_StableKey tr = ''ns1-a'' \<and> Tr_HostTemplate tr = ''ns1'' \<and> Tr_ValueTemplate tr = ''<ip.dns>''))
              (Rv_Records t);
            t' = t\<lparr>Rv_Records := kept @ [ns_record ''primary-ns'' p, ns_record ''secondary-ns'' q],
                   Rv_SOA := (Rv_SOA t)\<lparr>So_PrimaryNameserver := p\<rparr>\<rparr> in
        (case validateTemplateRevision mo uc t' of Some e \<Rightarrow> Inl e | None \<Rightarrow> Inr t'))"

definition providerDefaults :: "DNSTemplateRevision \<Rightarrow> DNSProviderDefaults" where
  "providerDefaults t =
     (let p = So_PrimaryNameserver (Rv_SOA t) in
      \<lparr>Pd_PrimaryNameserver = p,
       Pd_SecondaryNameserver =
         (case find (\<lambda>tr. root_ns tr \<and> Tr_ValueTemplate tr \<noteq> p) (Rv_Records t) of
            None \<Rightarrow> [] | Some tr \<Rightarrow> Tr_ValueTemplate tr)\<rparr>)"

section \<open>Zone serials\<close>

text \<open>
  \<open>today\<close> is the date as the decimal number YYYYMMDD and \<open>unix\<close> the time in seconds. The second and
  third test on a date counter overlap in the code; they are kept in its order.
\<close>

definition nextDNSSerial :: "int \<Rightarrow> int \<Rightarrow> int \<Rightarrow> string \<Rightarrow> template_error + int" where
  "nextDNSSerial today unix previous format =
     (let base = today * 100 in
      case (if format = ''date-counter'' then
              (if previous \<ge> base \<and> previous < wrap64 (base + 99) then Inr (wrap64 (previous + 1))
               else if previous \<ge> wrap64 (base + 99) \<and> previous < wrap64 (base + 100) then Inl SerialExhausted
               else if previous > base then Inr (wrap64 (previous + 1))
               else Inr base)
            else Inr (if unix \<le> previous then wrap64 (previous + 1) else unix)) of
        Inl e \<Rightarrow> Inl e
      | Inr serial \<Rightarrow> if serial < 1 \<or> serial > 2 ^ 32 - 1 then Inl SerialOutOfRange else Inr serial)"

end
