(* ===== verification/Dns_Plan.thy ===== *)
theory Dns_Plan
  imports Dns_Template
begin

text \<open>
  Synchronising a zone with the template: the comparison that plans additions, updates, removals and
  adoptions (\<open>compareZone\<close>, \<open>compareWholeZone\<close> and their helpers in \<open>dnstemplate/manager.go\<close>), the
  records of configured services (\<open>dnstemplate/service_defaults.go\<close>, \<open>provision/dns_services.go\<close>) and
  the check of the planned zone. Maps from record ids are HOL maps; the counters are
  bounded by the number of records and do not wrap.
\<close>

section \<open>Snapshots and plans\<close>

record DNSServiceState =
  Ss_FTPS :: bool
  Ss_Webmail :: bool

record siteExpansion =
  Se_Domain :: string
  Se_Subdomain :: string
  Se_Services :: "DNSServiceState option"

record zoneSnapshot =
  Zs_ID :: int
  Zs_SiteID :: int
  Zs_Domain :: string
  Zs_Address :: string
  Zs_IPv6Address :: string
  Zs_TemplateRevision :: int
  Zs_Status :: string
  Zs_Records :: "DNSRecord list"
  Zs_AuthoritativeSiteID :: int
  Zs_SuppressedKeys :: "(int \<times> string) list"
  Zs_Hostname :: string
  Zs_AdoptMatching :: bool
  Zs_Services :: "DNSServiceState option"
  Zs_SubdomainSite :: "(int \<times> siteExpansion) list"

definition expansionForSite :: "zoneSnapshot \<Rightarrow> int \<Rightarrow> expansionContext" where
  "expansionForSite z site =
     \<lparr>Ex_domain = Zs_Domain z,
      Ex_subdomain = (case map_of (Zs_SubdomainSite z) site of None \<Rightarrow> [] | Some e \<Rightarrow> Se_Subdomain e),
      Ex_hostname = Zs_Hostname z, Ex_ipv4 = Zs_Address z, Ex_ipv6 = Zs_IPv6Address z\<rparr>"

definition suppressed :: "zoneSnapshot \<Rightarrow> string \<Rightarrow> bool" where
  "suppressed z key \<longleftrightarrow> (Zs_SiteID z, key) \<in> set (Zs_SuppressedKeys z)"

record DNSSyncItem =
  It_Outcome :: string
  It_AddedCount :: int
  It_UpdatedCount :: int
  It_RemovedCount :: int
  It_OverrideCount :: int
  It_ConflictCount :: int
  It_AdoptedCount :: int
  It_Detail :: string

record zonePlan =
  Zp_item :: DNSSyncItem
  Zp_add :: "DNSRecord list"
  Zp_update :: "int \<rightharpoonup> DNSRecord"
  Zp_remove :: "int list"
  Zp_adopt :: "int \<rightharpoonup> DNSRecord"
  Zp_settingsChanged :: bool
  Zp_retryConvergence :: bool

definition empty_item :: DNSSyncItem where
  "empty_item = \<lparr>It_Outcome = [], It_AddedCount = 0, It_UpdatedCount = 0, It_RemovedCount = 0, It_OverrideCount = 0,
     It_ConflictCount = 0, It_AdoptedCount = 0, It_Detail = []\<rparr>"

definition empty_plan :: zonePlan where
  "empty_plan = \<lparr>Zp_item = empty_item, Zp_add = [], Zp_update = Map.empty, Zp_remove = [], Zp_adopt = Map.empty,
     Zp_settingsChanged = False, Zp_retryConvergence = False\<rparr>"

definition plan_override :: "zonePlan \<Rightarrow> zonePlan" where
  "plan_override p = p\<lparr>Zp_item := (Zp_item p)\<lparr>It_OverrideCount := It_OverrideCount (Zp_item p) + 1\<rparr>\<rparr>"

definition plan_conflict :: "zonePlan \<Rightarrow> zonePlan" where
  "plan_conflict p = p\<lparr>Zp_item := (Zp_item p)\<lparr>It_ConflictCount := It_ConflictCount (Zp_item p) + 1\<rparr>\<rparr>"

definition plan_touch :: "zonePlan \<Rightarrow> zonePlan" where
  "plan_touch p = p\<lparr>Zp_item := (Zp_item p)\<lparr>It_UpdatedCount := It_UpdatedCount (Zp_item p) + 1\<rparr>\<rparr>"

definition plan_update :: "int \<Rightarrow> DNSRecord \<Rightarrow> zonePlan \<Rightarrow> zonePlan" where
  "plan_update i r p = plan_touch (p\<lparr>Zp_update := (Zp_update p)(i \<mapsto> r)\<rparr>)"

definition plan_adopt :: "int \<Rightarrow> DNSRecord \<Rightarrow> zonePlan \<Rightarrow> zonePlan" where
  "plan_adopt i r p =
     p\<lparr>Zp_adopt := (Zp_adopt p)(i \<mapsto> r),
       Zp_item := (Zp_item p)\<lparr>It_AdoptedCount := It_AdoptedCount (Zp_item p) + 1\<rparr>\<rparr>"

definition plan_add :: "DNSRecord \<Rightarrow> zonePlan \<Rightarrow> zonePlan" where
  "plan_add r p =
     p\<lparr>Zp_add := Zp_add p @ [r], Zp_item := (Zp_item p)\<lparr>It_AddedCount := It_AddedCount (Zp_item p) + 1\<rparr>\<rparr>"

definition plan_remove :: "int \<Rightarrow> zonePlan \<Rightarrow> zonePlan" where
  "plan_remove i p =
     p\<lparr>Zp_remove := Zp_remove p @ [i], Zp_item := (Zp_item p)\<lparr>It_RemovedCount := It_RemovedCount (Zp_item p) + 1\<rparr>\<rparr>"

section \<open>Looking for records\<close>

definition apex_conflict :: "DNSRecord \<Rightarrow> DNSRecord \<Rightarrow> bool" where
  "apex_conflict r wanted \<longleftrightarrow>
     Dr_Type r = ''CNAME'' \<or> Dr_Type wanted = ''CNAME'' \<or>
     (Dr_Type r = Dr_Type wanted \<and> Dr_Type r \<noteq> ''NS'' \<and> Dr_Type r \<noteq> ''TXT'')"

fun system_scan :: "unicode_case \<Rightarrow> DNSRecord \<Rightarrow> bool \<Rightarrow> DNSRecord list \<Rightarrow> bool \<times> bool" where
  "system_scan uc wanted conflict [] = (False, conflict)"
| "system_scan uc wanted conflict (r # rs) =
     (if Dr_Origin r \<noteq> ''system'' then system_scan uc wanted conflict rs
      else if recordsEqual uc r wanted then (True, False)
      else system_scan uc wanted
        (conflict \<or> recordsSameRData uc r wanted \<or>
         (EqualFold uc (Dr_Host r) (Dr_Host wanted) \<and> apex_conflict r wanted)) rs)"

definition systemRecordDisposition :: "unicode_case \<Rightarrow> DNSRecord list \<Rightarrow> DNSRecord \<Rightarrow> bool \<times> bool" where
  "systemRecordDisposition uc rs wanted = system_scan uc wanted False rs"

definition spf_value :: "unicode_case \<Rightarrow> string \<Rightarrow> bool" where
  "spf_value uc v \<longleftrightarrow> HasPrefix (ToLower uc (TrimSpace v)) ''v=spf1''"

definition preserveMailRouting :: "unicode_case \<Rightarrow> DNSRecord list \<Rightarrow> DNSRecord \<Rightarrow> bool" where
  "preserveMailRouting uc rs wanted \<longleftrightarrow>
     (\<exists>r \<in> set rs.
        \<not> (Dr_Origin r = ''template'' \<and> \<not> Dr_LocallyModified r) \<and> EqualFold uc (Dr_Host r) (Dr_Host wanted) \<and>
        Dr_Type r = Dr_Type wanted \<and>
        (Dr_Type wanted = ''MX'' \<or>
         (Dr_Type wanted = ''TXT'' \<and>
           ((spf_value uc (Dr_Value wanted) \<and> spf_value uc (Dr_Value r)) \<or>
            Contains (ToLower uc (Dr_Host wanted)) ''_domainkey'' \<or> EqualFold uc (Dr_Host wanted) ''_dmarc'' \<or>
            HasPrefix (ToLower uc (Dr_Host wanted)) ''_dmarc.''))))"

fun equivalent_scan :: "unicode_case \<Rightarrow> DNSRecord \<Rightarrow> int \<Rightarrow> bool \<Rightarrow> DNSRecord list \<Rightarrow> DNSRecord \<times> bool" where
  "equivalent_scan uc wanted owner conflict [] = (zero_record, conflict)"
| "equivalent_scan uc wanted owner conflict (r # rs) =
     (if Dr_Origin r = ''system'' then equivalent_scan uc wanted owner conflict rs
      else
        let sameOwner = Dr_OwnerSiteID r = 0 \<or> Dr_OwnerSiteID r = owner in
        if sameOwner \<and> recordsEqual uc r wanted then (r, False)
        else equivalent_scan uc wanted owner
          (conflict \<or> (sameOwner \<and> recordsSameRData uc r wanted) \<or>
           (EqualFold uc (Dr_Host r) (Dr_Host wanted) \<and>
             (Dr_Type r = ''CNAME'' \<or> Dr_Type wanted = ''CNAME'' \<or>
              (Dr_Type r = Dr_Type wanted \<and> Dr_Type r \<noteq> ''TXT'' \<and> Dr_Origin r = ''custom'')))) rs)"

definition findEquivalent :: "unicode_case \<Rightarrow> DNSRecord list \<Rightarrow> DNSRecord \<Rightarrow> int \<Rightarrow> DNSRecord \<times> bool" where
  "findEquivalent uc rs wanted owner = equivalent_scan uc wanted owner False rs"

definition canAdoptDNSRecord :: "unicode_case \<Rightarrow> DNSRecord list \<Rightarrow> DNSRecord \<Rightarrow> DNSRecord \<Rightarrow> bool" where
  "canAdoptDNSRecord uc rs match wanted \<longleftrightarrow>
     Dr_Origin match = ''custom'' \<and>
     list_all (\<lambda>r. Dr_ID r = Dr_ID match \<or> \<not> EqualFold uc (Dr_Host r) (Dr_Host wanted) \<or>
       \<not> (Dr_Type r = ''CNAME'' \<or> (Dr_Type r = Dr_Type wanted \<and> Dr_Type r \<noteq> ''TXT'' \<and> \<not> recordsEqual uc r wanted))) rs"

section \<open>Service records\<close>

definition service_record :: "string \<Rightarrow> string \<Rightarrow> string \<Rightarrow> string \<Rightarrow> DNSRecord" where
  "service_record address pre host key =
     zero_record\<lparr>Dr_Host := (if pre \<noteq> [] then host @ ''.'' @ pre else host), Dr_Type := ''A'',
       Dr_Value := address, Dr_TTL := 3600, Dr_Origin := ''system'', Dr_TemplateRecordKey := ''service-'' @ key\<rparr>"

fun nameserver_hosts :: "unicode_case \<Rightarrow> string \<Rightarrow> string list \<Rightarrow> DNSRecord list \<Rightarrow> string list" where
  "nameserver_hosts uc domain seen [] = []"
| "nameserver_hosts uc domain seen (r # rs) =
     (if Dr_Host r \<noteq> ''@'' \<or> Dr_Type r \<noteq> ''NS'' then nameserver_hosts uc domain seen rs
      else
        let name = TrimSuffix (ToLower uc (Dr_Value r)) ''.''; host = TrimSuffix name (''.'' @ ToLower uc domain) in
        if host = name \<or> host = [] \<or> host \<in> set seen then nameserver_hosts uc domain seen rs
        else host # nameserver_hosts uc domain (host # seen) rs)"

definition DNSServiceDefaults :: "unicode_case \<Rightarrow> string \<Rightarrow> string \<Rightarrow> string \<Rightarrow> DNSRecord list \<Rightarrow> bool \<Rightarrow> bool \<Rightarrow> DNSRecord list" where
  "DNSServiceDefaults uc domain address pre rs ftps webmail =
     (if ftps then [service_record address pre ''ftp'' ''ftp''] else []) @
     (if webmail then [service_record address pre ''webmail'' ''webmail''] else []) @
     (if pre = [] then map (\<lambda>h. service_record address pre h (''nameserver-'' @ h)) (nameserver_hosts uc domain [] rs)
      else [])"

definition mail_key :: "DNSRecord \<Rightarrow> string" where
  "mail_key r = Join [Dr_Host r, Dr_Type r, Dr_Value r, Itoa (Dr_Priority r), Itoa (Dr_TTL r)] [CHR 0x00]"

fun consume_keys :: "(string \<Rightarrow> nat) \<Rightarrow> DNSRecord list \<Rightarrow> bool" where
  "consume_keys seen [] = True"
| "consume_keys seen (r # rs) =
     (if seen (mail_key r) = 0 then False else consume_keys (seen(mail_key r := seen (mail_key r) - 1)) rs)"

definition mailRecordSetsEqual :: "DNSRecord list \<Rightarrow> DNSRecord list \<Rightarrow> bool" where
  "mailRecordSetsEqual current desired =
     (if length current \<noteq> length desired then False
      else consume_keys (\<lambda>k. count_list (map mail_key current) k) desired)"

definition serviceDNSConflict :: "unicode_case \<Rightarrow> DNSRecord \<Rightarrow> DNSRecord \<Rightarrow> bool" where
  "serviceDNSConflict uc r wanted =
     (if Dr_Type r = ''CNAME'' \<or> Dr_Type wanted = ''CNAME'' then True
      else if Dr_Type r \<noteq> Dr_Type wanted then False
      else if Dr_Type r \<noteq> ''TXT'' then True
      else if EqualFold uc (Dr_Host r) ''_dmarc'' \<or> HasPrefix (ToLower uc (Dr_Host r)) ''_dmarc.'' then True
      else if \<exists>pre \<in> {''v=spf1'', ''v=dmarc1''}.
          HasPrefix (ToLower uc (TrimSpace (Dr_Value r))) pre \<and>
          HasPrefix (ToLower uc (TrimSpace (Dr_Value wanted))) pre then True
      else Contains (ToLower uc (Dr_Host r)) ''_domainkey'' \<or> Dr_Value r = Dr_Value wanted)"

definition IsEndpointDNSRecord :: "DNSRecord \<Rightarrow> bool" where
  "IsEndpointDNSRecord r \<longleftrightarrow>
     Dr_Origin r = ''system'' \<and>
     (HasPrefix (Dr_TemplateRecordKey r) ''service-'' \<or>
      (Dr_Type r = ''A'' \<and> (Dr_Host r = ''ns1'' \<or> Dr_Host r = ''webmail'' \<or> Dr_Host r = ''ftp'')))"

definition blocked :: "unicode_case \<Rightarrow> (DNSRecord \<Rightarrow> bool) \<Rightarrow> DNSRecord list \<Rightarrow> DNSRecord \<Rightarrow> bool" where
  "blocked uc owns current wanted \<longleftrightarrow>
     (\<exists>r \<in> set current. \<not> owns r \<and> EqualFold uc (Dr_Host r) (Dr_Host wanted) \<and> serviceDNSConflict uc r wanted)"

definition PlanServiceDNSRecords :: "unicode_case \<Rightarrow> DNSRecord list \<Rightarrow> DNSRecord list \<Rightarrow> (DNSRecord \<Rightarrow> bool) \<Rightarrow>
    DNSRecord list \<times> int list \<times> int" where
  "PlanServiceDNSRecords uc current desired owns =
     (let allowed = filter (\<lambda>w. \<not> blocked uc owns current w) desired in
      (filter (\<lambda>w. \<not> (\<exists>r \<in> set current. owns r \<and> mailRecordSetsEqual [r] [w])) allowed,
       map Dr_ID (filter (\<lambda>r. owns r \<and> \<not> (\<exists>w \<in> set allowed. mailRecordSetsEqual [r] [w])) current),
       int (length (filter (blocked uc owns current) desired))))"

section \<open>The comparison\<close>

definition mine :: "zoneSnapshot \<Rightarrow> DNSRecord \<Rightarrow> bool" where
  "mine z r \<longleftrightarrow> Dr_OwnerSiteID r = 0 \<or> Dr_OwnerSiteID r = Zs_SiteID z"

text \<open>The zone after the plan's removals, updates and additions.\<close>

definition planned_zone :: "zoneSnapshot \<Rightarrow> zonePlan \<Rightarrow> DNSRecord list" where
  "planned_zone z p =
     map (\<lambda>r. case Zp_update p (Dr_ID r) of Some x \<Rightarrow> x | None \<Rightarrow> r)
       (filter (\<lambda>r. Dr_ID r \<notin> set (Zp_remove p)) (Zs_Records z)) @ Zp_add p"

fun adopt_services :: "unicode_case \<Rightarrow> zoneSnapshot \<Rightarrow> DNSRecord list \<Rightarrow> DNSRecord list \<Rightarrow> DNSRecord list \<Rightarrow> zonePlan \<Rightarrow>
    DNSRecord list \<times> zonePlan" where
  "adopt_services uc z wanted seen [] p = (seen, p)"
| "adopt_services uc z wanted seen (r # rs) p =
     (if Dr_Origin r \<noteq> ''custom'' \<or> \<not> mine z r then adopt_services uc z wanted (seen @ [r]) rs p
      else
        (case find (\<lambda>v. recordsEqual uc r v \<and> canAdoptDNSRecord uc (seen @ r # rs) r v) wanted of
           None \<Rightarrow> adopt_services uc z wanted (seen @ [r]) rs p
         | Some v \<Rightarrow>
             let v' = v\<lparr>Dr_ID := Dr_ID r\<rparr> in
             adopt_services uc z wanted (seen @ [v']) rs
               (if Zp_adopt p (Dr_ID r) = None then plan_adopt (Dr_ID r) v' p
                else p\<lparr>Zp_adopt := (Zp_adopt p)(Dr_ID r \<mapsto> v')\<rparr>)))"

definition service_wanted :: "unicode_case \<Rightarrow> zoneSnapshot \<Rightarrow> DNSServiceState \<Rightarrow> DNSRecord list \<Rightarrow> DNSRecord list" where
  "service_wanted uc z st candidate =
     DNSServiceDefaults uc (Zs_Domain z) (Zs_Address z) (Ex_subdomain (expansionForSite z (Zs_SiteID z))) candidate
       (Ss_FTPS st) (Ss_Webmail st)"

definition service_suppressed :: "zoneSnapshot \<Rightarrow> DNSRecord \<Rightarrow> bool" where
  "service_suppressed z r \<longleftrightarrow>
     suppressed z (TrimSuffix (Dr_Host r) (''.'' @ Ex_subdomain (expansionForSite z (Zs_SiteID z))) @ ''-a'')"

definition owns_endpoint :: "zoneSnapshot \<Rightarrow> DNSRecord \<Rightarrow> bool" where
  "owns_endpoint z r \<longleftrightarrow> mine z r \<and> IsEndpointDNSRecord r"

definition withServiceDefaults :: "unicode_case \<Rightarrow> zoneSnapshot \<Rightarrow> zonePlan \<Rightarrow> zonePlan" where
  "withServiceDefaults uc z p =
     (case Zs_Services z of
        None \<Rightarrow> p
      | Some st \<Rightarrow>
          let candidate = planned_zone z p;
              desired = service_wanted uc z st candidate;
              skipped = filter (service_suppressed z) desired;
              wanted = map (\<lambda>r. r\<lparr>Dr_OwnerSiteID := Zs_SiteID z\<rparr>) (filter (\<lambda>r. \<not> service_suppressed z r) desired);
              p1 = p\<lparr>Zp_item := (Zp_item p)\<lparr>It_OverrideCount := It_OverrideCount (Zp_item p) + int (length skipped)\<rparr>\<rparr>;
              (candidate', p2) = (if Zs_AdoptMatching z then adopt_services uc z wanted [] candidate p1
                                  else (candidate, p1));
              (new, gone, preserved) = PlanServiceDNSRecords uc candidate' wanted (owns_endpoint z) in
          p2\<lparr>Zp_add := Zp_add p2 @ new, Zp_remove := Zp_remove p2 @ gone,
             Zp_item := (Zp_item p2)\<lparr>It_AddedCount := It_AddedCount (Zp_item p2) + int (length new),
               It_RemovedCount := It_RemovedCount (Zp_item p2) + int (length gone),
               It_OverrideCount := It_OverrideCount (Zp_item p2) + preserved\<rparr>\<rparr>)"

definition outcome :: "DNSSyncItem \<Rightarrow> string" where
  "outcome it =
     (if It_ConflictCount it > 0 then ''conflict''
      else if It_OverrideCount it > 0 then ''overridden''
      else if It_AddedCount it > 0 then ''added''
      else if It_UpdatedCount it > 0 then ''updated''
      else if It_RemovedCount it > 0 then ''removed''
      else if It_AdoptedCount it > 0 then ''updated''
      else ''unchanged'')"

definition finalizeZonePlan :: "zonePlan \<Rightarrow> zonePlan" where
  "finalizeZonePlan p =
     (let it = Zp_item p; part = (\<lambda>n text. if n > 0 then [Itoa n @ text] else []) in
      p\<lparr>Zp_item := it\<lparr>It_Outcome := outcome it,
        It_Detail := Join (part (It_AddedCount it) '' add'' @ part (It_UpdatedCount it) '' update'' @
          part (It_RemovedCount it) '' remove'' @ part (It_OverrideCount it) '' override preserved'' @
          part (It_AdoptedCount it) '' adopt (values unchanged)'' @ part (It_ConflictCount it) '' conflict'') '', ''\<rparr>\<rparr>)"

definition cleared_plan :: "zonePlan \<Rightarrow> string \<Rightarrow> zonePlan" where
  "cleared_plan p text =
     p\<lparr>Zp_add := [], Zp_update := Map.empty, Zp_remove := [], Zp_adopt := Map.empty,
       Zp_item := (Zp_item p)\<lparr>It_AddedCount := 0, It_UpdatedCount := 0, It_RemovedCount := 0, It_AdoptedCount := 0,
         It_ConflictCount := It_ConflictCount (Zp_item p) + 1, It_Detail := text\<rparr>\<rparr>"

text \<open>\<open>message\<close> renders an error as text.\<close>

definition validateZonePlan :: "(string list \<Rightarrow> string list) \<Rightarrow> unicode_case \<Rightarrow> (dns_error \<Rightarrow> string) \<Rightarrow>
    zoneSnapshot \<Rightarrow> zonePlan \<Rightarrow> zonePlan" where
  "validateZonePlan mo uc message z p =
     finalizeZonePlan (case validateDNSRecordSet mo uc (planned_zone z p) of
        None \<Rightarrow> p | Some e \<Rightarrow> cleared_plan p (message e))"

definition by_key :: "zoneSnapshot \<Rightarrow> string \<rightharpoonup> DNSRecord" where
  "by_key z =
     foldl (\<lambda>m r. if mine z r \<and> Dr_Origin r = ''template'' \<and> Dr_TemplateRecordKey r \<noteq> []
       then m(Dr_TemplateRecordKey r \<mapsto> r) else m) Map.empty (Zs_Records z)"

definition place_new :: "unicode_case \<Rightarrow> zoneSnapshot \<Rightarrow> DNSRecord \<Rightarrow> zonePlan \<Rightarrow> zonePlan" where
  "place_new uc z e p =
     (case systemRecordDisposition uc (Zs_Records z) e of (satisfied, sysConflict) \<Rightarrow>
      if satisfied then p
      else if sysConflict then plan_override p
      else
        (case findEquivalent uc (Zs_Records z) e (Zs_SiteID z) of (eq, conflict) \<Rightarrow>
         if Dr_ID eq > 0 then
           (if Zs_AdoptMatching z \<and> canAdoptDNSRecord uc (Zs_Records z) eq e
            then plan_adopt (Dr_ID eq) (e\<lparr>Dr_ID := Dr_ID eq\<rparr>) p
            else if \<not> recordsEqual uc eq e \<or> \<not> canAdoptDNSRecord uc (Zs_Records z) eq e then plan_override p
            else p)
         else if conflict then plan_override p
         else plan_add e p))"

definition place_record :: "unicode_case \<Rightarrow> zoneSnapshot \<Rightarrow> string \<Rightarrow> DNSRecord \<Rightarrow> zonePlan \<Rightarrow> zonePlan" where
  "place_record uc z key e p =
     (if preserveMailRouting uc (Zs_Records z) e then plan_override p
      else
        (case by_key z key of
           Some x \<Rightarrow>
             if Dr_LocallyModified x then plan_override p
             else if \<not> recordsEqual uc x e then plan_update (Dr_ID x) (e\<lparr>Dr_ID := Dr_ID x\<rparr>) p
             else p
         | None \<Rightarrow> place_new uc z e p))"

definition compare_step :: "(string list \<Rightarrow> string list) \<Rightarrow> unicode_case \<Rightarrow> DNSTemplateRevision \<Rightarrow> zoneSnapshot \<Rightarrow>
    zonePlan \<times> string list \<Rightarrow> DNSTemplateRecord \<Rightarrow> zonePlan \<times> string list" where
  "compare_step mo uc t z st tr =
     (case st of (p, wanted) \<Rightarrow>
      if suppressed z (Tr_StableKey tr) then (plan_override p, wanted)
      else
        (case expandTemplateRecord mo uc tr (expansionForSite z (Zs_SiteID z)) of
           Inl _ \<Rightarrow> (plan_conflict p, wanted)
         | Inr None \<Rightarrow> (p, wanted)
         | Inr (Some r) \<Rightarrow>
             (place_record uc z (Tr_StableKey tr)
                (r\<lparr>Dr_OwnerSiteID := Zs_SiteID z, Dr_TemplateRevision := Rv_Revision t\<rparr>) p,
              Tr_StableKey tr # wanted)))"

definition remove_step :: "zoneSnapshot \<Rightarrow> string list \<Rightarrow> zonePlan \<Rightarrow> DNSRecord \<Rightarrow> zonePlan" where
  "remove_step z wanted p r =
     (if \<not> mine z r then p
      else if Dr_Origin r \<noteq> ''template'' \<or> Dr_TemplateRecordKey r \<in> set wanted then p
      else if Dr_LocallyModified r then plan_override p
      else plan_remove (Dr_ID r) p)"

definition start_plan :: "DNSTemplateRevision \<Rightarrow> zoneSnapshot \<Rightarrow> zonePlan" where
  "start_plan t z =
     (let own = Zs_SiteID z = Zs_AuthoritativeSiteID z;
          p1 = (if own \<and> Zs_TemplateRevision z \<noteq> Rv_Revision t then plan_touch (empty_plan\<lparr>Zp_settingsChanged := True\<rparr>)
                else empty_plan) in
      if own \<and> Zs_Status z = ''failed'' then
        (let p2 = p1\<lparr>Zp_retryConvergence := True\<rparr> in if \<not> Zp_settingsChanged p1 then plan_touch p2 else p2)
      else p1)"

definition compareZone :: "(string list \<Rightarrow> string list) \<Rightarrow> unicode_case \<Rightarrow> (dns_error \<Rightarrow> string) \<Rightarrow>
    DNSTemplateRevision \<Rightarrow> zoneSnapshot \<Rightarrow> zonePlan" where
  "compareZone mo uc message t z =
     (case foldl (compare_step mo uc t z) (start_plan t z, []) (Rv_Records t) of (p, wanted) \<Rightarrow>
      validateZonePlan mo uc message z
        (withServiceDefaults uc z (foldl (remove_step z wanted) p (Zs_Records z))))"

definition mergeZonePlan :: "zonePlan \<Rightarrow> zonePlan \<Rightarrow> zonePlan" where
  "mergeZonePlan a b =
     (let i = Zp_item a; j = Zp_item b in
      a\<lparr>Zp_add := Zp_add a @ Zp_add b, Zp_remove := Zp_remove a @ Zp_remove b,
        Zp_update := Zp_update a ++ Zp_update b, Zp_adopt := Zp_adopt a ++ Zp_adopt b,
        Zp_item := i\<lparr>It_AddedCount := It_AddedCount i + It_AddedCount j,
          It_UpdatedCount := It_UpdatedCount i + It_UpdatedCount j, It_RemovedCount := It_RemovedCount i + It_RemovedCount j,
          It_OverrideCount := It_OverrideCount i + It_OverrideCount j,
          It_ConflictCount := It_ConflictCount i + It_ConflictCount j, It_AdoptedCount := It_AdoptedCount i + It_AdoptedCount j\<rparr>,
        Zp_settingsChanged := Zp_settingsChanged a \<or> Zp_settingsChanged b,
        Zp_retryConvergence := Zp_retryConvergence a \<or> Zp_retryConvergence b\<rparr>)"

definition child_zone :: "zoneSnapshot \<Rightarrow> int \<Rightarrow> zoneSnapshot" where
  "child_zone z site =
     z\<lparr>Zs_SiteID := site,
       Zs_Services := (case map_of (Zs_SubdomainSite z) site of None \<Rightarrow> None | Some e \<Rightarrow> Se_Services e)\<rparr>"

definition compareWholeZone :: "(string list \<Rightarrow> string list) \<Rightarrow> unicode_case \<Rightarrow> (dns_error \<Rightarrow> string) \<Rightarrow>
    DNSTemplateRevision \<Rightarrow> zoneSnapshot \<Rightarrow> zonePlan" where
  "compareWholeZone mo uc message t z =
     validateZonePlan mo uc message z
       (foldl (\<lambda>p site. mergeZonePlan p (compareZone mo uc message t (child_zone z site)))
         (mergeZonePlan empty_plan (compareZone mo uc message t z))
         (sort (remdups (map fst (Zs_SubdomainSite z)))))"

definition zonePlanForApply :: "(string list \<Rightarrow> string list) \<Rightarrow> unicode_case \<Rightarrow> (dns_error \<Rightarrow> string) \<Rightarrow>
    DNSTemplateRevision \<Rightarrow> zoneSnapshot \<Rightarrow> bool \<Rightarrow> zonePlan" where
  "zonePlanForApply mo uc message t z partialOwnerApply =
     (if partialOwnerApply then compareZone mo uc message t z else compareWholeZone mo uc message t z)"

end
