(* ===== verification/Dns_Expansion.thy ===== *)
theory Dns_Expansion
  imports Dns_Template
begin

text \<open>
  Facts about DNS templates: the chain of substitutions in \<open>expandPlaceholders\<close> is one simultaneous
  substitution of tags, in whatever order the map of replacements is traversed; nameserver defaults
  read back as they were set; zone serials only grow and stay within 32 bits.
\<close>

section \<open>Tag substitution\<close>

definition no_brackets :: "string \<Rightarrow> bool" where
  "no_brackets s \<longleftrightarrow> CHR ''<'' \<notin> set s \<and> CHR ''>'' \<notin> set s"

lemma subst_tags_copy: "CHR ''<'' \<notin> set r \<Longrightarrow> subst_tags f (r @ s) = r @ subst_tags f s"
  by (induction r) auto

lemma takeWhile_tag: "CHR ''>'' \<notin> set t \<Longrightarrow> takeWhile (\<lambda>d. d \<noteq> CHR ''>'') (t @ CHR ''>'' # s) = t"
  by (induction t) auto

lemma dropWhile_tag: "CHR ''>'' \<notin> set t \<Longrightarrow> dropWhile (\<lambda>d. d \<noteq> CHR ''>'') (t @ CHR ''>'' # s) = CHR ''>'' # s"
  by (induction t) auto

lemma subst_tags_tag:
  assumes "no_brackets t"
  shows "subst_tags f (CHR ''<'' # t @ CHR ''>'' # s) =
    (case f t of Some r \<Rightarrow> r | None \<Rightarrow> CHR ''<'' # t @ [CHR ''>'']) @ subst_tags f s"
  using assms subst_tags_copy [of "t @ [CHR ''>'']" f s]
  by (simp add: no_brackets_def takeWhile_tag dropWhile_tag split: option.split)

text \<open>Strings in which every angle bracket belongs to a placeholder.\<close>

inductive tagged :: "(string \<Rightarrow> bool) \<Rightarrow> string \<Rightarrow> bool" for ok where
  empty: "tagged ok []"
| plain: "tagged ok s \<Longrightarrow> c \<noteq> CHR ''<'' \<Longrightarrow> c \<noteq> CHR ''>'' \<Longrightarrow> tagged ok (c # s)"
| tag: "tagged ok s \<Longrightarrow> ok t \<Longrightarrow> no_brackets t \<Longrightarrow> tagged ok (CHR ''<'' # t @ CHR ''>'' # s)"

lemma tag_split:
  assumes "CHR ''>'' \<in> set cs"
  shows "cs = takeWhile (\<lambda>d. d \<noteq> CHR ''>'') cs @ CHR ''>'' # tl (dropWhile (\<lambda>d. d \<noteq> CHR ''>'') cs)"
  using assms by (induction cs) auto

lemma stripped_tagged:
  assumes "no_brackets (subst_tags (\<lambda>t. if ok t then Some [] else None) s)"
    and "\<And>t. ok t \<Longrightarrow> CHR ''<'' \<notin> set t"
  shows "tagged ok s"
  using assms(1)
proof (induction "\<lambda>t. if ok t then Some ([]::string) else None" s rule: subst_tags.induct)
  case 1
  then show ?case by (simp add: tagged.empty)
next
  case (2 c cs)
  let ?t = "takeWhile (\<lambda>d. d \<noteq> CHR ''>'') cs" and ?rest = "tl (dropWhile (\<lambda>d. d \<noteq> CHR ''>'') cs)"
  show ?case
  proof (cases "c = CHR ''<'' \<and> CHR ''>'' \<in> set cs \<and> ok ?t")
    case True
    then have "tagged ok ?rest" using 2 by simp
    moreover have "no_brackets ?t" using True assms(2) by (auto simp: no_brackets_def dest: set_takeWhileD)
    ultimately have "tagged ok (CHR ''<'' # ?t @ CHR ''>'' # ?rest)" using True by (blast intro: tagged.tag)
    moreover have "CHR ''<'' # ?t @ CHR ''>'' # ?rest = c # cs" using True tag_split [of cs] by simp
    ultimately show ?thesis by metis
  next
    case False
    then have step: "subst_tags (\<lambda>t. if ok t then Some [] else None) (c # cs) =
        c # subst_tags (\<lambda>t. if ok t then Some [] else None) cs" by auto
    then have c: "c \<noteq> CHR ''<''" "c \<noteq> CHR ''>''" using "2.prems" by (auto simp: no_brackets_def)
    then have "tagged ok cs" using 2 by (simp add: no_brackets_def)
    then show ?thesis using c by (rule tagged.plain)
  qed
qed

text \<open>On such strings two substitutions in a row are one.\<close>

lemma subst_tags_compose:
  assumes "tagged ok s" and "\<And>t r. f t = Some r \<Longrightarrow> CHR ''<'' \<notin> set r"
  shows "subst_tags g (subst_tags f s) = subst_tags (\<lambda>t. case f t of Some r \<Rightarrow> Some r | None \<Rightarrow> g t) s"
  using assms(1)
proof (induction rule: tagged.induct)
  case (tag s t)
  show ?case
  proof (cases "f t")
    case None
    then show ?thesis using tag by (simp add: subst_tags_tag del: subst_tags.simps)
  next
    case (Some r)
    then show ?thesis using tag assms(2) [OF Some]
      by (simp add: subst_tags_tag subst_tags_copy del: subst_tags.simps)
  qed
qed simp_all

lemma subst_tags_all:
  assumes "tagged ok s" and "\<And>t. ok t \<Longrightarrow> \<exists>r. f t = Some r \<and> no_brackets r"
  shows "no_brackets (subst_tags f s)"
  using assms(1)
proof (induction rule: tagged.induct)
  case (tag s t)
  then obtain r where "f t = Some r" "no_brackets r" using assms(2) by blast
  then show ?case using tag by (simp add: subst_tags_tag no_brackets_def del: subst_tags.simps)
qed (simp_all add: no_brackets_def)

lemma HasPrefix_tag:
  assumes "CHR ''>'' \<notin> set name"
  shows "HasPrefix (c # cs) (CHR ''<'' # name @ ''>'') \<longleftrightarrow>
    c = CHR ''<'' \<and> CHR ''>'' \<in> set cs \<and> takeWhile (\<lambda>d. d \<noteq> CHR ''>'') cs = name"
proof
  assume "HasPrefix (c # cs) (CHR ''<'' # name @ ''>'')"
  then obtain t where "c # cs = CHR ''<'' # name @ CHR ''>'' # t" by (auto simp: HasPrefix_iff)
  then show "c = CHR ''<'' \<and> CHR ''>'' \<in> set cs \<and> takeWhile (\<lambda>d. d \<noteq> CHR ''>'') cs = name"
    using takeWhile_tag [OF assms] by auto
next
  assume "c = CHR ''<'' \<and> CHR ''>'' \<in> set cs \<and> takeWhile (\<lambda>d. d \<noteq> CHR ''>'') cs = name"
  then show "HasPrefix (c # cs) (CHR ''<'' # name @ ''>'')"
    using tag_split [of cs] by (auto simp: HasPrefix_iff)
qed

text \<open>\<open>strings.ReplaceAll\<close> of a whole tag is a substitution.\<close>

lemma ReplaceAll_tag:
  assumes "CHR ''>'' \<notin> set name"
  shows "ReplaceAll (CHR ''<'' # name @ ''>'') new s = subst_tags (\<lambda>t. if t = name then Some new else None) s"
proof -
  let ?old = "CHR ''<'' # name @ ''>''"
  have "ReplaceAll ?old new s = subst_tags f s" if "f = (\<lambda>t. if t = name then Some new else None)" for f
    using that
  proof (induction f s rule: subst_tags.induct)
    case (1 f)
    then show ?case by (simp add: ReplaceAll.simps)
  next
    case (2 f c cs)
    let ?rest = "tl (dropWhile (\<lambda>d. d \<noteq> CHR ''>'') cs)"
    show ?case
    proof (cases "HasPrefix (c # cs) ?old")
      case True
      then have p: "c = CHR ''<'' \<and> CHR ''>'' \<in> set cs" "takeWhile (\<lambda>d. d \<noteq> CHR ''>'') cs = name"
        using HasPrefix_tag [OF assms] by auto
      then have found: "f (takeWhile (\<lambda>d. d \<noteq> CHR ''>'') cs) = Some new" using "2.prems" by simp
      have "drop (length ?old) (c # cs) = ?rest"
        using arg_cong [OF tag_split [OF p(1) [THEN conjunct2]], of "drop (Suc (length name))"] unfolding p(2) by simp
      then have "ReplaceAll ?old new (c # cs) = new @ ReplaceAll ?old new ?rest"
        using True by (simp add: ReplaceAll.simps [of _ _ "c # cs"])
      then show ?thesis using "2.IH"(2) [OF p(1) found "2.prems"] p(1) found by simp
    next
      case False
      then have no: "\<not> (c = CHR ''<'' \<and> CHR ''>'' \<in> set cs \<and> takeWhile (\<lambda>d. d \<noteq> CHR ''>'') cs = name)"
        using HasPrefix_tag [OF assms] by blast
      have "ReplaceAll ?old new (c # cs) = c # ReplaceAll ?old new cs"
        using False by (simp add: ReplaceAll.simps [of _ _ "c # cs"])
      moreover have "ReplaceAll ?old new cs = subst_tags f cs"
        using no "2.IH"(1,3) "2.prems" by (cases "c = CHR ''<'' \<and> CHR ''>'' \<in> set cs") auto
      ultimately show ?thesis using no "2.prems" by auto
    qed
  qed
  then show ?thesis by simp
qed

section \<open>Expansion\<close>

lemma placeholder_no_brackets: "MatchString placeholder t \<Longrightarrow> CHR ''<'' \<notin> set t"
proof
  assume "MatchString placeholder t" "CHR ''<'' \<in> set t"
  then have "re_chars placeholder CHR ''<''" using MatchString_chars by (auto simp: list_all_iff)
  then show False
    by (simp add: placeholder_def ip_tag_def ipv6_tag_def name_char_def is_lower_def is_digit_def byte_def)
qed

text \<open>What each tag stands for.\<close>

definition tag_value :: "expansionContext \<Rightarrow> string \<Rightarrow> string option" where
  "tag_value c t =
     (if t = ''domain'' then Some (Ex_domain c) else if t = ''subdomain'' then Some (Ex_subdomain c)
      else if t = ''hostname'' then Some (Ex_hostname c)
      else if MatchString ip_tag t then Some (Ex_ipv4 c)
      else if MatchString ipv6_tag t then Some (Ex_ipv6 c) else None)"

definition context_ok :: "expansionContext \<Rightarrow> bool" where
  "context_ok c \<longleftrightarrow> list_all no_brackets [Ex_domain c, Ex_subdomain c, Ex_hostname c, Ex_ipv4 c, Ex_ipv6 c]"

definition key_name :: "string \<Rightarrow> string" where
  "key_name k = butlast (tl k)"

lemma key_names:
  "k \<in> set replacement_keys \<Longrightarrow> k = CHR ''<'' # key_name k @ ''>'' \<and> CHR ''>'' \<notin> set (key_name k)"
  by (auto simp: replacement_keys_def key_name_def)

lemma replace_keys:
  assumes "tagged ok s" and "context_ok c" and "set ks \<subseteq> set replacement_keys"
    and "\<And>t r. f t = Some r \<Longrightarrow> CHR ''<'' \<notin> set r"
  shows "foldl (\<lambda>s k. ReplaceAll k (replacements c k) s) (subst_tags f s) ks =
    subst_tags (\<lambda>t. case f t of Some r \<Rightarrow> Some r
      | None \<Rightarrow> map_option (replacements c) (find (\<lambda>k. key_name k = t) ks)) s"
  using assms(3,4)
proof (induction ks arbitrary: f)
  case Nil
  have eq: "(\<lambda>t. case f t of Some r \<Rightarrow> Some r
      | None \<Rightarrow> map_option (replacements c) (find (\<lambda>k. key_name k = t) [])) = f"
    by (auto split: option.split)
  show ?case unfolding eq by simp
next
  case (Cons k ks)
  let ?g = "\<lambda>t. case f t of Some r \<Rightarrow> Some r | None \<Rightarrow> if t = key_name k then Some (replacements c k) else None"
  have clean: "CHR ''<'' \<notin> set (replacements c k)"
    using assms(2) by (simp add: context_ok_def replacements_def no_brackets_def)
  have "ReplaceAll k (replacements c k) (subst_tags f s) =
      subst_tags (\<lambda>t. if t = key_name k then Some (replacements c k) else None) (subst_tags f s)"
    using key_names [of k] ReplaceAll_tag [of "key_name k"] Cons.prems(1) by auto
  also have "\<dots> = subst_tags ?g s" using assms(1) Cons.prems(2) by (rule subst_tags_compose)
  finally have step: "ReplaceAll k (replacements c k) (subst_tags f s) = subst_tags ?g s" .
  have "foldl (\<lambda>s k. ReplaceAll k (replacements c k) s) (subst_tags ?g s) ks =
      subst_tags (\<lambda>t. case ?g t of Some r \<Rightarrow> Some r | None \<Rightarrow> map_option (replacements c) (find (\<lambda>k. key_name k = t) ks)) s"
    using Cons.prems clean by (intro Cons.IH) (auto split: option.split_asm if_split_asm)
  moreover have "(\<lambda>t. case ?g t of Some r \<Rightarrow> Some r | None \<Rightarrow> map_option (replacements c) (find (\<lambda>k. key_name k = t) ks)) =
      (\<lambda>t. case f t of Some r \<Rightarrow> Some r | None \<Rightarrow> map_option (replacements c) (find (\<lambda>k. key_name k = t) (k # ks)))"
    by (auto split: option.split)
  ultimately show ?case by (simp add: step)
qed

lemma subst_tags_none: "subst_tags (\<lambda>t. None) s = s"
proof -
  have "subst_tags f s = s" if "f = (\<lambda>t. None)" for f
    using that by (induction f s rule: subst_tags.induct) auto
  then show ?thesis by simp
qed

lemma find_key:
  assumes "map_order mo"
  shows "map_option (replacements c) (find (\<lambda>k. key_name k = t) (mo replacement_keys)) =
    (if t = ''domain'' then Some (Ex_domain c) else if t = ''subdomain'' then Some (Ex_subdomain c)
     else if t = ''hostname'' then Some (Ex_hostname c) else None)"
proof -
  have set_mo: "set (mo replacement_keys) = set replacement_keys" using assms by (simp add: map_order_def)
  have names: "key_name ''<domain>'' = ''domain''" "key_name ''<subdomain>'' = ''subdomain''"
    "key_name ''<hostname>'' = ''hostname''" by (simp_all add: key_name_def)
  show ?thesis
  proof (cases "find (\<lambda>k. key_name k = t) (mo replacement_keys)")
    case None
    then have "\<forall>k \<in> set replacement_keys. key_name k \<noteq> t" using set_mo by (auto simp: find_None_iff)
    then show ?thesis using None names by (auto simp: replacement_keys_def)
  next
    case (Some k)
    then have "k \<in> set replacement_keys" "key_name k = t"
      using set_mo by (auto simp: find_Some_iff dest: nth_mem)
    then show ?thesis using Some names by (auto simp: replacement_keys_def replacements_def)
  qed
qed

lemma literal_tags: "\<not> MatchString ip_tag ''domain''" "\<not> MatchString ip_tag ''subdomain''"
  "\<not> MatchString ip_tag ''hostname''" "\<not> MatchString ipv6_tag ''domain''" "\<not> MatchString ipv6_tag ''subdomain''"
  "\<not> MatchString ipv6_tag ''hostname''"
  by code_simp+

lemma validatePlaceholders_tagged:
  assumes "validatePlaceholders v = None"
  shows "tagged (MatchString placeholder) v"
proof (rule stripped_tagged)
  show "no_brackets (subst_tags (\<lambda>t. if MatchString placeholder t then Some [] else None) v)"
    using assms by (auto simp: validatePlaceholders_def replace_re_def ContainsAny_iff no_brackets_def)
qed (rule placeholder_no_brackets)


section \<open>Provider nameservers\<close>

lemma nameserver_name_id: "ValidateDomain p = None \<Longrightarrow> nameserver_name uc p = p"
  using NormalizeDomain_id [OF ValidateDomain_chars ValidateDomain_no_trailing_dot]
  by (simp add: nameserver_name_def NormalizeDomain_def)

lemma ns_record_simps [simp]:
  "root_ns (ns_record k v)" "Tr_ValueTemplate (ns_record k v) = v" "Tr_StableKey (ns_record k v) = k"
  by (simp_all add: ns_record_def root_ns_def)

lemma find_append_none: "\<forall>x \<in> set xs. \<not> P x \<Longrightarrow> find P (xs @ ys) = find P ys"
  by (induction xs) auto

text \<open>
  Nameserver defaults read back as they were set: after \<open>withProviderDefaults\<close> succeeds,
  \<open>providerDefaults\<close> returns the two normalised names, the template's root nameserver records are
  exactly these two, and saving what was read back changes nothing.
\<close>

theorem withProviderDefaults_roundtrip:
  assumes "withProviderDefaults mo uc t input = Inr t'"
  shows "providerDefaults t' =
      \<lparr>Pd_PrimaryNameserver = nameserver_name uc (Pd_PrimaryNameserver input),
       Pd_SecondaryNameserver = nameserver_name uc (Pd_SecondaryNameserver input)\<rparr> \<and>
    map Tr_ValueTemplate (filter root_ns (Rv_Records t')) =
      [nameserver_name uc (Pd_PrimaryNameserver input), nameserver_name uc (Pd_SecondaryNameserver input)] \<and>
    withProviderDefaults mo uc t' (providerDefaults t') = Inr t'"
proof -
  let ?p = "nameserver_name uc (Pd_PrimaryNameserver input)" and ?q = "nameserver_name uc (Pd_SecondaryNameserver input)"
  let ?keep = "\<lambda>tr. \<not> root_ns tr \<and>
      \<not> (Tr_StableKey tr = ''ns1-a'' \<and> Tr_HostTemplate tr = ''ns1'' \<and> Tr_ValueTemplate tr = ''<ip.dns>'')"
  let ?two = "[ns_record ''primary-ns'' ?p, ns_record ''secondary-ns'' ?q]"
  have names: "ValidateDomain ?p = None" "ValidateDomain ?q = None" "?p \<noteq> ?q"
    and ok: "validateTemplateRevision mo uc t' = None"
    and t': "t' = t\<lparr>Rv_Records := filter ?keep (Rv_Records t) @ ?two, Rv_SOA := (Rv_SOA t)\<lparr>So_PrimaryNameserver := ?p\<rparr>\<rparr>"
    using assms by (auto simp: withProviderDefaults_def Let_def split: if_split_asm option.split_asm)
  have "find (\<lambda>tr. root_ns tr \<and> Tr_ValueTemplate tr \<noteq> ?p) (filter ?keep (Rv_Records t) @ ?two) =
      find (\<lambda>tr. root_ns tr \<and> Tr_ValueTemplate tr \<noteq> ?p) ?two"
    by (rule find_append_none) auto
  then have got: "providerDefaults t' = \<lparr>Pd_PrimaryNameserver = ?p, Pd_SecondaryNameserver = ?q\<rparr>"
    using names(3) by (simp add: providerDefaults_def t')
  have "filter root_ns (Rv_Records t') = ?two" by (auto simp: t' filter_empty_conv)
  moreover have "filter ?keep (Rv_Records t') = filter ?keep (Rv_Records t)" by (simp add: t')
  then have "withProviderDefaults mo uc t' (providerDefaults t') = Inr t'"
    using names ok by (simp add: withProviderDefaults_def got nameserver_name_id Let_def) (simp add: t')
  ultimately show ?thesis using got by simp
qed

section \<open>Zone serials\<close>

text \<open>
  C37. The next serial is the least one allowed: the larger of the clock (the day's first number or
  the Unix time) and one more than the previous serial. It is refused exactly when the day's
  hundred numbers are used up or when it leaves the 32-bit range, so an issued serial is always
  larger than the previous one, and 64-bit wrap-around never produces a serial.
\<close>

theorem nextDNSSerial_least:
  assumes "is_int64 previous" and "0 \<le> today" and "today \<le> 99999999"
  shows "nextDNSSerial today unix previous format =
    (let clock = (if format = ''date-counter'' then today * 100 else unix); serial = max clock (previous + 1) in
     if format = ''date-counter'' \<and> previous = today * 100 + 99 then Inl SerialExhausted
     else if 1 \<le> serial \<and> serial \<le> 2 ^ 32 - 1 then Inr serial else Inl SerialOutOfRange)"
proof -
  have base: "wrap64 (today * 100 + 99) = today * 100 + 99" "wrap64 (today * 100 + 100) = today * 100 + 100"
    using assms(2,3) by (auto intro!: wrap64_id simp: is_int64_def)
  show ?thesis
  proof (cases "previous = 2 ^ 63 - 1")
    case True
    then have "wrap64 (previous + 1) = - (2 ^ 63)" by (simp add: wrap64_def)
    then show ?thesis using True assms(2,3) unfolding nextDNSSerial_def Let_def base by (auto simp: max_def)
  next
    case False
    then have "wrap64 (previous + 1) = previous + 1" using assms(1) by (intro wrap64_id) (auto simp: is_int64_def)
    then show ?thesis unfolding nextDNSSerial_def Let_def base by (auto simp: max_def)
  qed
qed

section \<open>Examples\<close>


definition demo_revision :: DNSTemplateRevision where
  "demo_revision = \<lparr>Rv_ID = 1, Rv_Revision = 1, Rv_SOA = \<lparr>So_PrimaryNameserver = ''ns1.<domain>'',
     So_ResponsibleMailbox = ''hostmaster.<domain>'', So_SerialFormat = ''unix'', So_DefaultTTL = 3600,
     So_RefreshSeconds = 3600, So_RetrySeconds = 600, So_ExpireSeconds = 1209600, So_MinimumTTL = 3600\<rparr>,
     Rv_ZoneStatus = ''primary'', Rv_SubdomainPolicy = ''parent'', Rv_TransferCIDRs = [],
     Rv_Records = [ns_record ''old-ns'' ''ns1.<domain>''], Rv_OptimisticRevision = 1\<rparr>"

definition demo_names :: DNSProviderDefaults where
  "demo_names = \<lparr>Pd_PrimaryNameserver = ''NS1.host.net.'', Pd_SecondaryNameserver = ''ns2.host.net''\<rparr>"

definition demo_saved :: DNSTemplateRevision where
  "demo_saved = demo_revision\<lparr>Rv_Records := [ns_record ''primary-ns'' ''ns1.host.net'', ns_record ''secondary-ns'' ''ns2.host.net''],
     Rv_SOA := (Rv_SOA demo_revision)\<lparr>So_PrimaryNameserver := ''ns1.host.net''\<rparr>\<rparr>"

lemma demo_saves: "withProviderDefaults (\<lambda>ks. ks) ascii_tables demo_revision demo_names = Inr demo_saved"
  by code_simp

theorem withProviderDefaults_roundtrip_witness:
  "withProviderDefaults (\<lambda>ks. ks) ascii_tables demo_saved (providerDefaults demo_saved) = Inr demo_saved"
  using withProviderDefaults_roundtrip [OF demo_saves] by blast

theorem nextDNSSerial_least_witness:
  "nextDNSSerial 20250101 0 2025010199 ''date-counter'' = Inl SerialExhausted \<and>
   nextDNSSerial 20250101 0 2025010105 ''date-counter'' = Inr 2025010106"
  using nextDNSSerial_least [of 2025010199 20250101 0 "''date-counter''"]
    nextDNSSerial_least [of 2025010105 20250101 0 "''date-counter''"] by (simp add: is_int64_def)

end
