(* ===== verification/Dns_Sync.thy ===== *)
theory Dns_Sync
  imports Dns_Plan Dns_Expansion
begin

text \<open>
  What a synchronisation plan may do to a zone: it changes only records that the template or the
  service planner owns, leaves local changes and custom records alone unless adoption was asked for,
  and never leads to an inconsistent zone. The invariant \<open>plan_ok\<close> is kept by every step of the
  comparison and by merging the plans of several sites.
\<close>

section \<open>The invariant\<close>

definition plan_ok :: "unicode_case \<Rightarrow> (DNSRecord \<Rightarrow> bool) \<Rightarrow> bool \<Rightarrow> DNSRecord list \<Rightarrow> zonePlan \<Rightarrow> bool" where
  "plan_ok uc own adopting rs p \<longleftrightarrow>
     (\<forall>i x. Zp_update p i = Some x \<longrightarrow>
        (\<exists>r \<in> set rs. Dr_ID r = i \<and> own r \<and> Dr_Origin r = ''template'' \<and> \<not> Dr_LocallyModified r)) \<and>
     (\<forall>i x. Zp_adopt p i = Some x \<longrightarrow>
        adopting \<and> (\<exists>r \<in> set rs. Dr_ID r = i \<and> own r \<and> Dr_Origin r = ''custom'' \<and> recordsEqual uc r x)) \<and>
     (\<forall>i \<in> set (Zp_remove p). \<exists>r \<in> set rs. Dr_ID r = i \<and> own r \<and>
        (Dr_Origin r = ''template'' \<and> \<not> Dr_LocallyModified r \<or> IsEndpointDNSRecord r \<or>
         Dr_Origin r = ''custom'' \<and> Zp_adopt p i \<noteq> None))"

definition counts_ok :: "zonePlan \<Rightarrow> bool" where
  "counts_ok p \<longleftrightarrow>
     It_AddedCount (Zp_item p) = int (length (Zp_add p)) \<and> It_RemovedCount (Zp_item p) = int (length (Zp_remove p)) \<and>
     0 \<le> It_UpdatedCount (Zp_item p) \<and> 0 \<le> It_AdoptedCount (Zp_item p) \<and>
     0 \<le> It_OverrideCount (Zp_item p) \<and> 0 \<le> It_ConflictCount (Zp_item p) \<and>
     (It_UpdatedCount (Zp_item p) = 0 \<longrightarrow> It_ConflictCount (Zp_item p) = 0 \<longrightarrow>
        Zp_update p = Map.empty \<and> \<not> Zp_settingsChanged p \<and> \<not> Zp_retryConvergence p) \<and>
     (It_AdoptedCount (Zp_item p) = 0 \<longrightarrow> Zp_adopt p = Map.empty)"

text \<open>Before the service records are planned, everything new comes from the template.\<close>

definition from_template :: "zonePlan \<Rightarrow> bool" where
  "from_template p \<longleftrightarrow>
     (\<forall>i x. Zp_update p i = Some x \<longrightarrow> Dr_Origin x = ''template'') \<and> (\<forall>r \<in> set (Zp_add p). Dr_Origin r = ''template'')"

lemmas plan_steps = plan_override_def plan_conflict_def plan_touch_def plan_update_def plan_adopt_def plan_add_def
  plan_remove_def

lemma plan_ok_simple:
  "plan_ok uc own a rs (plan_override p) = plan_ok uc own a rs p"
  "plan_ok uc own a rs (plan_conflict p) = plan_ok uc own a rs p"
  "plan_ok uc own a rs (plan_touch p) = plan_ok uc own a rs p"
  "plan_ok uc own a rs (plan_add r p) = plan_ok uc own a rs p"
  by (simp_all add: plan_ok_def plan_steps)

lemma plan_ok_update:
  assumes "plan_ok uc own a rs p" and "r \<in> set rs" "own r" "Dr_Origin r = ''template''" "\<not> Dr_LocallyModified r"
  shows "plan_ok uc own a rs (plan_update (Dr_ID r) x p)" "plan_ok uc own a rs (plan_remove (Dr_ID r) p)"
  using assms unfolding plan_ok_def plan_steps by (auto split: if_split_asm)

lemma plan_ok_adopt:
  assumes "plan_ok uc own a rs p" and "r \<in> set rs" "own r" "Dr_Origin r = ''custom''" "recordsEqual uc r x" "a"
  shows "plan_ok uc own a rs (plan_adopt (Dr_ID r) x p)"
    "plan_ok uc own a rs (p\<lparr>Zp_adopt := (Zp_adopt p)(Dr_ID r \<mapsto> x)\<rparr>)"
  using assms unfolding plan_ok_def plan_steps by (fastforce split: if_split_asm)+

lemma counts_ok_steps:
  assumes "counts_ok p"
  shows "counts_ok (plan_override p)" "counts_ok (plan_conflict p)" "counts_ok (plan_touch p)"
    "counts_ok (plan_add r p)" "counts_ok (plan_update i r p)" "counts_ok (plan_adopt i r p)" "counts_ok (plan_remove i p)"
  using assms by (auto simp: counts_ok_def plan_steps)

lemma from_template_steps:
  assumes "from_template p"
  shows "from_template (plan_override p)" "from_template (plan_conflict p)" "from_template (plan_touch p)"
    "Dr_Origin r = ''template'' \<Longrightarrow> from_template (plan_add r p)"
    "Dr_Origin r = ''template'' \<Longrightarrow> from_template (plan_update i r p)"
    "from_template (plan_adopt i r p)" "from_template (plan_remove i p)"
  using assms by (auto simp: from_template_def plan_steps split: if_split_asm)

text \<open>The three facts together, for a plan of one site.\<close>

definition site_plan :: "unicode_case \<Rightarrow> zoneSnapshot \<Rightarrow> zonePlan \<Rightarrow> bool" where
  "site_plan uc z p \<longleftrightarrow> plan_ok uc (mine z) (Zs_AdoptMatching z) (Zs_Records z) p \<and> counts_ok p \<and> from_template p"

lemma site_plan_simple:
  assumes "site_plan uc z p"
  shows "site_plan uc z (plan_override p)" "site_plan uc z (plan_conflict p)" "site_plan uc z (plan_touch p)"
    "Dr_Origin r = ''template'' \<Longrightarrow> site_plan uc z (plan_add r p)"
  using assms by (simp_all add: site_plan_def plan_ok_simple counts_ok_steps from_template_steps)

section \<open>The comparison keeps it\<close>

lemma normalizeRecord_keeps:
  assumes "normalizeRecord uc domain raw = Inr r"
  shows "Dr_Origin r = Dr_Origin raw"
proof -
  obtain s where s: "s = normalize_shape uc raw" "normalize_data uc s = Inr r"
    using normalizeRecord_Inr [OF assms] by metis
  have "Dr_Origin s = Dr_Origin raw" by (simp add: s(1) normalize_shape_def Let_def)
  with s(2) show ?thesis
    by (cases rule: normalize_data_cases) (simp_all add: clearRecordFields_def target_fields_def)
qed

lemma expandTemplateRecord_origin:
  "expandTemplateRecord mo uc tr c = Inr (Some r) \<Longrightarrow> Dr_Origin r = ''template''"
  by (auto simp: expandTemplateRecord_def Let_def dest!: normalizeRecord_keeps split: if_split_asm sum.split_asm)

lemma foldl_invariant:
  assumes "P a" and "\<And>a x. P a \<Longrightarrow> x \<in> set xs \<Longrightarrow> P (f a x)"
  shows "P (foldl f a xs)"
  using assms by (induction xs arbitrary: a) auto

lemma by_key_Some:
  assumes "by_key z k = Some x"
  shows "x \<in> set (Zs_Records z) \<and> mine z x \<and> Dr_Origin x = ''template''"
proof -
  have "\<forall>k x. by_key z k = Some x \<longrightarrow> x \<in> set (Zs_Records z) \<and> mine z x \<and> Dr_Origin x = ''template''"
    unfolding by_key_def
    by (rule foldl_invariant [where P = "\<lambda>m. \<forall>k x. m k = Some x \<longrightarrow>
          x \<in> set (Zs_Records z) \<and> mine z x \<and> Dr_Origin x = ''template''"]) auto
  then show ?thesis using assms by blast
qed

lemma equivalent_scan_found:
  assumes "equivalent_scan uc w owner conflict rs = (r, c)" and "Dr_ID r > 0"
  shows "r \<in> set rs \<and> (Dr_OwnerSiteID r = 0 \<or> Dr_OwnerSiteID r = owner) \<and> recordsEqual uc r w"
  using assms
  by (induction uc w owner conflict rs rule: equivalent_scan.induct)
    (auto simp: zero_record_def Let_def split: if_split_asm)

lemma recordsEqual_ID [simp]:
  "recordsEqual uc r (x\<lparr>Dr_ID := i\<rparr>) = recordsEqual uc r x"
  by (simp add: recordsEqual_def recordsSameRData_def)

lemma place_new_ok:
  assumes "site_plan uc z p" and "Dr_Origin e = ''template''"
  shows "site_plan uc z (place_new uc z e p)"
proof -
  obtain sat con where sys: "systemRecordDisposition uc (Zs_Records z) e = (sat, con)" by fastforce
  obtain eq c where eq: "findEquivalent uc (Zs_Records z) e (Zs_SiteID z) = (eq, c)" by fastforce
  have "site_plan uc z (plan_adopt (Dr_ID eq) (e\<lparr>Dr_ID := Dr_ID eq\<rparr>) p)"
    if "Dr_ID eq > 0" "Zs_AdoptMatching z" "canAdoptDNSRecord uc (Zs_Records z) eq e"
  proof -
    have "eq \<in> set (Zs_Records z)" "mine z eq" "recordsEqual uc eq e"
      using equivalent_scan_found that(1) eq by (auto simp: findEquivalent_def mine_def)
    moreover have "Dr_Origin eq = ''custom''" using that(3) by (simp add: canAdoptDNSRecord_def)
    ultimately show ?thesis
      using assms(1) that(2) by (simp add: site_plan_def plan_ok_adopt counts_ok_steps from_template_steps)
  qed
  then show ?thesis
    unfolding place_new_def sys eq prod.case using assms site_plan_simple by simp
qed

lemma place_record_ok:
  assumes "site_plan uc z p" and "Dr_Origin e = ''template''"
  shows "site_plan uc z (place_record uc z k e p)"
proof (cases "by_key z k")
  case None
  then show ?thesis using place_new_ok [OF assms] site_plan_simple(1) [OF assms(1)] by (simp add: place_record_def)
next
  case (Some x)
  note x = by_key_Some [OF Some]
  have "site_plan uc z (plan_update (Dr_ID x) (e\<lparr>Dr_ID := Dr_ID x\<rparr>) p)" if "\<not> Dr_LocallyModified x"
    using assms x that by (simp add: site_plan_def plan_ok_update counts_ok_steps from_template_steps)
  then show ?thesis using Some assms(1) site_plan_simple(1) [OF assms(1)] by (simp add: place_record_def)
qed

lemma compare_step_ok:
  assumes "site_plan uc z (fst st)"
  shows "site_plan uc z (fst (compare_step mo uc t z st tr))"
proof -
  obtain p wanted where st: "st = (p, wanted)" by fastforce
  have p: "site_plan uc z p" using assms st by simp
  have "site_plan uc z (place_record uc z k (r\<lparr>Dr_OwnerSiteID := s, Dr_TemplateRevision := v\<rparr>) p)"
    if "expandTemplateRecord mo uc tr c = Inr (Some r)" for k r s v c
    using expandTemplateRecord_origin [OF that] by (intro place_record_ok [OF p]) simp
  then show ?thesis
    using p site_plan_simple by (auto simp: compare_step_def st split: sum.split option.split)
qed

lemma remove_step_ok:
  assumes "site_plan uc z p" and "r \<in> set (Zs_Records z)"
  shows "site_plan uc z (remove_step z wanted p r)"
  using assms site_plan_simple(1) [OF assms(1)]
  by (simp add: remove_step_def site_plan_def plan_ok_update counts_ok_steps from_template_steps)

lemma start_plan_ok: "site_plan uc z (start_plan t z)"
  by (simp add: start_plan_def empty_plan_def empty_item_def site_plan_def plan_ok_def counts_ok_def from_template_def
      plan_touch_def Let_def)

lemma compared_ok:
  assumes "foldl (compare_step mo uc t z) (start_plan t z, []) trs = (p, wanted)"
  shows "site_plan uc z (foldl (remove_step z wanted) p (Zs_Records z))"
proof -
  have "site_plan uc z (fst (foldl (compare_step mo uc t z) (start_plan t z, []) trs))"
    by (rule foldl_invariant [where P = "\<lambda>st. site_plan uc z (fst st)"]) (simp_all add: start_plan_ok compare_step_ok)
  then have "site_plan uc z p" using assms by simp
  then show ?thesis by (rule foldl_invariant) (rule remove_step_ok)
qed

section \<open>Service records keep it\<close>

lemma planned_zone_records:
  "from_template p \<Longrightarrow> r \<in> set (planned_zone z p) \<Longrightarrow> r \<in> set (Zs_Records z) \<or> Dr_Origin r = ''template''"
  by (auto simp: planned_zone_def from_template_def split: option.splits)

text \<open>A candidate that the service planner may remove stands for a record of the zone that it may remove.\<close>

definition removable :: "zoneSnapshot \<Rightarrow> zonePlan \<Rightarrow> DNSRecord \<Rightarrow> bool" where
  "removable z p r \<longleftrightarrow>
     (owns_endpoint z r \<longrightarrow> (\<exists>x \<in> set (Zs_Records z). Dr_ID x = Dr_ID r \<and> mine z x \<and>
        (IsEndpointDNSRecord x \<or> Dr_Origin x = ''custom'' \<and> Zp_adopt p (Dr_ID r) \<noteq> None)))"

definition service_inv :: "unicode_case \<Rightarrow> zoneSnapshot \<Rightarrow> zonePlan \<Rightarrow> bool" where
  "service_inv uc z p \<longleftrightarrow> plan_ok uc (mine z) (Zs_AdoptMatching z) (Zs_Records z) p \<and> counts_ok p"

lemma removable_zone:
  "r \<in> set (Zs_Records z) \<or> Dr_Origin r \<noteq> ''system'' \<Longrightarrow> removable z p r"
  by (auto simp: removable_def owns_endpoint_def IsEndpointDNSRecord_def)

lemma counts_ok_readopt:
  "counts_ok p \<Longrightarrow> Zp_adopt p i \<noteq> None \<Longrightarrow> counts_ok (p\<lparr>Zp_adopt := (Zp_adopt p)(i \<mapsto> v)\<rparr>)"
  by (auto simp: counts_ok_def)

definition adopted :: "int \<Rightarrow> DNSRecord \<Rightarrow> zonePlan \<Rightarrow> zonePlan" where
  "adopted i v p = (if Zp_adopt p i = None then plan_adopt i v p else p\<lparr>Zp_adopt := (Zp_adopt p)(i \<mapsto> v)\<rparr>)"

lemma adopted_adopt [simp]: "Zp_adopt (adopted i v p) = (Zp_adopt p)(i \<mapsto> v)"
  by (simp add: adopted_def plan_adopt_def)

lemma adopted_inv:
  assumes "service_inv uc z p" and "r \<in> set (Zs_Records z)" "mine z r" "Dr_Origin r = ''custom''"
    "recordsEqual uc r v" "Zs_AdoptMatching z"
  shows "service_inv uc z (adopted (Dr_ID r) v p)"
proof -
  have ok: "plan_ok uc (mine z) (Zs_AdoptMatching z) (Zs_Records z) p" and cnt: "counts_ok p"
    using assms(1) by (simp_all add: service_inv_def)
  show ?thesis
    using plan_ok_adopt [OF ok assms(2-6)] counts_ok_steps(6) [OF cnt] counts_ok_readopt [OF cnt, of "Dr_ID r" v]
    by (simp add: adopted_def service_inv_def)
qed

lemma removable_adopted:
  assumes "removable z p r"
  shows "removable z (adopted i v p) r"
  using assms by (auto simp: removable_def)

lemma adopt_services_inv:
  assumes "adopt_services uc z wanted seen rs p = (cand, p')" and "service_inv uc z p" and "Zs_AdoptMatching z"
    and "\<forall>r \<in> set rs. r \<in> set (Zs_Records z) \<or> Dr_Origin r = ''template''" and "\<forall>r \<in> set seen. removable z p r"
  shows "service_inv uc z p' \<and> (\<forall>r \<in> set cand. removable z p' r)"
  using assms
proof (induction rs arbitrary: seen p)
  case (Cons r rs)
  have keep: "removable z p r" using Cons.prems(4) by (intro removable_zone) auto
  show ?case
  proof (cases "Dr_Origin r \<noteq> ''custom'' \<or> \<not> mine z r")
    case True
    then show ?thesis using Cons.prems keep by (intro Cons.IH [of "seen @ [r]" p]) auto
  next
    case False
    then have r: "r \<in> set (Zs_Records z)" "mine z r" "Dr_Origin r = ''custom''" using Cons.prems(4) by auto
    show ?thesis
    proof (cases "find (\<lambda>v. recordsEqual uc r v \<and> canAdoptDNSRecord uc (seen @ r # rs) r v) wanted")
      case None
      then show ?thesis using Cons.prems keep False by (intro Cons.IH [of "seen @ [r]" p]) auto
    next
      case (Some v)
      let ?v = "v\<lparr>Dr_ID := Dr_ID r\<rparr>"
      have "recordsEqual uc r ?v" using Some by (auto simp: find_Some_iff)
      then have inv: "service_inv uc z (adopted (Dr_ID r) ?v p)"
        using adopted_inv [OF Cons.prems(2) r _ Cons.prems(3)] by blast
      have run: "adopt_services uc z wanted (seen @ [?v]) rs (adopted (Dr_ID r) ?v p) = (cand, p')"
        using Cons.prems(1) Some False by (simp add: adopted_def Let_def)
      have "removable z (adopted (Dr_ID r) ?v p) ?v" using r by (auto simp: removable_def)
      then show ?thesis
        using Cons.prems(4,5) removable_adopted
        by (intro Cons.IH [OF run inv Cons.prems(3)]) auto
    qed
  qed
qed simp

lemma plan_ok_more_removed:
  assumes "plan_ok uc (mine z) a (Zs_Records z) p" and "\<forall>r \<in> set cand. removable z p r"
    and "\<forall>i \<in> set gone. \<exists>r \<in> set cand. owns_endpoint z r \<and> Dr_ID r = i"
  shows "plan_ok uc (mine z) a (Zs_Records z) (p\<lparr>Zp_add := as, Zp_remove := Zp_remove p @ gone, Zp_item := it\<rparr>)"
proof -
  have "\<exists>x \<in> set (Zs_Records z). Dr_ID x = i \<and> mine z x \<and>
      (Dr_Origin x = ''template'' \<and> \<not> Dr_LocallyModified x \<or> IsEndpointDNSRecord x \<or>
       Dr_Origin x = ''custom'' \<and> Zp_adopt p i \<noteq> None)" if "i \<in> set gone" for i
    using assms(2,3) that unfolding removable_def by fast
  then show ?thesis using assms(1) by (auto simp: plan_ok_def)
qed

lemma counts_ok_more:
  assumes "counts_ok p" and "0 \<le> n"
  shows "counts_ok (p\<lparr>Zp_add := Zp_add p @ new, Zp_remove := Zp_remove p @ gone,
    Zp_item := (Zp_item p)\<lparr>It_AddedCount := It_AddedCount (Zp_item p) + int (length new),
      It_RemovedCount := It_RemovedCount (Zp_item p) + int (length gone),
      It_OverrideCount := It_OverrideCount (Zp_item p) + n\<rparr>\<rparr>)"
  using assms by (simp add: counts_ok_def)

lemma withServiceDefaults_ok:
  assumes "site_plan uc z p"
  shows "service_inv uc z (withServiceDefaults uc z p)"
proof (cases "Zs_Services z")
  case None
  then show ?thesis using assms by (simp add: withServiceDefaults_def site_plan_def service_inv_def)
next
  case (Some st)
  let ?cand = "planned_zone z p"
  let ?desired = "service_wanted uc z st ?cand"
  let ?wanted = "map (\<lambda>r. r\<lparr>Dr_OwnerSiteID := Zs_SiteID z\<rparr>) (filter (\<lambda>r. \<not> service_suppressed z r) ?desired)"
  let ?p1 = "p\<lparr>Zp_item := (Zp_item p)\<lparr>It_OverrideCount := It_OverrideCount (Zp_item p) +
    int (length (filter (service_suppressed z) ?desired))\<rparr>\<rparr>"
  have p1: "service_inv uc z ?p1"
    using assms by (auto simp: site_plan_def service_inv_def plan_ok_def counts_ok_def)
  have cand: "\<forall>r \<in> set ?cand. r \<in> set (Zs_Records z) \<or> Dr_Origin r = ''template''"
    using assms planned_zone_records by (auto simp: site_plan_def)
  obtain c2 p2 where run: "(if Zs_AdoptMatching z then adopt_services uc z ?wanted [] ?cand ?p1 else (?cand, ?p1)) = (c2, p2)"
    by fastforce
  have inv: "service_inv uc z p2 \<and> (\<forall>r \<in> set c2. removable z p2 r)"
  proof (cases "Zs_AdoptMatching z")
    case True
    then show ?thesis using adopt_services_inv [of uc z ?wanted "[]" ?cand ?p1] run p1 cand by simp
  next
    case False
    then have "c2 = ?cand" "p2 = ?p1" using run by auto
    then show ?thesis using p1 cand removable_zone by fastforce
  qed
  obtain new gone kept where plan: "PlanServiceDNSRecords uc c2 ?wanted (owns_endpoint z) = (new, gone, kept)"
    by (metis prod_cases3)
  then have gone: "\<forall>i \<in> set gone. \<exists>r \<in> set c2. owns_endpoint z r \<and> Dr_ID r = i" and kept: "0 \<le> kept"
    by (auto simp: PlanServiceDNSRecords_def Let_def)
  have "withServiceDefaults uc z p = p2\<lparr>Zp_add := Zp_add p2 @ new, Zp_remove := Zp_remove p2 @ gone,
      Zp_item := (Zp_item p2)\<lparr>It_AddedCount := It_AddedCount (Zp_item p2) + int (length new),
        It_RemovedCount := It_RemovedCount (Zp_item p2) + int (length gone),
        It_OverrideCount := It_OverrideCount (Zp_item p2) + kept\<rparr>\<rparr>"
    unfolding withServiceDefaults_def Some option.case Let_def run prod.case plan by simp
  then show ?thesis
    using plan_ok_more_removed [OF _ _ gone] counts_ok_more [OF _ kept] inv by (simp add: service_inv_def)
qed

section \<open>Validated plans\<close>

lemma finalize_simps [simp]:
  "Zp_add (finalizeZonePlan p) = Zp_add p" "Zp_update (finalizeZonePlan p) = Zp_update p"
  "Zp_remove (finalizeZonePlan p) = Zp_remove p" "Zp_adopt (finalizeZonePlan p) = Zp_adopt p"
  "plan_ok uc own a rs (finalizeZonePlan p) = plan_ok uc own a rs p" "counts_ok (finalizeZonePlan p) = counts_ok p"
  "planned_zone z (finalizeZonePlan p) = planned_zone z p"
  by (simp_all add: finalizeZonePlan_def Let_def plan_ok_def counts_ok_def planned_zone_def)

lemma cleared_ok: "plan_ok uc own a rs (cleared_plan p text)" "counts_ok p \<Longrightarrow> counts_ok (cleared_plan p text)"
  by (auto simp: cleared_plan_def plan_ok_def counts_ok_def)

lemma validateZonePlan_ok:
  assumes "plan_ok uc own a rs p" and "counts_ok p"
  shows "plan_ok uc own a rs (validateZonePlan mo uc message z p)" "counts_ok (validateZonePlan mo uc message z p)"
  using assms cleared_ok by (auto simp: validateZonePlan_def split: option.split)

lemma compareZone_ok:
  "plan_ok uc (mine z) (Zs_AdoptMatching z) (Zs_Records z) (compareZone mo uc message t z)"
  "counts_ok (compareZone mo uc message t z)"
proof -
  obtain p wanted where f: "foldl (compare_step mo uc t z) (start_plan t z, []) (Rv_Records t) = (p, wanted)" by fastforce
  have "service_inv uc z (withServiceDefaults uc z (foldl (remove_step z wanted) p (Zs_Records z)))"
    by (rule withServiceDefaults_ok [OF compared_ok [OF f]])
  then show "plan_ok uc (mine z) (Zs_AdoptMatching z) (Zs_Records z) (compareZone mo uc message t z)"
    "counts_ok (compareZone mo uc message t z)"
    unfolding compareZone_def f prod.case service_inv_def using validateZonePlan_ok by blast+
qed

lemma merge_ok:
  assumes "plan_ok uc own a rs p" "plan_ok uc own a rs q"
  shows "plan_ok uc own a rs (mergeZonePlan p q)"
proof -
  have grow: "Zp_adopt (mergeZonePlan p q) i \<noteq> None" if "Zp_adopt p i \<noteq> None \<or> Zp_adopt q i \<noteq> None" for i
    using that by (auto simp: mergeZonePlan_def Let_def)
  have "\<exists>r \<in> set rs. Dr_ID r = i \<and> own r \<and> (Dr_Origin r = ''template'' \<and> \<not> Dr_LocallyModified r \<or>
      IsEndpointDNSRecord r \<or> Dr_Origin r = ''custom'' \<and> Zp_adopt (mergeZonePlan p q) i \<noteq> None)"
    if "i \<in> set (Zp_remove p) \<or> i \<in> set (Zp_remove q)" for i
    using assms that grow [of i] unfolding plan_ok_def by fast
  moreover have "Zp_remove (mergeZonePlan p q) = Zp_remove p @ Zp_remove q"
    "Zp_update (mergeZonePlan p q) = Zp_update p ++ Zp_update q" "Zp_adopt (mergeZonePlan p q) = Zp_adopt p ++ Zp_adopt q"
    by (simp_all add: mergeZonePlan_def Let_def)
  ultimately show ?thesis
    using assms unfolding plan_ok_def by (auto simp: map_add_Some_iff)
qed

lemma merge_counts: "counts_ok p \<Longrightarrow> counts_ok q \<Longrightarrow> counts_ok (mergeZonePlan p q)"
  by (auto simp: counts_ok_def mergeZonePlan_def Let_def)

lemma empty_counts: "counts_ok empty_plan"
  by (simp add: counts_ok_def empty_plan_def empty_item_def)

lemma plan_ok_mono:
  "plan_ok uc own a rs p \<Longrightarrow> (\<And>r. own r \<Longrightarrow> own' r) \<Longrightarrow> plan_ok uc own' a rs p"
  unfolding plan_ok_def by blast

definition zone_sites :: "zoneSnapshot \<Rightarrow> int set" where
  "zone_sites z = insert (Zs_SiteID z) (set (map fst (Zs_SubdomainSite z)))"

lemma compareWholeZone_ok:
  "plan_ok uc (\<lambda>r. Dr_OwnerSiteID r \<in> insert 0 (zone_sites z)) (Zs_AdoptMatching z) (Zs_Records z)
     (compareWholeZone mo uc message t z) \<and> counts_ok (compareWholeZone mo uc message t z)"
proof -
  let ?own = "\<lambda>r. Dr_OwnerSiteID r \<in> insert 0 (zone_sites z)"
  let ?ok = "\<lambda>p. plan_ok uc ?own (Zs_AdoptMatching z) (Zs_Records z) p \<and> counts_ok p"
  have whole: "?ok (compareZone mo uc message t z)"
    using plan_ok_mono [OF compareZone_ok(1) [of uc z], where own' = ?own] compareZone_ok(2)
    by (auto simp: mine_def zone_sites_def)
  have child: "?ok (compareZone mo uc message t (child_zone z site))" if "site \<in> zone_sites z" for site
    using plan_ok_mono [OF compareZone_ok(1) [of uc "child_zone z site"], where own' = ?own] compareZone_ok(2) that
    by (auto simp: mine_def child_zone_def)
  have "?ok empty_plan" by (simp add: plan_ok_def counts_ok_def empty_plan_def empty_item_def)
  then have "?ok (mergeZonePlan empty_plan (compareZone mo uc message t z))"
    using whole merge_ok merge_counts by blast
  then have "?ok (foldl (\<lambda>p site. mergeZonePlan p (compareZone mo uc message t (child_zone z site)))
       (mergeZonePlan empty_plan (compareZone mo uc message t z)) (sort (remdups (map fst (Zs_SubdomainSite z)))))"
    using child merge_ok merge_counts
    by (intro foldl_invariant [where P = ?ok]) (auto simp: zone_sites_def)
  then show ?thesis unfolding compareWholeZone_def using validateZonePlan_ok by blast
qed

section \<open>Properties of synchronisation\<close>

lemma zonePlanForApply_ok:
  "plan_ok uc (\<lambda>r. Dr_OwnerSiteID r \<in> insert 0 (zone_sites z)) (Zs_AdoptMatching z) (Zs_Records z)
     (zonePlanForApply mo uc message t z partial) \<and> counts_ok (zonePlanForApply mo uc message t z partial)"
proof (cases partial)
  case True
  have "plan_ok uc (\<lambda>r. Dr_OwnerSiteID r \<in> insert 0 (zone_sites z)) (Zs_AdoptMatching z) (Zs_Records z)
      (compareZone mo uc message t z)"
    by (rule plan_ok_mono [OF compareZone_ok(1)]) (auto simp: mine_def zone_sites_def)
  then show ?thesis using True compareZone_ok(2) by (simp add: zonePlanForApply_def)
next
  case False
  then show ?thesis using compareWholeZone_ok by (simp add: zonePlanForApply_def)
qed

lemma final_validation:
  "\<exists>p. zonePlanForApply mo uc message t z partial = validateZonePlan mo uc message z p \<and> counts_ok p"
proof (cases partial)
  case True
  obtain p wanted where f: "foldl (compare_step mo uc t z) (start_plan t z, []) (Rv_Records t) = (p, wanted)" by fastforce
  show ?thesis
    using withServiceDefaults_ok [OF compared_ok [OF f]] True
    by (auto simp: zonePlanForApply_def compareZone_def f service_inv_def)
next
  case False
  have "counts_ok (foldl (\<lambda>p site. mergeZonePlan p (compareZone mo uc message t (child_zone z site)))
       (mergeZonePlan empty_plan (compareZone mo uc message t z)) sites)" for sites
    by (rule foldl_invariant) (intro merge_counts compareZone_ok empty_counts | assumption)+
  then show ?thesis using False by (auto simp: zonePlanForApply_def compareWholeZone_def)
qed

text \<open>
  C2. Synchronisation respects ownership: the plan that is applied to a zone updates only template
  records without local changes, and without adoption it removes only such records and the
  panel's own service endpoints. A custom record is touched only when adoption was asked for, and
  then it keeps its data and TTL. Records of other sites are never touched.
\<close>

theorem sync_respects_ownership:
  assumes "plan = zonePlanForApply mo uc message t z partial" and "distinct (map Dr_ID (Zs_Records z))"
    and "r \<in> set (Zs_Records z)"
    and "Zp_update plan (Dr_ID r) \<noteq> None \<or> Zp_adopt plan (Dr_ID r) \<noteq> None \<or> Dr_ID r \<in> set (Zp_remove plan)"
  shows "Dr_OwnerSiteID r \<in> insert 0 (zone_sites z) \<and>
    (Dr_Origin r = ''template'' \<and> \<not> Dr_LocallyModified r \<or> IsEndpointDNSRecord r \<or>
     Zs_AdoptMatching z \<and> Dr_Origin r = ''custom'' \<and> (\<exists>x. Zp_adopt plan (Dr_ID r) = Some x \<and> recordsEqual uc r x))"
proof -
  have ok: "plan_ok uc (\<lambda>r. Dr_OwnerSiteID r \<in> insert 0 (zone_sites z)) (Zs_AdoptMatching z) (Zs_Records z) plan"
    using zonePlanForApply_ok assms(1) by blast
  have same: "s = r" if "s \<in> set (Zs_Records z)" "Dr_ID s = Dr_ID r" for s
    using assms(2,3) that by (metis distinct_map inj_onD)
  have taken: "Dr_OwnerSiteID r \<in> insert 0 (zone_sites z) \<and> Zs_AdoptMatching z \<and> Dr_Origin r = ''custom'' \<and>
      (\<exists>x. Zp_adopt plan (Dr_ID r) = Some x \<and> recordsEqual uc r x)" if "Zp_adopt plan (Dr_ID r) = Some x" for x
    using ok that same unfolding plan_ok_def by blast
  consider (upd) x where "Zp_update plan (Dr_ID r) = Some x" | (adopt) x where "Zp_adopt plan (Dr_ID r) = Some x"
    | (rem) "Dr_ID r \<in> set (Zp_remove plan)"
    using assms(4) by auto
  then show ?thesis
  proof cases
    case upd
    then show ?thesis using ok same unfolding plan_ok_def by blast
  next
    case adopt
    then show ?thesis using taken by blast
  next
    case rem
    then obtain s where "s \<in> set (Zs_Records z)" "Dr_ID s = Dr_ID r" "Dr_OwnerSiteID s \<in> insert 0 (zone_sites z)"
      "Dr_Origin s = ''template'' \<and> \<not> Dr_LocallyModified s \<or> IsEndpointDNSRecord s \<or>
       Dr_Origin s = ''custom'' \<and> Zp_adopt plan (Dr_ID r) \<noteq> None"
      using ok unfolding plan_ok_def by blast
    then show ?thesis using same taken by blast
  qed
qed

text \<open>
  C7. A plan never breaks a zone: the zone that results from the planned removals, updates and
  additions passes the consistency check, or the plan changes no record and reports a conflict.
\<close>

theorem sync_keeps_zone_valid:
  "validateDNSRecordSet mo uc (planned_zone z (zonePlanForApply mo uc message t z partial)) = None \<or>
   (Zp_add (zonePlanForApply mo uc message t z partial) = [] \<and>
    Zp_update (zonePlanForApply mo uc message t z partial) = Map.empty \<and>
    Zp_remove (zonePlanForApply mo uc message t z partial) = [] \<and>
    Zp_adopt (zonePlanForApply mo uc message t z partial) = Map.empty \<and>
    It_Outcome (Zp_item (zonePlanForApply mo uc message t z partial)) = ''conflict'')"
proof -
  have "validateDNSRecordSet mo uc (planned_zone z (validateZonePlan mo uc message z p)) = None \<or>
      (Zp_add (validateZonePlan mo uc message z p) = [] \<and> Zp_update (validateZonePlan mo uc message z p) = Map.empty \<and>
       Zp_remove (validateZonePlan mo uc message z p) = [] \<and> Zp_adopt (validateZonePlan mo uc message z p) = Map.empty \<and>
       It_Outcome (Zp_item (validateZonePlan mo uc message z p)) = ''conflict'')" if "counts_ok p" for p
    using that
    by (cases "validateDNSRecordSet mo uc (planned_zone z p)")
      (simp_all add: validateZonePlan_def cleared_plan_def finalizeZonePlan_def outcome_def counts_ok_def planned_zone_def Let_def)
  moreover obtain p where "zonePlanForApply mo uc message t z partial = validateZonePlan mo uc message z p" "counts_ok p"
    using final_validation by blast
  ultimately show ?thesis by simp
qed

text \<open>
  A preview that says \<open>unchanged\<close> tells the truth: such a plan adds, updates, removes and adopts
  nothing, and neither changes settings nor retries convergence.
\<close>

theorem sync_unchanged_is_empty:
  assumes "It_Outcome (Zp_item (zonePlanForApply mo uc message t z partial)) = ''unchanged''"
  shows "Zp_add (zonePlanForApply mo uc message t z partial) = [] \<and>
    Zp_update (zonePlanForApply mo uc message t z partial) = Map.empty \<and>
    Zp_remove (zonePlanForApply mo uc message t z partial) = [] \<and>
    Zp_adopt (zonePlanForApply mo uc message t z partial) = Map.empty \<and>
    \<not> Zp_settingsChanged (zonePlanForApply mo uc message t z partial) \<and>
    \<not> Zp_retryConvergence (zonePlanForApply mo uc message t z partial)"
proof -
  obtain p where p: "zonePlanForApply mo uc message t z partial = validateZonePlan mo uc message z p" "counts_ok p"
    using final_validation by blast
  let ?q = "validateZonePlan mo uc message z p"
  have ok: "counts_ok ?q" using zonePlanForApply_ok p(1) by metis
  have "It_Outcome (Zp_item ?q) = outcome (Zp_item ?q)"
    by (simp add: validateZonePlan_def finalizeZonePlan_def outcome_def Let_def split: option.split)
  then have "outcome (Zp_item ?q) = ''unchanged''" using assms p(1) by simp
  then have "It_ConflictCount (Zp_item ?q) \<le> 0" "It_AddedCount (Zp_item ?q) \<le> 0" "It_UpdatedCount (Zp_item ?q) \<le> 0"
    "It_RemovedCount (Zp_item ?q) \<le> 0" "It_AdoptedCount (Zp_item ?q) \<le> 0"
    by (auto simp: outcome_def split: if_split_asm)
  then show ?thesis using ok unfolding p(1) counts_ok_def by auto
qed

text \<open>
  The message of a failed consistency check is written to the item and then overwritten by the
  summary: the detail never depends on it.
\<close>

lemma conflict_detail_lost:
  "It_Detail (Zp_item (validateZonePlan mo uc message z p)) = It_Detail (Zp_item (validateZonePlan mo uc message' z p))"
proof (cases "validateDNSRecordSet mo uc (planned_zone z p)")
  case (Some e)
  have "It_Detail (Zp_item (finalizeZonePlan (cleared_plan p a))) = It_Detail (Zp_item (finalizeZonePlan (cleared_plan p b)))" for a b
    unfolding finalizeZonePlan_def Let_def by (simp add: cleared_plan_def)
  then show ?thesis using Some by (simp only: validateZonePlan_def option.case)
qed (simp only: validateZonePlan_def option.case)

section \<open>A concrete zone\<close>

definition demo_www :: DNSTemplateRecord where
  "demo_www = \<lparr>Tr_ID = 1, Tr_StableKey = ''www-a'', Tr_Scope = ''root'', Tr_HostTemplate = ''www'', Tr_Type = ''A'',
     Tr_ValueTemplate = ''<ip.web>'', Tr_Priority = 0, Tr_Weight = 0, Tr_Port = 0, Tr_TTL = 3600\<rparr>"

definition demo_template :: DNSTemplateRevision where
  "demo_template = \<lparr>Rv_ID = 1, Rv_Revision = 2, Rv_SOA = \<lparr>So_PrimaryNameserver = ''ns1.<domain>'',
     So_ResponsibleMailbox = ''hostmaster.<domain>'', So_SerialFormat = ''unix'', So_DefaultTTL = 3600,
     So_RefreshSeconds = 3600, So_RetrySeconds = 600, So_ExpireSeconds = 1209600, So_MinimumTTL = 3600\<rparr>,
     Rv_ZoneStatus = ''primary'', Rv_SubdomainPolicy = ''parent'', Rv_TransferCIDRs = [], Rv_Records = [demo_www],
     Rv_OptimisticRevision = 1\<rparr>"

definition demo_row :: "int \<Rightarrow> string \<Rightarrow> string \<Rightarrow> string \<Rightarrow> DNSRecord" where
  "demo_row i host v origin = zero_record\<lparr>Dr_ID := i, Dr_OwnerSiteID := 7, Dr_Host := host, Dr_Type := ''A'',
     Dr_Value := v, Dr_TTL := 3600, Dr_Origin := origin, Dr_TemplateRecordKey := (if origin = ''template'' then host @ ''-a'' else [])\<rparr>"

definition demo_zone :: "DNSRecord list \<Rightarrow> zoneSnapshot" where
  "demo_zone rs = \<lparr>Zs_ID = 3, Zs_SiteID = 7, Zs_Domain = ''example.com'', Zs_Address = ''192.0.2.1'', Zs_IPv6Address = [],
     Zs_TemplateRevision = 2, Zs_Status = ''active'', Zs_Records = rs, Zs_AuthoritativeSiteID = 7, Zs_SuppressedKeys = [],
     Zs_Hostname = ''panel.example.net'', Zs_AdoptMatching = False, Zs_Services = None, Zs_SubdomainSite = []\<rparr>"

abbreviation demo_sync :: "DNSRecord list \<Rightarrow> zonePlan" where
  "demo_sync rs \<equiv> zonePlanForApply (\<lambda>ks. ks) ascii_tables (\<lambda>_. []) demo_template (demo_zone rs) True"

abbreviation demo_rows :: "DNSRecord list" where
  "demo_rows \<equiv> [demo_row 1 ''www'' ''192.0.2.99'' ''template'', demo_row 2 ''shop'' ''192.0.2.50'' ''custom'']"

lemma demo_updates: "map_option Dr_Value (Zp_update (demo_sync demo_rows) 1) = Some ''192.0.2.1''"
  by code_simp

lemma demo_unchanged: "It_Outcome (Zp_item (demo_sync [demo_row 1 ''www'' ''192.0.2.1'' ''template''])) = ''unchanged''"
  by code_simp

theorem sync_respects_ownership_witness:
  "Zp_update (demo_sync demo_rows) 1 \<noteq> None \<and>
   \<not> Dr_LocallyModified (demo_row 1 ''www'' ''192.0.2.99'' ''template'')"
proof -
  let ?r = "demo_row 1 ''www'' ''192.0.2.99'' ''template''"
  have r: "?r \<in> set (Zs_Records (demo_zone demo_rows))" "Dr_ID ?r = 1" "Dr_Origin ?r = ''template''"
    "\<not> IsEndpointDNSRecord ?r"
    by (simp_all add: demo_row_def demo_zone_def IsEndpointDNSRecord_def zero_record_def)
  have d: "distinct (map Dr_ID (Zs_Records (demo_zone demo_rows)))"
    by (simp add: demo_row_def demo_zone_def zero_record_def)
  have touched: "Zp_update (demo_sync demo_rows) 1 \<noteq> None" using demo_updates by (metis option.map_disc_iff option.distinct(1))
  then have "Zp_update (demo_sync demo_rows) (Dr_ID ?r) \<noteq> None \<or> Zp_adopt (demo_sync demo_rows) (Dr_ID ?r) \<noteq> None \<or>
      Dr_ID ?r \<in> set (Zp_remove (demo_sync demo_rows))"
    unfolding r(2) by (rule disjI1)
  from sync_respects_ownership [OF refl d r(1) this] r(3,4) touched show ?thesis by simp
qed

theorem sync_unchanged_is_empty_witness:
  "Zp_add (demo_sync [demo_row 1 ''www'' ''192.0.2.1'' ''template'']) = [] \<and>
   Zp_update (demo_sync [demo_row 1 ''www'' ''192.0.2.1'' ''template'']) = Map.empty"
  using sync_unchanged_is_empty [OF demo_unchanged] by blast

end
