(* ===== verification/Usage_Log.thy ===== *)
theory Usage_Log
  imports Nak_Regex Nak_Path
begin

text \<open>
  The agent's measurement of traffic: \<open>internal/agent/ops/usage.go\<close> reads the access log of a site from the
  cursor of the last collection, follows one rotation of the log, and counts the bytes, requests and errors of
  the complete lines. The file system is a parameter: what a path names, or why it cannot be opened. Files are
  read whole; a read that fails after a successful open is not modelled. Sizes fit \<open>int64\<close>; the counters
  wrap around. An instant is a number of nanoseconds since the Unix epoch, \<open>None\<close> the zero time.
\<close>

section \<open>The log line\<close>

text \<open>\<open>[^]]+\<close> stops at the first bracket; \<open>.*\<close> prefers the last quote; \<open>\s\<close> has no vertical tab.\<close>

definition log_space :: "char \<Rightarrow> bool" where
  "log_space c \<longleftrightarrow> byte c \<in> {9, 10, 12, 13, 32}"

definition skip_spaces :: "string \<Rightarrow> string option" where
  "skip_spaces s = (case s of [] \<Rightarrow> None | c # _ \<Rightarrow> if log_space c then Some (dropWhile log_space s) else None)"

definition status_fields :: "string \<Rightarrow> (string \<times> string) option" where
  "status_fields s =
     (case skip_spaces s of None \<Rightarrow> None | Some t \<Rightarrow>
        if length t < 3 \<or> \<not> list_all is_digit (take 3 t) then None
        else (case skip_spaces (drop 3 t) of None \<Rightarrow> None | Some u \<Rightarrow>
          let amount = takeWhile is_digit u in
          if amount = [] \<or> skip_spaces (dropWhile is_digit u) = None then None else Some (take 3 t, amount)))"

fun last_quoted :: "string \<Rightarrow> (string \<times> string) option" where
  "last_quoted [] = None"
| "last_quoted (c # cs) =
     (let here = (if c = CHR 0x22 then status_fields cs else None) in
      if c = CHR 0x0A then here else (case last_quoted cs of None \<Rightarrow> here | Some r \<Rightarrow> Some r))"

definition traffic_at :: "string \<Rightarrow> (string \<times> string \<times> string) option" where
  "traffic_at cs =
     (let stamp = takeWhile (\<lambda>c. c \<noteq> CHR '']'') cs in
      if stamp = [] then None
      else (case dropWhile (\<lambda>c. c \<noteq> CHR '']'') cs of [] \<Rightarrow> None | _ # rest \<Rightarrow>
        map_option (\<lambda>(status, amount). (stamp, status, amount)) (last_quoted rest)))"

fun nginxTrafficRE :: "string \<Rightarrow> (string \<times> string \<times> string) option" where
  "nginxTrafficRE [] = None"
| "nginxTrafficRE (c # cs) =
     (case (if c = CHR ''['' then traffic_at cs else None) of
        Some r \<Rightarrow> Some r
      | None \<Rightarrow> nginxTrafficRE cs)"

section \<open>The time of a request\<close>

text \<open>\<open>time.Parse("02/Jan/2006:15:04:05 -0700", s)\<close>.\<close>

definition getnum :: "bool \<Rightarrow> string \<Rightarrow> (int \<times> string) option" where
  "getnum fixed s =
     (case s of
        [] \<Rightarrow> None
      | a # r \<Rightarrow>
          if \<not> is_digit a then None
          else (case r of
              b # r' \<Rightarrow> if is_digit b then Some (int (dec_value [a, b]), r') else if fixed then None else Some (int (digit_value a), r)
            | [] \<Rightarrow> if fixed then None else Some (int (digit_value a), r)))"

definition skip_char :: "char \<Rightarrow> string \<Rightarrow> string option" where
  "skip_char c s = (case s of [] \<Rightarrow> None | d # r \<Rightarrow> if d = c then Some r else None)"

definition month_names :: "string list" where
  "month_names = [''jan'', ''feb'', ''mar'', ''apr'', ''may'', ''jun'', ''jul'', ''aug'', ''sep'', ''oct'', ''nov'', ''dec'']"

definition lookup_month :: "string \<Rightarrow> (int \<times> string) option" where
  "lookup_month s =
     map_option (\<lambda>i. (int i + 1, drop 3 s)) (find (\<lambda>i. map lower_char (take 3 s) = month_names ! i) [0..<12])"

definition long_year :: "string \<Rightarrow> (int \<times> string) option" where
  "long_year s =
     (if 4 \<le> length s \<and> list_all is_digit (take 4 s) then Some (int (dec_value (take 4 s)), drop 4 s) else None)"

definition range_num :: "bool \<Rightarrow> int \<Rightarrow> string \<Rightarrow> (int \<times> string) option" where
  "range_num fixed bound s = (case getnum fixed s of None \<Rightarrow> None | Some (n, r) \<Rightarrow> if n < bound then Some (n, r) else None)"

text \<open>A fraction after the seconds is accepted though the layout has none; nine digits of it count.\<close>

definition fraction :: "string \<Rightarrow> int \<times> string" where
  "fraction s =
     (case s of
        c # d # _ \<Rightarrow>
          if (c = CHR ''.'' \<or> c = CHR '','') \<and> is_digit d then
            (let ds = takeWhile is_digit (tl s); kept = take 9 ds in
             (int (dec_value kept) * 10 ^ (9 - length kept), dropWhile is_digit (tl s)))
          else (0, s)
      | _ \<Rightarrow> (0, s))"

definition skip_blank :: "string \<Rightarrow> string option" where
  "skip_blank s =
     (case s of [] \<Rightarrow> Some [] | c # _ \<Rightarrow> if c = CHR '' '' then Some (dropWhile (\<lambda>x. x = CHR '' '') s) else None)"

definition zone_offset :: "string \<Rightarrow> int option" where
  "zone_offset s =
     (if length s \<noteq> 5 then None
      else (case (getnum True (take 2 (drop 1 s)), getnum True (drop 3 s)) of
          (Some (h, _), Some (m, _)) \<Rightarrow>
            if h > 24 \<or> m > 60 then None
            else if hd s = CHR ''+'' then Some ((h * 60 + m) * 60)
            else if hd s = CHR ''-'' then Some (- ((h * 60 + m) * 60))
            else None
        | _ \<Rightarrow> None))"

definition leap :: "int \<Rightarrow> bool" where
  "leap y \<longleftrightarrow> y mod 4 = 0 \<and> (y mod 100 \<noteq> 0 \<or> y mod 400 = 0)"

definition days_in :: "int \<Rightarrow> int \<Rightarrow> int" where
  "days_in m y = (if m = 2 then (if leap y then 29 else 28) else if m \<in> {4, 6, 9, 11} then 30 else 31)"

text \<open>Days from 1970-01-01 in the proleptic Gregorian calendar, counting years from March.\<close>

definition epoch_day :: "int \<Rightarrow> int \<Rightarrow> int \<Rightarrow> int" where
  "epoch_day y m d =
     (let y' = (if m \<le> 2 then y - 1 else y); era = y' div 400; yoe = y' mod 400;
          doy = (153 * (if m > 2 then m - 3 else m + 9) + 2) div 5 + d - 1
      in era * 146097 + yoe * 365 + yoe div 4 - yoe div 100 + doy - 719468)"

definition obind :: "'a option \<Rightarrow> ('a \<Rightarrow> 'b option) \<Rightarrow> 'b option" where
  "obind m f = (case m of None \<Rightarrow> None | Some x \<Rightarrow> f x)"

definition parse_log_time :: "string \<Rightarrow> int option" where
  "parse_log_time s =
     obind (getnum True s) (\<lambda>(day, s).
     obind (skip_char (CHR ''/'') s) (\<lambda>s.
     obind (lookup_month s) (\<lambda>(month, s).
     obind (skip_char (CHR ''/'') s) (\<lambda>s.
     obind (long_year s) (\<lambda>(year, s).
     obind (skip_char (CHR '':'') s) (\<lambda>s.
     obind (range_num False 24 s) (\<lambda>(hour, s).
     obind (skip_char (CHR '':'') s) (\<lambda>s.
     obind (range_num True 60 s) (\<lambda>(minute, s).
     obind (skip_char (CHR '':'') s) (\<lambda>s.
     obind (range_num True 60 s) (\<lambda>(second, s).
     let (nanos, s) = fraction s in
     obind (skip_blank s) (\<lambda>s.
     obind (zone_offset s) (\<lambda>zone.
       if day < 1 \<or> days_in month year < day then None
       else Some ((epoch_day year month day * 86400 + hour * 3600 + minute * 60 + second - zone) * 10 ^ 9 + nanos))))))))))))))"

section \<open>Measurements\<close>

record nginxUsageMeasurement =
  Nm_Bytes :: int
  Nm_Requests :: int
  Nm_Errors :: int

definition no_usage :: nginxUsageMeasurement where
  "no_usage = \<lparr>Nm_Bytes = 0, Nm_Requests = 0, Nm_Errors = 0\<rparr>"

definition add_measurement :: "nginxUsageMeasurement \<Rightarrow> nginxUsageMeasurement \<Rightarrow> nginxUsageMeasurement" where
  "add_measurement m other =
     \<lparr>Nm_Bytes = wrap64 (Nm_Bytes m + Nm_Bytes other), Nm_Requests = wrap64 (Nm_Requests m + Nm_Requests other),
      Nm_Errors = wrap64 (Nm_Errors m + Nm_Errors other)\<rparr>"

text \<open>What the loop body adds for one line.\<close>

definition line_usage :: "int option \<Rightarrow> string \<Rightarrow> nginxUsageMeasurement" where
  "line_usage periodStart line =
     (case nginxTrafficRE line of
        None \<Rightarrow> no_usage
      | Some (stamp, status, amount) \<Rightarrow>
          if (case periodStart of None \<Rightarrow> False | Some p \<Rightarrow>
                (case parse_log_time stamp of None \<Rightarrow> True | Some t \<Rightarrow> t < p)) then no_usage
          else
            \<lparr>Nm_Bytes = (if int (dec_value amount) < 2 ^ 63 then int (dec_value amount) else 0),
             Nm_Requests = 1, Nm_Errors = (if 400 \<le> dec_value status then 1 else 0)\<rparr>)"

section \<open>Reading the log\<close>

record log_file =
  Lf_Device :: int
  Lf_Inode :: int
  Lf_Content :: string

datatype fs_error = NotExist | OtherError

type_synonym log_fs = "string \<Rightarrow> fs_error + log_file"

record UsageCursor =
  Uc_DeviceID :: int
  Uc_Inode :: int
  Uc_Offset :: int

definition zero_cursor :: UsageCursor where
  "zero_cursor = \<lparr>Uc_DeviceID = 0, Uc_Inode = 0, Uc_Offset = 0\<rparr>"

datatype usage_error =
    LogDisappeared
  | CursorGapUnavailable fs_error
  | CursorGapNotRetained
  | CursorGapTruncated
  | LogUnreadable fs_error
  | InvalidSeek

text \<open>The lines \<open>ReadBytes\<close> returns without an error: those that end in a newline.\<close>

fun complete_lines :: "string \<Rightarrow> string \<Rightarrow> string list" where
  "complete_lines acc [] = []"
| "complete_lines acc (c # cs) =
     (if c = CHR 0x0A then (acc @ [c]) # complete_lines [] cs else complete_lines (acc @ [c]) cs)"

primrec count_lines :: "int option \<Rightarrow> string list \<Rightarrow> nginxUsageMeasurement \<times> int \<Rightarrow> nginxUsageMeasurement \<times> int" where
  "count_lines periodStart [] st = st"
| "count_lines periodStart (l # ls) st =
     count_lines periodStart ls (add_measurement (fst st) (line_usage periodStart l), snd st + int (length l))"

definition readNginxBytes ::
  "log_fs \<Rightarrow> string \<Rightarrow> int \<Rightarrow> int option \<Rightarrow> usage_error + nginxUsageMeasurement \<times> int" where
  "readNginxBytes fs path offset periodStart =
     (case fs path of
        Inl e \<Rightarrow> Inl (LogUnreadable e)
      | Inr file \<Rightarrow>
          if offset < 0 then Inl InvalidSeek
          else Inr (count_lines periodStart (complete_lines [] (drop (nat offset) (Lf_Content file))) (no_usage, offset)))"

text \<open>The tail of \<open>readNginxTraffic\<close>, after the rotated log has been read into \<open>total\<close>.\<close>

definition read_current ::
  "log_fs \<Rightarrow> string \<Rightarrow> log_file \<Rightarrow> nginxUsageMeasurement \<Rightarrow> int \<Rightarrow> int option \<Rightarrow>
     usage_error + nginxUsageMeasurement \<times> UsageCursor" where
  "read_current fs path info sofar offset periodStart =
     (case readNginxBytes fs path offset periodStart of
        Inl e \<Rightarrow> Inl e
      | Inr (m, pos) \<Rightarrow>
          Inr (add_measurement sofar m,
               \<lparr>Uc_DeviceID = Lf_Device info, Uc_Inode = Lf_Inode info, Uc_Offset = pos\<rparr>))"

definition read_truncated ::
  "log_fs \<Rightarrow> string \<Rightarrow> log_file \<Rightarrow> nginxUsageMeasurement \<Rightarrow> int \<Rightarrow> int option \<Rightarrow>
     usage_error + nginxUsageMeasurement \<times> UsageCursor" where
  "read_truncated fs path info sofar offset periodStart =
     (if offset > int (length (Lf_Content info)) then
        (case fs (path @ ''.1'') of
           Inl _ \<Rightarrow> Inl CursorGapTruncated
         | Inr old \<Rightarrow>
             if int (length (Lf_Content old)) < offset then Inl CursorGapTruncated
             else (case readNginxBytes fs (path @ ''.1'') offset periodStart of
                 Inl e \<Rightarrow> Inl e
               | Inr (m, _) \<Rightarrow> read_current fs path info (add_measurement sofar m) 0 periodStart))
      else read_current fs path info sofar offset periodStart)"

definition readNginxTraffic ::
  "log_fs \<Rightarrow> string \<Rightarrow> UsageCursor \<Rightarrow> int option \<Rightarrow> usage_error + nginxUsageMeasurement \<times> UsageCursor" where
  "readNginxTraffic fs path cursor periodStart =
     (case fs path of
        Inl NotExist \<Rightarrow> if Uc_Inode cursor \<noteq> 0 then Inl LogDisappeared else Inr (no_usage, zero_cursor)
      | Inl e \<Rightarrow> Inl (LogUnreadable e)
      | Inr info \<Rightarrow>
          if Uc_Inode cursor \<noteq> 0 \<and> (Uc_Inode cursor \<noteq> Lf_Inode info \<or> Uc_DeviceID cursor \<noteq> Lf_Device info) then
            (case fs (path @ ''.1'') of
               Inl e \<Rightarrow> Inl (CursorGapUnavailable e)
             | Inr old \<Rightarrow>
                 if Lf_Device old \<noteq> Uc_DeviceID cursor \<or> Lf_Inode old \<noteq> Uc_Inode cursor then Inl CursorGapNotRetained
                 else (case readNginxBytes fs (path @ ''.1'') (Uc_Offset cursor) periodStart of
                     Inl e \<Rightarrow> Inl e
                   | Inr (m, _) \<Rightarrow> read_truncated fs path info (add_measurement no_usage m) 0 periodStart))
          else read_truncated fs path info no_usage (Uc_Offset cursor) periodStart)"

end
