(* ===== verification/Log_Safety.thy ===== *)
theory Log_Safety
  imports Usage_Log
begin

text \<open>
  What a sequence of collections adds up to while the log grows and is rotated. The reference
  \<open>measure_log\<close> reads a log in one go; \<open>collections_count_every_line_once\<close> says that the running
  total of the collections is the sum of the reference over all logs there ever were.
\<close>

section \<open>Measuring in one go\<close>

lemma wrap64_add_left: "wrap64 (wrap64 a + b) = wrap64 (a + b)"
  by (simp add: wrap64_def mod_simps algebra_simps)

lemma wrap64_idem: "wrap64 (wrap64 a) = wrap64 a"
  using wrap64_add_left [of a 0] by simp

lemma wrap64_add_right: "wrap64 (a + wrap64 b) = wrap64 (a + b)"
  using wrap64_add_left [of b a] by (simp add: add.commute)

lemma add_measurement_assoc:
  "add_measurement (add_measurement a b) c = add_measurement a (add_measurement b c)"
  by (simp add: add_measurement_def wrap64_add_left wrap64_add_right add.assoc)

definition sum_usage :: "nginxUsageMeasurement list \<Rightarrow> nginxUsageMeasurement" where
  "sum_usage ms = foldl add_measurement no_usage ms"

definition measure_log :: "int option \<Rightarrow> string \<Rightarrow> nginxUsageMeasurement" where
  "measure_log periodStart content = sum_usage (map (line_usage periodStart) (complete_lines [] content))"

lemma foldl_add: "foldl add_measurement (add_measurement a b) ms = add_measurement a (foldl add_measurement b ms)"
  by (induction ms arbitrary: b) (simp_all add: add_measurement_assoc)

lemma add_no_usage: "add_measurement (add_measurement a no_usage) b = add_measurement a b"
  by (simp add: add_measurement_def no_usage_def wrap64_add_left)

lemma sum_usage_wrapped: "add_measurement no_usage (sum_usage ms) = sum_usage ms"
proof (cases ms)
  case (Cons m ms')
  have "add_measurement no_usage (add_measurement no_usage m) = add_measurement no_usage m"
    by (simp add: add_measurement_def no_usage_def wrap64_idem)
  with Cons show ?thesis by (simp add: sum_usage_def foldl_add flip: foldl_add)
qed (simp add: sum_usage_def add_measurement_def no_usage_def wrap64_def)

lemma sum_usage_append: "sum_usage (xs @ ys) = add_measurement (sum_usage xs) (sum_usage ys)"
proof -
  have "foldl add_measurement a ys = add_measurement a (sum_usage ys)" if "add_measurement a no_usage = a" for a
    using foldl_add [of a no_usage ys] that by (simp add: sum_usage_def)
  moreover have "add_measurement (sum_usage xs) no_usage = sum_usage xs"
    using sum_usage_wrapped [of xs] by (simp add: add_measurement_def no_usage_def)
  ultimately show ?thesis by (simp add: sum_usage_def)
qed

lemma sum_usage_snoc: "add_measurement (sum_usage ms) m = sum_usage (ms @ [m])"
  by (simp add: sum_usage_def)

lemma count_lines_eq:
  "count_lines p ls (sum_usage ms, pos) =
     (sum_usage (ms @ map (line_usage p) ls), pos + int (length (concat ls)))"
  by (induction ls arbitrary: ms pos) (simp_all add: sum_usage_snoc add.assoc)

section \<open>Complete lines\<close>

text \<open>What is left after the last newline.\<close>

fun open_line :: "string \<Rightarrow> string \<Rightarrow> string" where
  "open_line acc [] = acc"
| "open_line acc (c # cs) = (if c = CHR 0x0A then open_line [] cs else open_line (acc @ [c]) cs)"

lemma complete_lines_append:
  "complete_lines acc (s @ t) = complete_lines acc s @ complete_lines (open_line acc s) t"
  by (induction acc s rule: complete_lines.induct) simp_all

lemma open_line_append: "open_line acc (s @ t) = open_line (open_line acc s) t"
  by (induction acc s rule: open_line.induct) simp_all

lemma concat_complete_lines: "concat (complete_lines acc s) @ open_line acc s = acc @ s"
  by (induction acc s rule: open_line.induct) simp_all

lemma open_line_no_newline: "CHR 0x0A \<notin> set s \<Longrightarrow> open_line acc s = acc @ s"
  by (induction s arbitrary: acc) auto

lemma open_line_concat:
  "CHR 0x0A \<notin> set acc \<Longrightarrow> open_line [] (concat (complete_lines acc s)) = []"
proof (induction acc s rule: complete_lines.induct)
  case (2 acc c cs)
  then show ?case by (auto simp: open_line_append open_line_no_newline)
qed simp

text \<open>An offset at which a line starts.\<close>

definition boundary :: "nat \<Rightarrow> string \<Rightarrow> bool" where
  "boundary n s \<longleftrightarrow> n \<le> length s \<and> open_line [] (take n s) = []"

lemma boundary_0 [simp]: "boundary 0 s"
  by (simp add: boundary_def)

lemma boundary_append: "boundary n s \<Longrightarrow> boundary n (s @ t)"
  by (simp add: boundary_def)

definition next_boundary :: "nat \<Rightarrow> string \<Rightarrow> nat" where
  "next_boundary n s = n + length (concat (complete_lines [] (drop n s)))"

lemma take_next_boundary:
  assumes "n \<le> length s"
  shows "take (next_boundary n s) s = take n s @ concat (complete_lines [] (drop n s))"
proof -
  have "drop n s = concat (complete_lines [] (drop n s)) @ open_line [] (drop n s)"
    using concat_complete_lines [of "[]" "drop n s"] by simp
  then have "take (length (concat (complete_lines [] (drop n s)))) (drop n s) = concat (complete_lines [] (drop n s))"
    by (metis append_eq_conv_conj)
  with assms show ?thesis by (simp add: next_boundary_def take_add)
qed

lemma boundary_next:
  assumes "boundary n s"
  shows "boundary (next_boundary n s) s"
proof -
  have "length (concat (complete_lines [] (drop n s))) \<le> length (drop n s)"
    using arg_cong [where f = length, OF concat_complete_lines [of "[]" "drop n s"]] by simp
  with assms show ?thesis
    by (simp add: boundary_def take_next_boundary open_line_append open_line_concat)
      (auto simp: next_boundary_def)
qed

text \<open>Reading from the start of a line adds exactly what the log holds from there.\<close>

lemma measure_log_split:
  assumes "boundary n s"
  shows "measure_log p s = add_measurement (measure_log p (take n s)) (measure_log p (drop n s))"
proof -
  have "complete_lines [] s = complete_lines [] (take n s) @ complete_lines [] (drop n s)"
    using assms complete_lines_append [of "[]" "take n s" "drop n s"] by (simp add: boundary_def)
  then show ?thesis by (simp add: measure_log_def sum_usage_append)
qed

lemma complete_lines_concat:
  "CHR 0x0A \<notin> set acc \<Longrightarrow> complete_lines [] (concat (complete_lines acc s)) = complete_lines acc s"
proof (induction acc s rule: complete_lines.induct)
  case (2 acc c cs)
  have "complete_lines a w = []" if "CHR 0x0A \<notin> set w" for a w
    using that by (induction w arbitrary: a) auto
  with 2 show ?case by (simp add: complete_lines_append open_line_no_newline)
qed simp

lemma measure_log_next:
  assumes "boundary n s"
  shows "measure_log p (take (next_boundary n s) s) = measure_log p s"
  using assms complete_lines_append [of "[]" "take n s" "drop n s"]
  by (simp add: measure_log_def take_next_boundary complete_lines_append complete_lines_concat boundary_def)

lemma readNginxBytes_eq:
  assumes "fs path = Inr file"
  shows "readNginxBytes fs path (int n) p =
    Inr (measure_log p (drop n (Lf_Content file)), int (next_boundary n (Lf_Content file)))"
  using assms count_lines_eq [of p "complete_lines [] (drop n (Lf_Content file))" "[]" "int n"]
  by (simp add: readNginxBytes_def measure_log_def next_boundary_def sum_usage_def)

section \<open>Collections over a log that grows and rotates\<close>

record log_state =
  Ls_Closed :: "log_file list"
  Ls_Current :: log_file
  Ls_Cursor :: UsageCursor
  Ls_Total :: nginxUsageMeasurement
  Ls_Rotations :: nat

text \<open>Rotation keeps the last closed log under the name with suffix \<open>.1\<close>.\<close>

definition log_files :: "string \<Rightarrow> log_state \<Rightarrow> log_fs" where
  "log_files path s q =
     (if q = path then Inr (Ls_Current s)
      else if q = path @ ''.1'' \<and> Ls_Closed s \<noteq> [] then Inr (last (Ls_Closed s))
      else Inl NotExist)"

definition all_logs :: "log_state \<Rightarrow> log_file list" where
  "all_logs s = Ls_Closed s @ [Ls_Current s]"

definition logs_usage :: "int option \<Rightarrow> log_file list \<Rightarrow> nginxUsageMeasurement" where
  "logs_usage p fs = sum_usage (map (\<lambda>f. measure_log p (Lf_Content f)) fs)"

inductive log_run :: "int option \<Rightarrow> string \<Rightarrow> log_state \<Rightarrow> bool" for p path where
  start: "Lf_Inode f \<noteq> 0 \<Longrightarrow>
    log_run p path \<lparr>Ls_Closed = [], Ls_Current = f, Ls_Cursor = zero_cursor, Ls_Total = no_usage, Ls_Rotations = 0\<rparr>"
| append: "log_run p path s \<Longrightarrow>
    log_run p path (s\<lparr>Ls_Current := (Ls_Current s)\<lparr>Lf_Content := Lf_Content (Ls_Current s) @ t\<rparr>\<rparr>)"
| rotate: "log_run p path s \<Longrightarrow> Uc_Inode (Ls_Cursor s) \<noteq> 0 \<Longrightarrow> Lf_Inode f \<noteq> 0 \<Longrightarrow>
    Lf_Inode f \<notin> Lf_Inode ` set (all_logs s) \<Longrightarrow> Lf_Content f = [] \<Longrightarrow>
    log_run p path (s\<lparr>Ls_Closed := all_logs s, Ls_Current := f, Ls_Rotations := Suc (Ls_Rotations s)\<rparr>)"
| collect: "log_run p path s \<Longrightarrow> readNginxTraffic (log_files path s) path (Ls_Cursor s) p = Inr (m, cursor) \<Longrightarrow>
    log_run p path (s\<lparr>Ls_Cursor := cursor, Ls_Total := add_measurement (Ls_Total s) m, Ls_Rotations := 0\<rparr>)"

text \<open>The cursor stands at the start of a line of some log, and the total is what lies before it.\<close>

definition cursor_at :: "int option \<Rightarrow> log_state \<Rightarrow> log_file list \<Rightarrow> log_file \<Rightarrow> log_file list \<Rightarrow> nat \<Rightarrow> bool" where
  "cursor_at p s pre f post n \<longleftrightarrow>
     all_logs s = pre @ f # post \<and> length post = Ls_Rotations s \<and>
     Ls_Cursor s = \<lparr>Uc_DeviceID = Lf_Device f, Uc_Inode = Lf_Inode f, Uc_Offset = int n\<rparr> \<and>
     boundary n (Lf_Content f) \<and>
     Ls_Total s = add_measurement (logs_usage p pre) (measure_log p (take n (Lf_Content f)))"

definition cursor_inv :: "int option \<Rightarrow> log_state \<Rightarrow> bool" where
  "cursor_inv p s \<longleftrightarrow>
     (Ls_Cursor s = zero_cursor \<and> Ls_Closed s = [] \<and> Ls_Total s = no_usage) \<or> (\<exists>pre f post n. cursor_at p s pre f post n)"

definition log_inv :: "int option \<Rightarrow> log_state \<Rightarrow> bool" where
  "log_inv p s \<longleftrightarrow>
     distinct (map Lf_Inode (all_logs s)) \<and> 0 \<notin> Lf_Inode ` set (all_logs s) \<and> cursor_inv p s"

lemma logs_usage_snoc: "logs_usage p (fs @ [f]) = add_measurement (logs_usage p fs) (measure_log p (Lf_Content f))"
  by (simp add: logs_usage_def sum_usage_def)

lemma measure_split_add:
  "boundary n s \<Longrightarrow> add_measurement (add_measurement a (measure_log p (take n s))) (measure_log p (drop n s)) =
     add_measurement a (measure_log p s)"
  by (simp add: add_measurement_assoc measure_log_split [of n s])

lemma read_current_eq:
  "fs path = Inr info \<Longrightarrow> read_truncated fs path info sofar 0 p =
     Inr (add_measurement sofar (measure_log p (Lf_Content info)),
          \<lparr>Uc_DeviceID = Lf_Device info, Uc_Inode = Lf_Inode info, Uc_Offset = int (next_boundary 0 (Lf_Content info))\<rparr>)"
  using readNginxBytes_eq [of fs path info 0 p]
  by (simp add: read_truncated_def read_current_def)

lemma read_truncated_eq:
  "fs path = Inr info \<Longrightarrow> boundary n (Lf_Content info) \<Longrightarrow> read_truncated fs path info sofar (int n) p =
     Inr (add_measurement sofar (measure_log p (drop n (Lf_Content info))),
          \<lparr>Uc_DeviceID = Lf_Device info, Uc_Inode = Lf_Inode info, Uc_Offset = int (next_boundary n (Lf_Content info))\<rparr>)"
  using readNginxBytes_eq [of fs path info n p]
  by (simp add: read_truncated_def read_current_def boundary_def)

lemma log_files_simps [simp]:
  "log_files path s path = Inr (Ls_Current s)"
  "log_files path s (path @ ''.1'') = (if Ls_Closed s \<noteq> [] then Inr (last (Ls_Closed s)) else Inl NotExist)"
  by (simp_all add: log_files_def)

text \<open>A collection that returns has counted everything; one that fails had two rotations to follow.\<close>

definition collected :: "int option \<Rightarrow> log_state \<Rightarrow> nginxUsageMeasurement \<Rightarrow> UsageCursor \<Rightarrow> bool" where
  "collected p s m cursor \<longleftrightarrow>
     add_measurement (Ls_Total s) m = logs_usage p (all_logs s) \<and>
     (\<exists>n. cursor = \<lparr>Uc_DeviceID = Lf_Device (Ls_Current s), Uc_Inode = Lf_Inode (Ls_Current s), Uc_Offset = int n\<rparr> \<and>
       boundary n (Lf_Content (Ls_Current s)) \<and>
       measure_log p (take n (Lf_Content (Ls_Current s))) = measure_log p (Lf_Content (Ls_Current s)))"

definition collect_result :: "int option \<Rightarrow> string \<Rightarrow> log_state \<Rightarrow> bool" where
  "collect_result p path s =
     (case readNginxTraffic (log_files path s) path (Ls_Cursor s) p of
        Inl _ \<Rightarrow> 2 \<le> Ls_Rotations s
      | Inr (m, cursor) \<Rightarrow> collected p s m cursor)"

lemma measure_wrapped: "add_measurement no_usage (measure_log p c) = measure_log p c"
  by (simp add: measure_log_def sum_usage_wrapped)

lemma collectedI:
  assumes "boundary n (Lf_Content (Ls_Current s))"
    and "add_measurement (Ls_Total s) m = logs_usage p (all_logs s)"
  shows "collected p s m \<lparr>Uc_DeviceID = Lf_Device (Ls_Current s), Uc_Inode = Lf_Inode (Ls_Current s),
    Uc_Offset = int (next_boundary n (Lf_Content (Ls_Current s)))\<rparr>"
  using assms boundary_next measure_log_next unfolding collected_def by blast

lemma collect_first:
  assumes "Ls_Cursor s = zero_cursor" and "Ls_Closed s = []" and "Ls_Total s = no_usage"
  shows "collect_result p path s"
proof -
  have "logs_usage p (all_logs s) = measure_log p (Lf_Content (Ls_Current s))"
    using assms by (simp add: all_logs_def logs_usage_def sum_usage_def measure_wrapped)
  then show ?thesis
    using assms collectedI [of 0 s _ p] read_current_eq [of "log_files path s" path "Ls_Current s" no_usage p]
    by (simp add: collect_result_def readNginxTraffic_def zero_cursor_def measure_wrapped)
qed

lemma collect_same_log:
  assumes "all_logs s = pre @ [f]" and "boundary n (Lf_Content f)"
    and "Ls_Cursor s = \<lparr>Uc_DeviceID = Lf_Device f, Uc_Inode = Lf_Inode f, Uc_Offset = int n\<rparr>"
    and "Ls_Total s = add_measurement (logs_usage p pre) (measure_log p (take n (Lf_Content f)))"
  shows "collect_result p path s"
proof -
  have f: "f = Ls_Current s" "pre = Ls_Closed s" using assms(1) by (simp_all add: all_logs_def)
  have "add_measurement (Ls_Total s) (measure_log p (drop n (Lf_Content f))) = logs_usage p (all_logs s)"
    using assms by (simp add: logs_usage_snoc measure_split_add)
  then show ?thesis
    using assms f collectedI [of n s _ p] read_truncated_eq [of "log_files path s" path f n no_usage p]
    by (simp add: collect_result_def readNginxTraffic_def measure_wrapped)
qed

lemma collect_rotated_log:
  assumes "all_logs s = pre @ [f, g]" and "distinct (map Lf_Inode (all_logs s))" and "0 \<notin> Lf_Inode ` set (all_logs s)"
    and "boundary n (Lf_Content f)"
    and "Ls_Cursor s = \<lparr>Uc_DeviceID = Lf_Device f, Uc_Inode = Lf_Inode f, Uc_Offset = int n\<rparr>"
    and "Ls_Total s = add_measurement (logs_usage p pre) (measure_log p (take n (Lf_Content f)))"
  shows "collect_result p path s"
proof -
  have "Ls_Closed s @ [Ls_Current s] = (pre @ [f]) @ [g]" using assms(1) by (simp add: all_logs_def)
  then have f: "Ls_Closed s = pre @ [f]" "Ls_Current s = g" by simp_all
  have inodes: "Lf_Inode f \<noteq> Lf_Inode g" "Lf_Inode f \<noteq> 0" using assms(1-3) by auto
  let ?m = "add_measurement (measure_log p (drop n (Lf_Content f))) (measure_log p (Lf_Content g))"
  have "logs_usage p (all_logs s) = add_measurement (add_measurement (logs_usage p pre) (measure_log p (Lf_Content f))) (measure_log p (Lf_Content g))"
    using assms(1) logs_usage_snoc [of p "pre @ [f]" g] by (simp add: logs_usage_snoc)
  then have "add_measurement (Ls_Total s) ?m = logs_usage p (all_logs s)"
    using assms(4, 6) by (simp add: measure_split_add flip: add_measurement_assoc)
  then show ?thesis
    using assms(5) f inodes collectedI [of 0 s ?m p] readNginxBytes_eq [of "log_files path s" "path @ ''.1''" f n p]
      read_current_eq [of "log_files path s" path g "measure_log p (drop n (Lf_Content f))" p]
    by (simp add: collect_result_def readNginxTraffic_def measure_wrapped)
qed

lemma collect_lost_log:
  assumes "all_logs s = pre @ f # g # h # post" and "distinct (map Lf_Inode (all_logs s))" and "0 \<notin> Lf_Inode ` set (all_logs s)"
    and "Ls_Cursor s = \<lparr>Uc_DeviceID = Lf_Device f, Uc_Inode = Lf_Inode f, Uc_Offset = int n\<rparr>"
  shows "readNginxTraffic (log_files path s) path (Ls_Cursor s) p = Inl CursorGapNotRetained"
proof -
  have closed: "Ls_Closed s = pre @ f # butlast (g # h # post)" and current: "Ls_Current s = last (g # h # post)"
    using arg_cong [where f = butlast, OF assms(1)] arg_cong [where f = last, OF assms(1)]
    by (simp_all add: all_logs_def butlast_append)
  have "last (Ls_Closed s) \<in> set (g # h # post)"
    unfolding closed by (auto dest: in_set_butlastD simp: last_append intro: in_set_butlastD [OF last_in_set])
  moreover have "Ls_Current s \<in> set (g # h # post)" unfolding current by (rule last_in_set) simp
  moreover have "x \<in> set (g # h # post) \<Longrightarrow> Lf_Inode x \<noteq> Lf_Inode f" for x
    using assms(2) unfolding assms(1) by (auto simp: image_iff)
  moreover have "Lf_Inode f \<noteq> 0" using assms(3) unfolding assms(1) by auto
  ultimately have "Lf_Inode (last (Ls_Closed s)) \<noteq> Lf_Inode f" "Lf_Inode (Ls_Current s) \<noteq> Lf_Inode f" "Lf_Inode f \<noteq> 0"
    by blast+
  with assms(4) closed show ?thesis by (simp add: readNginxTraffic_def)
qed

lemma log_inv_collect: "log_inv p s \<Longrightarrow> collect_result p path s"
proof -
  assume inv: "log_inv p s"
  show ?thesis
  proof (cases "Ls_Cursor s = zero_cursor \<and> Ls_Closed s = [] \<and> Ls_Total s = no_usage")
    case False
    with inv obtain pre f post n where c: "cursor_at p s pre f post n" unfolding log_inv_def cursor_inv_def by blast
    consider "post = []" | g where "post = [g]" | g h post' where "post = g # h # post'"
      by (metis list.exhaust)
    then show ?thesis
    proof cases
      case 1 then show ?thesis using c unfolding cursor_at_def by (auto intro: collect_same_log)
    next
      case 2 then show ?thesis using c inv unfolding log_inv_def cursor_at_def by (blast intro: collect_rotated_log)
    next
      case 3
      then have "readNginxTraffic (log_files path s) path (Ls_Cursor s) p = Inl CursorGapNotRetained"
        using c inv collect_lost_log unfolding log_inv_def cursor_at_def by simp
      with 3 c show ?thesis by (simp add: collect_result_def cursor_at_def)
    qed
  qed (simp add: collect_first)
qed

lemma cursor_at_append:
  assumes "cursor_at p s pre f post n"
  shows "\<exists>f post. cursor_at p (s\<lparr>Ls_Current := (Ls_Current s)\<lparr>Lf_Content := Lf_Content (Ls_Current s) @ t\<rparr>\<rparr>) pre f post n"
proof -
  let ?g = "(Ls_Current s)\<lparr>Lf_Content := Lf_Content (Ls_Current s) @ t\<rparr>"
  show ?thesis
  proof (cases post rule: rev_cases)
    case Nil
    with assms have "cursor_at p (s\<lparr>Ls_Current := ?g\<rparr>) pre ?g [] n"
      by (auto simp: cursor_at_def all_logs_def boundary_append boundary_def)
    then show ?thesis by blast
  next
    case (snoc post' x)
    then have "Ls_Closed s = pre @ f # post'"
      using assms by (simp add: cursor_at_def all_logs_def flip: append_Cons append_assoc)
    with assms snoc have "cursor_at p (s\<lparr>Ls_Current := ?g\<rparr>) pre f (post' @ [?g]) n" by (simp add: cursor_at_def all_logs_def)
    then show ?thesis by blast
  qed
qed

lemma cursor_at_rotate:
  "cursor_at p s pre f post n \<Longrightarrow>
     cursor_at p (s\<lparr>Ls_Closed := all_logs s, Ls_Current := g, Ls_Rotations := Suc (Ls_Rotations s)\<rparr>) pre f (post @ [g]) n"
  by (simp add: cursor_at_def all_logs_def)

lemma cursor_at_collect:
  assumes "collected p s m cursor"
  shows "\<exists>n. cursor_at p (s\<lparr>Ls_Cursor := cursor, Ls_Total := add_measurement (Ls_Total s) m, Ls_Rotations := 0\<rparr>)
    (Ls_Closed s) (Ls_Current s) [] n"
  using assms by (auto simp: collected_def cursor_at_def all_logs_def logs_usage_snoc)

lemma log_run_inv: "log_run p path s \<Longrightarrow> log_inv p s"
proof (induction rule: log_run.induct)
  case (start f)
  then show ?case by (simp add: log_inv_def cursor_inv_def all_logs_def)
next
  case (append s t)
  then show ?case using cursor_at_append [of p s _ _ _ _ t]
    by (auto simp: log_inv_def cursor_inv_def all_logs_def) blast+
next
  case (rotate s f)
  then have "Ls_Cursor s \<noteq> zero_cursor" by (auto simp: zero_cursor_def)
  with rotate have "\<exists>pre g post n. cursor_at p s pre g post n" by (simp add: log_inv_def cursor_inv_def)
  with rotate show ?case using cursor_at_rotate [of p s _ _ _ _ f]
    by (auto simp: log_inv_def cursor_inv_def all_logs_def) blast+
next
  case (collect s m cursor)
  then have "collected p s m cursor"
    using log_inv_collect [of p s path] by (simp add: collect_result_def)
  from cursor_at_collect [OF this] collect show ?case
    by (auto simp: log_inv_def cursor_inv_def all_logs_def)
qed


definition demo_line :: string where
  "demo_line = ''[10/Oct/2000:13:55:36 -0700]'' @ [CHR 0x22] @ '' 404 612 '' @ [CHR 0x0A]"

text \<open>A collection in the middle of a line, then the rest of the line, a rotation, and another line.\<close>

definition demo_first :: log_file where
  "demo_first = \<lparr>Lf_Device = 1, Lf_Inode = 7, Lf_Content = demo_line @ ''[10/''\<rparr>"

definition demo_start :: log_state where
  "demo_start = \<lparr>Ls_Closed = [], Ls_Current = demo_first, Ls_Cursor = zero_cursor, Ls_Total = no_usage, Ls_Rotations = 0\<rparr>"

definition demo_collect :: "log_state \<Rightarrow> log_state" where
  "demo_collect s =
     (case readNginxTraffic (log_files ''a.log'' s) ''a.log'' (Ls_Cursor s) (Some 0) of
        Inr (m, cursor) \<Rightarrow> s\<lparr>Ls_Cursor := cursor, Ls_Total := add_measurement (Ls_Total s) m, Ls_Rotations := 0\<rparr>
      | Inl _ \<Rightarrow> s)"

definition demo_append :: "string \<Rightarrow> log_state \<Rightarrow> log_state" where
  "demo_append t s = s\<lparr>Ls_Current := (Ls_Current s)\<lparr>Lf_Content := Lf_Content (Ls_Current s) @ t\<rparr>\<rparr>"

definition demo_rotate :: "log_state \<Rightarrow> log_state" where
  "demo_rotate s =
     s\<lparr>Ls_Closed := all_logs s, Ls_Current := \<lparr>Lf_Device = 1, Lf_Inode = 8, Lf_Content = []\<rparr>, Ls_Rotations := Suc (Ls_Rotations s)\<rparr>"

definition demo_log :: log_state where
  "demo_log = demo_append demo_line (demo_rotate (demo_append (drop 4 demo_line) (demo_collect demo_start)))"

lemma demo_collect_run: "log_run (Some 0) ''a.log'' s \<Longrightarrow> log_run (Some 0) ''a.log'' (demo_collect s)"
  using log_run.collect by (auto simp: demo_collect_def split: sum.splits)

lemma demo_run: "log_run (Some 0) ''a.log'' demo_log"
proof -
  have "log_run (Some 0) ''a.log'' demo_start"
    unfolding demo_start_def by (rule log_run.start) (simp add: demo_first_def)
  then have "log_run (Some 0) ''a.log'' (demo_append (drop 4 demo_line) (demo_collect demo_start))"
    unfolding demo_append_def by (intro log_run.append demo_collect_run)
  then have "log_run (Some 0) ''a.log'' (demo_rotate (demo_append (drop 4 demo_line) (demo_collect demo_start)))"
    unfolding demo_rotate_def by (rule log_run.rotate) (code_simp+)
  then show ?thesis
    unfolding demo_log_def demo_append_def [of demo_line] by (rule log_run.append)
qed

lemma demo_result:
  "(case readNginxTraffic (log_files ''a.log'' demo_log) ''a.log'' (Ls_Cursor demo_log) (Some 0) of
      Inr (m, _) \<Rightarrow> m = \<lparr>Nm_Bytes = 1224, Nm_Requests = 2, Nm_Errors = 2\<rparr> | Inl _ \<Rightarrow> False)"
  by code_simp


end
