(* ===== verification/Usage_Collect.thy ===== *)
theory Usage_Collect
  imports Log_Safety Site_Request
begin

text \<open>
  The agent's usage scan, \<open>UsageCollector.CollectUsage\<close> of \<open>internal/agent/ops/usage.go\<close>: the directories
  of the sites and accounts, the containers of the subscription, its databases, and the access logs of
  \<open>Usage_Log\<close>. Directory trees and the answer of MariaDB are parameters, and so is the order in which
  Go ranges over the set of account names. Cancellation is not modelled.
\<close>

section \<open>Paths\<close>

text \<open>\<open>filepath.Rel\<close> of two paths.\<close>

fun drop_common :: "string list \<Rightarrow> string list \<Rightarrow> string list \<times> string list" where
  "drop_common (b # bs) (t # ts) = (if b = t then drop_common bs ts else (b # bs, t # ts))"
| "drop_common bs ts = (bs, ts)"

definition Rel :: "string \<Rightarrow> string \<Rightarrow> string option" where
  "Rel base targ =
     (if Clean targ = Clean base then Some ''.''
      else if IsAbs base \<noteq> IsAbs targ then None
      else (let ts = (if Clean targ = ''.'' then [''.''] else path_comps targ);
                (b, t) = drop_common (path_comps base) ts
            in if b \<noteq> [] \<and> t \<noteq> [] \<and> hd b = ''..'' then None
               else Some (Join (replicate (length b) ''..'' @ t) ''/'')))"

definition safeLogPath :: "string \<Rightarrow> string \<Rightarrow> string option" where
  "safeLogPath logRoot raw =
     (let p = Clean raw; path = (if IsAbs p then p else Join_path [logRoot, p]) in
      case Rel logRoot path of
        None \<Rightarrow> None
      | Some rel \<Rightarrow> if rel = ''..'' \<or> HasPrefix rel ''../'' then None else Some path)"

section \<open>Directories\<close>

text \<open>
  \<open>BadEntry\<close>: the walk reports an error for the path. A regular file carries what \<open>Info\<close> returns, which
  fails for a file removed since its directory was listed.
\<close>

datatype fs_node = RegularFile "fs_error + int" | OtherFile | Directory "fs_node list" | BadEntry fs_error

fun walk_bytes :: "fs_node \<Rightarrow> int \<Rightarrow> fs_error + int"
and walk_entries :: "fs_node list \<Rightarrow> int \<Rightarrow> fs_error + int" where
  "walk_bytes (RegularFile (Inr n)) acc = Inr (wrap64 (acc + n))"
| "walk_bytes (RegularFile (Inl e)) acc = Inl e"
| "walk_bytes OtherFile acc = Inr acc"
| "walk_bytes (BadEntry e) acc = (if e = NotExist then Inr acc else Inl e)"
| "walk_bytes (Directory es) acc = walk_entries es acc"
| "walk_entries [] acc = Inr acc"
| "walk_entries (e # es) acc = (case walk_bytes e acc of Inl err \<Rightarrow> Inl err | Inr acc' \<Rightarrow> walk_entries es acc')"

definition directoryBytes :: "(string \<Rightarrow> fs_node) \<Rightarrow> string \<Rightarrow> fs_error + int" where
  "directoryBytes tree root =
     (case walk_bytes (tree root) 0 of
        Inl NotExist \<Rightarrow> Inr 0
      | r \<Rightarrow> r)"

section \<open>The scan\<close>

record SiteUsageInput =
  Si_SiteID :: int
  Si_Username :: string
  Si_Domain :: string
  Si_AccessLog :: string
  Si_Cursor :: UsageCursor

record CollectUsageReq =
  Cr_SubscriptionID :: int
  Cr_Sites :: "SiteUsageInput list"
  Cr_AccountUsernames :: "string list"
  Cr_Databases :: "string list"
  Cr_PeriodStart :: "int option"

record SiteUsageResult =
  Sx_SiteID :: int
  Sx_HomeBytes :: int
  Sx_TrafficBytes :: int
  Sx_RequestCount :: int
  Sx_ErrorCount :: int
  Sx_Cursor :: UsageCursor

record CollectUsageResult =
  Cx_Sites :: "SiteUsageResult list"
  Cx_AccountBytes :: int
  Cx_ContainerBytes :: int
  Cx_DatabaseBytes :: int

record UsageCollector =
  Co_HomeRoot :: string
  Co_LogRoot :: string
  Co_ContainerRoot :: string

text \<open>What the collector reaches on the host.\<close>

record usage_host =
  Ho_Tree :: "string \<Rightarrow> fs_node"
  Ho_Logs :: log_fs
  Ho_Database :: "string list \<Rightarrow> string + int"

datatype collect_error =
    InvalidAccountUsername
  | InvalidSiteUsage
  | LogOutsideRoot
  | InvalidUsageDomain
  | MeasureDirectory string fs_error
  | MeasureTraffic int usage_error
  | InvalidDatabaseName string
  | MeasureDatabase string

definition usageUsernameRE :: rexp where
  "usageUsernameRE = Seq (Cls is_lower) (Rep (Cls lower_alnum) 2 31)"

definition usageDatabaseRE :: rexp where
  "usageDatabaseRE = Seq (Cls is_lower) (Rep (Cls (\<lambda>c. lower_alnum c \<or> c = CHR ''_'')) 1 47)"

definition usageDomainRE :: rexp where
  "usageDomainRE = Seq labelRE (Plus (Seq (Chr CHR ''.'') labelRE))"

definition measure_dir :: "usage_host \<Rightarrow> string \<Rightarrow> collect_error + int" where
  "measure_dir h path = (case directoryBytes (Ho_Tree h) path of Inl e \<Rightarrow> Inl (MeasureDirectory path e) | Inr n \<Rightarrow> Inr n)"

definition document_root :: "unicode_case \<Rightarrow> UsageCollector \<Rightarrow> SiteUsageInput \<Rightarrow> collect_error + string" where
  "document_root uc c site =
     (if TrimSpace (Si_Domain site) = [] then Inr (Join_path [Co_HomeRoot c, Si_Username site])
      else (let domain = ToLower uc (TrimSpace (Si_Domain site)) in
        if \<not> MatchString usageDomainRE domain then Inl InvalidUsageDomain
        else Inr (Join_path [Co_HomeRoot c, Si_Username site, ''domains'', domain, ''public_html''])))"

definition collect_site ::
  "unicode_case \<Rightarrow> UsageCollector \<Rightarrow> usage_host \<Rightarrow> int option \<Rightarrow> SiteUsageInput \<Rightarrow> collect_error + SiteUsageResult" where
  "collect_site uc c h periodStart site =
     (if Si_SiteID site \<le> 0 \<or> \<not> MatchString usageUsernameRE (Si_Username site) then Inl InvalidSiteUsage
      else case safeLogPath (Co_LogRoot c) (Si_AccessLog site) of
        None \<Rightarrow> Inl LogOutsideRoot
      | Some logPath \<Rightarrow> (case document_root uc c site of
          Inl e \<Rightarrow> Inl e
        | Inr root \<Rightarrow> (case measure_dir h root of
            Inl e \<Rightarrow> Inl e
          | Inr home \<Rightarrow> (case readNginxTraffic (Ho_Logs h) logPath (Si_Cursor site) periodStart of
              Inl e \<Rightarrow> Inl (MeasureTraffic (Si_SiteID site) e)
            | Inr (m, cursor) \<Rightarrow>
                Inr \<lparr>Sx_SiteID = Si_SiteID site, Sx_HomeBytes = home, Sx_TrafficBytes = Nm_Bytes m,
                     Sx_RequestCount = Nm_Requests m, Sx_ErrorCount = Nm_Errors m, Sx_Cursor = cursor\<rparr>))))"

fun map_result :: "('a \<Rightarrow> 'e + 'b) \<Rightarrow> 'a list \<Rightarrow> 'e + 'b list" where
  "map_result f [] = Inr []"
| "map_result f (x # xs) =
     (case f x of Inl e \<Rightarrow> Inl e | Inr y \<Rightarrow> (case map_result f xs of Inl e \<Rightarrow> Inl e | Inr ys \<Rightarrow> Inr (y # ys)))"

definition databaseBytes :: "usage_host \<Rightarrow> string list \<Rightarrow> collect_error + int" where
  "databaseBytes h names =
     (if names = [] then Inr 0
      else (case find (\<lambda>n. \<not> MatchString usageDatabaseRE n) (map TrimSpace names) of
          Some n \<Rightarrow> Inl (InvalidDatabaseName n)
        | None \<Rightarrow> (case Ho_Database h (map TrimSpace names) of
            Inl e \<Rightarrow> Inl (MeasureDatabase e)
          | Inr total_bytes \<Rightarrow> Inr total_bytes)))"

definition CollectUsage ::
  "unicode_case \<Rightarrow> (string list \<Rightarrow> string list) \<Rightarrow> UsageCollector \<Rightarrow> usage_host \<Rightarrow> CollectUsageReq \<Rightarrow>
     collect_error + CollectUsageResult" where
  "CollectUsage uc mo c h req =
     (if \<not> list_all (MatchString usageUsernameRE) (Cr_AccountUsernames req) then Inl InvalidAccountUsername
      else case map_result (collect_site uc c h (Cr_PeriodStart req)) (Cr_Sites req) of
        Inl e \<Rightarrow> Inl e
      | Inr sites \<Rightarrow>
          (let users = mo (remdups (Cr_AccountUsernames req @ map Si_Username (Cr_Sites req))) in
           case map_result (\<lambda>u. measure_dir h (Join_path [Co_HomeRoot c, u])) users of
             Inl e \<Rightarrow> Inl e
           | Inr sizes \<Rightarrow>
               (case (if Cr_SubscriptionID req > 0
                      then measure_dir h (Join_path [Co_ContainerRoot c, ''sub-'' @ Itoa (Cr_SubscriptionID req), ''apps''])
                      else Inr 0) of
                  Inl e \<Rightarrow> Inl e
                | Inr containers \<Rightarrow>
                    (case databaseBytes h (Cr_Databases req) of
                       Inl e \<Rightarrow> Inl e
                     | Inr dbs \<Rightarrow>
                         Inr \<lparr>Cx_Sites = sites, Cx_AccountBytes = foldl (\<lambda>a b. wrap64 (a + b)) 0 sizes,
                              Cx_ContainerBytes = containers, Cx_DatabaseBytes = dbs\<rparr>))))"

section \<open>Sizes of directories\<close>

text \<open>The reference: the sizes of all regular files in the tree.\<close>

fun file_sizes :: "fs_node \<Rightarrow> int list" where
  "file_sizes (RegularFile (Inr n)) = [n]"
| "file_sizes (Directory es) = concat (map file_sizes es)"
| "file_sizes _ = []"

fun readable :: "fs_node \<Rightarrow> bool" where
  "readable (RegularFile r) = (case r of Inr _ \<Rightarrow> True | Inl _ \<Rightarrow> False)"
| "readable (Directory es) = list_all readable es"
| "readable (BadEntry e) = (e = NotExist)"
| "readable OtherFile = True"

lemma walk_bytes_sum:
  "readable t \<Longrightarrow> is_int64 acc \<Longrightarrow> walk_bytes t acc = Inr (wrap64 (acc + sum_list (file_sizes t)))"
  "list_all readable es \<Longrightarrow> is_int64 acc \<Longrightarrow> walk_entries es acc = Inr (wrap64 (acc + sum_list (concat (map file_sizes es))))"
proof (induction t acc and es acc rule: walk_bytes_walk_entries.induct)
  case (7 e es acc)
  then show ?case by (simp add: wrap64_range wrap64_add_left add.assoc)
qed (simp_all add: wrap64_id)

text \<open>The size of a directory is the sum of the sizes of the regular files in its tree, whatever else is in it
  and with missing subdirectories counted as empty, as long as the files that were listed can be inspected and the
  sum fits 64 bits.\<close>

theorem directoryBytes_total:
  assumes "readable (tree root)" and "is_int64 (sum_list (file_sizes (tree root)))"
  shows "directoryBytes tree root = Inr (sum_list (file_sizes (tree root)))"
  using assms walk_bytes_sum(1) [of "tree root" 0] by (simp add: directoryBytes_def wrap64_id is_int64_def)

definition demo_tree :: "string \<Rightarrow> fs_node" where
  "demo_tree p =
     (if p = ''/home/a'' then Directory [RegularFile (Inr 10), Directory [OtherFile, RegularFile (Inr 32)], BadEntry NotExist]
      else if p = ''/home/b'' then Directory [RegularFile (Inr 10), Directory [RegularFile (Inl NotExist)], RegularFile (Inr 32)]
      else BadEntry NotExist)"

theorem directoryBytes_total_witness: "directoryBytes demo_tree ''/home/a'' = Inr 42"
  using directoryBytes_total [of demo_tree "''/home/a''"] by (simp add: demo_tree_def is_int64_def)

text \<open>A file that is deleted while the directory is walked makes the whole directory count as empty.\<close>

lemma directoryBytes_vanished_file: "directoryBytes demo_tree ''/home/b'' = Inr 0"
  by (simp add: directoryBytes_def demo_tree_def wrap64_def)

section \<open>Confinement\<close>

lemma drop_common_Nil: "fst (drop_common bs ts) = [] \<longleftrightarrow> prefix bs ts"
  by (induction bs ts rule: drop_common.induct) auto

lemma drop_common_set: "set (fst (drop_common bs ts)) \<subseteq> set bs" "set (snd (drop_common bs ts)) \<subseteq> set ts"
  by (induction bs ts rule: drop_common.induct) auto

lemma drop_common_eq: "drop_common bs ts = ([], []) \<Longrightarrow> bs = ts"
  by (induction bs ts rule: drop_common.induct) (auto split: if_splits)

lemma dots_not_plain: "\<not> plain_comp ''..''"
  by (simp add: plain_comp_def)

lemma Join_up: "\<exists>r. Join (replicate (Suc n) ''..'' @ t) ''/'' = ''..'' @ r \<and> (r = [] \<or> hd r = CHR ''/'')"
  by (cases n; cases t) auto

lemma Join_plain_up:
  assumes "t \<noteq> []" and "list_all plain_comp t"
  shows "Join t ''/'' \<noteq> ''..'' \<and> \<not> HasPrefix (Join t ''/'') ''../''"
proof -
  have "Split (Join t ''/'') CHR ''/'' = t"
    using assms by (intro Split_Join) (auto simp: list_all_iff plain_comp_def)
  moreover have "hd t \<noteq> ''..''" using assms dots_not_plain by (cases t) auto
  moreover have "hd (Split ''..'' CHR ''/'') = ''..''" by simp
  moreover have "hd (Split (''../'' @ r) CHR ''/'') = ''..''" for r by simp
  ultimately show ?thesis by (metis HasPrefix_iff)
qed

lemma Rel_up_iff:
  assumes "IsAbs base" and "IsAbs targ"
  shows "\<exists>rel. Rel base targ = Some rel \<and>
    ((rel = ''..'' \<or> HasPrefix rel ''../'') \<longleftrightarrow> \<not> prefix (path_comps base) (path_comps targ))"
proof (cases "Clean targ = Clean base")
  case True
  then have "path_comps targ = path_comps base" using assms path_comps_Clean_abs by metis
  with True show ?thesis by (simp add: Rel_def HasPrefix_def)
next
  case False
  obtain b t where bt: "drop_common (path_comps base) (path_comps targ) = (b, t)" by fastforce
  have plain: "list_all plain_comp b" "list_all plain_comp t"
    using assms drop_common_set [of "path_comps base" "path_comps targ"] path_comps_plain bt
    by (auto simp: list_all_iff)
  have "Clean targ \<noteq> ''.''" using assms by (simp add: Clean_abs)
  moreover have "b \<noteq> [] \<Longrightarrow> hd b \<noteq> ''..''" using plain dots_not_plain by (cases b) auto
  ultimately have rel: "Rel base targ = Some (Join (replicate (length b) ''..'' @ t) ''/'')"
    using False assms bt by (auto simp: Rel_def)
  have up: "prefix (path_comps base) (path_comps targ) \<longleftrightarrow> b = []" using drop_common_Nil [of "path_comps base" "path_comps targ"] bt by simp
  show ?thesis
  proof (cases b)
    case Nil
    with bt False drop_common_eq [of "path_comps base" "path_comps targ"] assms have "t \<noteq> []" by (auto simp: Clean_abs)
    then show ?thesis using rel up Nil Join_plain_up plain by simp
  next
    case (Cons x xs)
    then show ?thesis using rel up Join_up [of "length xs" t] by (auto simp: HasPrefix_iff) (metis list.collapse)
  qed
qed

text \<open>For an absolute log directory, the access log a request names is accepted exactly when the path it stands
  for, with every dot segment resolved, lies in that directory.\<close>

theorem safeLogPath_confined:
  assumes "IsAbs logRoot"
  shows "safeLogPath logRoot raw =
    (let path = (if IsAbs raw then Clean raw else Join_path [logRoot, Clean raw]) in
     if IsAbs path \<and> prefix (path_comps logRoot) (path_comps path) then Some path else None)"
proof -
  let ?path = "if IsAbs raw then Clean raw else Join_path [logRoot, Clean raw]"
  have "logRoot \<noteq> []" using assms by (auto simp: IsAbs_def HasPrefix_def)
  then have abs: "IsAbs ?path" using assms by (simp add: Join_path_def IsAbs_append)
  then obtain rel where "Rel logRoot ?path = Some rel"
    "(rel = ''..'' \<or> HasPrefix rel ''../'') \<longleftrightarrow> \<not> prefix (path_comps logRoot) (path_comps ?path)"
    using Rel_up_iff [OF assms, of ?path] by blast
  with abs show ?thesis by (simp add: safeLogPath_def Let_def)
qed

theorem safeLogPath_confined_witness:
  "IsAbs ''/var/log/nginx'' \<and> safeLogPath ''/var/log/nginx'' ''a/../x.log'' = Some ''/var/log/nginx/x.log'' \<and>
   safeLogPath ''/var/log/nginx'' ''../auth.log'' = None"
proof -
  have "IsAbs ''/var/log/nginx''" by code_simp
  then show ?thesis
    using safeLogPath_confined [of "''/var/log/nginx''" "''a/../x.log''"] safeLogPath_confined [of "''/var/log/nginx''" "''../auth.log''"]
    by (simp add: path_comps_def IsAbs_def HasPrefix_def Join_path_def Clean_def Let_def)
qed

end
