(* ===== verification/Usage_Meter.thy ===== *)
theory Usage_Meter
  imports Usage_Collect Reseller_Capacity
begin

text \<open>
  The control plane's side of usage: \<open>internal/control/quota/usage.go\<close> collects what the agent measured,
  accumulates the traffic of the month, raises and resolves alerts and suspends a subscription that is over its
  limits; \<open>plan_compliance.go\<close> records whether a subscription fits its entitlements; \<open>customers.go\<close> decides
  whether it may be activated again. The tables of \<open>Quota_Store\<close> are extended by the ones used here. A column
  that the row records of \<open>Quota_Store\<close> leave out is a function of the row's id. A period is its year and
  month. Who receives a notification is left out, and calls into components that are not modelled, the e-mail
  queue and the hosting state of a customer, are recorded as the argument of the call. A transaction is one
  step and a failed one changes nothing.
\<close>

section \<open>Tables\<close>

type_synonym period = "int \<times> int"

record UsageRow =
  Ur_SubscriptionID :: int
  Ur_Period :: period
  Ur_SiteBytes :: int
  Ur_DatabaseBytes :: int
  Ur_BackupBytes :: int
  Ur_DiskBytes :: int
  Ur_TrafficBytes :: int
  Ur_Complete :: bool
  Ur_CollectedAt :: int
  Ur_LastError :: string

record TrafficCursorRow =
  Tc_SiteID :: int
  Tc_Cursor :: UsageCursor
  Tc_Period :: period
  Tc_TrafficBytes :: int

record SiteUsageRow =
  Sw_SiteID :: int
  Sw_Period :: period
  Sw_DocumentRootBytes :: int
  Sw_TrafficBytes :: int
  Sw_RequestCount :: int
  Sw_ErrorCount :: int
  Sw_CollectedAt :: int
  Sw_LastError :: string

record UsageNotification =
  Un_ID :: int
  Un_SubscriptionID :: int
  Un_Kind :: string
  Un_Severity :: string
  Un_Title :: string
  Un_Body :: string
  Un_Key :: string
  Un_Resolved :: bool

record usage_db =
  U_Quota :: quota_db
  U_Reason :: "int \<Rightarrow> string"
  U_Compliance :: "int \<Rightarrow> string \<times> string"
  U_AccountIntent :: "int \<Rightarrow> string"
  U_SiteUser :: "int \<Rightarrow> string"
  U_Mailboxes :: "(int \<times> bool) list"
  U_Current :: "UsageRow list"
  U_History :: "UsageRow list"
  U_Cursors :: "TrafficCursorRow list"
  U_SiteUsage :: "SiteUsageRow list"
  U_Notifications :: "UsageNotification list"
  U_NextNotification :: int
  U_Enqueued :: "int list"
  U_HostingState :: "int list"

datatype meter_error =
    MeterNoRows
  | MeterSQL
  | MeterAgent string
  | MeterLock prov_error
  | MeterCapacity capacity_error
  | FreshUsageRequired
  | FreshCompleteUsageRequired
  | RemainsOverLimit
  | SubscriptionIDsRequired
  | UnsupportedStatus string
  | MeterSubscriptionIDRequired

text \<open>\<open>INSERT ... ON CONFLICT (id) DO UPDATE\<close>: the update, or the new row at the end.\<close>

definition upsert :: "('a \<Rightarrow> bool) \<Rightarrow> ('a \<Rightarrow> 'a) \<Rightarrow> 'a \<Rightarrow> 'a list \<Rightarrow> 'a list" where
  "upsert P f new rows = (if list_ex P rows then map (\<lambda>x. if P x then f x else x) rows else rows @ [new])"

section \<open>Levels\<close>

definition usageLevel :: "int \<Rightarrow> int \<Rightarrow> int \<Rightarrow> bool \<times> bool" where
  "usageLevel usedBytes limitMB warningPercent =
     (if limitMB < 0 then (False, False)
      else let limitBytes = wrap64 (wrap64 (limitMB * 1024) * 1024) in
        if limitBytes = 0 then (usedBytes > 0, usedBytes > 0)
        else (usedBytes > limitBytes, wrap64 (usedBytes * 100) \<ge> wrap64 (limitBytes * warningPercent)))"

definition bytesToCeilingMB :: "int \<Rightarrow> int" where
  "bytesToCeilingMB n = (if n \<le> 0 then 0 else 1 + go_div (n - 1) (1024 * 1024))"

section \<open>Compliance\<close>

record SubscriptionComplianceUsage =
  Sc_Domains :: int
  Sc_Subdomains :: int
  Sc_Databases :: int
  Sc_Backups :: int
  Sc_Mailboxes :: int
  Sc_DiskBytes :: int
  Sc_TrafficBytes :: int
  Sc_BackupBytes :: int
  Sc_MeasurementComplete :: bool

definition countViolation :: "string \<Rightarrow> int \<Rightarrow> int \<Rightarrow> string list" where
  "countViolation label used limit =
     (if limit \<ge> 0 \<and> used > limit then [label @ '' '' @ Itoa used @ ''/'' @ Itoa limit] else [])"

definition measuredViolation :: "string \<Rightarrow> int \<Rightarrow> int \<Rightarrow> string list" where
  "measuredViolation label n limit =
     (if limit < 0 then []
      else let usedMB = bytesToCeilingMB n in
        if usedMB > limit then [label @ '' '' @ Itoa usedMB @ ''/'' @ Itoa limit @ '' MB''] else [])"

definition compliance_violations :: "SubscriptionEntitlements \<Rightarrow> SubscriptionComplianceUsage \<Rightarrow> string list" where
  "compliance_violations e usage =
     countViolation ''domains'' (Sc_Domains usage) (Ent_MaxSites e) @
     countViolation ''subdomains'' (Sc_Subdomains usage) (Ent_MaxSubdomains e) @
     countViolation ''databases'' (Sc_Databases usage) (Ent_MaxDatabases e) @
     countViolation ''backups'' (Sc_Backups usage) (Ent_MaxBackups e) @
     countViolation ''mailboxes'' (Sc_Mailboxes usage) (Ent_MaxMailboxes e) @
     measuredViolation ''backup storage'' (Sc_BackupBytes usage) (Ent_BackupStorageMB e) @
     (if Sc_MeasurementComplete usage then
        measuredViolation ''disk'' (Sc_DiskBytes usage) (Ent_DiskMB e) @
        measuredViolation ''traffic'' (Sc_TrafficBytes usage) (Ent_BandwidthMB e)
      else [])"

definition EvaluateSubscriptionCompliance ::
  "SubscriptionEntitlements \<Rightarrow> SubscriptionComplianceUsage \<Rightarrow> string \<times> string list" where
  "EvaluateSubscriptionCompliance e usage =
     (let violations = compliance_violations e usage in
      if violations \<noteq> [] then (''over_limit'', violations)
      else if \<not> Sc_MeasurementComplete usage then (''unknown'', [])
      else (''compliant'', []))"

definition current_usage :: "usage_db \<Rightarrow> int \<Rightarrow> UsageRow option" where
  "current_usage db sub = find (\<lambda>u. Ur_SubscriptionID u = sub) (U_Current db)"

definition loadSubscriptionComplianceUsage :: "usage_db \<Rightarrow> int \<Rightarrow> meter_error + SubscriptionComplianceUsage" where
  "loadSubscriptionComplianceUsage db sub =
     (let q = U_Quota db; row = current_usage db sub;
          u = \<lparr>Sc_Domains = count_rows (domain_row sub) (Q_Sites q), Sc_Subdomains = count_rows (subdomain_row sub) (Q_Sites q),
               Sc_Databases = count_rows (database_row sub) (Q_Databases q), Sc_Backups = count_rows (backup_row sub) (Q_Backups q),
               Sc_Mailboxes = count_rows (\<lambda>(s, deleting). s = sub \<and> \<not> deleting) (U_Mailboxes db),
               Sc_DiskBytes = coalesce 0 (map_option Ur_DiskBytes row), Sc_TrafficBytes = coalesce 0 (map_option Ur_TrafficBytes row),
               Sc_BackupBytes = backup_bytes q sub, Sc_MeasurementComplete = coalesce False (map_option Ur_Complete row)\<rparr>
      in if list_all (\<lambda>n. n \<le> 2 ^ 31 - 1) [Sc_Domains u, Sc_Subdomains u, Sc_Databases u, Sc_Backups u, Sc_Mailboxes u] \<and>
            is_int64 (Sc_BackupBytes u) then Inr u else Inl MeterSQL)"

definition evaluateSubscriptionComplianceTx :: "int \<Rightarrow> SubscriptionEntitlements \<Rightarrow> usage_db \<Rightarrow> meter_error + usage_db" where
  "evaluateSubscriptionComplianceTx sub e db =
     (case loadSubscriptionComplianceUsage db sub of
        Inl err \<Rightarrow> Inl err
      | Inr usage \<Rightarrow>
          (let (status, violations) = EvaluateSubscriptionCompliance e usage in
           Inr (if list_ex (\<lambda>s. Su_ID s = sub) (Q_Subscriptions (U_Quota db))
                then db\<lparr>U_Compliance := (U_Compliance db)(sub := (status, Join violations ''; ''))\<rparr> else db)))"

definition refreshSubscriptionComplianceTx :: "int \<Rightarrow> usage_db \<Rightarrow> meter_error + usage_db" where
  "refreshSubscriptionComplianceTx sub db =
     (case entitlement_of (U_Quota db) sub of
        None \<Rightarrow> Inl MeterNoRows
      | Some row \<Rightarrow> evaluateSubscriptionComplianceTx sub (Er_Entitlements row) db)"

section \<open>Notifications\<close>

definition open_key :: "string \<Rightarrow> UsageNotification \<Rightarrow> bool" where
  "open_key key n \<longleftrightarrow> Un_Key n = key \<and> \<not> Un_Resolved n"

definition upsertNotificationDetailedTx ::
  "int \<Rightarrow> string \<Rightarrow> string \<Rightarrow> string \<Rightarrow> string \<Rightarrow> string \<Rightarrow> usage_db \<Rightarrow> int \<times> usage_db" where
  "upsertNotificationDetailedTx sub kind severity title body key db =
     (case find (open_key key) (U_Notifications db) of
        Some n \<Rightarrow>
          (Un_ID n, db\<lparr>U_Notifications := map (\<lambda>x. if open_key key x
             then x\<lparr>Un_Severity := severity, Un_Title := title, Un_Body := body\<rparr> else x) (U_Notifications db)\<rparr>)
      | None \<Rightarrow>
          (let i = U_NextNotification db in
           (i, db\<lparr>U_Notifications := U_Notifications db @
                  [\<lparr>Un_ID = i, Un_SubscriptionID = sub, Un_Kind = kind, Un_Severity = severity, Un_Title = title,
                    Un_Body = body, Un_Key = key, Un_Resolved = False\<rparr>],
                  U_NextNotification := i + 1\<rparr>)))"

definition EnqueueNotificationTx :: "int \<Rightarrow> usage_db \<Rightarrow> usage_db" where
  "EnqueueNotificationTx i db = db\<lparr>U_Enqueued := U_Enqueued db @ [i]\<rparr>"

definition subscription_of :: "usage_db \<Rightarrow> int \<Rightarrow> SubscriptionRow option" where
  "subscription_of db sub = find (\<lambda>s. Su_ID s = sub) (Q_Subscriptions (U_Quota db))"

text \<open>The subscription joined with its customer.\<close>

definition with_customer :: "usage_db \<Rightarrow> int \<Rightarrow> (SubscriptionRow \<times> CustomerRow) option" where
  "with_customer db sub =
     (case subscription_of db sub of None \<Rightarrow> None | Some s \<Rightarrow> map_option (\<lambda>c. (s, c)) (customer_of (U_Quota db) s))"

definition upsertNotificationTx ::
  "int \<Rightarrow> string \<Rightarrow> string \<Rightarrow> string \<Rightarrow> string \<Rightarrow> string \<Rightarrow> usage_db \<Rightarrow> meter_error + usage_db" where
  "upsertNotificationTx sub kind severity title body key db =
     (case with_customer db sub of
        None \<Rightarrow> Inl MeterNoRows
      | Some _ \<Rightarrow>
          (let (i, db') = upsertNotificationDetailedTx sub kind severity title body key db in Inr (EnqueueNotificationTx i db')))"

text \<open>\<open>dedupe_key LIKE 'pre%suf'\<close>; neither part has a wildcard.\<close>

definition like_between :: "string \<Rightarrow> string \<Rightarrow> string \<Rightarrow> bool" where
  "like_between pre suf s \<longleftrightarrow> length pre + length suf \<le> length s \<and> HasPrefix s pre \<and> HasSuffix s suf"

definition alert_prefix :: "int \<Rightarrow> string \<Rightarrow> string" where
  "alert_prefix sub resource = ''usage:'' @ Itoa sub @ '':'' @ resource @ '':''"

definition open_alert :: "int \<Rightarrow> string \<Rightarrow> string \<Rightarrow> UsageNotification \<Rightarrow> bool" where
  "open_alert sub resource period n \<longleftrightarrow>
     Un_SubscriptionID n = sub \<and> \<not> Un_Resolved n \<and> like_between (alert_prefix sub resource) ('':'' @ period) (Un_Key n)"

definition resolve_where :: "(UsageNotification \<Rightarrow> bool) \<Rightarrow> usage_db \<Rightarrow> usage_db" where
  "resolve_where P db =
     db\<lparr>U_Notifications := map (\<lambda>n. if P n then n\<lparr>Un_Resolved := True\<rparr> else n) (U_Notifications db)\<rparr>"

definition usageResourceLabel :: "string \<Rightarrow> string" where
  "usageResourceLabel resource =
     (if resource = ''disk'' then ''Disk'' else if resource = ''traffic'' then ''Traffic'' else ''Resource'')"

definition alert_kind :: "bool \<Rightarrow> string" where
  "alert_kind over = (if over then ''over_limit'' else ''threshold'')"

definition alert_body :: "string \<Rightarrow> bool \<Rightarrow> int \<Rightarrow> int \<Rightarrow> string" where
  "alert_body resource over usedBytes limitMB =
     usageResourceLabel resource @ '' usage is '' @ (if over then ''over its limit'' else ''approaching its limit'') @ '': '' @
     Itoa (go_div usedBytes (1024 * 1024)) @ '' MB used of '' @ Itoa limitMB @ '' MB.''"

definition upsertUsageAlertTx ::
  "int \<Rightarrow> string \<Rightarrow> string \<Rightarrow> bool \<Rightarrow> int \<Rightarrow> int \<Rightarrow> usage_db \<Rightarrow> int \<times> usage_db" where
  "upsertUsageAlertTx sub resource period over usedBytes limitMB db =
     (let key = alert_prefix sub resource @ alert_kind over @ '':'' @ period;
          (i, db1) = upsertNotificationDetailedTx sub (alert_kind over) (if over then ''critical'' else ''warning'')
            (usageResourceLabel resource @ '' usage alert'') (alert_body resource over usedBytes limitMB) key db;
          db2 = resolve_where (\<lambda>n. open_alert sub resource period n \<and> Un_ID n \<noteq> i) db1
      in (i, EnqueueNotificationTx i db2))"

definition resolveUsageAlertTx :: "int \<Rightarrow> string \<Rightarrow> string \<Rightarrow> usage_db \<Rightarrow> usage_db" where
  "resolveUsageAlertTx sub resource period db = resolve_where (open_alert sub resource period) db"

section \<open>Evaluation of a measurement\<close>

text \<open>\<open>Format("2006-01")\<close>.\<close>

definition pad_to :: "nat \<Rightarrow> string \<Rightarrow> string" where
  "pad_to n s = replicate (n - length s) CHR ''0'' @ s"

definition periodKey :: "period \<Rightarrow> string" where
  "periodKey p = pad_to 4 (Itoa (fst p)) @ ''-'' @ pad_to 2 (Itoa (snd p))"

definition enqueueSubscriptionHostingStateTx :: "int \<Rightarrow> usage_db \<Rightarrow> meter_error + usage_db" where
  "enqueueSubscriptionHostingStateTx sub db =
     (case subscription_of db sub of
        None \<Rightarrow> Inl MeterNoRows
      | Some s \<Rightarrow> (case Su_CustomerID s of None \<Rightarrow> Inl MeterSQL | Some c \<Rightarrow> Inr (db\<lparr>U_HostingState := U_HostingState db @ [c]\<rparr>)))"

definition update_subscription :: "int \<Rightarrow> (SubscriptionRow \<Rightarrow> SubscriptionRow) \<Rightarrow> usage_db \<Rightarrow> usage_db" where
  "update_subscription sub f db =
     db\<lparr>U_Quota := (U_Quota db)\<lparr>Q_Subscriptions := map (\<lambda>s. if Su_ID s = sub then f s else s) (Q_Subscriptions (U_Quota db))\<rparr>\<rparr>"

definition notifies :: "string \<Rightarrow> bool" where
  "notifies policy \<longleftrightarrow> policy = ''notify'' \<or> policy = ''not_suspend_notify'' \<or> policy = ''block''"

definition usage_alert :: "int \<Rightarrow> string \<Rightarrow> string \<Rightarrow> bool \<Rightarrow> bool \<times> bool \<Rightarrow> int \<Rightarrow> int \<Rightarrow> usage_db \<Rightarrow> usage_db" where
  "usage_alert sub resource period notify level usedBytes limitMB db =
     (if notify \<and> snd level then snd (upsertUsageAlertTx sub resource period (fst level) usedBytes limitMB db)
      else resolveUsageAlertTx sub resource period db)"

definition suspended_title :: string where
  "suspended_title = ''Subscription suspended for overuse''"

definition suspended_body :: string where
  "suspended_body = ''Hosted websites now return a maintenance response until an operator reactivates the subscription.''"

definition suspend_for_overuse :: "int \<Rightarrow> string \<Rightarrow> usage_db \<Rightarrow> meter_error + usage_db" where
  "suspend_for_overuse sub period db =
     (case subscription_of db sub of
        None \<Rightarrow> Inr db
      | Some s \<Rightarrow>
          if Su_Status s \<noteq> ''active'' then Inr db
          else (let db1 = (update_subscription sub (\<lambda>s. s\<lparr>Su_Status := ''suspended''\<rparr>) db)
                      \<lparr>U_Reason := (U_Reason db)(sub := ''resource_overuse'')\<rparr> in
            case enqueueSubscriptionHostingStateTx sub db1 of
              Inl e \<Rightarrow> Inl e
            | Inr db2 \<Rightarrow>
                upsertNotificationTx sub ''suspended'' ''critical'' suspended_title suspended_body
                  (''usage:'' @ Itoa sub @ '':'' @ ''suspended:'' @ period) db2))"

definition evaluateUsageTx :: "UsageRow \<Rightarrow> usage_db \<Rightarrow> meter_error + usage_db" where
  "evaluateUsageTx usage db =
     (let sub = Ur_SubscriptionID usage in
      case (with_customer db sub, entitlement_of (U_Quota db) sub) of
        (Some _, Some row) \<Rightarrow>
          (let e = Er_Entitlements row; key = periodKey (Ur_Period usage);
               disk = usageLevel (Ur_DiskBytes usage) (Ent_DiskMB e) (Ent_DiskWarningPercent e);
               traffic = usageLevel (Ur_TrafficBytes usage) (Ent_BandwidthMB e) (Ent_TrafficWarningPercent e);
               notify = notifies (Ent_OverusePolicy e);
               db1 = usage_alert sub ''disk'' key notify disk (Ur_DiskBytes usage) (Ent_DiskMB e) db;
               db2 = usage_alert sub ''traffic'' key notify traffic (Ur_TrafficBytes usage) (Ent_BandwidthMB e) db1
           in if Ent_OverusePolicy e = ''block'' \<and> (fst disk \<or> fst traffic) then suspend_for_overuse sub key db2 else Inr db2)
      | _ \<Rightarrow> Inl MeterNoRows)"

section \<open>Collection\<close>

text \<open>The year and month of an instant in UTC, and the instant at which a month starts.\<close>

definition utc_month :: "int \<Rightarrow> period" where
  "utc_month now =
     (let z = now div (86400 * 10 ^ 9) + 719468; doe = z mod 146097;
          yoe = (doe - doe div 1460 + doe div 36524 - doe div 146096) div 365;
          mp = (5 * (doe - (365 * yoe + yoe div 4 - yoe div 100)) + 2) div 153;
          m = (if mp < 10 then mp + 3 else mp - 9)
      in (yoe + z div 146097 * 400 + (if m \<le> 2 then 1 else 0), m))"

definition month_start :: "period \<Rightarrow> int" where
  "month_start p = epoch_day (fst p) (snd p) 1 * 86400 * 10 ^ 9"

definition access_log :: "string \<Rightarrow> string \<Rightarrow> string" where
  "access_log username domain = username @ ''-'' @ map (\<lambda>c. if c = CHR ''.'' then CHR ''-'' else c) domain @ ''.access.log''"

definition site_cursor :: "usage_db \<Rightarrow> period \<Rightarrow> int \<Rightarrow> UsageCursor" where
  "site_cursor db p site =
     (case find (\<lambda>c. Tc_SiteID c = site) (U_Cursors db) of
        None \<Rightarrow> zero_cursor
      | Some c \<Rightarrow> if Tc_Period c = p then Tc_Cursor c else (Tc_Cursor c)\<lparr>Uc_Offset := 0\<rparr>)"

definition loadUsageSites :: "usage_db \<Rightarrow> int \<Rightarrow> period \<Rightarrow> SiteUsageInput list" where
  "loadUsageSites db sub p =
     map (\<lambda>s. \<lparr>Si_SiteID = Sr_ID s, Si_Username = U_SiteUser db (Sr_ID s), Si_Domain = Sr_Domain s,
               Si_AccessLog = access_log (U_SiteUser db (Sr_ID s)) (Sr_Domain s), Si_Cursor = site_cursor db p (Sr_ID s)\<rparr>)
       (sort_key Sr_ID (filter (\<lambda>s. Sr_SubscriptionID s = sub \<and> Sr_Status s \<noteq> ''failed'') (Q_Sites (U_Quota db))))"

definition loadDatabaseNames :: "usage_db \<Rightarrow> int \<Rightarrow> string list" where
  "loadDatabaseNames db sub =
     map Dbr_Name (sort_key Dbr_ID (filter (database_row sub) (Q_Databases (U_Quota db))))"

text \<open>Within a month a counter of the database grows, in a new one it starts again.\<close>

definition bump :: "period \<Rightarrow> period \<Rightarrow> int \<Rightarrow> int \<Rightarrow> int" where
  "bump old new stored delta = (if old = new then stored + delta else delta)"

definition bump_cursor :: "period \<Rightarrow> SiteUsageResult \<Rightarrow> TrafficCursorRow \<Rightarrow> TrafficCursorRow" where
  "bump_cursor p r c =
     c\<lparr>Tc_Cursor := Sx_Cursor r, Tc_Period := p, Tc_TrafficBytes := bump (Tc_Period c) p (Tc_TrafficBytes c) (Sx_TrafficBytes r)\<rparr>"

definition bump_site :: "period \<Rightarrow> int \<Rightarrow> SiteUsageResult \<Rightarrow> SiteUsageRow \<Rightarrow> SiteUsageRow" where
  "bump_site p now r u =
     u\<lparr>Sw_Period := p, Sw_DocumentRootBytes := Sx_HomeBytes r,
       Sw_TrafficBytes := bump (Sw_Period u) p (Sw_TrafficBytes u) (Sx_TrafficBytes r),
       Sw_RequestCount := bump (Sw_Period u) p (Sw_RequestCount u) (Sx_RequestCount r),
       Sw_ErrorCount := bump (Sw_Period u) p (Sw_ErrorCount u) (Sx_ErrorCount r),
       Sw_CollectedAt := now, Sw_LastError := []\<rparr>"

text \<open>The checks of the tables: a \<open>bigint\<close> that is not negative.\<close>

definition nonneg64 :: "int \<Rightarrow> bool" where
  "nonneg64 n \<longleftrightarrow> 0 \<le> n \<and> n < 2 ^ 63"

definition site_rows_ok :: "int \<Rightarrow> usage_db \<Rightarrow> bool" where
  "site_rows_ok site db \<longleftrightarrow>
     list_all (\<lambda>c. Tc_SiteID c \<noteq> site \<or> nonneg64 (Tc_TrafficBytes c) \<and> 0 \<le> Uc_Offset (Tc_Cursor c)) (U_Cursors db) \<and>
     list_all (\<lambda>u. Sw_SiteID u \<noteq> site \<or>
       list_all nonneg64 [Sw_DocumentRootBytes u, Sw_TrafficBytes u, Sw_RequestCount u, Sw_ErrorCount u]) (U_SiteUsage db)"

definition usage_row_ok :: "UsageRow \<Rightarrow> bool" where
  "usage_row_ok u \<longleftrightarrow>
     list_all nonneg64 [Ur_SiteBytes u, Ur_DatabaseBytes u, Ur_BackupBytes u, Ur_DiskBytes u, Ur_TrafficBytes u]"

text \<open>A row of a site that does not exist violates the foreign key.\<close>

definition record_site :: "period \<Rightarrow> int \<Rightarrow> SiteUsageResult \<Rightarrow> usage_db \<Rightarrow> meter_error + usage_db" where
  "record_site p now r db =
     (let db' = db\<lparr>U_Cursors := upsert (\<lambda>c. Tc_SiteID c = Sx_SiteID r) (bump_cursor p r)
                     \<lparr>Tc_SiteID = Sx_SiteID r, Tc_Cursor = Sx_Cursor r, Tc_Period = p, Tc_TrafficBytes = Sx_TrafficBytes r\<rparr> (U_Cursors db),
                   U_SiteUsage := upsert (\<lambda>u. Sw_SiteID u = Sx_SiteID r) (bump_site p now r)
                     \<lparr>Sw_SiteID = Sx_SiteID r, Sw_Period = p, Sw_DocumentRootBytes = Sx_HomeBytes r, Sw_TrafficBytes = Sx_TrafficBytes r,
                      Sw_RequestCount = Sx_RequestCount r, Sw_ErrorCount = Sx_ErrorCount r, Sw_CollectedAt = now, Sw_LastError = []\<rparr>
                     (U_SiteUsage db)\<rparr>
      in if list_ex (\<lambda>s. Sr_ID s = Sx_SiteID r) (Q_Sites (U_Quota db)) \<and> site_rows_ok (Sx_SiteID r) db' then Inr db' else Inl MeterSQL)"

primrec record_sites :: "period \<Rightarrow> int \<Rightarrow> SiteUsageResult list \<Rightarrow> usage_db \<Rightarrow> meter_error + usage_db" where
  "record_sites p now [] db = Inr db"
| "record_sites p now (r # rs) db = (case record_site p now r db of Inl e \<Rightarrow> Inl e | Inr db' \<Rightarrow> record_sites p now rs db')"

definition previous_traffic :: "usage_db \<Rightarrow> int \<Rightarrow> period \<Rightarrow> int" where
  "previous_traffic db sub p =
     (case current_usage db sub of None \<Rightarrow> 0 | Some u \<Rightarrow> if Ur_Period u = p then Ur_TrafficBytes u else 0)"

definition measured_row :: "int \<Rightarrow> period \<Rightarrow> int \<Rightarrow> CollectUsageResult \<Rightarrow> int \<Rightarrow> int \<Rightarrow> UsageRow" where
  "measured_row sub p now result backups previous =
     \<lparr>Ur_SubscriptionID = sub, Ur_Period = p, Ur_SiteBytes = Cx_AccountBytes result, Ur_DatabaseBytes = Cx_DatabaseBytes result,
      Ur_BackupBytes = backups,
      Ur_DiskBytes = wrap64 (Cx_AccountBytes result + Cx_ContainerBytes result + Cx_DatabaseBytes result + backups),
      Ur_TrafficBytes = wrap64 (previous + foldl (\<lambda>a r. wrap64 (a + Sx_TrafficBytes r)) 0 (Cx_Sites result)),
      Ur_Complete = True, Ur_CollectedAt = now, Ur_LastError = []\<rparr>"

definition store_usage :: "UsageRow \<Rightarrow> usage_db \<Rightarrow> usage_db" where
  "store_usage usage db =
     (resolve_where (\<lambda>n. Un_SubscriptionID n = Ur_SubscriptionID usage \<and> Un_Kind n = ''collection_failed'' \<and> \<not> Un_Resolved n) db)
     \<lparr>U_Current := upsert (\<lambda>u. Ur_SubscriptionID u = Ur_SubscriptionID usage) (\<lambda>_. usage) usage (U_Current db),
      U_History := U_History db @ [usage]\<rparr>"

definition usage_request :: "usage_db \<Rightarrow> int \<Rightarrow> period \<Rightarrow> CollectUsageReq" where
  "usage_request db sub p =
     (let sites = loadUsageSites db sub p in
      \<lparr>Cr_SubscriptionID = sub, Cr_Sites = sites, Cr_AccountUsernames = rev (remdups (rev (map Si_Username sites))),
       Cr_Databases = loadDatabaseNames db sub, Cr_PeriodStart = Some (month_start p)\<rparr>)"

definition collectSubscription ::
  "(CollectUsageReq \<Rightarrow> string + CollectUsageResult) \<Rightarrow> int \<Rightarrow> int \<Rightarrow> usage_db \<Rightarrow> meter_error + usage_db" where
  "collectSubscription agent now sub db =
     (let p = utc_month now in
      case agent (usage_request db sub p) of
        Inl e \<Rightarrow> Inl (MeterAgent e)
      | Inr result \<Rightarrow>
          (let backups = backup_bytes (U_Quota db) sub in
           if \<not> is_int64 backups then Inl MeterSQL
           else case record_sites p now (Cx_Sites result) db of
             Inl e \<Rightarrow> Inl e
           | Inr db1 \<Rightarrow>
               (let usage = measured_row sub p now result backups (previous_traffic db1 sub p) in
                if \<not> usage_row_ok usage then Inl MeterSQL
                else case refreshSubscriptionComplianceTx sub (store_usage usage db1) of
                  Inl e \<Rightarrow> Inl e
                | Inr db2 \<Rightarrow> evaluateUsageTx usage db2)))"

text \<open>A failed collection keeps the last values and marks them incomplete.\<close>

definition truncateError :: "string \<Rightarrow> string" where
  "truncateError e = take 1000 e"

definition recordCollectionFailure :: "int \<Rightarrow> int \<Rightarrow> string \<Rightarrow> usage_db \<Rightarrow> meter_error + usage_db" where
  "recordCollectionFailure now sub cause db =
     upsertNotificationTx sub ''collection_failed'' ''warning'' ''Usage collection failed''
       ''Nakpanel retained the last complete usage values.'' (''usage:'' @ Itoa sub @ '':collection'')
       (db\<lparr>U_Current := upsert (\<lambda>u. Ur_SubscriptionID u = sub) (\<lambda>u. u\<lparr>Ur_Complete := False, Ur_LastError := truncateError cause\<rparr>)
          \<lparr>Ur_SubscriptionID = sub, Ur_Period = utc_month now, Ur_SiteBytes = 0, Ur_DatabaseBytes = 0, Ur_BackupBytes = 0, Ur_DiskBytes = 0,
           Ur_TrafficBytes = 0, Ur_Complete = False, Ur_CollectedAt = now, Ur_LastError = truncateError cause\<rparr> (U_Current db)\<rparr>)"

definition metered :: "usage_db \<Rightarrow> SubscriptionRow \<Rightarrow> bool" where
  "metered db s \<longleftrightarrow>
     (Su_Status s = ''active'' \<or> Su_Status s = ''suspended'' \<and> U_Reason db (Su_ID s) = ''resource_overuse'') \<and>
     (case customer_of (U_Quota db) s of None \<Rightarrow> False | Some c \<Rightarrow> Cu_Status c = ''active'')"

text \<open>\<open>Work\<close>: one transaction per subscription; \<open>message\<close> is the text of an error.\<close>

definition collect_or_record ::
  "(CollectUsageReq \<Rightarrow> string + CollectUsageResult) \<Rightarrow> (meter_error \<Rightarrow> string) \<Rightarrow> int \<Rightarrow> int \<Rightarrow>
     (int \<times> meter_error) list \<times> usage_db \<Rightarrow> (int \<times> meter_error) list \<times> usage_db" where
  "collect_or_record agent message now sub st =
     (case collectSubscription agent now sub (snd st) of
        Inr db \<Rightarrow> (fst st, db)
      | Inl e \<Rightarrow> (fst st @ [(sub, e)],
          (case recordCollectionFailure now sub (message e) (snd st) of Inl _ \<Rightarrow> snd st | Inr db \<Rightarrow> db)))"

definition Work ::
  "(CollectUsageReq \<Rightarrow> string + CollectUsageResult) \<Rightarrow> (meter_error \<Rightarrow> string) \<Rightarrow> int \<Rightarrow> usage_db \<Rightarrow>
     (int \<times> meter_error) list \<times> usage_db" where
  "Work agent message now db =
     fold (collect_or_record agent message now)
       (sort (map Su_ID (filter (metered db) (Q_Subscriptions (U_Quota db))))) ([], db)"

section \<open>Activation\<close>

definition usageCollectionInterval :: int where
  "usageCollectionInterval = 15 * 60 * 10 ^ 9"

definition validateOveruseReactivationTx :: "int \<Rightarrow> int \<Rightarrow> SubscriptionEntitlements \<Rightarrow> usage_db \<Rightarrow> meter_error option" where
  "validateOveruseReactivationTx now sub e db =
     (if subscription_of db sub = None then Some MeterNoRows
      else if U_Reason db sub \<noteq> ''resource_overuse'' then None
      else case current_usage db sub of
        None \<Rightarrow> Some FreshUsageRequired
      | Some u \<Rightarrow>
          if \<not> Ur_Complete u \<or> now - Ur_CollectedAt u > 2 * usageCollectionInterval then Some FreshCompleteUsageRequired
          else if fst (usageLevel (Ur_DiskBytes u) (Ent_DiskMB e) 100) \<or> fst (usageLevel (Ur_TrafficBytes u) (Ent_BandwidthMB e) 100)
          then Some RemainsOverLimit else None)"

definition uniqueSortedIDs :: "int list \<Rightarrow> int list" where
  "uniqueSortedIDs ids = sort (remdups (filter (\<lambda>i. i > 0) ids))"

text \<open>The checks before a subscription becomes active.\<close>

definition activation_error :: "int \<Rightarrow> int \<Rightarrow> int \<Rightarrow> usage_db \<Rightarrow> meter_error option" where
  "activation_error now reseller sub db =
     (let q = U_Quota db in
      case (if reseller > 0 then ensureResellerActiveTx q reseller else None) of
        Some err \<Rightarrow> Some (MeterCapacity err)
      | None \<Rightarrow>
          (case readSubscriptionEntitlementsTx q sub of
             Inl err \<Rightarrow> Some (MeterCapacity err)
           | Inr e \<Rightarrow>
               first_error
                [if reseller > 0 then map_option MeterCapacity (validateEntitlementsWithinResellerTx q reseller e) else None,
                 if reseller > 0 then map_option MeterCapacity (validateResellerCapacity q reseller sub e) else None,
                 if U_Reason db sub = ''resource_overuse'' then validateOveruseReactivationTx now sub e db else None,
                 case subscriptionOversellWarningForSubscriptionTx q sub (planFromEntitlements e) ''active'' of
                   Inl err \<Rightarrow> Some (MeterCapacity err) | Inr _ \<Rightarrow> None]))"

definition next_reason :: "string \<Rightarrow> string \<Rightarrow> string" where
  "next_reason status reason = (if status = ''active'' then [] else if reason = [] then ''manual'' else reason)"

definition set_status :: "int \<Rightarrow> string \<Rightarrow> int \<Rightarrow> usage_db \<Rightarrow> meter_error + usage_db" where
  "set_status now status sub db =
     (case LockSubscriptionMutationTx (U_Quota db) sub of
        Some e \<Rightarrow> Inl (MeterLock e)
      | None \<Rightarrow>
          (case with_customer db sub of
             None \<Rightarrow> Inl MeterNoRows
           | Some (s, c) \<Rightarrow>
               (case (if status = ''active'' then activation_error now (coalesce 0 (Cu_ResellerID c)) sub db else None) of
                  Some e \<Rightarrow> Inl e
                | None \<Rightarrow>
                    (let db1 = (update_subscription sub (\<lambda>s. s\<lparr>Su_Status := status\<rparr>) db)
                           \<lparr>U_Reason := (U_Reason db)(sub := next_reason status (U_Reason db sub))\<rparr>;
                         db2 = (if status = ''active''
                                then resolve_where (\<lambda>n. Un_SubscriptionID n = sub \<and> Un_Kind n = ''suspended'' \<and> \<not> Un_Resolved n) db1
                                else db1);
                         db3 = db2\<lparr>U_AccountIntent := (U_AccountIntent db2)(sub := if status = ''active'' then ''active'' else ''suspended'')\<rparr>
                     in enqueueSubscriptionHostingStateTx sub db3))))"

primrec set_statuses :: "int \<Rightarrow> string \<Rightarrow> int list \<Rightarrow> usage_db \<Rightarrow> meter_error + usage_db" where
  "set_statuses now status [] db = Inr db"
| "set_statuses now status (i # is) db = (case set_status now status i db of Inl e \<Rightarrow> Inl e | Inr db' \<Rightarrow> set_statuses now status is db')"

definition SetSubscriptionStatuses :: "int \<Rightarrow> int list \<Rightarrow> string \<Rightarrow> usage_db \<Rightarrow> meter_error + usage_db" where
  "SetSubscriptionStatuses now ids raw db =
     (let status = TrimSpace raw in
      if ids = [] then Inl SubscriptionIDsRequired
      else if status \<notin> {''active'', ''suspended'', ''cancelled''} then Inl (UnsupportedStatus status)
      else if list_ex (\<lambda>i. i \<le> 0) ids then Inl MeterSubscriptionIDRequired
      else set_statuses now status (uniqueSortedIDs ids) db)"

end
