(* ===== verification/Usage_Safety.thy ===== *)
theory Usage_Safety
  imports Usage_Meter
begin

text \<open>
  What the metering promises: the thresholds are exact, the compliance report and the overuse check agree, a
  collection stores the sum of what was measured and suspends a blocked subscription that is over a limit, such a
  subscription is activated only on fresh measurements within its limits, and at most one alert per resource is open.
\<close>

section \<open>Thresholds\<close>

abbreviation MB :: int where
  "MB \<equiv> 1024 * 1024"

lemma usageLevel_over:
  assumes "limit < 2 ^ 31"
  shows "fst (usageLevel used limit percent) \<longleftrightarrow> 0 \<le> limit \<and> used > limit * MB"
proof (cases "limit < 0")
  case False
  then have "wrap64 (wrap64 (limit * 1024) * 1024) = limit * MB"
    using assms by (simp add: wrap64_id is_int64_def)
  with False show ?thesis by (auto simp: usageLevel_def Let_def)
qed (simp add: usageLevel_def)

text \<open>C33. For usage below 92 petabytes and any limit the database can store, neither product of the threshold test
  overflows: a subscription is over its limit exactly when it uses more bytes than the limit, and warned exactly when
  it uses the given percentage of it (any byte at all for a limit of zero); an unlimited one is neither.\<close>

theorem usageLevel_exact:
  assumes "0 \<le> used" and "used * 100 < 2 ^ 63" and "limit < 2 ^ 31" and "0 \<le> percent" and "percent \<le> 100"
  shows "usageLevel used limit percent =
    (0 \<le> limit \<and> used > limit * MB,
     0 \<le> limit \<and> (if limit = 0 then used > 0 else used * 100 \<ge> limit * MB * percent))"
proof (cases "limit < 0")
  case False
  have bytes: "wrap64 (wrap64 (limit * 1024) * 1024) = limit * MB"
    using assms(3) False by (simp add: wrap64_id is_int64_def)
  have "limit * percent \<le> 2 ^ 31 * 100"
    using assms False by (intro mult_mono) auto
  moreover have "0 \<le> limit * percent" using assms False by simp
  ultimately have "wrap64 (limit * MB * percent) = limit * MB * percent"
    by (intro wrap64_id) (simp add: is_int64_def algebra_simps)
  moreover have "wrap64 (used * 100) = used * 100"
    using assms by (intro wrap64_id) (simp add: is_int64_def)
  ultimately show ?thesis using False bytes by (auto simp: usageLevel_def Let_def)
qed (simp add: usageLevel_def)

theorem usageLevel_exact_witness:
  "usageLevel (85 * MB) 100 80 = (False, True) \<and> usageLevel (100 * MB + 1) 100 80 = (True, True) \<and>
   usageLevel 1 0 80 = (True, True) \<and> usageLevel (10 ^ 15) (- 1) 80 = (False, False)"
  using usageLevel_exact [of "85 * MB" 100 80] usageLevel_exact [of "100 * MB + 1" 100 80]
    usageLevel_exact [of 1 0 80] usageLevel_exact [of "10 ^ 15" "- 1" 80]
  by simp

lemma bytesToCeilingMB_gt: "0 \<le> limit \<Longrightarrow> bytesToCeilingMB n > limit \<longleftrightarrow> n > limit * MB"
proof (cases "n \<le> 0")
  case False
  assume "0 \<le> limit"
  have "go_div (n - 1) MB = (n - 1) div MB" using False by (intro go_div_nonneg) auto
  moreover have "(n - 1) div MB * MB \<le> n - 1" "n - 1 < ((n - 1) div MB + 1) * MB"
    using div_mult_mod_eq [of "n - 1" MB] pos_mod_bound [of MB "n - 1"] pos_mod_sign [of MB "n - 1"]
    by (simp_all add: algebra_simps)
  ultimately show ?thesis using False by (auto simp: bytesToCeilingMB_def)
qed (auto simp: bytesToCeilingMB_def mult_less_0_iff)

lemma measuredViolation_iff:
  "limit < 2 ^ 31 \<Longrightarrow> measuredViolation label n limit \<noteq> [] \<longleftrightarrow> fst (usageLevel n limit percent)"
  using bytesToCeilingMB_gt [of limit n] usageLevel_over [of limit n percent]
  by (auto simp: measuredViolation_def Let_def)

definition count_over :: "int \<Rightarrow> int \<Rightarrow> bool" where
  "count_over used limit \<longleftrightarrow> 0 \<le> limit \<and> used > limit"

lemma countViolation_Nil: "countViolation label used limit = [] \<longleftrightarrow> \<not> count_over used limit"
  by (simp add: countViolation_def count_over_def)

text \<open>C32. The compliance report, which compares whole megabytes rounded up, agrees with the overuse check, which
  compares bytes: on a complete measurement a subscription is compliant exactly when no count and not its backup
  storage exceeds its limit and the overuse check finds neither its disk nor its traffic over the limit, and otherwise
  it is reported over the limit. Without a complete measurement it is never reported compliant.\<close>

theorem compliance_agrees_with_overuse:
  assumes "Ent_DiskMB e < 2 ^ 31" and "Ent_BandwidthMB e < 2 ^ 31" and "Ent_BackupStorageMB e < 2 ^ 31"
  shows "fst (EvaluateSubscriptionCompliance e usage) =
    (if count_over (Sc_Domains usage) (Ent_MaxSites e) \<or> count_over (Sc_Subdomains usage) (Ent_MaxSubdomains e) \<or>
        count_over (Sc_Databases usage) (Ent_MaxDatabases e) \<or> count_over (Sc_Backups usage) (Ent_MaxBackups e) \<or>
        count_over (Sc_Mailboxes usage) (Ent_MaxMailboxes e) \<or>
        fst (usageLevel (Sc_BackupBytes usage) (Ent_BackupStorageMB e) 100) \<or>
        Sc_MeasurementComplete usage \<and>
          (fst (usageLevel (Sc_DiskBytes usage) (Ent_DiskMB e) 100) \<or> fst (usageLevel (Sc_TrafficBytes usage) (Ent_BandwidthMB e) 100))
     then ''over_limit'' else if Sc_MeasurementComplete usage then ''compliant'' else ''unknown'')"
proof -
  note over = measuredViolation_iff [where percent = 100, OF assms(1), of "''disk''" "Sc_DiskBytes usage"]
    measuredViolation_iff [where percent = 100, OF assms(2), of "''traffic''" "Sc_TrafficBytes usage"]
    measuredViolation_iff [where percent = 100, OF assms(3), of "''backup storage''" "Sc_BackupBytes usage"]
  show ?thesis
    unfolding EvaluateSubscriptionCompliance_def compliance_violations_def Let_def
    by (simp add: countViolation_Nil flip: over)
qed

definition demo_measured :: SubscriptionComplianceUsage where
  "demo_measured = \<lparr>Sc_Domains = 1, Sc_Subdomains = 0, Sc_Databases = 0, Sc_Backups = 0, Sc_Mailboxes = 0, Sc_DiskBytes = 5 * MB + 1,
     Sc_TrafficBytes = 0, Sc_BackupBytes = 0, Sc_MeasurementComplete = True\<rparr>"

theorem compliance_agrees_with_overuse_witness:
  "fst (EvaluateSubscriptionCompliance (zero_SubscriptionEntitlements\<lparr>Ent_DiskMB := 5, Ent_MaxSites := 1\<rparr>) demo_measured) = ''over_limit'' \<and>
   fst (EvaluateSubscriptionCompliance (zero_SubscriptionEntitlements\<lparr>Ent_DiskMB := 6, Ent_MaxSites := 1\<rparr>) demo_measured) = ''compliant''"
  using compliance_agrees_with_overuse [of "zero_SubscriptionEntitlements\<lparr>Ent_DiskMB := 5, Ent_MaxSites := 1\<rparr>" demo_measured]
    compliance_agrees_with_overuse [of "zero_SubscriptionEntitlements\<lparr>Ent_DiskMB := 6, Ent_MaxSites := 1\<rparr>" demo_measured]
  by (simp add: demo_measured_def zero_SubscriptionEntitlements_def usageLevel_over count_over_def)

section \<open>Frames\<close>

lemma resolve_where_frame [simp]:
  "U_Quota (resolve_where P db) = U_Quota db" "U_Reason (resolve_where P db) = U_Reason db"
  "U_Current (resolve_where P db) = U_Current db" "U_NextNotification (resolve_where P db) = U_NextNotification db"
  by (simp_all add: resolve_where_def)

lemma EnqueueNotificationTx_frame [simp]:
  "U_Quota (EnqueueNotificationTx i db) = U_Quota db" "U_Reason (EnqueueNotificationTx i db) = U_Reason db"
  "U_Current (EnqueueNotificationTx i db) = U_Current db" "U_Notifications (EnqueueNotificationTx i db) = U_Notifications db"
  "U_NextNotification (EnqueueNotificationTx i db) = U_NextNotification db"
  by (simp_all add: EnqueueNotificationTx_def)

lemma upsertNotificationDetailedTx_frame [simp]:
  "U_Quota (snd (upsertNotificationDetailedTx sub kind sev title body key db)) = U_Quota db"
  "U_Reason (snd (upsertNotificationDetailedTx sub kind sev title body key db)) = U_Reason db"
  "U_Current (snd (upsertNotificationDetailedTx sub kind sev title body key db)) = U_Current db"
  by (simp_all add: upsertNotificationDetailedTx_def Let_def split: option.split)

lemma upsertNotificationTx_frame:
  "upsertNotificationTx sub kind sev title body key db = Inr db' \<Longrightarrow>
     U_Quota db' = U_Quota db \<and> U_Reason db' = U_Reason db \<and> U_Current db' = U_Current db"
  by (auto simp: upsertNotificationTx_def Let_def case_prod_beta split: option.splits)

lemma usage_alert_frame [simp]:
  "U_Quota (usage_alert sub res per notify level used limit db) = U_Quota db"
  "U_Reason (usage_alert sub res per notify level used limit db) = U_Reason db"
  "U_Current (usage_alert sub res per notify level used limit db) = U_Current db"
  by (simp_all add: usage_alert_def resolveUsageAlertTx_def upsertUsageAlertTx_def Let_def case_prod_beta)

lemma enqueueSubscriptionHostingStateTx_frame:
  "enqueueSubscriptionHostingStateTx sub db = Inr db' \<Longrightarrow>
     U_Quota db' = U_Quota db \<and> U_Reason db' = U_Reason db \<and> U_Current db' = U_Current db \<and> U_Notifications db' = U_Notifications db \<and>
     U_NextNotification db' = U_NextNotification db"
  by (auto simp: enqueueSubscriptionHostingStateTx_def split: option.splits)

lemma record_sites_frame:
  "record_sites p now rs db = Inr db' \<Longrightarrow>
     U_Quota db' = U_Quota db \<and> U_Reason db' = U_Reason db \<and> U_Current db' = U_Current db \<and> U_Notifications db' = U_Notifications db \<and>
     U_NextNotification db' = U_NextNotification db"
  by (induction rs arbitrary: db) (fastforce simp: record_site_def Let_def split: sum.splits if_splits)+

lemma refreshSubscriptionComplianceTx_frame:
  "refreshSubscriptionComplianceTx sub db = Inr db' \<Longrightarrow>
     U_Quota db' = U_Quota db \<and> U_Reason db' = U_Reason db \<and> U_Current db' = U_Current db \<and> U_Notifications db' = U_Notifications db \<and>
     U_NextNotification db' = U_NextNotification db"
  by (auto simp: refreshSubscriptionComplianceTx_def evaluateSubscriptionComplianceTx_def Let_def split: option.splits sum.splits prod.splits)

section \<open>Suspension\<close>

definition status_of :: "usage_db \<Rightarrow> int \<Rightarrow> string option" where
  "status_of db sub = map_option Su_Status (subscription_of db sub)"

lemma subscription_of_update:
  assumes "\<And>s. Su_ID (f s) = Su_ID s"
  shows "subscription_of (update_subscription sub f db) i = (if i = sub then map_option f (subscription_of db i) else subscription_of db i)"
proof -
  have "find (\<lambda>s. Su_ID s = i) (map (\<lambda>s. if Su_ID s = sub then f s else s) ss) =
    (if i = sub then map_option f (find (\<lambda>s. Su_ID s = i) ss) else find (\<lambda>s. Su_ID s = i) ss)" for ss
    using assms by (induction ss) auto
  then show ?thesis by (simp add: subscription_of_def update_subscription_def)
qed

lemma subscription_of_cong: "U_Quota db = U_Quota db' \<Longrightarrow> subscription_of db = subscription_of db'"
  by (simp add: fun_eq_iff subscription_of_def)

lemma update_subscription_frame [simp]:
  "U_Reason (update_subscription sub f db) = U_Reason db" "U_Current (update_subscription sub f db) = U_Current db"
  "Q_Entitlements (U_Quota (update_subscription sub f db)) = Q_Entitlements (U_Quota db)"
  "U_Notifications (update_subscription sub f db) = U_Notifications db"
  "U_NextNotification (update_subscription sub f db) = U_NextNotification db"
  by (simp_all add: update_subscription_def)

lemma suspend_for_overuse_status:
  assumes "suspend_for_overuse sub key db = Inr db'"
  shows "status_of db' i = (if i = sub \<and> status_of db i = Some ''active'' then Some ''suspended'' else status_of db i) \<and>
    (status_of db sub = Some ''active'' \<longrightarrow> U_Reason db' sub = ''resource_overuse'') \<and> U_Current db' = U_Current db"
proof (cases "status_of db sub = Some ''active''")
  case True
  let ?db1 = "(update_subscription sub (\<lambda>s. s\<lparr>Su_Status := ''suspended''\<rparr>) db)\<lparr>U_Reason := (U_Reason db)(sub := ''resource_overuse'')\<rparr>"
  from True obtain s where s: "subscription_of db sub = Some s" "Su_Status s = ''active''" by (auto simp: status_of_def)
  with assms have "U_Quota db' = U_Quota ?db1 \<and> U_Reason db' = U_Reason ?db1 \<and> U_Current db' = U_Current ?db1"
    by (auto simp: suspend_for_overuse_def Let_def split: sum.splits
        dest!: enqueueSubscriptionHostingStateTx_frame upsertNotificationTx_frame)
  moreover have "subscription_of ?db1 i = (if i = sub then map_option (\<lambda>s. s\<lparr>Su_Status := ''suspended''\<rparr>) (subscription_of db i) else subscription_of db i)"
    using subscription_of_update [of "\<lambda>s. s\<lparr>Su_Status := ''suspended''\<rparr>" sub db i] by (simp add: subscription_of_def)
  ultimately show ?thesis using s subscription_of_cong [of db' ?db1] by (auto simp: status_of_def)
next
  case False
  then have "db' = db" using assms by (auto simp: suspend_for_overuse_def status_of_def split: option.splits if_splits)
  then show ?thesis using False by auto
qed

text \<open>The row a collection stores.\<close>

definition collected_usage :: "(CollectUsageReq \<Rightarrow> string + CollectUsageResult) \<Rightarrow> int \<Rightarrow> int \<Rightarrow> usage_db \<Rightarrow> UsageRow \<Rightarrow> bool" where
  "collected_usage agent now sub db u \<longleftrightarrow>
     (\<exists>r. agent (usage_request db sub (utc_month now)) = Inr r \<and>
       u = measured_row sub (utc_month now) now r (backup_bytes (U_Quota db) sub) (previous_traffic db sub (utc_month now)))"

lemma upsert_find:
  "P new \<Longrightarrow> (\<And>x. P x \<Longrightarrow> f x = new) \<Longrightarrow> find P (upsert P f new rows) = Some new"
proof -
  assume a: "P new" "\<And>x. P x \<Longrightarrow> f x = new"
  have "list_ex P rows \<Longrightarrow> find P (map (\<lambda>x. if P x then f x else x) rows) = Some new"
    using a by (induction rows) auto
  moreover have "\<not> list_ex P rows \<Longrightarrow> find P (rows @ [new]) = Some new" using a(1) by (induction rows) auto
  ultimately show ?thesis by (simp add: upsert_def)
qed

definition over_limit :: "SubscriptionEntitlements \<Rightarrow> UsageRow \<Rightarrow> bool" where
  "over_limit e u \<longleftrightarrow>
     0 \<le> Ent_DiskMB e \<and> Ur_DiskBytes u > Ent_DiskMB e * MB \<or> 0 \<le> Ent_BandwidthMB e \<and> Ur_TrafficBytes u > Ent_BandwidthMB e * MB"

lemma store_usage_frame [simp]:
  "U_Quota (store_usage u db) = U_Quota db" "U_Reason (store_usage u db) = U_Reason db"
  by (simp_all add: store_usage_def)

lemma current_usage_store [simp]: "current_usage (store_usage u db) (Ur_SubscriptionID u) = Some u"
  by (simp add: current_usage_def store_usage_def upsert_find)

lemma evaluateUsageTx_frame:
  assumes "evaluateUsageTx u db = Inr db'"
  shows "U_Current db' = U_Current db"
  using assms suspend_for_overuse_status
  by (fastforce simp: evaluateUsageTx_def Let_def split: option.splits if_splits)

lemma collectSubscription_cases:
  assumes "collectSubscription agent now sub db = Inr db'"
  obtains u db2 where "collected_usage agent now sub db u" "usage_row_ok u" "current_usage db' sub = Some u"
    "U_Quota db2 = U_Quota db" "U_Reason db2 = U_Reason db" "evaluateUsageTx u db2 = Inr db'"
proof -
  let ?p = "utc_month now"
  from assms obtain r db1 where r: "agent (usage_request db sub ?p) = Inr r" and 1: "record_sites ?p now (Cx_Sites r) db = Inr db1"
    and 2: "(let usage = measured_row sub ?p now r (backup_bytes (U_Quota db) sub) (previous_traffic db1 sub ?p) in
      if \<not> usage_row_ok usage then Inl MeterSQL
      else case refreshSubscriptionComplianceTx sub (store_usage usage db1) of Inl e \<Rightarrow> Inl e | Inr db2 \<Rightarrow> evaluateUsageTx usage db2) = Inr db'"
    by (auto simp: collectSubscription_def Let_def split: sum.splits if_splits)
  note frame = record_sites_frame [OF 1]
  let ?u = "measured_row sub ?p now r (backup_bytes (U_Quota db) sub) (previous_traffic db1 sub ?p)"
  have "previous_traffic db1 = previous_traffic db" using frame by (simp add: fun_eq_iff previous_traffic_def current_usage_def)
  with r have u: "collected_usage agent now sub db ?u" by (auto simp: collected_usage_def)
  from 2 obtain db2 where 3: "usage_row_ok ?u" "refreshSubscriptionComplianceTx sub (store_usage ?u db1) = Inr db2" "evaluateUsageTx ?u db2 = Inr db'"
    by (auto simp: Let_def split: sum.splits if_splits)
  note frame2 = refreshSubscriptionComplianceTx_frame [OF 3(2)]
  have "Ur_SubscriptionID ?u = sub" by (simp add: measured_row_def)
  then have "current_usage db' sub = Some ?u"
    using evaluateUsageTx_frame [OF 3(3)] frame2 current_usage_store [of ?u db1] by (simp add: current_usage_def)
  with u 3 frame frame2 show thesis by (intro that) simp_all
qed

lemma evaluateUsageTx_status:
  assumes "evaluateUsageTx u db = Inr db'"
  obtains e where "entitlement_of (U_Quota db) (Ur_SubscriptionID u) = Some e"
    "Ent_DiskMB (Er_Entitlements e) < 2 ^ 31 \<Longrightarrow> Ent_BandwidthMB (Er_Entitlements e) < 2 ^ 31 \<Longrightarrow>
      status_of db' i = (if i = Ur_SubscriptionID u \<and> Ent_OverusePolicy (Er_Entitlements e) = ''block'' \<and> over_limit (Er_Entitlements e) u \<and>
         status_of db i = Some ''active'' then Some ''suspended'' else status_of db i)"
proof -
  let ?sub = "Ur_SubscriptionID u"
  from assms obtain row where row: "entitlement_of (U_Quota db) ?sub = Some row"
    by (auto simp: evaluateUsageTx_def Let_def split: option.splits)
  let ?e = "Er_Entitlements row" and ?key = "periodKey (Ur_Period u)"
  define db2 where "db2 = usage_alert ?sub ''traffic'' ?key (notifies (Ent_OverusePolicy ?e))
    (usageLevel (Ur_TrafficBytes u) (Ent_BandwidthMB ?e) (Ent_TrafficWarningPercent ?e)) (Ur_TrafficBytes u) (Ent_BandwidthMB ?e)
    (usage_alert ?sub ''disk'' ?key (notifies (Ent_OverusePolicy ?e))
      (usageLevel (Ur_DiskBytes u) (Ent_DiskMB ?e) (Ent_DiskWarningPercent ?e)) (Ur_DiskBytes u) (Ent_DiskMB ?e) db)"
  have "status_of db2 i = status_of db i" for i
    using subscription_of_cong [of db2 db] by (simp add: db2_def status_of_def)
  moreover have "(if Ent_OverusePolicy ?e = ''block'' \<and> (fst (usageLevel (Ur_DiskBytes u) (Ent_DiskMB ?e) (Ent_DiskWarningPercent ?e)) \<or>
      fst (usageLevel (Ur_TrafficBytes u) (Ent_BandwidthMB ?e) (Ent_TrafficWarningPercent ?e)))
      then suspend_for_overuse ?sub ?key db2 else Inr db2) = Inr db'"
    using assms row by (auto simp: evaluateUsageTx_def Let_def db2_def split: option.splits)
  ultimately show thesis
    using row suspend_for_overuse_status [of ?sub ?key db2 db' i]
    by (intro that) (auto simp: usageLevel_over over_limit_def split: if_splits)
qed

text \<open>C13. A successful collection stores the new measurement as the current usage of the subscription and enforces the
  limits on it: an active subscription with the blocking policy that is over its disk or traffic limit becomes
  suspended, and no other subscription changes its status.\<close>

theorem collection_enforces_limits:
  assumes "collectSubscription agent now sub db = Inr db'"
    and "entitlement_of (U_Quota db) sub = Some row"
    and "Ent_DiskMB (Er_Entitlements row) < 2 ^ 31" and "Ent_BandwidthMB (Er_Entitlements row) < 2 ^ 31"
  shows "\<exists>u. collected_usage agent now sub db u \<and> current_usage db' sub = Some u \<and>
    (\<forall>i. status_of db' i =
      (if i = sub \<and> Ent_OverusePolicy (Er_Entitlements row) = ''block'' \<and> over_limit (Er_Entitlements row) u \<and> status_of db i = Some ''active''
       then Some ''suspended'' else status_of db i))"
proof -
  obtain u db2 where u: "collected_usage agent now sub db u" "current_usage db' sub = Some u"
    "U_Quota db2 = U_Quota db" "evaluateUsageTx u db2 = Inr db'"
    using collectSubscription_cases [OF assms(1)] by metis
  have sub: "Ur_SubscriptionID u = sub" using u(1) by (auto simp: collected_usage_def measured_row_def)
  have same: "status_of db2 i = status_of db i" for i using u(3) subscription_of_cong [of db2 db] by (simp add: status_of_def)
  have "status_of db' i =
      (if i = sub \<and> Ent_OverusePolicy (Er_Entitlements row) = ''block'' \<and> over_limit (Er_Entitlements row) u \<and> status_of db i = Some ''active''
       then Some ''suspended'' else status_of db i)" for i
  proof (rule evaluateUsageTx_status [OF u(4), of i])
    fix e
    assume e: "entitlement_of (U_Quota db2) (Ur_SubscriptionID u) = Some e"
      "Ent_DiskMB (Er_Entitlements e) < 2 ^ 31 \<Longrightarrow> Ent_BandwidthMB (Er_Entitlements e) < 2 ^ 31 \<Longrightarrow>
        status_of db' i = (if i = Ur_SubscriptionID u \<and> Ent_OverusePolicy (Er_Entitlements e) = ''block'' \<and> over_limit (Er_Entitlements e) u \<and>
           status_of db2 i = Some ''active'' then Some ''suspended'' else status_of db2 i)"
    have "e = row" using e(1) assms(2) u(3) sub by simp
    with e(2) assms(3, 4) sub same show ?thesis by auto
  qed
  with u show ?thesis by blast
qed

section \<open>The traffic of a month\<close>

definition traffic_delta :: "CollectUsageResult \<Rightarrow> int" where
  "traffic_delta r = sum_list (map Sx_TrafficBytes (Cx_Sites r))"

lemma foldl_wrap64: "foldl (\<lambda>a r. wrap64 (a + Sx_TrafficBytes r)) (wrap64 a) rs = wrap64 (a + sum_list (map Sx_TrafficBytes rs))"
proof (induction rs arbitrary: a)
  case (Cons r rs)
  then show ?case using Cons [of "a + Sx_TrafficBytes r"] by (simp add: wrap64_add_left add.assoc)
qed simp

lemma measured_traffic: "Ur_TrafficBytes (measured_row sub p now r backups previous) = wrap64 (previous + traffic_delta r)"
  using foldl_wrap64 [of 0 "Cx_Sites r"] by (simp add: measured_row_def traffic_delta_def wrap64_add_right wrap64_def [of 0])

text \<open>Collections one after the other, with the traffic the agent reported in each of them.\<close>

inductive collections :: "int \<Rightarrow> period \<Rightarrow> usage_db \<Rightarrow> int list \<Rightarrow> usage_db \<Rightarrow> bool" for sub p where
  none: "collections sub p db [] db"
| more: "collections sub p db ts db1 \<Longrightarrow> utc_month now = p \<Longrightarrow> agent (usage_request db1 sub p) = Inr r \<Longrightarrow>
    collectSubscription agent now sub db1 = Inr db2 \<Longrightarrow> collections sub p db (ts @ [traffic_delta r]) db2"

lemma collectSubscription_previous:
  assumes "collectSubscription agent now sub db = Inr db'" and "agent (usage_request db sub (utc_month now)) = Inr r"
  shows "previous_traffic db' sub (utc_month now) = wrap64 (previous_traffic db sub (utc_month now) + traffic_delta r)"
proof -
  obtain u where "collected_usage agent now sub db u" "current_usage db' sub = Some u"
    using collectSubscription_cases [OF assms(1)] by metis
  moreover from this assms(2) have "u = measured_row sub (utc_month now) now r (backup_bytes (U_Quota db) sub) (previous_traffic db sub (utc_month now))"
    by (auto simp: collected_usage_def)
  moreover from this have "Ur_Period u = utc_month now" by (simp add: measured_row_def)
  ultimately show ?thesis by (simp add: previous_traffic_def [of db'] measured_traffic)
qed

text \<open>After any number of successful collections in one month, the stored traffic of the subscription in that month
  is what was stored before, or nothing if the stored value was of another month, plus everything the agent reported in
  them (modulo 2 to the 64).\<close>

theorem month_traffic_is_sum:
  assumes "collections sub p db ts db'"
  shows "wrap64 (previous_traffic db' sub p) = wrap64 (previous_traffic db sub p + sum_list ts)"
  using assms
proof (induction rule: collections.induct)
  case (more db ts db1 now agent r db2)
  then have "previous_traffic db2 sub p = wrap64 (previous_traffic db1 sub p + traffic_delta r)"
    using collectSubscription_previous [of agent now sub db1 db2 r] by simp
  then show ?case
    using more.IH wrap64_add_left [of "previous_traffic db1 sub p" "traffic_delta r"]
      wrap64_add_left [of "previous_traffic db sub p + sum_list ts" "traffic_delta r"]
    by (simp add: wrap64_idem add.assoc)
qed simp

section \<open>Activation after overuse\<close>

lemma set_status_frame:
  assumes "set_status now status sub db = Inr db'" and "i \<noteq> sub"
  shows "U_Reason db' i = U_Reason db i" "U_Current db' = U_Current db" "Q_Entitlements (U_Quota db') = Q_Entitlements (U_Quota db)"
  using assms
  by (auto simp: set_status_def Let_def split: option.splits if_splits dest!: enqueueSubscriptionHostingStateTx_frame)

definition reactivation_ok :: "int \<Rightarrow> int \<Rightarrow> usage_db \<Rightarrow> bool" where
  "reactivation_ok now i db \<longleftrightarrow>
     (\<exists>u row. current_usage db i = Some u \<and> entitlement_of (U_Quota db) i = Some row \<and> Ur_Complete u \<and>
        now - Ur_CollectedAt u \<le> 30 * 60 * 10 ^ 9 \<and>
        (Ent_DiskMB (Er_Entitlements row) < 2 ^ 31 \<and> Ent_BandwidthMB (Er_Entitlements row) < 2 ^ 31 \<longrightarrow> \<not> over_limit (Er_Entitlements row) u))"

lemma set_status_reactivation:
  assumes "set_status now ''active'' i db = Inr db'" and "U_Reason db i = ''resource_overuse''"
  shows "reactivation_ok now i db"
proof -
  from assms(1) obtain c :: CustomerRow where c: "activation_error now (coalesce 0 (Cu_ResellerID c)) i db = None"
    by (auto simp: set_status_def split: option.splits)
  then obtain e where "readSubscriptionEntitlementsTx (U_Quota db) i = Inr e" "validateOveruseReactivationTx now i e db = None"
    using assms(2) by (auto simp: activation_error_def Let_def first_error_None split: option.splits sum.splits)
  then show ?thesis
    using assms(2)
    by (auto simp: reactivation_ok_def validateOveruseReactivationTx_def readSubscriptionEntitlementsTx_def usageCollectionInterval_def
        usageLevel_over over_limit_def split: option.splits if_splits)
qed

lemma set_statuses_reactivation:
  "set_statuses now ''active'' is db = Inr db' \<Longrightarrow> distinct is \<Longrightarrow> i \<in> set is \<Longrightarrow> U_Reason db i = ''resource_overuse'' \<Longrightarrow>
     reactivation_ok now i db"
proof (induction "is" arbitrary: db)
  case (Cons j js)
  then obtain db1 where 1: "set_status now ''active'' j db = Inr db1" "set_statuses now ''active'' js db1 = Inr db'"
    by (auto split: sum.splits)
  show ?case
  proof (cases "i = j")
    case True
    then show ?thesis using 1 Cons.prems set_status_reactivation by blast
  next
    case False
    note frame = set_status_frame [OF 1(1) False]
    have "reactivation_ok now i db1" using Cons 1 False frame by auto
    then show ?thesis using frame by (simp add: reactivation_ok_def current_usage_def entitlement_of_def)
  qed
qed simp

text \<open>C12. When a request activates subscriptions, every one of them that was suspended for overuse has a complete
  measurement of the last half hour that is within the disk and traffic limits of its entitlements; otherwise the whole
  request is refused.\<close>

theorem overuse_reactivation_safe:
  assumes "SetSubscriptionStatuses now ids raw db = Inr db'" and "TrimSpace raw = ''active''"
    and "i \<in> set ids" and "U_Reason db i = ''resource_overuse''"
  shows "reactivation_ok now i db"
proof -
  have "set_statuses now ''active'' (uniqueSortedIDs ids) db = Inr db'" "0 < i"
    using assms by (auto simp: SetSubscriptionStatuses_def Let_def list_ex_iff not_le split: if_splits)
  moreover have "distinct (uniqueSortedIDs ids)" by (simp add: uniqueSortedIDs_def)
  ultimately show ?thesis
    using assms(3, 4) set_statuses_reactivation [of now "uniqueSortedIDs ids" db db' i] by (simp add: uniqueSortedIDs_def)
qed

section \<open>Alerts\<close>

abbreviation notification_open :: "UsageNotification \<Rightarrow> bool" where
  "notification_open n \<equiv> \<not> Un_Resolved n"

text \<open>
  Ids are unique and below the sequence, open notifications have different keys (the partial index of the table),
  and a key that names a subscription belongs to a notification of that subscription.
\<close>

definition owns_key :: "UsageNotification \<Rightarrow> bool" where
  "owns_key n \<longleftrightarrow> (\<forall>sub. HasPrefix (Un_Key n) (''usage:'' @ Itoa sub @ '':'') \<longrightarrow> Un_SubscriptionID n = sub)"

definition notifications_ok :: "UsageNotification list \<Rightarrow> int \<Rightarrow> bool" where
  "notifications_ok ns next_id \<longleftrightarrow>
     distinct (map Un_ID ns) \<and> (\<forall>n \<in> set ns. Un_ID n < next_id \<and> owns_key n) \<and> distinct (map Un_Key (filter notification_open ns))"

abbreviation notif_wf :: "usage_db \<Rightarrow> bool" where
  "notif_wf db \<equiv> notifications_ok (U_Notifications db) (U_NextNotification db)"

definition open_alerts :: "usage_db \<Rightarrow> int \<Rightarrow> string \<Rightarrow> string \<Rightarrow> nat" where
  "open_alerts db sub resource period = length (filter (open_alert sub resource period) (U_Notifications db))"

lemma distinct_map_filter_mono:
  "distinct (map f (filter P xs)) \<Longrightarrow> (\<And>x. Q x \<Longrightarrow> P x) \<Longrightarrow> distinct (map f (filter Q xs))"
  by (induction xs) (auto split: if_splits)

lemma notifications_ok_map:
  assumes "notifications_ok ns k"
    and g: "\<And>n. Un_ID (g n) = Un_ID n" "\<And>n. Un_Key (g n) = Un_Key n" "\<And>n. Un_SubscriptionID (g n) = Un_SubscriptionID n"
      "\<And>n. notification_open (g n) \<Longrightarrow> notification_open n"
  shows "notifications_ok (map g ns) k"
proof -
  have "distinct (map Un_Key (filter (\<lambda>n. notification_open (g n)) ns))"
    using assms(1) g(4) unfolding notifications_ok_def by (blast intro: distinct_map_filter_mono)
  then show ?thesis
    using assms(1) by (simp add: notifications_ok_def filter_map comp_def g owns_key_def)
qed

lemma notif_wf_resolve: "notif_wf db \<Longrightarrow> notif_wf (resolve_where P db)"
  unfolding resolve_where_def by (simp, rule notifications_ok_map) (auto split: if_splits)

lemma Itoa_no_colon: "CHR '':'' \<notin> set (Itoa i)"
  using Itoa_digits [of i] by (auto simp: list_all_iff is_digit_def byte_def)

lemma usage_key_owner:
  assumes "HasPrefix (''usage:'' @ Itoa a @ '':'' @ r) (''usage:'' @ Itoa b @ '':'')"
  shows "a = b"
proof -
  obtain t where "Itoa a @ CHR '':'' # r = Itoa b @ CHR '':'' # t" using assms by (auto simp: HasPrefix_iff)
  then have "hd (Split (Itoa a @ CHR '':'' # r) CHR '':'') = hd (Split (Itoa b @ CHR '':'' # t) CHR '':'')" by simp
  then show ?thesis by (simp add: Split_append_sep Itoa_no_colon Itoa_inject)
qed

lemma find_open_key:
  assumes "find (open_key key) ns = Some n"
  shows "n \<in> set ns" "open_key key n"
  using assms by (auto simp: find_Some_iff)

lemma upsertNotificationDetailedTx_wf:
  assumes "notif_wf db" and "key = ''usage:'' @ Itoa sub @ '':'' @ r"
    and "upsertNotificationDetailedTx sub kind sev title body key db = (i, db')"
  shows "notif_wf db' \<and> (\<exists>n \<in> set (U_Notifications db'). Un_ID n = i \<and> open_key key n \<and> Un_SubscriptionID n = sub)"
proof (cases "find (open_key key) (U_Notifications db)")
  case None
  then have closed: "\<forall>n \<in> set (U_Notifications db). \<not> open_key key n" by (simp add: find_None_iff)
  have i: "i = U_NextNotification db" using None assms(3) by (simp add: upsertNotificationDetailedTx_def Let_def)
  let ?new = "\<lparr>Un_ID = i, Un_SubscriptionID = sub, Un_Kind = kind, Un_Severity = sev, Un_Title = title, Un_Body = body, Un_Key = key, Un_Resolved = False\<rparr>"
  have db': "U_Notifications db' = U_Notifications db @ [?new]" "U_NextNotification db' = i + 1"
    using None assms(3) by (auto simp: upsertNotificationDetailedTx_def Let_def)
  have "owns_key ?new" using usage_key_owner assms(2) by (auto simp: owns_key_def)
  moreover have "Un_Key ?new \<notin> Un_Key ` set (filter notification_open (U_Notifications db))" using closed by (auto simp: open_key_def)
  ultimately show ?thesis
    using assms(1) i unfolding notifications_ok_def db' by (fastforce simp: open_key_def)
next
  case (Some n)
  let ?g = "\<lambda>x. if open_key key x then x\<lparr>Un_Severity := sev, Un_Title := title, Un_Body := body\<rparr> else x"
  have db': "U_Notifications db' = map ?g (U_Notifications db)" "U_NextNotification db' = U_NextNotification db" "i = Un_ID n"
    using Some assms(3) by (auto simp: upsertNotificationDetailedTx_def)
  have g: "Un_ID (?g x) = Un_ID x" "Un_Key (?g x) = Un_Key x" "Un_Resolved (?g x) = Un_Resolved x" "owns_key (?g x) = owns_key x"
    "Un_SubscriptionID (?g x) = Un_SubscriptionID x" "open_key key (?g x) = open_key key x" for x
    by (simp_all add: owns_key_def open_key_def)
  have n: "n \<in> set (U_Notifications db)" "open_key key n" using find_open_key [OF Some] by auto
  then have "Un_SubscriptionID n = sub"
    using assms(1, 2) unfolding notifications_ok_def owns_key_def open_key_def by (auto simp: HasPrefix_iff)
  with n have "\<exists>x \<in> set (U_Notifications db'). Un_ID x = i \<and> open_key key x \<and> Un_SubscriptionID x = sub"
    unfolding db' set_map by (intro bexI [of _ "?g n"]) (auto simp: open_key_def)
  moreover have "notif_wf db'" using assms(1) unfolding db'(1,2) by (rule notifications_ok_map) (simp_all add: g)
  ultimately show ?thesis by blast
qed

text \<open>What does not touch the alerts of a resource.\<close>

lemma open_alerts_resolve:
  assumes "\<And>n. P n \<Longrightarrow> \<not> open_alert sub res per n"
  shows "open_alerts (resolve_where P db) sub res per = open_alerts db sub res per"
proof -
  have "open_alert sub res per (if P n then n\<lparr>Un_Resolved := True\<rparr> else n) = open_alert sub res per n" for n
    using assms [of n] by (auto simp: open_alert_def)
  then show ?thesis by (simp add: open_alerts_def resolve_where_def filter_map comp_def)
qed

lemma open_alerts_upsert:
  assumes "\<not> like_between (alert_prefix sub res) ('':'' @ per) key"
  shows "open_alerts (snd (upsertNotificationDetailedTx s kind sev title body key db)) sub res per = open_alerts db sub res per"
proof -
  have "open_alert sub res per (if open_key key n then n\<lparr>Un_Severity := sev, Un_Title := title, Un_Body := body\<rparr> else n) = open_alert sub res per n" for n
    by (simp add: open_alert_def)
  moreover have "\<not> open_alert sub res per \<lparr>Un_ID = i, Un_SubscriptionID = s, Un_Kind = kind, Un_Severity = sev, Un_Title = title,
      Un_Body = body, Un_Key = key, Un_Resolved = False\<rparr>" for i
    using assms by (simp add: open_alert_def)
  ultimately show ?thesis
    by (simp add: open_alerts_def upsertNotificationDetailedTx_def Let_def filter_map comp_def split: option.split)
qed

lemma like_between_key: "like_between pre ('':'' @ per) (pre @ kind @ '':'' @ per)"
  using HasSuffix_iff [of "pre @ kind @ '':'' @ per" "'':'' @ per"] by (auto simp: like_between_def HasPrefix_iff)

lemma length_filter_one:
  assumes "distinct (map f xs)" and "x \<in> set xs" and "P x"
  shows "length (filter (\<lambda>y. P y \<and> f y = f x) xs) = 1"
proof -
  have "filter (\<lambda>y. P y \<and> f y = f x) xs = filter (\<lambda>y. y = x) xs"
    using assms by (intro filter_cong) (auto dest: map_inj_on inj_onD simp: distinct_map)
  moreover have "{y. y = x} \<inter> set xs = {x}" using assms(2) by auto
  ultimately show ?thesis using assms(1) by (simp add: distinct_map distinct_length_filter)
qed

lemma upsertUsageAlertTx_one:
  assumes "notif_wf db"
  shows "notif_wf (snd (upsertUsageAlertTx sub res per over used limit db)) \<and>
    open_alerts (snd (upsertUsageAlertTx sub res per over used limit db)) sub res per = 1"
proof -
  define key where "key = alert_prefix sub res @ alert_kind over @ '':'' @ per"
  let ?up = "upsertNotificationDetailedTx sub (alert_kind over) (if over then ''critical'' else ''warning'')
    (usageResourceLabel res @ '' usage alert'') (alert_body res over used limit) key db"
  obtain i db1 where up: "?up = (i, db1)" by fastforce
  have res: "snd (upsertUsageAlertTx sub res per over used limit db) =
      EnqueueNotificationTx i (resolve_where (\<lambda>n. open_alert sub res per n \<and> Un_ID n \<noteq> i) db1)"
    using up unfolding key_def by (simp only: upsertUsageAlertTx_def Let_def prod.case snd_conv)
  have "key = ''usage:'' @ Itoa sub @ '':'' @ (res @ '':'' @ alert_kind over @ '':'' @ per)" by (simp add: key_def alert_prefix_def)
  from upsertNotificationDetailedTx_wf [OF assms this up] obtain n
    where wf: "notif_wf db1" and n: "n \<in> set (U_Notifications db1)" "Un_ID n = i" "open_key key n" "Un_SubscriptionID n = sub" by blast
  have "open_alert sub res per n" using n like_between_key by (auto simp: open_alert_def open_key_def key_def)
  then have "length (filter (\<lambda>m. open_alert sub res per m \<and> Un_ID m = i) (U_Notifications db1)) = 1"
    using length_filter_one [of Un_ID "U_Notifications db1" n "open_alert sub res per"] n wf by (simp add: notifications_ok_def)
  moreover have "open_alert sub res per (if open_alert sub res per m \<and> Un_ID m \<noteq> i then m\<lparr>Un_Resolved := True\<rparr> else m) \<longleftrightarrow>
      open_alert sub res per m \<and> Un_ID m = i" for m
    by (auto simp: open_alert_def)
  ultimately show ?thesis
    using notif_wf_resolve [OF wf] by (simp add: res open_alerts_def resolve_where_def filter_map comp_def)
qed

lemma usage_alert_own:
  assumes "notif_wf db"
  shows "notif_wf (usage_alert sub res per notify level used limit db) \<and>
    open_alerts (usage_alert sub res per notify level used limit db) sub res per = (if notify \<and> snd level then 1 else 0)"
proof (cases "notify \<and> snd level")
  case True
  then show ?thesis using upsertUsageAlertTx_one [OF assms] by (simp add: usage_alert_def)
next
  case False
  have "open_alert sub res per (if open_alert sub res per n then n\<lparr>Un_Resolved := True\<rparr> else n) = False" for n
    by (simp add: open_alert_def)
  then have "open_alerts (resolve_where (open_alert sub res per) db) sub res per = 0"
    by (simp add: open_alerts_def resolve_where_def filter_map comp_def)
  moreover have "usage_alert sub res per notify level used limit db = resolve_where (open_alert sub res per) db"
    using False by (auto simp: usage_alert_def resolveUsageAlertTx_def)
  ultimately show ?thesis using False notif_wf_resolve [OF assms] by auto
qed

definition other_resource :: "string \<Rightarrow> string \<Rightarrow> bool" where
  "other_resource a b \<longleftrightarrow> a \<noteq> b \<and> CHR '':'' \<notin> set a \<and> CHR '':'' \<notin> set b"

lemma alert_prefix_other:
  assumes "other_resource res res'" and "HasPrefix k (alert_prefix sub res)"
  shows "\<not> like_between (alert_prefix sub res') suf k"
proof
  assume "like_between (alert_prefix sub res') suf k"
  with assms(2) obtain t t' where "alert_prefix sub res @ t = alert_prefix sub res' @ t'"
    by (auto simp: like_between_def HasPrefix_iff)
  then have "hd (Split (res @ CHR '':'' # t) CHR '':'') = hd (Split (res' @ CHR '':'' # t') CHR '':'')"
    by (simp add: alert_prefix_def)
  with assms(1) show False by (simp add: other_resource_def Split_append_sep)
qed

lemma open_alert_other:
  "other_resource res res' \<Longrightarrow> open_alert sub res per n \<Longrightarrow> \<not> open_alert sub res' per' n"
  using alert_prefix_other [of res res' "Un_Key n" sub] by (auto simp: open_alert_def like_between_def)

lemma open_alerts_Enqueue [simp]: "open_alerts (EnqueueNotificationTx i db) = open_alerts db"
  by (simp add: fun_eq_iff open_alerts_def)

lemma usage_alert_other:
  assumes "other_resource res res'"
  shows "open_alerts (usage_alert sub res per notify level used limit db) sub res' per' = open_alerts db sub res' per'"
proof -
  have "\<not> like_between (alert_prefix sub res') ('':'' @ per') (alert_prefix sub res @ t)" for t
    using alert_prefix_other [OF assms] by (simp add: HasPrefix_iff)
  moreover have "open_alerts (resolve_where (\<lambda>n. open_alert sub res per n \<and> Q n) d) sub res' per' = open_alerts d sub res' per'" for Q d
    by (rule open_alerts_resolve) (use open_alert_other [OF assms] in blast)
  moreover have "open_alerts (resolve_where (open_alert sub res per) d) sub res' per' = open_alerts d sub res' per'" for d
    by (rule open_alerts_resolve) (use open_alert_other [OF assms] in blast)
  ultimately show ?thesis
    by (simp add: usage_alert_def resolveUsageAlertTx_def upsertUsageAlertTx_def Let_def case_prod_beta open_alerts_upsert)
qed

lemma suspend_for_overuse_alerts:
  assumes "suspend_for_overuse sub per db = Inr db'" and "notif_wf db" and "other_resource ''suspended'' res"
  shows "notif_wf db' \<and> open_alerts db' sub res per' = open_alerts db sub res per'"
proof (cases "db' = db")
  case False
  define key where "key = ''usage:'' @ Itoa sub @ '':'' @ ''suspended:'' @ per"
  let ?db1 = "(update_subscription sub (\<lambda>s. s\<lparr>Su_Status := ''suspended''\<rparr>) db)\<lparr>U_Reason := (U_Reason db)(sub := ''resource_overuse'')\<rparr>"
  from False assms(1) obtain db2 where host: "enqueueSubscriptionHostingStateTx sub ?db1 = Inr db2"
    and up: "upsertNotificationTx sub ''suspended'' ''critical'' suspended_title suspended_body key db2 = Inr db'"
    by (simp add: suspend_for_overuse_def Let_def key_def split: option.split_asm if_split_asm sum.split_asm)
  note 2 = enqueueSubscriptionHostingStateTx_frame [OF host]
  obtain i db3 where 3: "upsertNotificationDetailedTx sub ''suspended'' ''critical'' suspended_title suspended_body key db2 = (i, db3)" by fastforce
  with up have db': "db' = EnqueueNotificationTx i db3" by (auto simp: upsertNotificationTx_def split: option.splits)
  have "notif_wf db2" using assms(2) 2 by simp
  from upsertNotificationDetailedTx_wf [OF this key_def 3] have "notif_wf db3" by blast
  moreover have "HasPrefix key (alert_prefix sub ''suspended'')" by (simp add: key_def alert_prefix_def HasPrefix_def)
  then have "open_alerts db3 sub res per' = open_alerts db2 sub res per'"
    using alert_prefix_other [OF assms(3)] open_alerts_upsert [of sub res per' key sub "''suspended''" "''critical''" suspended_title suspended_body db2] 3 by simp
  ultimately show ?thesis using 2 by (simp add: db' open_alerts_def)
qed (use assms in simp)

text \<open>C30. Evaluating a measurement leaves exactly one open alert of the month for each of disk and traffic when the policy
  notifies and the warning threshold is reached, a warning or an overuse alert but never both, and none otherwise; the
  notifications keep unique ids and different keys while open.\<close>

theorem usage_alerts_exact:
  assumes "evaluateUsageTx u db = Inr db'" and "notif_wf db"
    and "entitlement_of (U_Quota db) (Ur_SubscriptionID u) = Some row"
  shows "notif_wf db' \<and>
    open_alerts db' (Ur_SubscriptionID u) ''disk'' (periodKey (Ur_Period u)) =
      (if notifies (Ent_OverusePolicy (Er_Entitlements row)) \<and>
          snd (usageLevel (Ur_DiskBytes u) (Ent_DiskMB (Er_Entitlements row)) (Ent_DiskWarningPercent (Er_Entitlements row))) then 1 else 0) \<and>
    open_alerts db' (Ur_SubscriptionID u) ''traffic'' (periodKey (Ur_Period u)) =
      (if notifies (Ent_OverusePolicy (Er_Entitlements row)) \<and>
          snd (usageLevel (Ur_TrafficBytes u) (Ent_BandwidthMB (Er_Entitlements row)) (Ent_TrafficWarningPercent (Er_Entitlements row))) then 1 else 0)"
proof -
  let ?sub = "Ur_SubscriptionID u" and ?e = "Er_Entitlements row" and ?key = "periodKey (Ur_Period u)"
  let ?notify = "notifies (Ent_OverusePolicy ?e)"
  define disk where "disk = usageLevel (Ur_DiskBytes u) (Ent_DiskMB ?e) (Ent_DiskWarningPercent ?e)"
  define traffic where "traffic = usageLevel (Ur_TrafficBytes u) (Ent_BandwidthMB ?e) (Ent_TrafficWarningPercent ?e)"
  define db1 where "db1 = usage_alert ?sub ''disk'' ?key ?notify disk (Ur_DiskBytes u) (Ent_DiskMB ?e) db"
  define db2 where "db2 = usage_alert ?sub ''traffic'' ?key ?notify traffic (Ur_TrafficBytes u) (Ent_BandwidthMB ?e) db1"
  have other: "other_resource ''traffic'' ''disk''" "other_resource ''suspended'' ''disk''" "other_resource ''suspended'' ''traffic''"
    by (simp_all add: other_resource_def)
  have 1: "notif_wf db1" "open_alerts db1 ?sub ''disk'' ?key = (if ?notify \<and> snd disk then 1 else 0)"
    using usage_alert_own [OF assms(2)] unfolding db1_def by simp_all
  have 2: "notif_wf db2" "open_alerts db2 ?sub ''traffic'' ?key = (if ?notify \<and> snd traffic then 1 else 0)"
    "open_alerts db2 ?sub ''disk'' ?key = (if ?notify \<and> snd disk then 1 else 0)"
    using usage_alert_own [OF 1(1)] usage_alert_other [OF other(1)] 1(2) unfolding db2_def by simp_all
  have "(if Ent_OverusePolicy ?e = ''block'' \<and> (fst disk \<or> fst traffic) then suspend_for_overuse ?sub ?key db2 else Inr db2) = Inr db'"
    using assms(1, 3) by (auto simp: evaluateUsageTx_def Let_def db2_def db1_def disk_def traffic_def split: option.splits)
  then show ?thesis
    using 2 suspend_for_overuse_alerts [OF _ 2(1) other(2)] suspend_for_overuse_alerts [OF _ 2(1) other(3)]
    unfolding disk_def [symmetric] traffic_def [symmetric] by (auto split: if_splits)
qed

section \<open>Examples\<close>

definition demo_usage_entitlements :: SubscriptionEntitlements where
  "demo_usage_entitlements = demo_quota_entitlements
     \<lparr>Ent_DiskMB := 5, Ent_BandwidthMB := 10, Ent_DiskWarningPercent := 80, Ent_TrafficWarningPercent := 80\<rparr>"

definition demo_alert :: "int \<Rightarrow> string \<Rightarrow> UsageNotification" where
  "demo_alert i per = \<lparr>Un_ID = i, Un_SubscriptionID = 5, Un_Kind = ''threshold'', Un_Severity = ''warning'', Un_Title = ''Disk usage alert'',
     Un_Body = [], Un_Key = ''usage:'' @ Itoa 5 @ '':'' @ ''disk:threshold:'' @ per, Un_Resolved = False\<rparr>"

definition demo_usage_db :: usage_db where
  "demo_usage_db =
     \<lparr>U_Quota = demo_quota_db\<lparr>Q_Entitlements := [\<lparr>Er_Entitlements = demo_usage_entitlements, Er_UpdatedAt = 0\<rparr>]\<rparr>,
      U_Reason = (\<lambda>_. []), U_Compliance = (\<lambda>_. ([], [])), U_AccountIntent = (\<lambda>_. ''active''), U_SiteUser = (\<lambda>_. ''nak5''),
      U_Mailboxes = [], U_Current = [], U_History = [], U_Cursors = [], U_SiteUsage = [],
      U_Notifications = [demo_alert 1 ''2024-01'', demo_alert 2 ''2024-02''], U_NextNotification = 3, U_Enqueued = [], U_HostingState = []\<rparr>"

definition demo_now :: int where
  "demo_now = 1709178936 * 10 ^ 9"

definition demo_agent :: "int \<Rightarrow> CollectUsageReq \<Rightarrow> string + CollectUsageResult" where
  "demo_agent disk req =
     Inr \<lparr>Cx_Sites = map (\<lambda>s. \<lparr>Sx_SiteID = Si_SiteID s, Sx_HomeBytes = 10, Sx_TrafficBytes = 100, Sx_RequestCount = 1, Sx_ErrorCount = 0,
             Sx_Cursor = \<lparr>Uc_DeviceID = 1, Uc_Inode = 7, Uc_Offset = 44\<rparr>\<rparr>) (Cr_Sites req),
          Cx_AccountBytes = disk, Cx_ContainerBytes = 0, Cx_DatabaseBytes = 0\<rparr>"

definition demo_collected :: "int \<Rightarrow> usage_db \<Rightarrow> usage_db" where
  "demo_collected disk db = (case collectSubscription (demo_agent disk) demo_now 5 db of Inr db' \<Rightarrow> db' | Inl _ \<Rightarrow> db)"

text \<open>A first collection finds six megabytes, a second one ten bytes.\<close>

definition demo_full :: usage_db where
  "demo_full = demo_collected (6 * MB) demo_usage_db"

definition demo_freed :: usage_db where
  "demo_freed = demo_collected 10 demo_full"

lemma demo_collections:
  "collectSubscription (demo_agent (6 * MB)) demo_now 5 demo_usage_db = Inr demo_full"
  "collectSubscription (demo_agent 10) demo_now 5 demo_full = Inr demo_freed"
proof -
  have "\<not> isl (collectSubscription (demo_agent (6 * MB)) demo_now 5 demo_usage_db)" by code_simp
  then show "collectSubscription (demo_agent (6 * MB)) demo_now 5 demo_usage_db = Inr demo_full"
    unfolding demo_full_def demo_collected_def
    by (cases "collectSubscription (demo_agent (6 * MB)) demo_now 5 demo_usage_db") simp_all
  have "\<not> isl (collectSubscription (demo_agent 10) demo_now 5 demo_full)" by code_simp
  then show "collectSubscription (demo_agent 10) demo_now 5 demo_full = Inr demo_freed"
    unfolding demo_freed_def demo_collected_def
    by (cases "collectSubscription (demo_agent 10) demo_now 5 demo_full") simp_all
qed

definition demo_usage_row :: EntitlementRow where
  "demo_usage_row = \<lparr>Er_Entitlements = demo_usage_entitlements, Er_UpdatedAt = 0\<rparr>"

lemma demo_entitlement:
  "entitlement_of (U_Quota demo_usage_db) 5 = Some demo_usage_row" "Ent_DiskMB (Er_Entitlements demo_usage_row) = 5"
  "Ent_BandwidthMB (Er_Entitlements demo_usage_row) = 10" "Ent_OverusePolicy (Er_Entitlements demo_usage_row) = ''block''"
  "status_of demo_usage_db 5 = Some ''active''"
  by (simp_all add: demo_usage_row_def demo_usage_db_def demo_usage_entitlements_def demo_quota_entitlements_def demo_quota_db_def
      entitlement_of_def status_of_def subscription_of_def zero_SubscriptionEntitlements_def)

theorem collection_enforces_limits_witness:
  "collectSubscription (demo_agent (6 * MB)) demo_now 5 demo_usage_db = Inr demo_full \<and>
   status_of demo_usage_db 5 = Some ''active'' \<and> status_of demo_full 5 = Some ''suspended''"
proof -
  have "entitlement_of (U_Quota demo_usage_db) 5 = Some demo_usage_row \<and> Ent_DiskMB (Er_Entitlements demo_usage_row) < 2 ^ 31 \<and>
    Ent_BandwidthMB (Er_Entitlements demo_usage_row) < 2 ^ 31" using demo_entitlement by simp
  then obtain u where u: "collected_usage (demo_agent (6 * MB)) demo_now 5 demo_usage_db u"
    "status_of demo_full 5 = (if Ent_OverusePolicy (Er_Entitlements demo_usage_row) = ''block'' \<and> over_limit (Er_Entitlements demo_usage_row) u \<and>
      status_of demo_usage_db 5 = Some ''active'' then Some ''suspended'' else status_of demo_usage_db 5)"
    using collection_enforces_limits [OF demo_collections(1)] by fastforce
  have "backup_bytes (U_Quota demo_usage_db) 5 = 0" by (simp add: backup_bytes_def demo_usage_db_def demo_quota_db_def)
  with u(1) have "Ur_DiskBytes u = 6 * MB"
    by (auto simp: collected_usage_def demo_agent_def measured_row_def wrap64_def)
  then have "over_limit (Er_Entitlements demo_usage_row) u" using demo_entitlement by (simp add: over_limit_def)
  with u(2) demo_entitlement show ?thesis using demo_collections by simp
qed

lemma demo_delta: "demo_agent n (usage_request db 5 (2024, 2)) = Inr r \<Longrightarrow> length (loadUsageSites db 5 (2024, 2)) = 1 \<Longrightarrow> traffic_delta r = 100"
  by (cases "loadUsageSites db 5 (2024, 2)") (auto simp: demo_agent_def traffic_delta_def usage_request_def Let_def)

theorem month_traffic_is_sum_witness:
  "collections 5 (2024, 2) demo_usage_db [100, 100] demo_freed \<and> wrap64 (previous_traffic demo_freed 5 (2024, 2)) = 200"
proof -
  have month: "utc_month demo_now = (2024, 2)" by code_simp
  have sites: "length (loadUsageSites demo_usage_db 5 (2024, 2)) = 1" "length (loadUsageSites demo_full 5 (2024, 2)) = 1" by code_simp+
  obtain r1 r2 where r: "demo_agent (6 * MB) (usage_request demo_usage_db 5 (2024, 2)) = Inr r1"
    "demo_agent 10 (usage_request demo_full 5 (2024, 2)) = Inr r2" by (simp add: demo_agent_def)
  have "collections 5 (2024, 2) demo_usage_db ([] @ [traffic_delta r1]) demo_full"
    by (rule collections.more [OF collections.none month r(1) demo_collections(1)])
  from collections.more [OF this month r(2) demo_collections(2)]
  have run: "collections 5 (2024, 2) demo_usage_db [100, 100] demo_freed"
    using demo_delta [OF r(1) sites(1)] demo_delta [OF r(2) sites(2)] by simp
  have "previous_traffic demo_usage_db 5 (2024, 2) = 0" by (simp add: previous_traffic_def current_usage_def demo_usage_db_def)
  with month_traffic_is_sum [OF run] run show ?thesis by (simp add: wrap64_def)
qed

theorem overuse_reactivation_safe_witness:
  "\<exists>db'. SetSubscriptionStatuses demo_now [5] '' active '' demo_freed = Inr db' \<and> U_Reason demo_freed 5 = ''resource_overuse'' \<and>
     reactivation_ok demo_now 5 demo_freed"
proof -
  have "\<not> isl (SetSubscriptionStatuses demo_now [5] '' active '' demo_freed)" "U_Reason demo_freed 5 = ''resource_overuse''"
    "TrimSpace '' active '' = ''active''" by code_simp+
  moreover obtain db' where "SetSubscriptionStatuses demo_now [5] '' active '' demo_freed = Inr db'"
    using calculation(1) by (cases "SetSubscriptionStatuses demo_now [5] '' active '' demo_freed") auto
  ultimately show ?thesis using overuse_reactivation_safe [of demo_now "[5]" "'' active ''" demo_freed db' 5] by simp
qed

text \<open>Without the second collection the request is refused.\<close>

lemma demo_reactivation_refused:
  "(case SetSubscriptionStatuses demo_now [5] ''active'' demo_full of Inl e \<Rightarrow> e = RemainsOverLimit | Inr _ \<Rightarrow> False)"
  by code_simp

definition demo_usage :: "int \<Rightarrow> period \<Rightarrow> UsageRow" where
  "demo_usage disk p =
     \<lparr>Ur_SubscriptionID = 5, Ur_Period = p, Ur_SiteBytes = disk, Ur_DatabaseBytes = 0, Ur_BackupBytes = 0, Ur_DiskBytes = disk,
      Ur_TrafficBytes = 0, Ur_Complete = True, Ur_CollectedAt = demo_now, Ur_LastError = []\<rparr>"

lemma demo_notif_wf: "notif_wf demo_usage_db"
proof -
  have "owns_key (demo_alert i per)" for i per
    unfolding owns_key_def using usage_key_owner [of 5 "''disk:threshold:'' @ per"] by (simp add: demo_alert_def)
  then show ?thesis by (simp add: notifications_ok_def demo_usage_db_def demo_alert_def)
qed

theorem usage_alerts_exact_witness:
  "\<exists>db'. evaluateUsageTx (demo_usage (6 * MB) (2024, 2)) demo_usage_db = Inr db' \<and> notif_wf db' \<and>
     open_alerts db' 5 ''disk'' ''2024-02'' = 1 \<and> open_alerts db' 5 ''traffic'' ''2024-02'' = 0"
proof -
  have ok: "\<not> isl (evaluateUsageTx (demo_usage (6 * MB) (2024, 2)) demo_usage_db)" by code_simp
  then obtain db' where db': "evaluateUsageTx (demo_usage (6 * MB) (2024, 2)) demo_usage_db = Inr db'"
    by (cases "evaluateUsageTx (demo_usage (6 * MB) (2024, 2)) demo_usage_db") auto
  have key: "periodKey (2024, 2) = ''2024-02''" by code_simp
  have level: "snd (usageLevel (6 * MB) (Ent_DiskMB demo_usage_entitlements) (Ent_DiskWarningPercent demo_usage_entitlements))"
    "\<not> snd (usageLevel 0 (Ent_BandwidthMB demo_usage_entitlements) (Ent_TrafficWarningPercent demo_usage_entitlements))"
    "notifies (Ent_OverusePolicy demo_usage_entitlements)" by code_simp+
  have row: "entitlement_of (U_Quota demo_usage_db) (Ur_SubscriptionID (demo_usage (6 * MB) (2024, 2))) =
    Some \<lparr>Er_Entitlements = demo_usage_entitlements, Er_UpdatedAt = 0\<rparr>"
    using demo_entitlement(1) by (simp add: demo_usage_def demo_usage_row_def)
  have "Ur_SubscriptionID (demo_usage (6 * MB) (2024, 2)) = 5" "Ur_Period (demo_usage (6 * MB) (2024, 2)) = (2024, 2)"
    "Ur_DiskBytes (demo_usage (6 * MB) (2024, 2)) = 6 * MB" "Ur_TrafficBytes (demo_usage (6 * MB) (2024, 2)) = 0"
    by (simp_all add: demo_usage_def)
  with usage_alerts_exact [OF db' demo_notif_wf row] db' key level show ?thesis by simp
qed

text \<open>
  An alert of an earlier month stays open: only the keys of the month of the measurement are looked at, so the alert of
  January is still open after a measurement of February that is far below the threshold.
\<close>

lemma stale_alert_stays_open:
  "(case evaluateUsageTx (demo_usage 10 (2024, 2)) demo_usage_db of
      Inr db' \<Rightarrow> open_alerts db' 5 ''disk'' ''2024-01'' = 1 \<and> open_alerts db' 5 ''disk'' ''2024-02'' = 0
    | Inl _ \<Rightarrow> False)"
  by code_simp

end
