(* ===== verification/Usage_Agent.thy ===== *)
theory Usage_Agent
  imports Usage_Safety
begin

text \<open>
  The contract between the metering worker and the agent, and what the worker may rely on: the answer to a request
  names the sites of the request, in that order. The collector of \<open>Usage_Collect\<close> keeps it, whatever is on the host.
\<close>

section \<open>The contract\<close>

locale usage_agent =
  fixes agent :: "CollectUsageReq \<Rightarrow> string + CollectUsageResult"
  assumes answers: "agent req = Inr r \<Longrightarrow> map Sx_SiteID (Cx_Sites r) = map Si_SiteID (Cr_Sites req)"

text \<open>The rows the tables hold for a site.\<close>

definition site_rows :: "usage_db \<Rightarrow> int \<Rightarrow> TrafficCursorRow list \<times> SiteUsageRow list" where
  "site_rows db i = (filter (\<lambda>c. Tc_SiteID c = i) (U_Cursors db), filter (\<lambda>u. Sw_SiteID u = i) (U_SiteUsage db))"

lemma filter_upsert:
  assumes "\<And>x. P x \<Longrightarrow> \<not> Q x" and "\<And>x. P (f x) = P x" and "P new"
  shows "filter Q (upsert P f new rows) = filter Q rows"
proof -
  have "filter Q (map (\<lambda>x. if P x then f x else x) rows) = filter Q rows"
    using assms by (induction rows) auto
  then show ?thesis using assms(1, 3) by (simp add: upsert_def)
qed

lemma record_site_other:
  assumes "record_site p now r db = Inr db'" and "i \<noteq> Sx_SiteID r"
  shows "site_rows db' i = site_rows db i"
proof -
  have "filter (\<lambda>c. Tc_SiteID c = i) (upsert (\<lambda>c. Tc_SiteID c = Sx_SiteID r) (bump_cursor p r) new cs) = filter (\<lambda>c. Tc_SiteID c = i) cs"
    if "Tc_SiteID new = Sx_SiteID r" for new cs
    by (rule filter_upsert) (use assms(2) that in \<open>auto simp: bump_cursor_def\<close>)
  moreover have "filter (\<lambda>u. Sw_SiteID u = i) (upsert (\<lambda>u. Sw_SiteID u = Sx_SiteID r) (bump_site p now r) new us) = filter (\<lambda>u. Sw_SiteID u = i) us"
    if "Sw_SiteID new = Sx_SiteID r" for new us
    by (rule filter_upsert) (use assms(2) that in \<open>auto simp: bump_site_def\<close>)
  ultimately show ?thesis
    using assms(1) by (auto simp: record_site_def Let_def site_rows_def split: if_splits)
qed

lemma record_sites_other:
  "record_sites p now rs db = Inr db' \<Longrightarrow> i \<notin> set (map Sx_SiteID rs) \<Longrightarrow> site_rows db' i = site_rows db i"
  by (induction rs arbitrary: db) (auto split: sum.splits dest!: record_site_other)

lemma site_rows_frame [simp]:
  "site_rows (store_usage u db) = site_rows db" "site_rows (resolve_where P db) = site_rows db"
  "site_rows (EnqueueNotificationTx k db) = site_rows db" "site_rows (update_subscription sub f db) = site_rows db"
  "site_rows (db\<lparr>U_Reason := v\<rparr>) = site_rows db" "site_rows (db\<lparr>U_Compliance := w\<rparr>) = site_rows db"
  by (simp_all add: fun_eq_iff site_rows_def store_usage_def resolve_where_def EnqueueNotificationTx_def update_subscription_def)

lemma site_rows_upsertNotification [simp]:
  "site_rows (snd (upsertNotificationDetailedTx sub kind sev title body key db)) = site_rows db"
  by (simp add: fun_eq_iff site_rows_def upsertNotificationDetailedTx_def Let_def split: option.split)

lemma site_rows_upsertNotificationTx: "upsertNotificationTx sub kind sev title body key db = Inr db' \<Longrightarrow> site_rows db' = site_rows db"
  by (auto simp: upsertNotificationTx_def Let_def case_prod_beta split: option.splits)

lemma site_rows_hosting: "enqueueSubscriptionHostingStateTx sub db = Inr db' \<Longrightarrow> site_rows db' = site_rows db"
  by (auto simp: fun_eq_iff site_rows_def enqueueSubscriptionHostingStateTx_def split: option.splits)

lemma site_rows_alert [simp]: "site_rows (usage_alert sub res per notify level used limit db) = site_rows db"
  by (simp add: usage_alert_def resolveUsageAlertTx_def upsertUsageAlertTx_def Let_def case_prod_beta)

lemma site_rows_suspend: "suspend_for_overuse sub per db = Inr db' \<Longrightarrow> site_rows db' = site_rows db"
  by (auto simp: suspend_for_overuse_def Let_def split: option.splits if_splits sum.splits
      dest!: site_rows_hosting site_rows_upsertNotificationTx)

lemma site_rows_evaluate: "evaluateUsageTx u db = Inr db' \<Longrightarrow> site_rows db' = site_rows db"
  by (auto simp: evaluateUsageTx_def Let_def split: option.splits if_splits dest!: site_rows_suspend)

lemma site_rows_refresh: "refreshSubscriptionComplianceTx sub db = Inr db' \<Longrightarrow> site_rows db' = site_rows db"
  by (auto simp: refreshSubscriptionComplianceTx_def evaluateSubscriptionComplianceTx_def Let_def split: option.splits sum.splits prod.splits if_splits)

context usage_agent
begin

text \<open>A collection changes the rows of the subscription's own sites only.\<close>

lemma foreign_rows_kept:
  assumes "collectSubscription agent now sub db = Inr db'"
    and "i \<notin> set (map Si_SiteID (loadUsageSites db sub (utc_month now)))"
  shows "site_rows db' i = site_rows db i"
proof -
  from assms(1) obtain r db1 u db2 where r: "agent (usage_request db sub (utc_month now)) = Inr r"
    and 1: "record_sites (utc_month now) now (Cx_Sites r) db = Inr db1"
    and 2: "refreshSubscriptionComplianceTx sub (store_usage u db1) = Inr db2" "evaluateUsageTx u db2 = Inr db'"
    by (auto simp: collectSubscription_def Let_def split: sum.splits if_splits)
  have "i \<notin> set (map Sx_SiteID (Cx_Sites r))"
    using assms(2) answers [OF r] by (simp add: usage_request_def Let_def)
  from record_sites_other [OF 1 this] show ?thesis
    using site_rows_refresh [OF 2(1)] site_rows_evaluate [OF 2(2)] by simp
qed

end

section \<open>The collector keeps the contract\<close>

definition collector_agent ::
  "(collect_error \<Rightarrow> string) \<Rightarrow> unicode_case \<Rightarrow> (string list \<Rightarrow> string list) \<Rightarrow> UsageCollector \<Rightarrow> usage_host \<Rightarrow>
     CollectUsageReq \<Rightarrow> string + CollectUsageResult" where
  "collector_agent message uc mo c h req = (case CollectUsage uc mo c h req of Inl e \<Rightarrow> Inl (message e) | Inr r \<Rightarrow> Inr r)"

lemma collect_site_id: "collect_site uc c h p site = Inr r \<Longrightarrow> Sx_SiteID r = Si_SiteID site"
  by (auto simp: collect_site_def split: if_splits option.splits sum.splits prod.splits)

lemma map_result_ids:
  "map_result f xs = Inr ys \<Longrightarrow> (\<And>x y. f x = Inr y \<Longrightarrow> g y = k x) \<Longrightarrow> map g ys = map k xs"
  by (induction xs arbitrary: ys) (auto split: sum.splits)

lemma CollectUsage_sites:
  assumes "CollectUsage uc mo c h req = Inr r"
  shows "map Sx_SiteID (Cx_Sites r) = map Si_SiteID (Cr_Sites req)"
proof -
  have "map_result (collect_site uc c h (Cr_PeriodStart req)) (Cr_Sites req) = Inr (Cx_Sites r)"
    using assms by (auto simp: CollectUsage_def Let_def split: sum.splits if_splits)
  then show ?thesis by (rule map_result_ids) (rule collect_site_id)
qed

interpretation host: usage_agent "collector_agent message uc mo c h" for message uc mo c h
  by unfold_locales (auto simp: collector_agent_def CollectUsage_sites split: sum.splits)


section \<open>Example\<close>

text \<open>An ASCII host with one site of ten bytes and one request.\<close>

definition demo_host :: usage_host where
  "demo_host =
     \<lparr>Ho_Tree = (\<lambda>p. if p = ''/home/nak5'' then Directory [RegularFile (Inr 10)] else BadEntry NotExist),
      Ho_Logs = (\<lambda>p. if p = ''/var/log/nginx/nak5-example-com.access.log'' then Inr demo_first else Inl NotExist),
      Ho_Database = (\<lambda>_. Inr 0)\<rparr>"

definition demo_collector :: "CollectUsageReq \<Rightarrow> string + CollectUsageResult" where
  "demo_collector = collector_agent (\<lambda>_. ''failed'') \<lparr>uc_lower = id, uc_upper = id, uc_fold = (=)\<rparr> id
     \<lparr>Co_HomeRoot = ''/home'', Co_LogRoot = ''/var/log/nginx'', Co_ContainerRoot = ''/var/lib/nakpanel/containers''\<rparr> demo_host"

definition demo_neighbour :: usage_db where
  "demo_neighbour = demo_usage_db\<lparr>U_Cursors := [\<lparr>Tc_SiteID = 99, Tc_Cursor = zero_cursor, Tc_Period = (2024, 1), Tc_TrafficBytes = 7\<rparr>]\<rparr>"


end
