(* ===== verification/Spec2Isabelle.thy ===== *)
theory Spec2Isabelle
  imports Policy_Within Plan_Contract Addon_Policy Capacity_Safety Auth_Totp Auth_Password Auth_Session Guard_Safety Ops_Safety Dns_Sync Usage_Agent
begin

text \<open>
  \<^bold>\<open>Verification of the control plane and the agent of Nakpanel.\<close>

  Nakpanel is a hosting panel. A control plane (\<open>src/internal/control\<close>) keeps the desired state in
  PostgreSQL and decides what a plan, a subscription or a site may use; an agent on the host
  (\<open>src/internal/agent\<close>) carries requests out. The development models the parts that decide: which
  policies may be delegated, what a subscription may hold and a reseller may hand out, which requests reach a
  handler of the agent, which website identities may still be used, who may log in, when an issue counts as
  solved, and what a synchronisation changes in a zone.

  \<^bold>\<open>How the parts meet.\<close> The control plane validates a request (\<open>Site_Request\<close>) against the hosting
  policy of its subscription (\<open>Policy\<close>, \<open>Policy_Within\<close>, \<open>Plan_Contract\<close>), which comes from a plan and its
  add-ons (\<open>Plan_Entitlements\<close>, \<open>Plan_Compose\<close>), checks the quota (\<open>Quota_Check\<close>), records the intent in one
  transaction that checks it again under a lock (\<open>Entitlement_Guard\<close>), within the capacity of the reseller and
  of the server (\<open>Reseller_Capacity\<close>), and sends it to the agent, whose dispatcher (\<open>Site_Guard\<close>) takes leases from the registry of website
  identities (\<open>Site_Registry\<close>) before it runs a handler. Failures come back as observations of the
  operations store (\<open>Ops_Store\<close>). A worker of the control plane asks the agent what a subscription uses
  (\<open>Usage_Collect\<close>, \<open>Usage_Log\<close>) and raises alerts, suspends and lets it be activated again (\<open>Usage_Meter\<close>). DNS templates (\<open>Dns_Template\<close>) are expanded and compared with the
  zones of the sites (\<open>Dns_Plan\<close>).

  \<^bold>\<open>Theories.\<close>
  \<^item> \<open>Nak_Prelude\<close>, \<open>Nak_Regex\<close>, \<open>Nak_Net\<close>, \<open>Nak_Path\<close>, \<open>Nak_Monad\<close>: what the code uses of Go: 64-bit
    wrap-around, \<open>strings\<close>, \<open>strconv\<close>, the regular expressions of the source, \<open>net.ParseIP\<close> and
    \<open>net.ParseCIDR\<close>, \<open>path.Clean\<close>, and operations that pass a state and may fail. The case tables of
    Unicode are the parameter \<open>uc\<close>: only its behaviour on ASCII is fixed. Where the result of the code may
    depend on the iteration order of a Go map, that order is the parameter \<open>mo\<close>.
  \<^item> \<open>Hosting_Policy\<close>, \<open>Policy\<close>, \<open>Policy_Within\<close>: \<open>types/hosting_policy.go\<close> and \<open>control/policy/policy.go\<close>.
    Acceptance of \<open>Validate\<close> and \<open>ValidateWithin\<close> is characterised; delegation refines inclusion of what
    a policy grants and composes along chains; the schema upgrade keeps validity.
  \<^item> \<open>Plan_Contract\<close>: \<open>control/policy/plan_contract.go\<close>, the classification of every leaf of a policy
    and the readiness of a plan on a server.
  \<^item> \<open>Plan_Entitlements\<close>, \<open>Plan_Compose\<close>, \<open>Compose_Safety\<close>, \<open>Addon_Policy\<close>: plans, entitlements and add-ons of
    \<open>control/quota/plans.go\<close> and \<open>provider.go\<close>. Plans survive the conversion to entitlements; the composed limits
    are sums and peaks (one locale, interpreted for both) whatever the order of the add-ons, and an add-on only adds.
  \<^item> \<open>Quota_Store\<close>, \<open>Quota_Check\<close>: the tables, limits, usage and admission checks of \<open>control/quota/quota.go\<close> and
    the choice of a PHP version.
  \<^item> \<open>Entitlement_Guard\<close>, \<open>Intent_Safety\<close>, \<open>Site_Tree\<close>: the transactions that create sites, databases and backups
    (\<open>control/provision/entitlement_guard.go\<close>, \<open>repository.go\<close>, \<open>phase6_repository.go\<close>, queries of
    \<open>control/store\<close>). The checks are proved over the contract of their store (the locale \<open>quota_reads\<close>, interpreted on
    the SQL reads); the guards agree with them, creations stay within the plan, and sites form a tree.
  \<^item> \<open>Reseller_Capacity\<close>, \<open>Capacity_Safety\<close>: the capacity of resellers and of the server (\<open>provider.go\<close>,
    \<open>plans.go\<close>, \<open>customers.go\<close>), against the specification of an allocation within its limit.
  \<^item> \<open>Usage_Log\<close>, \<open>Log_Safety\<close>, \<open>Usage_Collect\<close>: \<open>agent/ops/usage.go\<close>: access logs read from a cursor over
    rotations, with the regular expression and the time format of the log, directory sizes and the scan of a
    subscription. In every run of a log (a step relation) each line is counted once.
  \<^item> \<open>Usage_Meter\<close>, \<open>Usage_Safety\<close>, \<open>Usage_Agent\<close>: \<open>control/quota/usage.go\<close>, the report of
    \<open>plan_compliance.go\<close> and the status change of \<open>customers.go\<close>. Thresholds are exact, reports and overuse agree,
    blocked subscriptions over a limit are suspended and come back only on fresh measurements, one alert per
    resource is open. The worker relies on the agent through a contract (the locale \<open>usage_agent\<close>, interpreted on
    the collector).
  \<^item> \<open>Nak_Crypto\<close>, \<open>Auth_Totp\<close>, \<open>Auth_Password\<close>: codes, passwords and roles of \<open>control/auth\<close> and the stored step of
    \<open>control/http/login_security.go\<close>. SHA-1, HMAC and the base 32 and base 64 encodings are defined; the key derivation
    of the argon2 package is a parameter. One-time codes are single-use under every interleaving of requests (a step
    relation), and stored passwords verify.
  \<^item> \<open>Auth_Session\<close>: \<open>control/auth/session.go\<close>, \<open>control/store/authstore.go\<close> and the queries of \<open>users.sql.go\<close>, with
    SHA-256. The manager relies on the store through the locale \<open>session_store\<close>, interpreted on the table. Under every
    interleaving of logins, logouts, renewals and changes of accounts (a step relation) a token is accepted only as its
    latest login or renewal says, and the token of a login is accepted until its lifetime ends.
  \<^item> \<open>Site_Request\<close>: \<open>site/create_site.go\<close>, domains, subdomain labels, SFTP roots and paths.
  \<^item> \<open>Site_Registry\<close>, \<open>Registry_Safety\<close>: \<open>agent/ops/site_identity.go\<close>. Every file access may fail
    (a list of faults in the state). A retired identity is never leased again, hostnames change hands only
    through a removal, and locks are taken in one order.
  \<^item> \<open>Site_Guard\<close>, \<open>Guard_Safety\<close>: \<open>agent/rpc/site_guard.go\<close>. The dispatcher is proved over an interface
    (a locale) of the registry, interpreted on the model of the registry.
  \<^item> \<open>Ops_Store\<close>, \<open>Ops_Safety\<close>: \<open>control/operations\<close>: operations, attempts, issues, verification receipts
    and visibility, with the unique and foreign keys of the tables. Issues are resolved only by a receipt
    for their latest occurrence.
  \<^item> \<open>Dns_Record\<close>, \<open>Dns_Template\<close>, \<open>Dns_Expansion\<close>, \<open>Dns_Plan\<close>, \<open>Dns_Sync\<close>: \<open>control/dnstemplate\<close> and the
    mail and service records of \<open>control/provision\<close>. Records are validated and normalised, templates
    expanded, and a plan never touches what it does not own nor leaves an inconsistent zone.

  \<^bold>\<open>Conventions.\<close> A Go struct is a record with a prefix for its fields, an error is a value of a datatype,
  \<open>int\<close> and \<open>int64\<close> are integers with \<open>wrap64\<close> written where a sum or product can leave the 64-bit range,
  times are integers of nanoseconds, and rows of a table are lists with their keys as invariants. Identifiers
  drawn from database sequences do not wrap. A transaction is one step, since the modelled ones hold their lock from
  the first check to the commit. Loops are structural recursions, folds or functions with a termination proof, so
  no fuel is used.

  \<^bold>\<open>Not modelled.\<close> The pages (\<open>control/web\<close>, mostly generated by templ), the HTTP handlers, the manager, the other transactions and the background jobs of \<open>control/provision\<close>, the transactions of
  \<open>control/quota\<close> that store plans, subscriptions and resellers, \<open>control/maintenance\<close>, \<open>control/serveradmin\<close> and
  \<open>control/platformadmin\<close>, database triggers and migrations, delivery and preferences of notifications, backup
  archives, mail import, the other file and process operations of the agent, git, WordPress and PHP application jobs:
  they are I/O, rendering, or calls of other programs around the decisions modelled here.
\<close>

end
